(* ===== verification/Prelude.thy ===== *)
theory Prelude
  imports Main "HOL-Library.AList" "HOL-Library.Char_ord" "HOL-Library.List_Lexorder"
    "HOL-Library.Multiset" "HOL-Library.Code_Target_Nat"
begin

text \<open>
  What the component theories share.

  \<^item> \<open>gomap\<close>: a Go map as an association list with distinct keys. The list order stands for
    the order in which a \<open>range\<close> loop happens to visit the entries; a statement about every
    list is a statement about every iteration order.
  \<^item> \<open>result\<close>: a Go \<open>(value, error)\<close> pair as a sum, \<open>Inl\<close> for the error.
  \<^item> \<open>itoa\<close>: what \<open>fmt.Sprintf("%d", n)\<close> prints.
  \<^item> the order on \<open>string\<close> is the bytewise lexicographic one of Go, from
    \<open>List_Lexorder\<close> and \<open>Char_ord\<close>.
\<close>

named_theorems gomap_simps \<open>lookup after an operation on a Go map\<close>
named_theorems gomap_wf \<open>operations on Go maps keep the keys distinct\<close>
named_theorems result_simps \<open>the error monad\<close>

type_synonym ('k, 'v) gomap = "('k \<times> 'v) list"

type_synonym ('e, 'a) result = "'e + 'a"

definition gm_wf :: "('k, 'v) gomap \<Rightarrow> bool" where
  "gm_wf m \<longleftrightarrow> distinct (map fst m)"

abbreviation gm_get :: "('k, 'v) gomap \<Rightarrow> 'k \<Rightarrow> 'v option" where
  "gm_get m k \<equiv> map_of m k"

abbreviation gm_put :: "'k \<Rightarrow> 'v \<Rightarrow> ('k, 'v) gomap \<Rightarrow> ('k, 'v) gomap" where
  "gm_put k v m \<equiv> AList.update k v m"

abbreviation gm_del :: "'k \<Rightarrow> ('k, 'v) gomap \<Rightarrow> ('k, 'v) gomap" where
  "gm_del k m \<equiv> AList.delete k m"

abbreviation gm_keys :: "('k, 'v) gomap \<Rightarrow> 'k list" where
  "gm_keys m \<equiv> map fst m"

definition gm_has :: "('k, 'v) gomap \<Rightarrow> 'k \<Rightarrow> bool" where
  "gm_has m k \<longleftrightarrow> map_of m k \<noteq> None"

definition ebind :: "('e, 'a) result \<Rightarrow> ('a \<Rightarrow> ('e, 'b) result) \<Rightarrow> ('e, 'b) result" where
  "ebind r f = (case r of Inl e \<Rightarrow> Inl e | Inr x \<Rightarrow> f x)"

fun emap :: "('a \<Rightarrow> ('e, 'b) result) \<Rightarrow> 'a list \<Rightarrow> ('e, 'b list) result" where
  "emap f [] = Inr []"
| "emap f (x # xs) = ebind (f x) (\<lambda>y. ebind (emap f xs) (\<lambda>ys. Inr (y # ys)))"

fun efold :: "('a \<Rightarrow> 's \<Rightarrow> ('e, 's) result) \<Rightarrow> 'a list \<Rightarrow> 's \<Rightarrow> ('e, 's) result" where
  "efold f [] s = Inr s"
| "efold f (x # xs) s = ebind (f x s) (efold f xs)"

definition digit_char :: "nat \<Rightarrow> char" where
  "digit_char d = char_of (48 + d)"

fun utoa :: "nat \<Rightarrow> string" where
  "utoa n = (if n < 10 then [digit_char n] else utoa (n div 10) @ [digit_char (n mod 10)])"

declare utoa.simps [simp del]

definition itoa :: "int \<Rightarrow> string" where
  "itoa n = (if n < 0 then CHR ''-'' # utoa (nat (- n)) else utoa (nat n))"

section \<open>Go maps\<close>

lemma gm_wf_Nil [gomap_wf]: "gm_wf []"
  by (simp add: gm_wf_def)

lemma gm_wf_Cons: "gm_wf ((k, v) # m) \<longleftrightarrow> k \<notin> set (map fst m) \<and> gm_wf m"
  by (simp add: gm_wf_def)

lemma gm_wf_put [gomap_wf]: "gm_wf m \<Longrightarrow> gm_wf (gm_put k v m)"
  by (simp add: gm_wf_def distinct_update)

lemma gm_wf_del [gomap_wf]: "gm_wf m \<Longrightarrow> gm_wf (gm_del k m)"
  by (simp add: gm_wf_def distinct_delete)

lemma gm_wf_filter [gomap_wf]: "gm_wf m \<Longrightarrow> gm_wf (filter P m)"
  by (simp add: gm_wf_def distinct_map_filter)

lemma gm_get_put [gomap_simps]: "gm_get (gm_put k v m) k' = (if k' = k then Some v else gm_get m k')"
  by (simp add: update_conv')

lemma gm_get_del [gomap_simps]: "gm_get (gm_del k m) k' = (if k' = k then None else gm_get m k')"
  by (simp add: delete_conv')

lemma gm_has_iff: "gm_has m k \<longleftrightarrow> k \<in> set (map fst m)"
  by (simp add: gm_has_def map_of_eq_None_iff)

lemma gm_get_mem: "gm_wf m \<Longrightarrow> (k, v) \<in> set m \<longleftrightarrow> gm_get m k = Some v"
  by (simp add: gm_wf_def)

lemma gm_get_perm:
  assumes "gm_wf m" and "mset m = mset m'"
  shows "gm_get m = gm_get m'"
proof -
  have "distinct (map fst m')"
    using assms by (metis gm_wf_def mset_eq_imp_distinct_iff mset_map)
  then show ?thesis
    using assms by (metis gm_wf_def map_of_inject_set set_mset_mset)
qed

lemma gm_get_filter_key:
  "gm_get (filter (\<lambda>(k, v). P k) m) k = (if P k then gm_get m k else None)"
  by (induction m) auto

lemma sort_mset_cong: "mset xs = mset ys \<Longrightarrow> sort xs = sort ys"
  by (rule properties_for_sort) simp_all

lemma set_map_mset_cong: "mset xs = mset ys \<Longrightarrow> set (map f xs) = set (map f ys)"
  by (metis mset_map set_mset_mset)

section \<open>Results\<close>

lemma ebind_simps [simp, result_simps]:
  "ebind (Inl e) f = Inl e"
  "ebind (Inr x) f = f x"
  by (simp_all add: ebind_def)

lemma ebind_eq_Inr: "ebind r f = Inr y \<longleftrightarrow> (\<exists>x. r = Inr x \<and> f x = Inr y)"
  by (cases r) simp_all

lemma ebind_eq_Inl: "ebind r f = Inl e \<longleftrightarrow> r = Inl e \<or> (\<exists>x. r = Inr x \<and> f x = Inl e)"
  by (cases r) simp_all

lemma emap_eq_Inr: "emap f xs = Inr ys \<longleftrightarrow> list_all2 (\<lambda>x y. f x = Inr y) xs ys"
  by (induction xs arbitrary: ys) (auto simp: ebind_eq_Inr list_all2_Cons1)

lemma efold_invariant:
  assumes "efold f xs s = Inr t" and "P s"
    and "\<And>x s t. x \<in> set xs \<Longrightarrow> P s \<Longrightarrow> f x s = Inr t \<Longrightarrow> P t"
  shows "P t"
  using assms
proof (induction xs arbitrary: s)
  case (Cons x xs)
  from Cons.prems(1) obtain u where u: "f x s = Inr u" "efold f xs u = Inr t"
    by (auto simp: ebind_eq_Inr)
  have "P u" using Cons.prems(2) u(1) by (rule Cons.prems(3) [of x, rotated]) simp
  with u(2) Cons.prems(3) show ?case by (auto intro: Cons.IH)
qed simp

lemma efold_append: "efold f (xs @ ys) s = ebind (efold f xs s) (efold f ys)"
  by (induction xs arbitrary: s) (simp_all add: ebind_def split: sum.split)

text \<open>An invariant that speaks of the part of the list done so far.\<close>

lemma efold_prefix:
  assumes "efold f xs s = Inr t" and "I [] s"
    and step: "\<And>ys x s t. I ys s \<Longrightarrow> f x s = Inr t \<Longrightarrow> I (ys @ [x]) t"
  shows "I xs t"
proof -
  have "I ys s \<Longrightarrow> efold f xs s = Inr t \<Longrightarrow> I (ys @ xs) t" for ys
  proof (induction xs arbitrary: ys s)
    case (Cons x xs)
    from Cons.prems(2) obtain u where "f x s = Inr u" "efold f xs u = Inr t" by (auto simp: ebind_eq_Inr)
    with step [OF Cons.prems(1)] Cons.IH [of "ys @ [x]" u] show ?case by simp
  qed simp
  from this [of "[]"] assms show ?thesis by simp
qed

lemma efold_Inl_split:
  "efold f xs s = Inl e \<Longrightarrow> \<exists>ys x zs t. xs = ys @ x # zs \<and> efold f ys s = Inr t \<and> f x t = Inl e"
proof (induction xs arbitrary: s)
  case (Cons x xs)
  show ?case
  proof (cases "f x s")
    case (Inl e')
    with Cons.prems show ?thesis by (intro exI [of _ "[]"]) simp
  next
    case (Inr u)
    with Cons.prems Cons.IH [of u] obtain ys y zs t where
      "xs = ys @ y # zs" "efold f ys u = Inr t" "f y t = Inl e" by auto
    with Inr show ?thesis by (intro exI [of _ "x # ys"]) auto
  qed
qed simp

section \<open>Decimal numbers\<close>

definition digit_val :: "char \<Rightarrow> nat option" where
  "digit_val c = (let n = of_char c in if 48 \<le> n \<and> n \<le> 57 then Some (n - 48) else None)"

lemma digit_val_char [simp]: "d < 10 \<Longrightarrow> digit_val (digit_char d) = Some d"
  by (simp add: digit_val_def digit_char_def Let_def)

lemma utoa_not_Nil [simp]: "utoa n \<noteq> []"
  by (subst utoa.simps) simp

definition dec_val :: "nat \<Rightarrow> string \<Rightarrow> nat" where
  "dec_val = foldl (\<lambda>a c. 10 * a + the (digit_val c))"

lemma dec_val_utoa: "dec_val 0 (utoa n) = n"
proof (induction n rule: utoa.induct)
  case (1 n)
  show ?case
  proof (cases "n < 10")
    case False
    then have "dec_val 0 (utoa n) = 10 * dec_val 0 (utoa (n div 10)) + n mod 10"
      by (subst utoa.simps) (simp add: dec_val_def)
    with False "1.IH" show ?thesis by simp
  qed (subst utoa.simps, simp add: dec_val_def)
qed

lemma utoa_digits: "\<forall>c \<in> set (utoa n). digit_val c \<noteq> None"
proof (induction n rule: utoa.induct)
  case (1 n)
  then show ?case by (subst utoa.simps) (cases "n < 10", auto)
qed

lemma utoa_inject [simp]: "utoa m = utoa n \<longleftrightarrow> m = n"
  by (metis dec_val_utoa)

lemma itoa_inject [simp]: "itoa m = itoa n \<longleftrightarrow> m = n"
proof -
  have "utoa k \<noteq> CHR ''-'' # s" for k s
    using utoa_digits [of k] by (auto simp: digit_val_def)
  then show ?thesis
    by (auto simp: itoa_def nat_eq_iff split: if_splits) (metis)+
qed

end
