(* ===== verification/Nnc_Types.thy ===== *)
theory Nnc_Types
  imports Prelude "HOL-Library.Word"
begin

text \<open>
  The southbound API: the types of \<open>api/v1alpha1/nodenetworkconfig_types.go\<close>, field by field.
  A pointer is an \<open>option\<close>, a Go map a \<open>gomap\<close>, an unsigned integer a word of its width; the
  embedded \<open>VRF\<close> of \<open>FabricVRF\<close> is a record extension, so that whatever works on a VRF works on
  a fabric VRF. Field names carry a prefix for their struct, since Isabelle's record selectors
  are constants. \<open>metav1.Time\<close> is an \<open>int\<close> (0 is the zero time), \<open>metav1.Duration\<close> an \<open>int\<close>.
\<close>

type_synonym u16 = "16 word"
type_synonym u32 = "32 word"
type_synonym gotime = int

datatype ActionType = Accept | Reject | NextAction

record ModifyRouteAction =
  mra_AddCommunities :: "string list"
  mra_AdditiveCommunities :: "bool option"
  mra_RemoveCommunities :: "string list"
  mra_RemoveAllCommunities :: "bool option"

record Action =
  act_Type :: ActionType
  act_ModifyRoute :: "ModifyRouteAction option"

record PrefixMatcher =
  pm_Prefix :: string
  pm_Ge :: "int option"
  pm_Le :: "int option"

record BGPCommunityMatcher =
  bcm_Community :: string
  bcm_ExactMatch :: bool

record Matcher =
  m_Prefix :: "PrefixMatcher option"
  m_BGPCommunity :: "BGPCommunityMatcher option"

record FilterItem =
  fi_Matcher :: Matcher
  fi_Action :: Action

record Filter =
  f_Items :: "FilterItem list"
  f_DefaultAction :: Action

record AddressFamily =
  af_ExportFilter :: "Filter option"
  af_ImportFilter :: "Filter option"
  af_MaxPrefixes :: "u32 option"

record BFDProfile =
  bfd_MinInterval :: u32

record BGPPeer =
  bp_Address :: "string option"
  bp_ListenRange :: "string option"
  bp_RemoteASN :: u32
  bp_IPv4 :: "AddressFamily option"
  bp_IPv6 :: "AddressFamily option"
  bp_BFDProfile :: "BFDProfile option"
  bp_Multihop :: "u32 option"
  bp_HoldTime :: "int option"
  bp_KeepaliveTime :: "int option"
  bp_Password :: "string option"

record VRFImport =
  vi_FromVRF :: string
  vi_Filter :: Filter

record NextHop =
  nh_Address :: "string option"
  nh_Vrf :: "string option"

record StaticRoute =
  sr_Prefix :: string
  sr_NextHop :: "NextHop option"
  sr_BFDProfile :: "BFDProfile option"

record TrafficMatch =
  tm_SrcPrefix :: "string option"
  tm_DstPrefix :: "string option"
  tm_SrcPort :: "u16 option"
  tm_DstPort :: "u16 option"
  tm_Protocol :: "string option"

record PolicyRoute =
  pr_TrafficMatch :: TrafficMatch
  pr_NextHop :: NextHop

datatype MirrorDirection = MirrorDirectionIngress | MirrorDirectionEgress

record MirrorACL =
  acl_TrafficMatch :: TrafficMatch
  acl_MirrorDestination :: string
  acl_Direction :: MirrorDirection

datatype GRELayer = GRELayer2 | GRELayer3

record GRE =
  gre_DestinationAddress :: string
  gre_SourceAddress :: string
  gre_SourceInterface :: string
  gre_Layer :: GRELayer
  gre_EncapsulationKey :: "u32 option"

record Loopback =
  lb_IPAddresses :: "string list"

record Redistribute =
  rd_Connected :: "Filter option"
  rd_Static :: "Filter option"

record VRF =
  Loopbacks :: "(string, Loopback) gomap"
  BGPPeers :: "BGPPeer list"
  VRFImports :: "VRFImport list"
  StaticRoutes :: "StaticRoute list"
  PolicyRoutes :: "PolicyRoute list"
  MirrorACLs :: "MirrorACL list"
  Redistribute :: "Redistribute option"
  GREs :: "(string, GRE) gomap"

record FabricVRF = VRF +
  fv_VNI :: u32
  EVPNImportRouteTargets :: "string list"
  EVPNExportRouteTargets :: "string list"
  EVPNExportFilter :: "Filter option"

record IRB =
  irb_VRF :: string
  irb_MACAddress :: string
  irb_IPAddresses :: "string list"

record Layer2 =
  l2_VNI :: u32
  l2_VLAN :: u16
  l2_RouteTarget :: string
  l2_MTU :: u16
  l2_IRB :: "IRB option"
  l2_MirrorACLs :: "MirrorACL list"
  l2_DisableSegmentation :: bool

record NodeNetworkConfigSpec =
  nns_Revision :: string
  Layer2s :: "(string, Layer2) gomap"
  ClusterVRF :: "VRF option"
  FabricVRFs :: "(string, FabricVRF) gomap"
  LocalVRFs :: "(string, VRF) gomap"

text \<open>\<open>ConfigStatus\<close> is one of the three statuses or still the empty string.\<close>

datatype ConfigStatus = StatusNone | StatusProvisioning | StatusProvisioned | StatusInvalid

record NodeNetworkConfigStatus =
  st_ConfigStatus :: ConfigStatus
  st_LastUpdate :: gotime
  st_LastAppliedRevision :: string
  st_ErrorMessage :: string
  st_ASNumber :: int

text \<open>An owner reference: the kind, the name and the UID of the owning object.\<close>

record OwnerReference =
  or_Kind :: string
  or_Name :: string
  or_UID :: string

record NodeNetworkConfig =
  nnc_Name :: string
  nnc_Labels :: "(string, string) gomap"
  nnc_Annotations :: "(string, string) gomap"
  nnc_OwnerReferences :: "OwnerReference list"
  nnc_Spec :: NodeNetworkConfigSpec
  nnc_Status :: NodeNetworkConfigStatus

definition emptySpec :: NodeNetworkConfigSpec where
  "emptySpec = \<lparr>nns_Revision = '''', Layer2s = [], ClusterVRF = None, FabricVRFs = [], LocalVRFs = []\<rparr>"

definition emptyStatus :: NodeNetworkConfigStatus where
  "emptyStatus = \<lparr>st_ConfigStatus = StatusNone, st_LastUpdate = 0, st_LastAppliedRevision = '''',
     st_ErrorMessage = '''', st_ASNumber = 0\<rparr>"

definition NewEmptyConfig :: "string \<Rightarrow> NodeNetworkConfig" where
  "NewEmptyConfig name =
     \<lparr>nnc_Name = name, nnc_Labels = [], nnc_Annotations = [], nnc_OwnerReferences = [], nnc_Spec = emptySpec, nnc_Status = emptyStatus\<rparr>"

text \<open>The zero values of the structs the operators build on.\<close>

definition zeroVRF :: VRF where
  "zeroVRF = \<lparr>Loopbacks = [], BGPPeers = [], VRFImports = [], StaticRoutes = [], PolicyRoutes = [],
     MirrorACLs = [], Redistribute = None, GREs = []\<rparr>"

definition zeroLayer2 :: Layer2 where
  "zeroLayer2 = \<lparr>l2_VNI = 0, l2_VLAN = 0, l2_RouteTarget = '''', l2_MTU = 0, l2_IRB = None,
     l2_MirrorACLs = [], l2_DisableSegmentation = False\<rparr>"

definition plainAction :: "ActionType \<Rightarrow> Action" where
  "plainAction t = \<lparr>act_Type = t, act_ModifyRoute = None\<rparr>"

definition emptyFilter :: "ActionType \<Rightarrow> Filter" where
  "emptyFilter t = \<lparr>f_Items = [], f_DefaultAction = plainAction t\<rparr>"

definition prefixMatcher :: "string \<Rightarrow> int option \<Rightarrow> int option \<Rightarrow> Matcher" where
  "prefixMatcher p ge le = \<lparr>m_Prefix = Some \<lparr>pm_Prefix = p, pm_Ge = ge, pm_Le = le\<rparr>, m_BGPCommunity = None\<rparr>"

definition prefixItem :: "string \<Rightarrow> int option \<Rightarrow> int option \<Rightarrow> Action \<Rightarrow> FilterItem" where
  "prefixItem p ge le a = \<lparr>fi_Matcher = prefixMatcher p ge le, fi_Action = a\<rparr>"

lemmas zero_defs = emptySpec_def emptyStatus_def zeroVRF_def zeroLayer2_def plainAction_def
  emptyFilter_def prefixMatcher_def prefixItem_def

end
