(* ===== verification/Go_Sha256.thy ===== *)
theory Go_Sha256
  imports Prelude "HOL-Library.Word"
begin

unbundle bit_operations_syntax

text \<open>
  \<open>crypto/sha256\<close> and \<open>encoding/hex\<close> of the Go standard library: the hash that names
  revisions, GRE interfaces, dummy interfaces and SBR VRFs. \<open>sha256\<close> is the function of
  FIPS 180-4 on bytes, \<open>hexEncode\<close> the lower-case hexadecimal rendering, and
  \<open>sha256_hex\<close> their composition on a Go string. What the components rely on is that the
  digest has 32 bytes, so that its hex rendering has 64 characters and may be cut.
\<close>

type_synonym byte = "8 word"

definition string_bytes :: "string \<Rightarrow> byte list" where
  "string_bytes s = map (\<lambda>c. word_of_nat (of_char c)) s"

text \<open>
  The constants are the first 32 bits of the fractional parts of the cube roots of the first 64
  primes and of the square roots of the first 8.
\<close>

fun iroot :: "nat \<Rightarrow> nat \<Rightarrow> nat \<Rightarrow> nat \<Rightarrow> nat" where
  "iroot k 0 n r = r"
| "iroot k (Suc b) n r = iroot k b n (if (r + 2 ^ b) ^ k \<le> n then r + 2 ^ b else r)"

definition frac_root :: "nat \<Rightarrow> nat \<Rightarrow> 32 word" where
  "frac_root k p = word_of_nat (iroot k 40 (p * 2 ^ (32 * k)) 0)"

definition primes_below :: "nat \<Rightarrow> nat list" where
  "primes_below m = filter (\<lambda>p. list_all (\<lambda>d. p mod d \<noteq> 0) [2..<p]) [2..<m]"

definition sha256_K :: "32 word list" where
  "sha256_K = map (frac_root 3) (primes_below 312)"

definition sha256_H0 :: "32 word list" where
  "sha256_H0 = map (frac_root 2) (primes_below 20)"

definition rotr :: "nat \<Rightarrow> 32 word \<Rightarrow> 32 word" where
  "rotr n x = drop_bit n x OR push_bit (32 - n) x"

definition sha_pad :: "byte list \<Rightarrow> byte list" where
  "sha_pad bs = (let l = length bs; z = (119 - l mod 64) mod 64 in
     bs @ 0x80 # replicate z 0 @
     map (\<lambda>i. word_of_nat (8 * l div 256 ^ (7 - i))) [0..<8])"

fun be_words :: "byte list \<Rightarrow> 32 word list" where
  "be_words (a # b # c # d # bs) =
     (push_bit 24 (ucast a) OR push_bit 16 (ucast b) OR push_bit 8 (ucast c) OR ucast d) # be_words bs"
| "be_words _ = []"

fun sha_blocks :: "nat \<Rightarrow> 32 word list \<Rightarrow> 32 word list list" where
  "sha_blocks 0 ws = []"
| "sha_blocks (Suc n) ws = take 16 ws # sha_blocks n (drop 16 ws)"

text \<open>The message schedule is kept newest first.\<close>

definition sha_ext1 :: "32 word list \<Rightarrow> 32 word list" where
  "sha_ext1 ws = (let w2 = ws ! 1; w7 = ws ! 6; w15 = ws ! 14; w16 = ws ! 15;
       s0 = rotr 7 w15 XOR rotr 18 w15 XOR drop_bit 3 w15;
       s1 = rotr 17 w2 XOR rotr 19 w2 XOR drop_bit 10 w2
     in (w16 + s0 + w7 + s1) # ws)"

definition sha_schedule :: "32 word list \<Rightarrow> 32 word list" where
  "sha_schedule blk = rev ((sha_ext1 ^^ 48) (rev blk))"

definition sha_round :: "32 word list \<Rightarrow> 32 word \<times> 32 word \<Rightarrow> 32 word list" where
  "sha_round st kw = (case st of [a, b, c, d, e, f, g, h] \<Rightarrow>
     (let t1 = h + (rotr 6 e XOR rotr 11 e XOR rotr 25 e) + ((e AND f) XOR (NOT e AND g))
               + fst kw + snd kw;
          t2 = (rotr 2 a XOR rotr 13 a XOR rotr 22 a) + ((a AND b) XOR (a AND c) XOR (b AND c))
      in [t1 + t2, a, b, c, d + t1, e, f, g]) | _ \<Rightarrow> st)"

definition sha_compress :: "32 word list \<Rightarrow> 32 word list \<Rightarrow> 32 word list" where
  "sha_compress h blk = map2 (+) h (foldl sha_round h (zip sha256_K (sha_schedule blk)))"

definition word_bytes :: "32 word \<Rightarrow> byte list" where
  "word_bytes w = map (\<lambda>i. ucast (drop_bit (24 - 8 * i) w)) [0..<4]"

definition sha256 :: "byte list \<Rightarrow> byte list" where
  "sha256 bs = (let p = sha_pad bs in
     concat (map word_bytes
       (foldl sha_compress sha256_H0 (sha_blocks (length p div 64) (be_words p)))))"

definition hex_char :: "nat \<Rightarrow> char" where
  "hex_char d = (if d < 10 then char_of (48 + d) else char_of (87 + d))"

definition hexEncode :: "byte list \<Rightarrow> string" where
  "hexEncode bs = concat (map (\<lambda>b. [hex_char (unat b div 16), hex_char (unat b mod 16)]) bs)"

definition sha256_hex :: "string \<Rightarrow> string" where
  "sha256_hex s = hexEncode (sha256 (string_bytes s))"

lemma length_sha_round [simp]: "length (sha_round st kw) = length st"
  by (auto simp: sha_round_def Let_def split: list.splits)

lemma length_foldl_sha_round [simp]: "length (foldl sha_round st kws) = length st"
  by (induction kws arbitrary: st) simp_all

lemma length_sha_compress [simp]: "length (sha_compress h blk) = length h"
  by (simp add: sha_compress_def)

lemma length_foldl_sha_compress [simp]: "length (foldl sha_compress h bs) = length h"
  by (induction bs arbitrary: h) simp_all

lemma length_concat_word_bytes: "length (concat (map word_bytes ws)) = 4 * length ws"
  by (induction ws) (simp_all add: word_bytes_def)

lemma length_sha256_H0 [simp]: "length sha256_H0 = 8"
proof -
  have "primes_below 20 = [2, 3, 5, 7, 11, 13, 17, 19]" by code_simp
  then show ?thesis by (simp add: sha256_H0_def)
qed

lemma length_sha256 [simp]: "length (sha256 bs) = 32"
  by (simp add: sha256_def Let_def length_concat_word_bytes)

lemma length_hexEncode [simp]: "length (hexEncode bs) = 2 * length bs"
  by (induction bs) (simp_all add: hexEncode_def)

lemma length_sha256_hex [simp]: "length (sha256_hex s) = 64"
  by (simp add: sha256_hex_def)

definition is_hex :: "char \<Rightarrow> bool" where
  "is_hex c \<longleftrightarrow> (let n = (of_char c :: nat) in 48 \<le> n \<and> n \<le> 57 \<or> 97 \<le> n \<and> n \<le> 102)"

lemma is_hex_hex_char: "d < 16 \<Longrightarrow> is_hex (hex_char d)"
  by (simp add: is_hex_def hex_char_def Let_def)

lemma hexEncode_is_hex: "\<forall>c \<in> set (hexEncode bs). is_hex c"
proof -
  have "unat (b :: byte) div 16 < 16" for b
    using unsigned_less [of b, where ?'a = nat] by simp
  then show ?thesis
    by (auto simp: hexEncode_def intro!: is_hex_hex_char)
qed

end
