(* ===== verification/Vrf_Name.thy ===== *)
theory Vrf_Name
  imports Go_Sha256 "HOL-Library.Sublist"
begin

text \<open>
  \<open>pkg/vrfname\<close>: the reduction of a readable VRF name to a Linux interface name of at most
  15 bytes, and the names of the intermediate VRFs of source-based routing. The theory shows
  when a name is reducible, that a reduced name is a subsequence of the original, that the
  cascade drops no more separators than it has to, and that the SBR names always fit.
\<close>

definition MaxLen :: nat where
  "MaxLen = 15"

definition sbrPrefix :: string where
  "sbrPrefix = ''s-''"

definition sbrHashLen :: nat where
  "sbrHashLen = MaxLen - length sbrPrefix"

definition SBRName :: "string \<Rightarrow> string" where
  "SBRName key =
     (if CHR ''+'' \<notin> set key \<and> length (sbrPrefix @ key) \<le> MaxLen then sbrPrefix @ key
      else sbrPrefix @ take sbrHashLen (sha256_hex key))"

definition isVowel :: "char \<Rightarrow> bool" where
  "isVowel r \<longleftrightarrow> r \<in> set ''aeiouAEIOU''"

definition isHard :: "char \<Rightarrow> bool" where
  "isHard r \<longleftrightarrow>
     (if CHR ''0'' \<le> r \<and> r \<le> CHR ''9'' then True
      else if CHR ''a'' \<le> r \<and> r \<le> CHR ''z'' \<or> CHR ''A'' \<le> r \<and> r \<le> CHR ''Z'' then \<not> isVowel r
      else False)"

text \<open>The condition under which the loop of \<open>removeInnerVowels\<close> skips position \<open>i\<close>.\<close>

definition innerVowel :: "string \<Rightarrow> nat \<Rightarrow> bool" where
  "innerVowel s i \<longleftrightarrow>
     isVowel (s ! i) \<and> 0 < i \<and> Suc i < length s \<and> isHard (s ! (i - 1)) \<and> isHard (s ! Suc i)"

definition removeInnerVowels :: "string \<Rightarrow> string" where
  "removeInnerVowels s =
     concat (map (\<lambda>i. if innerVowel s i then [] else [s ! i]) [0..<length s])"

text \<open>The loop runs \<open>i\<close> from \<open>len(s) - 1\<close> down to 0; \<open>None\<close> is the source's -1.\<close>

fun lastIndexFrom :: "string \<Rightarrow> char \<Rightarrow> nat \<Rightarrow> nat option" where
  "lastIndexFrom s b 0 = None"
| "lastIndexFrom s b (Suc i) = (if s ! i = b then Some i else lastIndexFrom s b i)"

definition lastIndexByte :: "string \<Rightarrow> char \<Rightarrow> nat option" where
  "lastIndexByte s b = lastIndexFrom s b (length s)"

lemma lastIndexFrom_less: "lastIndexFrom s b n = Some i \<Longrightarrow> i < n"
  by (induction n) (auto split: if_splits)

function dropUnderscoresRTL :: "string \<Rightarrow> nat \<Rightarrow> string" where
  "dropUnderscoresRTL s target =
     (if length s > target then
        (case lastIndexByte s CHR ''_'' of
           None \<Rightarrow> s
         | Some idx \<Rightarrow> dropUnderscoresRTL (take idx s @ drop (Suc idx) s) target)
      else s)"
  by pat_completeness auto
termination
  by (relation "measure (\<lambda>(s, target). length s)")
    (auto simp: lastIndexByte_def dest!: lastIndexFrom_less)

declare dropUnderscoresRTL.simps [simp del]

definition Reduce :: "string \<Rightarrow> string" where
  "Reduce name =
     (if length name \<le> MaxLen then name
      else let reduced = removeInnerVowels name in
        if length reduced \<le> MaxLen then reduced
        else dropUnderscoresRTL reduced MaxLen)"

definition CanReduce :: "string \<Rightarrow> bool" where
  "CanReduce name \<longleftrightarrow> length (Reduce name) \<le> MaxLen"

section \<open>Removing inner vowels\<close>

lemma removeInnerVowels_subseq: "subseq (removeInnerVowels s) s"
proof -
  have "subseq (concat (map (\<lambda>i. if innerVowel s i then [] else [s ! i]) is)) (map ((!) s) is)"
    for "is" by (induction "is") auto
  from this [of "[0..<length s]"] show ?thesis
    by (simp add: removeInnerVowels_def map_nth)
qed

lemma isVowel_not_underscore: "isVowel c \<Longrightarrow> c \<noteq> CHR ''_''"
  by (auto simp: isVowel_def)

lemma filter_concat_positions:
  assumes "\<And>i. i \<in> set is \<Longrightarrow> f i = [g i] \<or> f i = [] \<and> \<not> P (g i)"
  shows "filter P (concat (map f is)) = filter P (map g is)"
  using assms by (induction "is") fastforce+

lemma removeInnerVowels_underscores:
  "filter ((=) CHR ''_'') (removeInnerVowels s) = filter ((=) CHR ''_'') s"
proof -
  have "filter ((=) CHR ''_'') (removeInnerVowels s) =
      filter ((=) CHR ''_'') (map ((!) s) [0..<length s])"
    unfolding removeInnerVowels_def
    by (rule filter_concat_positions) (auto simp: innerVowel_def isVowel_def)
  then show ?thesis by (simp add: map_nth)
qed

section \<open>Dropping separators from the right\<close>

lemma lastIndexFrom_Some:
  "lastIndexFrom s b n = Some i \<longleftrightarrow> i < n \<and> s ! i = b \<and> (\<forall>j. i < j \<and> j < n \<longrightarrow> s ! j \<noteq> b)"
  by (induction n) (auto simp: less_Suc_eq)

lemma lastIndexFrom_None: "lastIndexFrom s b n = None \<longleftrightarrow> (\<forall>i < n. s ! i \<noteq> b)"
  by (induction n) (auto simp: less_Suc_eq)

lemma lastIndexByte_None: "lastIndexByte s b = None \<longleftrightarrow> b \<notin> set s"
  by (auto simp: lastIndexByte_def lastIndexFrom_None in_set_conv_nth)

lemma lastIndexByte_Some:
  assumes "lastIndexByte s b = Some i"
  obtains ys zs where "s = ys @ b # zs" and "i = length ys" and "b \<notin> set zs"
proof
  from assms have i: "i < length s" "s ! i = b" "\<And>j. i < j \<Longrightarrow> j < length s \<Longrightarrow> s ! j \<noteq> b"
    by (auto simp: lastIndexByte_def lastIndexFrom_Some)
  then show "s = take i s @ b # drop (Suc i) s" and "i = length (take i s)"
    by (auto simp: id_take_nth_drop)
  show "b \<notin> set (drop (Suc i) s)"
    using i(3) by (auto simp: in_set_conv_nth)
qed

text \<open>What \<open>dropUnderscoresRTL\<close> leaves: the last \<open>n\<close> separators are gone, nothing else.\<close>

fun dropLast :: "char \<Rightarrow> nat \<Rightarrow> string \<Rightarrow> string" where
  "dropLast b n [] = []"
| "dropLast b n (c # s) =
     (if c = b \<and> length (filter ((=) b) (c # s)) \<le> n then dropLast b n s else c # dropLast b n s)"

lemma dropLast_0 [simp]: "dropLast b 0 s = s"
  by (induction s) auto

lemma dropLast_none [simp]: "b \<notin> set s \<Longrightarrow> dropLast b n s = s"
  by (induction s) auto

lemma filter_eq_none [simp]: "b \<notin> set s \<Longrightarrow> filter ((=) b) s = []"
  by (auto simp: filter_empty_conv)

lemma dropLast_Suc:
  "b \<notin> set zs \<Longrightarrow> dropLast b (Suc n) (ys @ b # zs) = dropLast b n (ys @ zs)"
  by (induction ys) simp_all

lemma dropUnderscoresRTL_eq:
  "dropUnderscoresRTL s t =
     dropLast CHR ''_'' (min (length s - t) (length (filter ((=) CHR ''_'') s))) s"
proof (induction s t rule: dropUnderscoresRTL.induct)
  case (1 s t)
  show ?case
  proof (cases "length s > t")
    case False
    then show ?thesis by (simp add: dropUnderscoresRTL.simps)
  next
    case True
    show ?thesis
    proof (cases "lastIndexByte s CHR ''_''")
      case None
      then have "CHR ''_'' \<notin> set s" by (simp add: lastIndexByte_None)
      with None True show ?thesis by (simp add: dropUnderscoresRTL.simps [of s t])
    next
      case (Some idx)
      then obtain ys zs where s: "s = ys @ CHR ''_'' # zs" "idx = length ys" "CHR ''_'' \<notin> set zs"
        by (rule lastIndexByte_Some)
      have "dropUnderscoresRTL s t = dropUnderscoresRTL (ys @ zs) t"
        using True Some s(2) by (subst dropUnderscoresRTL.simps) (simp add: s(1))
      also have "\<dots> = dropLast CHR ''_''
          (min (length (ys @ zs) - t) (length (filter ((=) CHR ''_'') (ys @ zs)))) (ys @ zs)"
        using "1.IH" [OF True Some] s by simp
      also have "\<dots> = dropLast CHR ''_''
          (Suc (min (length (ys @ zs) - t) (length (filter ((=) CHR ''_'') (ys @ zs))))) s"
        by (simp only: s(1) dropLast_Suc [OF s(3)])
      also have "Suc (min (length (ys @ zs) - t) (length (filter ((=) CHR ''_'') (ys @ zs)))) =
          min (length s - t) (length (filter ((=) CHR ''_'') s))"
        using True s by simp
      finally show ?thesis .
    qed
  qed
qed

lemma length_dropLast: "length (dropLast b n s) = length s - min n (length (filter ((=) b) s))"
proof (induction s)
  case (Cons c s)
  have "m \<le> length (filter ((=) b) s) \<Longrightarrow> m \<le> length s" for m
    by (rule order_trans [OF _ length_filter_le])
  with Cons show ?case
    by (cases "c = b") (auto simp: min_def Suc_diff_le le_Suc_eq not_le)
qed simp

lemma subseq_dropLast: "subseq (dropLast b n s) s"
  by (induction s) auto

lemma length_filter_split: "length (filter ((=) b) s) + length (filter ((\<noteq>) b) s) = length s"
  by (induction s) auto

lemma length_dropUnderscoresRTL:
  "length (dropUnderscoresRTL s t) = max (min t (length s)) (length (filter ((\<noteq>) CHR ''_'') s))"
  using length_filter_split [of "CHR ''_''" s]
  by (auto simp: dropUnderscoresRTL_eq length_dropLast min_def max_def)

section \<open>Names that fit\<close>

lemma Reduce_fits [simp]: "length name \<le> MaxLen \<Longrightarrow> Reduce name = name"
  by (simp add: Reduce_def)

lemma length_Reduce:
  "length (Reduce name) = (if length name \<le> MaxLen then length name
     else max (min MaxLen (length (removeInnerVowels name)))
       (length (filter ((\<noteq>) CHR ''_'') (removeInnerVowels name))))"
  using length_filter_le [of "(\<noteq>) CHR ''_''" "removeInnerVowels name"]
  by (simp add: Reduce_def Let_def length_dropUnderscoresRTL max_def min_def del: length_filter_le)

lemma length_SBRName: "length (SBRName key) \<le> MaxLen"
  by (simp add: SBRName_def sbrHashLen_def sbrPrefix_def MaxLen_def)

lemma Reduce_subseq: "subseq (Reduce name) name"
  using subseq_order.trans [OF subseq_dropLast removeInnerVowels_subseq]
  by (simp add: Reduce_def Let_def removeInnerVowels_subseq dropUnderscoresRTL_eq)

section \<open>Properties\<close>

text \<open>
  C15. The VRF name cascade: the reduced name is a subsequence of the original, its length is
  exactly what the two rules can reach (never shorter than needed when separators are dropped),
  and a name is reducible exactly when it fits already or its inner-vowel-free form fits once all
  separators are gone.
\<close>

theorem Reduce_correct:
  "subseq (Reduce name) name \<and>
   length (Reduce name) = (if length name \<le> MaxLen then length name
     else max (min MaxLen (length (removeInnerVowels name)))
       (length (filter ((\<noteq>) CHR ''_'') (removeInnerVowels name)))) \<and>
   CanReduce name = (length name \<le> MaxLen \<or>
     length (filter ((\<noteq>) CHR ''_'') (removeInnerVowels name)) \<le> MaxLen)"
  using Reduce_subseq by (auto simp: CanReduce_def length_Reduce)

text \<open>
  C16. The name of an SBR intermediate VRF always fits an interface name and carries the prefix; a
  short single-VRF key is kept readable, every other key fills the limit exactly with hex digits.
\<close>

theorem SBRName_correct:
  "length (SBRName key) \<le> MaxLen \<and> take 2 (SBRName key) = sbrPrefix \<and>
   (if CHR ''+'' \<notin> set key \<and> length key \<le> 13 then drop 2 (SBRName key) = key
    else length (SBRName key) = MaxLen \<and> list_all is_hex (drop 2 (SBRName key)))"
  using hexEncode_is_hex
  by (auto simp: SBRName_def sbrHashLen_def sbrPrefix_def MaxLen_def list_all_iff sha256_hex_def
      dest!: in_set_takeD)

text \<open>
  Reduction is idempotent on every name it can make fit, and not on the others: the best-effort
  form of a long name may put a vowel between two hard characters that a second pass removes.
\<close>

lemma Reduce_idempotent: "CanReduce name \<Longrightarrow> Reduce (Reduce name) = Reduce name"
  by (simp add: CanReduce_def)

lemma Reduce_not_idempotent:
  "Reduce ''bcdfghjklmnpqr_a_st'' = ''bcdfghjklmnpqrast''"
  "Reduce ''bcdfghjklmnpqrast'' = ''bcdfghjklmnpqrst''"
  by code_simp+

end
