(* ===== verification/Nnc_Names.thy ===== *)
theory Nnc_Names
  imports Nnc_Types Vrf_Name
begin

text \<open>
  \<open>pkg/reconciler/nncnames\<close>: the rewriting of every VRF name of an assembled
  \<open>NodeNetworkConfigSpec\<close>, keys and references alike, to its reduced form. The theory shows that
  the rewriting fails exactly on an irreducible or colliding key, whatever the iteration order,
  and that references which resolved before the rewriting resolve after it.
\<close>

datatype names_error = CannotReduce string string | BothReduce string string string

fun reduceKeysLoop ::
  "(string, 't) gomap \<Rightarrow> (string, string) gomap \<Rightarrow> (string, 't) gomap \<Rightarrow>
   (names_error, (string, 't) gomap) result" where
  "reduceKeysLoop [] origin out = Inr out"
| "reduceKeysLoop ((k, v) # m) origin out =
     (let nk = Reduce k in
      if length nk > MaxLen then Inl (CannotReduce k nk)
      else case gm_get origin nk of
        Some prev \<Rightarrow> Inl (BothReduce prev k nk)
      | None \<Rightarrow> reduceKeysLoop m (gm_put nk k origin) (gm_put nk v out))"

definition reduceKeys :: "(string, 't) gomap \<Rightarrow> (names_error, (string, 't) gomap) result" where
  "reduceKeys m = (if m = [] then Inr m else reduceKeysLoop m [] [])"

definition reduceImport :: "VRFImport \<Rightarrow> VRFImport" where
  "reduceImport i = i\<lparr>vi_FromVRF := Reduce (vi_FromVRF i)\<rparr>"

definition reduceNextHop :: "NextHop \<Rightarrow> NextHop" where
  "reduceNextHop h = h\<lparr>nh_Vrf := map_option Reduce (nh_Vrf h)\<rparr>"

definition reduceVRFRefs :: "'a VRF_scheme \<Rightarrow> 'a VRF_scheme" where
  "reduceVRFRefs v = v\<lparr>
     VRFImports := map reduceImport (VRFImports v),
     StaticRoutes := map (\<lambda>r. r\<lparr>sr_NextHop := map_option reduceNextHop (sr_NextHop r)\<rparr>) (StaticRoutes v),
     PolicyRoutes := map (\<lambda>r. r\<lparr>pr_NextHop := reduceNextHop (pr_NextHop r)\<rparr>) (PolicyRoutes v)\<rparr>"

definition reduceLayer2 :: "Layer2 \<Rightarrow> Layer2" where
  "reduceLayer2 l = l\<lparr>l2_IRB := map_option (\<lambda>irb. irb\<lparr>irb_VRF := Reduce (irb_VRF irb)\<rparr>) (l2_IRB l)\<rparr>"

text \<open>The spec is updated in place, so the maps reduced before an error stay reduced.\<close>

definition ReduceSpec ::
  "NodeNetworkConfigSpec \<Rightarrow> NodeNetworkConfigSpec \<times> names_error option" where
  "ReduceSpec spec =
     (case reduceKeys (FabricVRFs spec) of
        Inl e \<Rightarrow> (spec, Some e)
      | Inr fabric \<Rightarrow>
        (let spec = spec\<lparr>FabricVRFs := fabric\<rparr> in
         case reduceKeys (LocalVRFs spec) of
           Inl e \<Rightarrow> (spec, Some e)
         | Inr local \<Rightarrow>
           (spec\<lparr>LocalVRFs := map (\<lambda>(k, v). (k, reduceVRFRefs v)) local,
                 ClusterVRF := map_option reduceVRFRefs (ClusterVRF spec),
                 FabricVRFs := map (\<lambda>(k, v). (k, reduceVRFRefs v)) (FabricVRFs spec),
                 Layer2s := map (\<lambda>(k, l2). (k, reduceLayer2 l2)) (Layer2s spec)\<rparr>, None)))"

text \<open>A spec for the witnesses: a long fabric VRF name with references to it.\<close>

definition sampleSpec :: NodeNetworkConfigSpec where
  "sampleSpec = emptySpec\<lparr>
     FabricVRFs := [(''payment_gateway_worker'',
       VRF.extend (zeroVRF\<lparr>VRFImports := [\<lparr>vi_FromVRF = ''cluster'', vi_Filter = emptyFilter Reject\<rparr>]\<rparr>)
         (FabricVRF.fields 100 [] [] None))],
     LocalVRFs := [(''s-abcd1234'',
       zeroVRF\<lparr>VRFImports := [\<lparr>vi_FromVRF = ''payment_gateway_worker'', vi_Filter = emptyFilter Accept\<rparr>]\<rparr>)]\<rparr>"

section \<open>Reducing the keys of a map\<close>

text \<open>
  What the loop keeps: the origin map and the output have the same reduced keys.
\<close>

definition reducible_keys :: "string list \<Rightarrow> bool" where
  "reducible_keys ks \<longleftrightarrow> list_all CanReduce ks \<and> distinct (map Reduce ks)"

lemma update_fresh: "k \<notin> set (map fst m) \<Longrightarrow> AList.update k v m = m @ [(k, v)]"
  by (induction m) auto

lemma reduceKeysLoop_ok:
  assumes "\<forall>k. gm_get origin k = None \<longleftrightarrow> gm_get out k = None"
  shows "reduceKeysLoop m origin out = Inr r \<longleftrightarrow>
    list_all CanReduce (gm_keys m) \<and> distinct (map Reduce (gm_keys m)) \<and>
    (\<forall>k \<in> set (gm_keys m). Reduce k \<notin> set (gm_keys out)) \<and>
    r = out @ map (\<lambda>(k, v). (Reduce k, v)) m"
  using assms
proof (induction m origin out arbitrary: r rule: reduceKeysLoop.induct)
  case (2 k v m origin out)
  show ?case
  proof (cases "CanReduce k \<and> gm_get origin (Reduce k) = None")
    case False
    then show ?thesis
      using "2.prems" by (auto simp: CanReduce_def Let_def map_of_eq_None_iff split: option.splits)
  next
    case True
    have fresh: "Reduce k \<notin> set (gm_keys out)"
      using True "2.prems" by (simp add: map_of_eq_None_iff)
    have "\<forall>k'. gm_get (gm_put (Reduce k) k origin) k' = None \<longleftrightarrow>
        gm_get (gm_put (Reduce k) v out) k' = None"
      using "2.prems" by (simp add: gomap_simps)
    then show ?thesis
      using True "2.IH" [of "Reduce k" r] fresh
      by (auto simp: CanReduce_def update_fresh Let_def image_iff)
  qed
qed auto

lemma reduceKeys_ok:
  "reduceKeys m = Inr r \<longleftrightarrow>
     reducible_keys (gm_keys m) \<and> r = map (\<lambda>(k, v). (Reduce k, v)) m"
  using reduceKeysLoop_ok [of "[]" "[]" m r]
  by (auto simp: reduceKeys_def reducible_keys_def)

lemma reducible_keys_perm: "mset ks = mset ks' \<Longrightarrow> reducible_keys ks = reducible_keys ks'"
  unfolding reducible_keys_def
  by (metis list_all_iff mset_eq_imp_distinct_iff mset_map set_mset_mset)

lemma reducible_keys_short: "reducible_keys ks \<Longrightarrow> k \<in> set ks \<Longrightarrow> length (Reduce k) \<le> MaxLen"
  by (auto simp: reducible_keys_def list_all_iff CanReduce_def)

section \<open>References\<close>

text \<open>The VRF names a VRF refers to, and those of a whole spec.\<close>

definition vrf_refs :: "'a VRF_scheme \<Rightarrow> string list" where
  "vrf_refs v = map vi_FromVRF (VRFImports v) @
     List.map_filter (\<lambda>r. Option.bind (sr_NextHop r) nh_Vrf) (StaticRoutes v) @
     List.map_filter (\<lambda>r. nh_Vrf (pr_NextHop r)) (PolicyRoutes v)"

definition spec_refs :: "NodeNetworkConfigSpec \<Rightarrow> string list" where
  "spec_refs s =
     (case ClusterVRF s of None \<Rightarrow> [] | Some v \<Rightarrow> vrf_refs v) @
     concat (map (\<lambda>(k, v). vrf_refs v) (FabricVRFs s)) @
     concat (map (\<lambda>(k, v). vrf_refs v) (LocalVRFs s)) @
     List.map_filter (\<lambda>(k, l). map_option irb_VRF (l2_IRB l)) (Layer2s s)"

definition spec_names :: "NodeNetworkConfigSpec \<Rightarrow> string list" where
  "spec_names s = '''' # ''cluster'' # gm_keys (FabricVRFs s) @ gm_keys (LocalVRFs s)"

lemma map_filter_map_option:
  assumes "\<And>x. x \<in> set xs \<Longrightarrow> f' (g x) = map_option h (f x)"
  shows "List.map_filter f' (map g xs) = map h (List.map_filter f xs)"
  using assms by (induction xs) (auto simp: map_filter_def split: option.splits)

lemma vrf_refs_reduce: "vrf_refs (reduceVRFRefs v) = map Reduce (vrf_refs v)"
proof -
  have 1: "Option.bind (map_option reduceNextHop n) nh_Vrf = map_option Reduce (Option.bind n nh_Vrf)"
    for n by (cases n) (simp_all add: reduceNextHop_def)
  show ?thesis
    unfolding vrf_refs_def map_append
    by (intro arg_cong2 [where f = append])
      (auto simp: reduceVRFRefs_def reduceImport_def reduceNextHop_def 1 intro!: map_filter_map_option)
qed

lemma concat_refs_reduce:
  "concat (map ((\<lambda>(k, v). vrf_refs v) \<circ> ((\<lambda>(k, v). (k, reduceVRFRefs v)) \<circ> (\<lambda>(k, v). (f k, v)))) m) =
   map Reduce (concat (map (\<lambda>(k, v). vrf_refs v) m))"
  by (induction m) (auto simp: vrf_refs_reduce)

lemma ReduceSpec_Some_iff:
  "snd (ReduceSpec s) = None \<longleftrightarrow>
     reducible_keys (gm_keys (FabricVRFs s)) \<and> reducible_keys (gm_keys (LocalVRFs s))"
  by (auto simp: ReduceSpec_def Let_def split: sum.splits)
    (metis reduceKeys_ok sum.exhaust Inl_Inr_False)+

lemma ReduceSpec_ok:
  assumes "ReduceSpec s = (t, None)"
  shows "gm_keys (FabricVRFs t) = map Reduce (gm_keys (FabricVRFs s))"
    and "gm_keys (LocalVRFs t) = map Reduce (gm_keys (LocalVRFs s))"
    and "spec_refs t = map Reduce (spec_refs s)"
proof -
  from assms obtain f l where f: "reduceKeys (FabricVRFs s) = Inr f"
    and l: "reduceKeys (LocalVRFs s) = Inr l"
    and t: "t = s\<lparr>LocalVRFs := map (\<lambda>(k, v). (k, reduceVRFRefs v)) l,
                 ClusterVRF := map_option reduceVRFRefs (ClusterVRF s),
                 FabricVRFs := map (\<lambda>(k, v). (k, reduceVRFRefs v)) f,
                 Layer2s := map (\<lambda>(k, l2). (k, reduceLayer2 l2)) (Layer2s s)\<rparr>"
    by (auto simp: ReduceSpec_def Let_def split: sum.splits)
  have f': "f = map (\<lambda>(k, v). (Reduce k, v)) (FabricVRFs s)"
    and l': "l = map (\<lambda>(k, v). (Reduce k, v)) (LocalVRFs s)"
    using f l by (simp_all add: reduceKeys_ok)
  show "gm_keys (FabricVRFs t) = map Reduce (gm_keys (FabricVRFs s))"
    and "gm_keys (LocalVRFs t) = map Reduce (gm_keys (LocalVRFs s))"
    by (auto simp: t f' l')
  have irb: "List.map_filter (\<lambda>(k, l). map_option irb_VRF (l2_IRB l)) (Layer2s t) =
      map Reduce (List.map_filter (\<lambda>(k, l). map_option irb_VRF (l2_IRB l)) (Layer2s s))"
    by (auto simp: t reduceLayer2_def option.map_comp comp_def intro!: map_filter_map_option)
  show "spec_refs t = map Reduce (spec_refs s)"
    unfolding spec_refs_def map_append
    by (intro arg_cong2 [where f = append] irb)
      (auto simp: t f' l' concat_refs_reduce vrf_refs_reduce split: option.splits)
qed

lemma Reduce_base_names: "Reduce '''' = ''''" "Reduce ''cluster'' = ''cluster''"
  by (simp_all add: MaxLen_def)

section \<open>Properties\<close>

text \<open>
  C17. The rewriting of a spec succeeds exactly when every fabric and local VRF name fits the
  interface-name limit after reduction and no two names of one map reduce to the same value; this
  does not depend on the order in which the maps are visited.
\<close>

theorem ReduceSpec_succeeds_iff:
  assumes "mset (FabricVRFs s) = mset fs" and "mset (LocalVRFs s) = mset ls"
  shows "(snd (ReduceSpec (s\<lparr>FabricVRFs := fs, LocalVRFs := ls\<rparr>)) = None) =
    (reducible_keys (gm_keys (FabricVRFs s)) \<and> reducible_keys (gm_keys (LocalVRFs s)))"
  using reducible_keys_perm [of "gm_keys fs" "gm_keys (FabricVRFs s)"]
    reducible_keys_perm [of "gm_keys ls" "gm_keys (LocalVRFs s)"] assms
  by (simp add: ReduceSpec_Some_iff)

theorem ReduceSpec_succeeds_iff_witness:
  "snd (ReduceSpec (sampleSpec\<lparr>FabricVRFs := rev (FabricVRFs sampleSpec), LocalVRFs := LocalVRFs sampleSpec\<rparr>)) = None"
proof -
  have "reducible_keys (gm_keys (FabricVRFs sampleSpec)) \<and> reducible_keys (gm_keys (LocalVRFs sampleSpec))"
    by code_simp
  then show ?thesis
    using ReduceSpec_succeeds_iff [of sampleSpec "rev (FabricVRFs sampleSpec)" "LocalVRFs sampleSpec"]
    by simp
qed

text \<open>
  C18. Referential integrity: if every VRF reference of a spec (VRF imports, next hops of static
  and policy routes, IRB interfaces) names a VRF of the spec, the cluster VRF or nothing, then the
  same holds of the rewritten spec, whose VRF names all fit an interface name.
\<close>

theorem ReduceSpec_references:
  assumes "ReduceSpec s = (t, None)" and "set (spec_refs s) \<subseteq> set (spec_names s)"
  shows "set (spec_refs t) \<subseteq> set (spec_names t) \<and>
    list_all (\<lambda>k. length k \<le> MaxLen) (gm_keys (FabricVRFs t) @ gm_keys (LocalVRFs t)) \<and>
    distinct (gm_keys (FabricVRFs t)) \<and> distinct (gm_keys (LocalVRFs t))"
proof -
  note ok = ReduceSpec_ok [OF assms(1)]
  have red: "reducible_keys (gm_keys (FabricVRFs s))" "reducible_keys (gm_keys (LocalVRFs s))"
    using assms(1) ReduceSpec_Some_iff [of s] by simp_all
  have names: "set (spec_names t) = Reduce ` set (spec_names s)"
    by (simp only: spec_names_def ok Reduce_base_names image_Un image_insert set_append set_map
        list.set)
  have "set (spec_refs t) = Reduce ` set (spec_refs s)" by (simp add: ok)
  with assms(2) names have "set (spec_refs t) \<subseteq> set (spec_names t)" by auto
  moreover have "list_all (\<lambda>k. length k \<le> MaxLen) (map Reduce ks)" if "reducible_keys ks" for ks
    using reducible_keys_short [OF that] by (auto simp: list_all_iff)
  ultimately show ?thesis
    using red by (simp add: ok del: map_map) (simp add: reducible_keys_def)
qed

theorem ReduceSpec_references_witness:
  "snd (ReduceSpec sampleSpec) = None \<and>
   set (spec_refs (fst (ReduceSpec sampleSpec))) \<subseteq> set (spec_names (fst (ReduceSpec sampleSpec))) \<and>
   list_all (\<lambda>k. length k \<le> MaxLen) (gm_keys (FabricVRFs (fst (ReduceSpec sampleSpec))))"
proof -
  have ok: "ReduceSpec sampleSpec = (fst (ReduceSpec sampleSpec), None)"
    by (rule prod_eqI) (simp, code_simp)
  have refs: "set (spec_refs sampleSpec) \<subseteq> set (spec_names sampleSpec)"
    by (simp add: sampleSpec_def spec_refs_def spec_names_def vrf_refs_def zero_defs VRF.defs
        FabricVRF.defs map_filter_def)
  from ok have "snd (ReduceSpec sampleSpec) = None" by (metis snd_conv)
  with ReduceSpec_references [OF ok refs] show ?thesis by simp
qed

text \<open>
  Two divergences from the package comment. The rewriting is not idempotent on a spec that
  carries a reference to an irreducible name (only the keys are checked against the limit), and a
  fabric and a local VRF may end up under the same interface name, because the two maps are
  checked for collisions one by one.
\<close>

lemma ReduceSpec_not_idempotent:
  defines "s \<equiv> emptySpec\<lparr>ClusterVRF := Some (zeroVRF\<lparr>VRFImports :=
      [\<lparr>vi_FromVRF = ''bcdfghjklmnpqr_a_st'', vi_Filter = emptyFilter Reject\<rparr>]\<rparr>)\<rparr>"
  shows "snd (ReduceSpec s) = None \<and> fst (ReduceSpec (fst (ReduceSpec s))) \<noteq> fst (ReduceSpec s)"
  by (simp add: s_def ReduceSpec_def reduceKeys_def reduceVRFRefs_def reduceImport_def zero_defs
      Reduce_not_idempotent)

lemma ReduceSpec_cross_map_collision:
  defines "s \<equiv> emptySpec\<lparr>
      FabricVRFs := [(''bcdafg_hjklmnpqr'', VRF.extend zeroVRF (FabricVRF.fields 1 [] [] None))],
      LocalVRFs := [(''bcdefg_hjklmnpqr'', zeroVRF)]\<rparr>"
  shows "snd (ReduceSpec s) = None \<and>
    gm_keys (FabricVRFs (fst (ReduceSpec s))) = [''bcdfg_hjklmnpqr''] \<and>
    gm_keys (LocalVRFs (fst (ReduceSpec s))) = [''bcdfg_hjklmnpqr'']"
proof -
  have "Reduce ''bcdafg_hjklmnpqr'' = ''bcdfg_hjklmnpqr''" "Reduce ''bcdefg_hjklmnpqr'' = ''bcdfg_hjklmnpqr''"
    by code_simp+
  then show ?thesis
    by (simp add: s_def ReduceSpec_def reduceKeys_def MaxLen_def zero_defs VRF.defs FabricVRF.defs Let_def)
qed

end
