(* ===== verification/Go_Net.thy ===== *)
theory Go_Net
  imports Go_Sha256 "HOL-Library.Sublist"
begin

text \<open>
  The part of Go's \<open>net\<close> and \<open>net/netip\<close> packages that the operator computes with. A
  \<open>net.IP\<close> is its byte slice, so that the 4-byte and the 16-byte form of an IPv4 address are
  different values, as they are in Go; the nil slice is \<open>[]\<close>. Parsing and printing follow the
  standard library. The number an address stands for is \<open>be_nat\<close>; the lemmas say what masks,
  containment and increments do to it.
\<close>

type_synonym net_IP = "byte list"

record IPNet =
  net_IP :: "byte list"
  net_Mask :: "byte list"

definition v4InV6Prefix :: "byte list" where
  "v4InV6Prefix = replicate 10 0 @ [0xff, 0xff]"

definition To4 :: "net_IP \<Rightarrow> net_IP option" where
  "To4 ip = (if length ip = 4 then Some ip
     else if length ip = 16 \<and> take 12 ip = v4InV6Prefix then Some (drop 12 ip) else None)"

definition To16 :: "net_IP \<Rightarrow> net_IP option" where
  "To16 ip = (if length ip = 4 then Some (v4InV6Prefix @ ip)
     else if length ip = 16 then Some ip else None)"

definition IPEqual :: "net_IP \<Rightarrow> net_IP \<Rightarrow> bool" where
  "IPEqual ip x \<longleftrightarrow>
     (if length ip = length x then ip = x
      else if length ip = 4 \<and> length x = 16 then take 12 x = v4InV6Prefix \<and> ip = drop 12 x
      else if length ip = 16 \<and> length x = 4 then take 12 ip = v4InV6Prefix \<and> drop 12 ip = x
      else False)"

text \<open>\<open>CIDRMask(ones, bits)\<close> with \<open>l = bits / 8\<close> bytes.\<close>

fun cidrMask :: "nat \<Rightarrow> nat \<Rightarrow> byte list" where
  "cidrMask n 0 = []"
| "cidrMask n (Suc l) = (if 8 \<le> n then 0xff # cidrMask (n - 8) l
     else NOT (drop_bit n 0xff) # cidrMask 0 l)"

definition andBytes :: "byte list \<Rightarrow> byte list \<Rightarrow> byte list" where
  "andBytes a b = map2 (AND) a b"

text \<open>\<open>IP.Mask\<close>: a 16-byte mask on a 4-byte address and a 4-byte mask on a mapped address are
  brought to the same length first; \<open>[]\<close> is the nil result.\<close>

definition IPMask :: "net_IP \<Rightarrow> byte list \<Rightarrow> net_IP" where
  "IPMask ip m =
     (let m = (if length m = 16 \<and> length ip = 4 \<and> take 12 m = replicate 12 0xff then drop 12 m else m);
          ip = (if length m = 4 \<and> length ip = 16 \<and> take 12 ip = v4InV6Prefix then drop 12 ip else ip)
      in if length ip \<noteq> length m then [] else andBytes ip m)"

definition networkNumberAndMask :: "IPNet \<Rightarrow> (net_IP \<times> byte list) option" where
  "networkNumberAndMask n =
     (case (case To4 (net_IP n) of Some ip \<Rightarrow> Some ip
            | None \<Rightarrow> if length (net_IP n) = 16 then Some (net_IP n) else None) of
        None \<Rightarrow> None
      | Some ip \<Rightarrow>
        if length (net_Mask n) = 4 then (if length ip = 4 then Some (ip, net_Mask n) else None)
        else if length (net_Mask n) = 16 then
          Some (ip, if length ip = 4 then drop 12 (net_Mask n) else net_Mask n)
        else None)"

definition Contains :: "IPNet \<Rightarrow> net_IP \<Rightarrow> bool" where
  "Contains n ip =
     (let ip = (case To4 ip of Some x \<Rightarrow> x | None \<Rightarrow> ip) in
      case networkNumberAndMask n of
        None \<Rightarrow> length ip = 0
      | Some (nn, m) \<Rightarrow> length ip = length nn \<and> andBytes nn m = andBytes ip m)"

text \<open>\<open>Mask.Size\<close>: the number of leading ones of a canonical mask, -1 (here \<open>None\<close>) otherwise.\<close>

definition simpleMaskLength :: "byte list \<Rightarrow> nat option" where
  "simpleMaskLength m = find (\<lambda>n. cidrMask n (length m) = m) [0..<Suc (8 * length m)]"

definition MaskSize :: "byte list \<Rightarrow> nat \<times> nat" where
  "MaskSize m = (case simpleMaskLength m of Some n \<Rightarrow> (n, 8 * length m) | None \<Rightarrow> (0, 0))"

section \<open>Parsing\<close>

fun splitOn :: "char \<Rightarrow> string \<Rightarrow> string list" where
  "splitOn d [] = [[]]"
| "splitOn d (c # s) = (if c = d then [] # splitOn d s
     else case splitOn d s of f # fs \<Rightarrow> (c # f) # fs | [] \<Rightarrow> [[c]])"

definition isDigit :: "char \<Rightarrow> bool" where
  "isDigit c \<longleftrightarrow> digit_val c \<noteq> None"

definition hexVal :: "char \<Rightarrow> nat option" where
  "hexVal c = (let n = (of_char c :: nat) in
     if 48 \<le> n \<and> n \<le> 57 then Some (n - 48)
     else if 97 \<le> n \<and> n \<le> 102 then Some (n - 87)
     else if 65 \<le> n \<and> n \<le> 70 then Some (n - 55) else None)"

definition parseOctet :: "string \<Rightarrow> byte option" where
  "parseOctet s =
     (if s \<noteq> [] \<and> list_all isDigit s \<and> (length s > 1 \<longrightarrow> hd s \<noteq> CHR ''0'') \<and> dec_val 0 s \<le> 255
      then Some (word_of_nat (dec_val 0 s)) else None)"

definition parseIPv4 :: "string \<Rightarrow> byte list option" where
  "parseIPv4 s = (let fs = map parseOctet (splitOn CHR ''.'' s) in
     if length fs = 4 \<and> list_all (\<lambda>f. f \<noteq> None) fs then Some (map the fs) else None)"

text \<open>
  The group loop of \<open>parseIPv6\<close>: at most \<open>k\<close> further 16-bit groups, \<open>ip\<close> the bytes so far, the
  position of the ellipsis if one was seen. The result is the bytes, the ellipsis and the rest of
  the string that was not consumed.
\<close>

fun parseGroups ::
  "nat \<Rightarrow> string \<Rightarrow> byte list \<Rightarrow> nat option \<Rightarrow> (byte list \<times> nat option \<times> string) option" where
  "parseGroups 0 s ip ell = Some (ip, ell, s)"
| "parseGroups (Suc k) s ip ell =
     (let ds = takeWhile (\<lambda>c. hexVal c \<noteq> None) s; rest = drop (length ds) s;
          acc = foldl (\<lambda>a c. 16 * a + the (hexVal c)) 0 ds in
      if length ds = 0 \<or> length ds > 4 then None
      else if rest \<noteq> [] \<and> hd rest = CHR ''.'' then
        (if ell = None \<and> length ip \<noteq> 12 \<or> length ip + 4 > 16 then None
         else map_option (\<lambda>v4. (ip @ v4, ell, [])) (parseIPv4 s))
      else
        let ip = ip @ [word_of_nat (acc div 256), word_of_nat (acc mod 256)] in
        (case rest of
           [] \<Rightarrow> Some (ip, ell, [])
         | c # rest \<Rightarrow>
           if c \<noteq> CHR '':'' \<or> rest = [] then None
           else if hd rest = CHR '':'' then
             (if ell \<noteq> None then None
              else if tl rest = [] then Some (ip, Some (length ip), [])
              else parseGroups k (tl rest) ip (Some (length ip)))
           else parseGroups k rest ip ell))"

definition parseIPv6 :: "string \<Rightarrow> byte list option" where
  "parseIPv6 s =
     (let lead = take 2 s = ''::''; t = (if lead then drop 2 s else s) in
      if lead \<and> t = [] then Some (replicate 16 0)
      else case parseGroups 8 t [] (if lead then Some 0 else None) of
        None \<Rightarrow> None
      | Some (ip, ell, rest) \<Rightarrow>
        if rest \<noteq> [] then None
        else if length ip < 16 then
          (case ell of None \<Rightarrow> None
           | Some e \<Rightarrow> Some (take e ip @ replicate (16 - length ip) 0 @ drop e ip))
        else if ell \<noteq> None then None else Some ip)"

text \<open>\<open>netip.ParseAddr\<close> without zones: an address with a zone is refused by every caller here.\<close>

definition ParseAddr :: "string \<Rightarrow> byte list option" where
  "ParseAddr s =
     (if CHR ''%'' \<in> set s then None
      else case find (\<lambda>c. c = CHR ''.'' \<or> c = CHR '':'') s of
        None \<Rightarrow> None
      | Some c \<Rightarrow> if c = CHR ''.'' then parseIPv4 s else parseIPv6 s)"

definition As16 :: "byte list \<Rightarrow> net_IP" where
  "As16 a = (if length a = 4 then v4InV6Prefix @ a else a)"

definition ParseIP :: "string \<Rightarrow> net_IP option" where
  "ParseIP s = map_option As16 (ParseAddr s)"

definition cutSlash :: "string \<Rightarrow> (string \<times> string) option" where
  "cutSlash s = (if CHR ''/'' \<in> set s
     then Some (takeWhile ((\<noteq>) CHR ''/'') s, tl (dropWhile ((\<noteq>) CHR ''/'') s)) else None)"

definition dtoi :: "string \<Rightarrow> nat option" where
  "dtoi s = (if s \<noteq> [] \<and> list_all isDigit s \<and> dec_val 0 s < 0xFFFFFF then Some (dec_val 0 s) else None)"

definition ParseCIDR :: "string \<Rightarrow> (net_IP \<times> IPNet) option" where
  "ParseCIDR s =
     (case cutSlash s of None \<Rightarrow> None
      | Some (addr, bits) \<Rightarrow>
        (case (ParseAddr addr, dtoi bits) of
           (Some a, Some n) \<Rightarrow>
             if n > 8 * length a then None
             else let m = cidrMask n (length a)
               in Some (As16 a, \<lparr>net_IP = IPMask (As16 a) m, net_Mask = m\<rparr>)
         | _ \<Rightarrow> None))"

section \<open>Printing\<close>

fun joinWith :: "string \<Rightarrow> string list \<Rightarrow> string" where
  "joinWith sep [] = []"
| "joinWith sep [x] = x"
| "joinWith sep (x # y # ys) = x @ sep @ joinWith sep (y # ys)"

definition showIPv4 :: "byte list \<Rightarrow> string" where
  "showIPv4 ip = joinWith ''.'' (map (\<lambda>b. utoa (unat b)) ip)"

fun hexa :: "nat \<Rightarrow> string" where
  "hexa n = (if n < 16 then [hex_char n] else hexa (n div 16) @ [hex_char (n mod 16)])"

declare hexa.simps [simp del]

definition v6u16 :: "byte list \<Rightarrow> nat \<Rightarrow> nat" where
  "v6u16 ip i = 256 * unat (ip ! (2 * i)) + unat (ip ! (2 * i + 1))"

definition zeroRun :: "byte list \<Rightarrow> nat \<Rightarrow> nat" where
  "zeroRun ip i = length (takeWhile (\<lambda>j. v6u16 ip j = 0) [i..<8])"

text \<open>The first longest run of at least two zero groups, as (start, length).\<close>

definition bestRun :: "byte list \<Rightarrow> (nat \<times> nat) option" where
  "bestRun ip = foldl (\<lambda>best i. let l = zeroRun ip i in
      if 2 \<le> l \<and> (case best of None \<Rightarrow> True | Some (_, l') \<Rightarrow> l' < l) then Some (i, l) else best)
     None [0..<8]"

definition showIPv6 :: "byte list \<Rightarrow> string" where
  "showIPv6 ip =
     (let g = (\<lambda>is. joinWith '':'' (map (\<lambda>i. hexa (v6u16 ip i)) is)) in
      case bestRun ip of
        None \<Rightarrow> g [0..<8]
      | Some (z, l) \<Rightarrow> g [0..<z] @ ''::'' @ g [z + l..<8])"

definition IPString :: "net_IP \<Rightarrow> string" where
  "IPString ip =
     (if length ip = 0 then ''<nil>''
      else if length ip \<noteq> 4 \<and> length ip \<noteq> 16 then CHR ''?'' # hexEncode ip
      else case To4 ip of Some p4 \<Rightarrow> showIPv4 p4 | None \<Rightarrow> showIPv6 ip)"

definition IPNetString :: "IPNet \<Rightarrow> string" where
  "IPNetString n =
     (case networkNumberAndMask n of None \<Rightarrow> ''<nil>''
      | Some (nn, m) \<Rightarrow> IPString nn @ ''/'' @
          (case simpleMaskLength m of Some l \<Rightarrow> utoa l | None \<Rightarrow> hexEncode m))"

text \<open>\<open>binary.BigEndian\<close>: the number a byte slice stands for, and the slice of a number.\<close>

fun be_nat :: "byte list \<Rightarrow> nat" where
  "be_nat [] = 0"
| "be_nat (b # bs) = unat b * 256 ^ length bs + be_nat bs"

fun be_bytes :: "nat \<Rightarrow> nat \<Rightarrow> byte list" where
  "be_bytes 0 v = []"
| "be_bytes (Suc l) v = word_of_nat (v div 256 ^ l) # be_bytes l v"

section \<open>Addresses as numbers\<close>

lemma byte_less [simp]: "unat (b :: byte) < 256"
  using unsigned_less [of b, where ?'a = nat] by simp

lemma be_nat_less [simp]: "be_nat bs < 256 ^ length bs"
proof (induction bs)
  case (Cons b bs)
  have "unat b * 256 ^ length bs + be_nat bs < (unat b + 1) * 256 ^ length bs"
    using Cons by simp
  also have "\<dots> \<le> 256 * 256 ^ length bs"
    using byte_less [of b] by (intro mult_right_mono) (simp_all del: byte_less)
  finally show ?case by simp
qed simp

lemma be_nat_inject: "length a = length b \<Longrightarrow> be_nat a = be_nat b \<longleftrightarrow> a = b"
proof (induction a b rule: list_induct2)
  case (Cons x a y b)
  show ?case
  proof
    assume eq: "be_nat (x # a) = be_nat (y # b)"
    have "be_nat (x # a) div 256 ^ length a = unat x" "be_nat (y # b) div 256 ^ length a = unat y"
      using be_nat_less [of a] be_nat_less [of b] Cons.hyps by (simp_all del: be_nat_less)
    with eq have "unat x = unat y" by simp
    then have "x = y" by (rule unsigned_word_eqI)
    with eq Cons show "x # a = y # b" by simp
  qed simp
qed simp

lemma length_be_bytes [simp]: "length (be_bytes l v) = l"
  by (induction l) simp_all

lemma unat_byte_of_nat: "unat (word_of_nat v :: byte) = v mod 256"
  by (simp add: unat_of_nat)

lemma be_nat_be_bytes: "be_nat (be_bytes l v) = v mod 256 ^ l"
proof (induction l)
  case (Suc l)
  have "v div 256 ^ l mod 256 * 256 ^ l + v mod 256 ^ l = v mod 256 ^ Suc l"
    using mod_mult2_eq [of v "256 ^ l" 256] by (simp add: mult.commute)
  with Suc show ?case by (simp add: unat_byte_of_nat)
qed simp

lemma be_bytes_be_nat [simp]: "be_bytes (length bs) (be_nat bs) = bs"
  by (subst be_nat_inject [symmetric]) (simp_all add: be_nat_be_bytes)

section \<open>Masks\<close>

lemma length_cidrMask [simp]: "length (cidrMask n l) = l"
  by (induction n l rule: cidrMask.induct) simp_all

lemma length_andBytes [simp]: "length (andBytes a b) = min (length a) (length b)"
  by (simp add: andBytes_def)

lemma byte_mask:
  assumes "n < 8"
  shows "unat (b AND NOT (drop_bit n (0xff :: byte))) = unat b div 2 ^ (8 - n) * 2 ^ (8 - n)"
proof -
  have ff: "(0xff :: byte) = mask 8" by (simp add: mask_eq_exp_minus_1)
  have "b AND NOT (drop_bit n (0xff :: byte)) = push_bit (8 - n) (drop_bit (8 - n) b)"
    unfolding ff using assms by (intro bit_eqI) (auto simp: bit_simps)
  then have "unat (b AND NOT (drop_bit n (0xff :: byte))) =
      unat (push_bit (8 - n) (drop_bit (8 - n) b))"
    by (simp only:)
  also have "\<dots> = take_bit 8 (push_bit (8 - n) (drop_bit (8 - n) (unat b)))"
    unfolding unsigned_push_bit_eq unsigned_drop_bit_eq by (simp add: take_bit_nat_eq_self)
  also have "\<dots> = take_bit 8 (unat b div 2 ^ (8 - n) * 2 ^ (8 - n))"
    by (simp add: push_bit_eq_mult drop_bit_eq_div)
  also have "\<dots> = unat b div 2 ^ (8 - n) * 2 ^ (8 - n)"
    using le_less_trans [OF div_times_less_eq_dividend [of "unat b" "2 ^ (8 - n)"] byte_less]
    by (intro take_bit_nat_eq_self) simp
  finally show ?thesis .
qed

lemma div_mult_split:
  fixes r :: nat
  shows "(b * (d * e) + r) div d * d = b * (d * e) + r div d * d"
proof (cases "d = 0")
  case False
  have "(b * e * d + r) div d = b * e + r div d" using False by (rule div_mult_self3)
  then have "(b * (d * e) + r) div d = b * e + r div d" by (simp only: ac_simps)
  then show ?thesis by (simp add: distrib_right)
qed simp

lemma be_nat_mask:
  "length a = l \<Longrightarrow> n \<le> 8 * l \<Longrightarrow>
   be_nat (andBytes a (cidrMask n l)) = be_nat a div 2 ^ (8 * l - n) * 2 ^ (8 * l - n)"
proof (induction n l arbitrary: a rule: cidrMask.induct)
  case (2 n l)
  then obtain b r where a: "a = b # r" "length r = l" by (cases a) auto
  have r: "be_nat r < 2 ^ (8 * l)"
    using be_nat_less [of r] by (simp add: a power_mult)
  show ?case
  proof (cases "8 \<le> n")
    case True
    have "b AND 0xff = b"
      using take_bit_word_eq_self [of 8 b] by (simp add: take_bit_eq_mask mask_eq_exp_minus_1)
    define d where "d = (2::nat) ^ (8 * l - (n - 8))"
    define e where "e = (2::nat) ^ (n - 8)"
    have de: "(256::nat) ^ l = d * e"
      using True "2.prems" by (simp add: d_def e_def power_mult flip: power_add)
    have IH: "be_nat (andBytes r (cidrMask (n - 8) l)) = be_nat r div d * d"
      using True "2.prems" a "2.IH"(1) [of r] by (simp add: d_def)
    have "be_nat (andBytes a (cidrMask n (Suc l))) = unat b * (d * e) + be_nat r div d * d"
      using True a IH de \<open>b AND 0xff = b\<close> by (simp add: andBytes_def)
    also have "\<dots> = be_nat a div d * d"
      using be_nat_less [of r] a de by (simp add: div_mult_split)
    also have "d = 2 ^ (8 * Suc l - n)" using True by (simp add: d_def)
    finally show ?thesis .
  next
    case False
    have IH: "be_nat (andBytes r (cidrMask 0 l)) = 0"
      using False a "2.IH"(2) [of r] r by simp
    have exp: "8 * Suc l - n = (8 - n) + 8 * l" using False by simp
    have d: "(2::nat) ^ (8 * Suc l - n) = 2 ^ (8 - n) * 256 ^ l"
      by (simp only: exp power_add power_mult) simp
    have "be_nat (andBytes a (cidrMask n (Suc l))) = unat b div 2 ^ (8 - n) * 2 ^ (8 - n) * 256 ^ l"
      using False a IH byte_mask [of n b] by (simp add: andBytes_def)
    also have "unat b div 2 ^ (8 - n) = be_nat a div (256 ^ l * 2 ^ (8 - n))"
      using r a by (simp add: div_mult2_eq power_mult)
    finally show ?thesis unfolding d by (simp only: ac_simps)
  qed
qed (simp add: andBytes_def)

lemma mask_eq_iff:
  assumes "length a = l" and "length b = l" and "n \<le> 8 * l"
  shows "andBytes a (cidrMask n l) = andBytes b (cidrMask n l) \<longleftrightarrow>
    be_nat a div 2 ^ (8 * l - n) = be_nat b div 2 ^ (8 * l - n)"
  using assms by (subst be_nat_inject [symmetric]) (simp_all add: be_nat_mask)

section \<open>Parsed addresses have four or sixteen bytes\<close>

lemma length_parseIPv4: "parseIPv4 s = Some a \<Longrightarrow> length a = 4"
  by (auto simp: parseIPv4_def Let_def split: if_splits)

lemma length_parseGroups:
  "parseGroups k s ip ell = Some (a, e, r) \<Longrightarrow> length ip + 2 * k \<le> 16 \<Longrightarrow> length a \<le> 16"
proof (induction k arbitrary: s ip ell)
  case (Suc k)
  have step: "parseGroups k s' (ip @ [x, y]) ell' = Some (a, e, r) \<Longrightarrow> length a \<le> 16" for s' x y ell'
    using Suc.prems(2) by (intro Suc.IH) auto
  from Suc.prems show ?case
    by (auto simp: Let_def split: if_splits list.splits dest!: length_parseIPv4 dest: step)
qed simp

lemma length_ParseAddr: "ParseAddr s = Some a \<Longrightarrow> length a = 4 \<or> length a = 16"
proof -
  assume "ParseAddr s = Some a"
  then consider "parseIPv4 s = Some a" | "parseIPv6 s = Some a"
    by (auto simp: ParseAddr_def split: if_splits option.splits)
  then show ?thesis
  proof cases
    case 2
    have "parseGroups 8 t [] ell = Some (b, e, []) \<Longrightarrow> length b \<le> 16" for t ell b e
      by (drule length_parseGroups) simp_all
    with 2 show ?thesis
      by (fastforce simp: parseIPv6_def Let_def min_def split: if_splits option.splits)
  qed (simp add: length_parseIPv4)
qed

lemma length_As16: "ParseAddr s = Some a \<Longrightarrow> length (As16 a) = 16"
  by (drule length_ParseAddr) (auto simp: As16_def v4InV6Prefix_def)

lemma length_ParseIP: "ParseIP s = Some ip \<Longrightarrow> length ip = 16"
  by (auto simp: ParseIP_def length_As16)

end
