(* ===== verification/Ip_Math.thy ===== *)
theory Ip_Math
  imports Go_Net
begin

text \<open>
  \<open>pkg/reconciler/intent/ipmath/ipmath.go\<close>: the anycast gateway of a Network CIDR. A
  \<open>netip.Addr\<close> is its byte list (4 or 16 bytes; an IPv4-mapped IPv6 address stays 16 bytes
  long), the invalid \<open>netip.Addr{}\<close> is \<open>None\<close>, a \<open>netip.Prefix\<close> an address with a length.
\<close>

type_synonym netip_Addr = "byte list"
type_synonym netip_Prefix = "netip_Addr \<times> nat"

section \<open>The operations of \<open>net/netip\<close>\<close>

definition cutLastSlash :: "string \<Rightarrow> (string \<times> string) option" where
  "cutLastSlash s = map_option (\<lambda>(a, b). (rev b, rev a)) (cutSlash (rev s))"

definition prefixBits :: "string \<Rightarrow> nat option" where
  "prefixBits s = (if s \<noteq> [] \<and> list_all isDigit s \<and> (length s > 1 \<longrightarrow> hd s \<noteq> CHR ''0'')
     then Some (dec_val 0 s) else None)"

definition ParsePrefix :: "string \<Rightarrow> netip_Prefix option" where
  "ParsePrefix s =
     (case cutLastSlash s of None \<Rightarrow> None
      | Some (addr, bits) \<Rightarrow>
        (case ParseAddr addr of None \<Rightarrow> None
         | Some a \<Rightarrow> (case prefixBits bits of None \<Rightarrow> None
             | Some n \<Rightarrow> if n \<le> 8 * length a then Some (a, n) else None)))"

definition BitLen :: "netip_Addr \<Rightarrow> nat" where
  "BitLen a = 8 * length a"

definition Masked :: "netip_Prefix \<Rightarrow> netip_Prefix" where
  "Masked p = (andBytes (fst p) (cidrMask (snd p) (length (fst p))), snd p)"

definition PrefixContains :: "netip_Prefix \<Rightarrow> netip_Addr \<Rightarrow> bool" where
  "PrefixContains p a \<longleftrightarrow> length a = length (fst p) \<and>
     be_nat (fst p) div 2 ^ (BitLen a - snd p) = be_nat a div 2 ^ (BitLen a - snd p)"

definition AddrNext :: "netip_Addr \<Rightarrow> netip_Addr option" where
  "AddrNext a = (if be_nat a + 1 = 256 ^ length a then None
     else Some (be_bytes (length a) (be_nat a + 1)))"

definition Is4 :: "netip_Addr \<Rightarrow> bool" where
  "Is4 a \<longleftrightarrow> length a = 4"

definition AddrString :: "netip_Addr \<Rightarrow> string" where
  "AddrString a = (if length a = 4 then showIPv4 a
     else if take 12 a = v4InV6Prefix then ''::ffff:'' @ showIPv4 (drop 12 a) else showIPv6 a)"

section \<open>The gateway\<close>

datatype ipmath_error = InvalidCIDR string | NoUsableHost string | OnlyBroadcast string

definition broadcastPrefix :: "netip_Prefix \<Rightarrow> netip_Addr option" where
  "broadcastPrefix pfx =
     (let addr = fst (Masked pfx) in
      if \<not> Is4 addr then None
      else let hostBits = 32 - snd pfx in
        if hostBits = 0 then None
        else let v = (word_of_nat (be_nat addr) :: 32 word) OR (push_bit hostBits 1 - 1)
          in Some (be_bytes 4 (unat v)))"

definition GatewayAddr :: "string \<Rightarrow> (ipmath_error, netip_Addr \<times> nat) result" where
  "GatewayAddr cidr =
     (case ParsePrefix cidr of
        None \<Rightarrow> Inl (InvalidCIDR cidr)
      | Some pfx \<Rightarrow>
        let pfx = Masked pfx; network = fst pfx; bits = snd pfx; maxBits = BitLen network in
        if int bits = int maxBits - 1 then Inr (network, bits)
        else case AddrNext network of
            None \<Rightarrow> Inl (NoUsableHost cidr)
          | Some gw \<Rightarrow>
            if \<not> PrefixContains pfx gw then Inl (NoUsableHost cidr)
            else if broadcastPrefix pfx = Some gw then Inl (OnlyBroadcast cidr)
            else Inr (gw, bits))"

definition GatewayCIDR :: "string \<Rightarrow> (ipmath_error, string) result" where
  "GatewayCIDR cidr = ebind (GatewayAddr cidr) (\<lambda>(gw, bits). Inr (AddrString gw @ ''/'' @ utoa bits))"

definition ParseCIDRParts :: "string \<Rightarrow> string \<times> string" where
  "ParseCIDRParts cidr = (case GatewayAddr cidr of
       Inl _ \<Rightarrow> ([], [])
     | Inr (gw, bits) \<Rightarrow> (AddrString gw, utoa bits))"

section \<open>Correctness\<close>

lemma fst_Masked [simp]: "length (fst (Masked p)) = length (fst p)"
  by (simp add: Masked_def)

lemma snd_Masked [simp]: "snd (Masked p) = snd p"
  by (simp add: Masked_def)

lemma ParsePrefix_bits: "ParsePrefix s = Some (a, n) \<Longrightarrow> n \<le> 8 * length a"
  by (auto simp: ParsePrefix_def split: option.splits if_splits)

lemma be_nat_Masked:
  "n \<le> 8 * length a \<Longrightarrow>
   be_nat (fst (Masked (a, n))) = be_nat a div 2 ^ (8 * length a - n) * 2 ^ (8 * length a - n)"
  by (simp add: Masked_def be_nat_mask)

lemma two_pow_bytes: "n \<le> 8 * l \<Longrightarrow> (256::nat) ^ l = 2 ^ n * 2 ^ (8 * l - n)"
  by (simp add: power_mult flip: power_add)

text \<open>With at least two host bits the network address plus one neither overflows nor leaves the
  prefix.\<close>

lemma masked_plus:
  fixes v :: nat
  assumes "v < 2 ^ n * 2 ^ h" and "k < 2 ^ h"
  shows "v div 2 ^ h * 2 ^ h + k < 2 ^ n * 2 ^ h"
    and "(v div 2 ^ h * 2 ^ h + k) div 2 ^ h = v div 2 ^ h"
proof -
  have "v div 2 ^ h < 2 ^ n" using assms(1) by (simp add: less_mult_imp_div_less)
  then have "(v div 2 ^ h + 1) * 2 ^ h \<le> 2 ^ n * 2 ^ h" by (intro mult_right_mono) auto
  with assms(2) show "v div 2 ^ h * 2 ^ h + k < 2 ^ n * 2 ^ h" by simp
  show "(v div 2 ^ h * 2 ^ h + k) div 2 ^ h = v div 2 ^ h" using assms(2) by simp
qed

lemma or_mask_nat: "v OR mask h = v div 2 ^ h * 2 ^ h + (2 ^ h - 1)" for v :: nat
proof -
  have "v OR mask h = push_bit h (drop_bit h v) OR mask h"
    by (rule bit_eqI) (auto simp: bit_simps)
  also have "\<dots> = push_bit h (drop_bit h v) + mask h"
    by (rule disjunctive_add [symmetric]) (auto simp: bit_simps)
  finally show ?thesis by (simp add: push_bit_eq_mult drop_bit_eq_div mask_eq_exp_minus_1)
qed

lemma or_mask_word:
  fixes v :: "'a::len word"
  assumes "h \<le> LENGTH('a)"
  shows "unat (v OR (push_bit h 1 - 1)) = unat v div 2 ^ h * 2 ^ h + (2 ^ h - 1)"
proof -
  have "v OR (push_bit h 1 - 1) = v OR mask h" by (simp add: mask_eq_exp_minus_1)
  moreover have "unat (v OR mask h) = unat v OR mask h"
    using assms by (intro bit_eqI) (auto simp: bit_simps dest: bit_imp_le_length)
  ultimately show ?thesis by (simp only: or_mask_nat)
qed

lemma broadcast_value:
  assumes "length a = 4" and "n < 32"
  shows "\<exists>b. broadcastPrefix (a, n) = Some b \<and> length b = 4 \<and>
    be_nat b = be_nat a div 2 ^ (32 - n) * 2 ^ (32 - n) + (2 ^ (32 - n) - 1)"
proof -
  let ?h = "32 - n"
  let ?v = "be_nat (fst (Masked (a, n)))"
  have v: "?v = be_nat a div 2 ^ ?h * 2 ^ ?h" using assms by (simp add: be_nat_Masked)
  have lt: "be_nat a < 2 ^ n * 2 ^ ?h"
    using assms be_nat_less [of a] by (simp flip: power_add)
  have "?v < 2 ^ 32"
    using masked_plus(1) [OF lt, of 0] v assms by (simp flip: power_add)
  then have u: "unat (word_of_nat ?v :: 32 word) = ?v" by (simp add: unat_of_nat)
  have "unat ((word_of_nat ?v :: 32 word) OR (push_bit ?h 1 - 1)) = ?v + (2 ^ ?h - 1)"
    using or_mask_word [of ?h "word_of_nat ?v :: 32 word", simplified u] v by simp
  moreover have "?v + (2 ^ ?h - 1) < 2 ^ n * 2 ^ ?h"
    using masked_plus(1) [OF lt, of "2 ^ ?h - 1"] unfolding v by simp
  moreover have "(2::nat) ^ n * 2 ^ ?h = 256 ^ 4" using assms by (simp flip: power_add)
  ultimately show ?thesis
    using assms v by (simp add: broadcastPrefix_def Is4_def be_nat_be_bytes Let_def del: push_bit_of_1)
qed

lemma ParsePrefix_length: "ParsePrefix s = Some (a, n) \<Longrightarrow> length a = 4 \<or> length a = 16"
  by (auto simp: ParsePrefix_def split: option.splits if_splits dest: length_ParseAddr)

lemma AddrNext_Some:
  "be_nat a + 1 < 256 ^ length a \<Longrightarrow> \<exists>b. AddrNext a = Some b \<and> length b = length a \<and> be_nat b = be_nat a + 1"
  by (simp add: AddrNext_def be_nat_be_bytes)

lemma AddrNext_SomeD: "AddrNext a = Some b \<Longrightarrow> length b = length a \<and> be_nat b = be_nat a + 1"
  using be_nat_less [of a]
  by (auto simp: AddrNext_def be_nat_be_bytes simp del: be_nat_less split: if_splits)

lemma PrefixContains_Masked:
  "n \<le> 8 * length a \<Longrightarrow> PrefixContains (Masked (a, n)) b \<longleftrightarrow> PrefixContains (a, n) b"
  by (auto simp: PrefixContains_def be_nat_Masked BitLen_def)

lemma broadcast_Masked: "broadcastPrefix (Masked (a, n)) = broadcastPrefix (a, n)"
proof -
  have "Masked (Masked (a, n)) = Masked (a, n)"
    by (simp add: Masked_def andBytes_def map2_map_map zip_map1 zip_map2 o_def split_def and.assoc)
       (simp add: list_eq_iff_nth_eq and.assoc)
  then show ?thesis by (simp only: broadcastPrefix_def snd_Masked)
qed

text \<open>C13. The anycast gateway is the first host of the prefix. For a prefix with at least two host
  bits \<open>GatewayAddr\<close> returns the network address plus one, an address of the prefix that is neither
  its network address nor, for IPv4, its broadcast address; on a point-to-point prefix it returns
  the network address; a single-host prefix and an unparsable string are errors. The stray host
  bits of the authored address never change the result.\<close>

theorem GatewayAddr_correct:
  "case ParsePrefix cidr of
     None \<Rightarrow> GatewayAddr cidr = Inl (InvalidCIDR cidr)
   | Some (a, n) \<Rightarrow>
     (let h = BitLen a - n; network = be_nat a div 2 ^ h * 2 ^ h in
      case GatewayAddr cidr of
        Inl e \<Rightarrow> h = 0 \<and> e = NoUsableHost cidr
      | Inr (gw, bits) \<Rightarrow> 0 < h \<and> bits = n \<and> length gw = length a \<and> PrefixContains (a, n) gw \<and>
          be_nat gw = (if h = 1 then network else network + 1) \<and>
          broadcastPrefix (a, n) \<noteq> Some gw)"
proof (cases "ParsePrefix cidr")
  case (Some p)
  obtain a n where p: "p = (a, n)" by force
  define h where "h = 8 * length a - n"
  have n: "n \<le> 8 * length a" and l: "length a = 4 \<or> length a = 16"
    using Some p ParsePrefix_bits ParsePrefix_length by auto
  define m where "m = fst (Masked (a, n))"
  have m: "length m = length a" "be_nat m = be_nat a div 2 ^ h * 2 ^ h"
    "Masked (a, n) = (m, n)"
    using n be_nat_Masked [OF n] by (simp_all add: m_def h_def) (simp add: Masked_def)
  have lt: "be_nat a < 2 ^ n * 2 ^ h" using be_nat_less [of a] two_pow_bytes [OF n] by (simp add: h_def)
  note pc = PrefixContains_Masked [OF n, unfolded m] and bc = broadcast_Masked [of a n, unfolded m]
  have G: "GatewayAddr cidr =
      (if h = 1 then Inr (m, n)
       else case AddrNext m of None \<Rightarrow> Inl (NoUsableHost cidr)
        | Some gw \<Rightarrow> if \<not> PrefixContains (a, n) gw then Inl (NoUsableHost cidr)
            else if broadcastPrefix (a, n) = Some gw then Inl (OnlyBroadcast cidr) else Inr (gw, n))"
    using n l by (auto simp: GatewayAddr_def Some p m Let_def BitLen_def h_def pc bc split: option.split)
  have bcast: "be_nat b = be_nat m + (2 ^ h - 1)" if "broadcastPrefix (a, n) = Some b" "0 < h" for b
  proof -
    from that(1) have "length a = 4"
      by (auto simp: broadcastPrefix_def Let_def Is4_def split: if_splits)
    with that broadcast_value [of a n] m show ?thesis by (auto simp: h_def)
  qed
  consider "h = 0" | "h = 1" | "h \<ge> 2" by linarith
  then show ?thesis
  proof cases
    case 1
    then have "PrefixContains (a, n) b \<longleftrightarrow> length b = length a \<and> be_nat b = be_nat m" for b
      using m by (auto simp: PrefixContains_def BitLen_def h_def)
    with 1 show ?thesis
      by (auto simp: Some p G BitLen_def h_def dest: AddrNext_SomeD split: option.split)
  next
    case 2
    then have "PrefixContains (a, n) m" using m by (simp add: PrefixContains_def BitLen_def h_def)
    moreover have "broadcastPrefix (a, n) \<noteq> Some m" using bcast 2 m by fastforce
    moreover have "n < 8 * length a" using 2 by (simp add: h_def)
    ultimately show ?thesis using 2 m by (simp add: Some p G BitLen_def h_def [symmetric] Let_def)
  next
    case 3
    have k: "1 < (2::nat) ^ h" using 3 by (intro one_less_power) auto
    obtain gw where gw: "AddrNext m = Some gw" "length gw = length a" "be_nat gw = be_nat m + 1"
      using AddrNext_Some [of m] masked_plus(1) [OF lt k] m two_pow_bytes [OF n] by (auto simp: h_def)
    have "PrefixContains (a, n) gw"
      using gw m masked_plus(2) [OF lt k] by (simp add: PrefixContains_def BitLen_def h_def)
    moreover have "broadcastPrefix (a, n) \<noteq> Some gw"
    proof
      assume "broadcastPrefix (a, n) = Some gw"
      with bcast gw 3 have "(2::nat) ^ h = 2" by fastforce
      moreover have "(2::nat) ^ 2 \<le> 2 ^ h" using 3 by (intro power_increasing) auto
      ultimately show False by simp
    qed
    moreover have "n < 8 * length a" using 3 by (simp add: h_def)
    ultimately show ?thesis using 3 gw m by (simp add: Some p G BitLen_def h_def [symmetric] Let_def)
  qed
qed (simp add: GatewayAddr_def)

end
