(* ===== verification/Kube_Types.thy ===== *)
theory Kube_Types
  imports Prelude
begin

text \<open>
  The Kubernetes types the resources of both API groups are built on, with the fields the
  operator reads: object metadata, status conditions, label selectors, typed references, nodes.
\<close>

record Condition =
  cond_Type :: string
  cond_Status :: string
  cond_Reason :: string
  cond_Message :: string
  cond_ObservedGeneration :: int
  cond_LastTransitionTime :: int

record LabelSelectorRequirement =
  lsr_Key :: string
  lsr_Operator :: string
  lsr_Values :: "string list"

record LabelSelector =
  ls_MatchLabels :: "(string, string) gomap"
  ls_MatchExpressions :: "LabelSelectorRequirement list"

record ObjectMeta =
  om_Name :: string
  om_Namespace :: string
  om_UID :: string
  om_Labels :: "(string, string) gomap"
  om_Annotations :: "(string, string) gomap"
  om_Generation :: int
  om_CreationTimestamp :: int
  om_DeletionTimestamp :: "int option"
  om_Finalizers :: "string list"

record TypedObjectReference =
  tor_APIGroup :: "string option"
  tor_Kind :: string
  tor_Name :: string
  tor_Namespace :: "string option"

text \<open>
  A node: its metadata, its status conditions, each a type and a status, and its addresses, each
  a type and an address.
\<close>

record Node = ObjectMeta +
  node_Conditions :: "(string \<times> string) list"
  node_Addresses :: "(string \<times> string) list"

end
