(* ===== verification/Connector_Types.thy ===== *)
theory Connector_Types
  imports Kube_Types
begin

text \<open>
  The intent resources of \<open>api/v1alpha1/network-connector\<close>, a record per Go struct. The embedded
  \<open>metav1.ObjectMeta\<close> is the record every resource extends, with the fields the operator
  reads. Optional (pointer) fields are options, enumerated strings are strings, as they are in the
  source; \<open>int32\<close> and \<open>int64\<close> fields are integers, since the operator never computes with them
  beyond comparisons and printing.
\<close>

section \<open>Shared types\<close>

record IPNetwork =
  ipn_CIDR :: string
  ipn_PrefixLength :: "int option"

record NextHopConfig =
  nhc_IPv4 :: "string option"
  nhc_IPv6 :: "string option"

record PortRange =
  prg_Start :: int
  prg_End :: int

record DestinationPort =
  dp_Protocol :: string
  dp_Port :: "int option"
  dp_PortRange :: "PortRange option"

record MirrorSource =
  ms_Kind :: string
  ms_Name :: string

record NcTrafficMatch =
  nctm_SrcPrefix :: "string option"
  nctm_DstPrefix :: "string option"
  nctm_Protocol :: "string option"
  nctm_SrcPort :: "int option"
  nctm_DstPort :: "int option"

record AddressAllocation =
  aa_IPv4 :: "string list"
  aa_IPv6 :: "string list"

record LoopbackConfig =
  lbc_Name :: string
  lbc_Subnet :: string

record MirrorVRFRef =
  mvr_Name :: string
  mvr_Loopback :: LoopbackConfig

section \<open>Networks, VRFs and destinations\<close>

record NetworkSpec =
  nws_IPv4 :: "IPNetwork option"
  nws_IPv6 :: "IPNetwork option"
  nws_VLAN :: "int option"
  nws_VNI :: "int option"

record NcStatus =
  ncs_ObservedGeneration :: int
  ncs_ReferenceCount :: int
  ncs_Conditions :: "Condition list"

record Network = ObjectMeta +
  nw_Spec :: NetworkSpec
  nw_Status :: NcStatus

record VRFSpec =
  vrfs_VRF :: string
  vrfs_VNI :: "int option"
  vrfs_RouteTarget :: "string option"

record VRFStatus = NcStatus +
  vrfst_References :: "string list"

record NcVRF = ObjectMeta +
  ncvrf_Spec :: VRFSpec
  ncvrf_Status :: VRFStatus

record DestinationSpec =
  dsts_VRFRef :: "string option"
  dsts_Prefixes :: "string list"
  dsts_NextHop :: "NextHopConfig option"
  dsts_Ports :: "DestinationPort list"

record Destination = ObjectMeta +
  dst_Spec :: DestinationSpec
  dst_Status :: NcStatus

section \<open>Usage resources\<close>

record InboundSpec =
  inbs_NetworkRef :: string
  inbs_Destinations :: "LabelSelector option"
  inbs_Count :: "int option"
  inbs_Addresses :: "AddressAllocation option"
  inbs_PoolName :: "string option"
  inbs_TenantLoadBalancerClass :: "string option"
  inbs_AdvertisementType :: string

record InboundStatus =
  inbst_ObservedGeneration :: int
  inbst_Addresses :: "AddressAllocation option"
  inbst_PoolName :: "string option"
  inbst_VRFs :: "string list"
  inbst_Conditions :: "Condition list"

record Inbound = ObjectMeta +
  inb_Spec :: InboundSpec
  inb_Status :: InboundStatus

record OutboundSpec =
  outbs_NetworkRef :: string
  outbs_Destinations :: "LabelSelector option"
  outbs_Count :: "int option"
  outbs_Addresses :: "AddressAllocation option"
  outbs_Replicas :: "int option"

record OutboundStatus =
  outbst_ObservedGeneration :: int
  outbst_Addresses :: "AddressAllocation option"
  outbst_VRFs :: "string list"
  outbst_Conditions :: "Condition list"

record Outbound = ObjectMeta +
  outb_Spec :: OutboundSpec
  outb_Status :: OutboundStatus

record NodeIPConfig =
  nip_Enabled :: bool
  nip_ReservedRanges :: "string list"

record AnycastStatus =
  any_MAC :: string
  any_Gateways :: "string list"

record Layer2AttachmentSpec =
  l2as_NetworkRef :: string
  l2as_Destinations :: "LabelSelector option"
  l2as_NodeSelector :: "LabelSelector option"
  l2as_InterfaceRef :: "string option"
  l2as_InterfaceName :: "string option"
  l2as_MTU :: "int option"
  l2as_DisableAnycast :: "bool option"
  l2as_DisableNeighborSuppression :: "bool option"
  l2as_DisableSegmentation :: "bool option"
  l2as_SRIOV :: "bool option"
  l2as_NodeIPs :: "NodeIPConfig option"

record Layer2AttachmentStatus =
  l2ast_ObservedGeneration :: int
  l2ast_InterfaceName :: string
  l2ast_NetworkIPv4 :: string
  l2ast_NetworkIPv6 :: string
  l2ast_VRFs :: "string list"
  l2ast_SRIOVVlanID :: "int option"
  l2ast_Anycast :: "AnycastStatus option"
  l2ast_NodeAddresses :: "(string, AddressAllocation) gomap"
  l2ast_Conditions :: "Condition list"

record Layer2Attachment = ObjectMeta +
  l2a_Spec :: Layer2AttachmentSpec
  l2a_Status :: Layer2AttachmentStatus

record PodNetworkSpec =
  pns_NetworkRef :: string
  pns_Destinations :: "LabelSelector option"

record PodNetworkStatus =
  pnst_ObservedGeneration :: int
  pnst_NetworkIPv4 :: string
  pnst_NetworkIPv6 :: string
  pnst_VRFs :: "string list"
  pnst_IPPools :: "string list"
  pnst_Conditions :: "Condition list"

record PodNetwork = ObjectMeta +
  pn_Spec :: PodNetworkSpec
  pn_Status :: PodNetworkStatus

record BGPPeeringRef =
  bpr_AttachmentRef :: "string option"
  bpr_NetworkRefs :: "string list"
  bpr_InboundRefs :: "string list"

record BGPPeeringSpec =
  bps_Mode :: string
  bps_Ref :: BGPPeeringRef
  bps_AdvertiseTransferNetwork :: "bool option"
  bps_HoldTime :: "int option"
  bps_KeepaliveTime :: "int option"
  bps_MaximumPrefixes :: "int option"
  bps_WorkloadAS :: "int option"
  bps_AddressFamilies :: "string list"
  bps_EnableBFD :: "bool option"
  bps_BFDProfileMinInterval :: "int option"
  bps_AuthSecretRef :: "string option"
  bps_ExportCommunities :: "string list option"

record BGPPeeringStatus =
  bpst_ObservedGeneration :: int
  bpst_ASNumber :: "int option"
  bpst_NeighborIPs :: "string list"
  bpst_NeighborASNumber :: "int option"
  bpst_LocalIPs :: "string list"
  bpst_WorkloadASNumber :: "int option"
  bpst_VRFs :: "string list"
  bpst_Conditions :: "Condition list"

record NcBGPPeering = ObjectMeta +
  bp_Spec :: BGPPeeringSpec
  bp_Status :: BGPPeeringStatus

record CollectorSpec =
  cols_Address :: string
  cols_Protocol :: string
  cols_Key :: "int option"
  cols_MirrorVRF :: MirrorVRFRef

record CollectorStatus =
  colst_ObservedGeneration :: int
  colst_GREInterface :: "string option"
  colst_ReferenceCount :: int
  colst_ActiveNodes :: int
  colst_NodeAddresses :: "(string, string) gomap"
  colst_Conditions :: "Condition list"

record Collector = ObjectMeta +
  col_Spec :: CollectorSpec
  col_Status :: CollectorStatus

record TrafficMirrorSpec =
  tmis_Source :: MirrorSource
  tmis_Collector :: string
  tmis_Direction :: string
  tmis_TrafficMatch :: "NcTrafficMatch option"

record TrafficMirrorStatus =
  tmist_ObservedGeneration :: int
  tmist_ActiveNodes :: int
  tmist_Conditions :: "Condition list"

record TrafficMirror = ObjectMeta +
  tmi_Spec :: TrafficMirrorSpec
  tmi_Status :: TrafficMirrorStatus

record AggregateConfig =
  agg_Enabled :: "bool option"
  agg_Communities :: "string list"
  agg_PrefixLengthV4 :: "int option"
  agg_PrefixLengthV6 :: "int option"

record AnnouncementPolicySpec =
  aps_VRFRef :: string
  aps_Selector :: "LabelSelector option"
  aps_HostRoutesCommunities :: "string list option"
  aps_Aggregate :: "AggregateConfig option"

record AnnouncementPolicy = ObjectMeta +
  ap_Spec :: AnnouncementPolicySpec

record NodeAttachmentSpec =
  nas_VRFRef :: string
  nas_Destinations :: "LabelSelector option"
  nas_NodeSelector :: "LabelSelector option"

record NodeAttachmentStatus =
  nast_ObservedGeneration :: int
  nast_VRFs :: "string list"
  nast_Conditions :: "Condition list"

record NodeAttachment = ObjectMeta +
  na_Spec :: NodeAttachmentSpec
  na_Status :: NodeAttachmentStatus

end
