(* ===== verification/Kube_Client.thy ===== *)
theory Kube_Client
  imports Kube_Types
begin

text \<open>
  The Kubernetes API as the reconcilers see it. The client is not part of this repository, so it
  is a parameter: a \<open>ResClient\<close> per resource kind, whose operations act on a cluster state of an
  arbitrary type and may fail. What a theorem needs of it is the hypothesis \<open>serves\<close>: a resource
  kind is a list of objects with distinct names, listing and getting read it, and the writing
  calls change it as the API documents, and nothing else. \<open>store_client\<close> is an API server in
  memory, over a field of a state record; it satisfies \<open>serves\<close>.

  An operation that talks to the API is a function from the cluster state to a result and the
  state it leaves, also when it fails; \<open>io_bind\<close> chains them and stops at the first error.
\<close>

named_theorems io_simps \<open>the API monad\<close>
named_theorems keeps_intros \<open>operations that leave a part of the world alone\<close>

datatype ApiError = NotFound | AlreadyExists | ConflictErr | DeadlineExceeded | OtherError string

text \<open>
  An error of the reconcilers: the API's own, a new one, one wrapped by \<open>fmt.Errorf("...: %w")\<close>,
  several joined by \<open>errors.Join\<close>, or one that the intent builders tag with a condition reason.
  \<open>errorsIs\<close> looks through the wrapping, as \<open>errors.Is\<close> and the predicates of \<open>apierrors\<close> do.
\<close>

datatype GoError = ApiErr ApiError | ErrorString string | Wrap string GoError | Joined "GoError list"
  | SkipReasonError string GoError

fun errorsIs :: "ApiError \<Rightarrow> GoError \<Rightarrow> bool" where
  "errorsIs a (ApiErr b) = (a = b)"
| "errorsIs a (ErrorString _) = False"
| "errorsIs a (Wrap _ e) = errorsIs a e"
| "errorsIs a (Joined es) = list_ex (errorsIs a) es"
| "errorsIs a (SkipReasonError _ e) = errorsIs a e"

type_synonym ('s, 'e, 'a) io = "'s \<Rightarrow> ('e, 'a) result \<times> 's"

definition io_return :: "'a \<Rightarrow> ('s, 'e, 'a) io" where
  "io_return x = (\<lambda>s. (Inr x, s))"

definition io_throw :: "'e \<Rightarrow> ('s, 'e, 'a) io" where
  "io_throw e = (\<lambda>s. (Inl e, s))"

definition io_bind :: "('s, 'e, 'a) io \<Rightarrow> ('a \<Rightarrow> ('s, 'e, 'b) io) \<Rightarrow> ('s, 'e, 'b) io" where
  "io_bind m f = (\<lambda>s. case m s of (Inl e, s') \<Rightarrow> (Inl e, s') | (Inr x, s') \<Rightarrow> f x s')"

text \<open>Handle an error: the Go code looks at \<open>err\<close> and goes on.\<close>

definition io_catch :: "('s, 'e, 'a) io \<Rightarrow> ('e \<Rightarrow> ('s, 'f, 'b) io) \<Rightarrow> ('a \<Rightarrow> ('s, 'f, 'b) io) \<Rightarrow> ('s, 'f, 'b) io"
  where
  "io_catch m h f = (\<lambda>s. case m s of (Inl e, s') \<Rightarrow> h e s' | (Inr x, s') \<Rightarrow> f x s')"

definition io_lift :: "('e, 'a) result \<Rightarrow> ('s, 'e, 'a) io" where
  "io_lift r = (\<lambda>s. (r, s))"

text \<open>A client call that wraps the error of the API.\<close>

definition io_wrap :: "('e \<Rightarrow> 'f) \<Rightarrow> ('s, 'e, 'a) io \<Rightarrow> ('s, 'f, 'a) io" where
  "io_wrap w m = io_catch m (\<lambda>e. io_throw (w e)) io_return"

definition api :: "string \<Rightarrow> ('s, ApiError, 'a) io \<Rightarrow> ('s, GoError, 'a) io" where
  "api msg m = io_wrap (\<lambda>e. Wrap msg (ApiErr e)) m"

definition wrapErr :: "string \<Rightarrow> ('s, GoError, 'a) io \<Rightarrow> ('s, GoError, 'a) io" where
  "wrapErr msg m = io_wrap (Wrap msg) m"

fun io_map :: "('a \<Rightarrow> ('s, 'e, 'b) io) \<Rightarrow> 'a list \<Rightarrow> ('s, 'e, 'b list) io" where
  "io_map f [] = io_return []"
| "io_map f (x # xs) = io_bind (f x) (\<lambda>y. io_bind (io_map f xs) (\<lambda>ys. io_return (y # ys)))"

fun io_each :: "('a \<Rightarrow> ('s, 'e, unit) io) \<Rightarrow> 'a list \<Rightarrow> ('s, 'e, unit) io" where
  "io_each f [] = io_return ()"
| "io_each f (x # xs) = io_bind (f x) (\<lambda>_. io_each f xs)"

record ('s, 'o) ResClient =
  c_List :: "('s, ApiError, 'o list) io"
  c_Get :: "string \<Rightarrow> ('s, ApiError, 'o) io"
  c_Create :: "'o \<Rightarrow> ('s, ApiError, unit) io"
  c_Update :: "'o \<Rightarrow> ('s, ApiError, 'o) io"
  c_UpdateStatus :: "'o \<Rightarrow> ('s, ApiError, 'o) io"
  c_Delete :: "'o \<Rightarrow> ('s, ApiError, unit) io"

text \<open>
  The in-memory server. \<open>get\<close> and \<open>put\<close> select the kind's objects in the state, \<open>nm\<close> is an
  object's name, \<open>stamp s new\<close> what the server stores for a created object (it sets the creation
  timestamp), \<open>mergeSpec old new\<close> and \<open>mergeStatus old new\<close> what it stores for an update of the
  object and of its status subresource.
\<close>

definition replace_named :: "('o \<Rightarrow> string) \<Rightarrow> string \<Rightarrow> ('o \<Rightarrow> 'o) \<Rightarrow> 'o list \<Rightarrow> 'o list" where
  "replace_named nm n f = map (\<lambda>x. if nm x = n then f x else x)"

definition find_named :: "('o \<Rightarrow> string) \<Rightarrow> string \<Rightarrow> 'o list \<Rightarrow> 'o option" where
  "find_named nm n xs = find (\<lambda>x. nm x = n) xs"

definition store_update ::
  "('s \<Rightarrow> 'o list) \<Rightarrow> ('o list \<Rightarrow> 's \<Rightarrow> 's) \<Rightarrow> ('o \<Rightarrow> string) \<Rightarrow> ('o \<Rightarrow> 'o \<Rightarrow> 'o) \<Rightarrow> 'o \<Rightarrow> ('s, ApiError, 'o) io"
  where
  "store_update get put nm mrg x = (\<lambda>s. case find_named nm (nm x) (get s) of
       None \<Rightarrow> (Inl NotFound, s)
     | Some old \<Rightarrow> (Inr (mrg old x), put (replace_named nm (nm x) (\<lambda>_. mrg old x) (get s)) s))"

definition store_client ::
  "('s \<Rightarrow> 'o list) \<Rightarrow> ('o list \<Rightarrow> 's \<Rightarrow> 's) \<Rightarrow> ('o \<Rightarrow> string) \<Rightarrow> ('s \<Rightarrow> 'o \<Rightarrow> 'o) \<Rightarrow> ('o \<Rightarrow> 'o \<Rightarrow> 'o) \<Rightarrow>
   ('o \<Rightarrow> 'o \<Rightarrow> 'o) \<Rightarrow> ('s, 'o) ResClient" where
  "store_client get put nm stamp mergeSpec mergeStatus =
     \<lparr>c_List = (\<lambda>s. (Inr (get s), s)),
      c_Get = (\<lambda>n s. (case find_named nm n (get s) of None \<Rightarrow> Inl NotFound | Some x \<Rightarrow> Inr x, s)),
      c_Create = (\<lambda>x s. case find_named nm (nm x) (get s) of
          Some _ \<Rightarrow> (Inl AlreadyExists, s)
        | None \<Rightarrow> (Inr (), put (get s @ [stamp s x]) s)),
      c_Update = store_update get put nm mergeSpec,
      c_UpdateStatus = store_update get put nm mergeStatus,
      c_Delete = (\<lambda>x s. case find_named nm (nm x) (get s) of
          None \<Rightarrow> (Inl NotFound, s)
        | Some _ \<Rightarrow> (Inr (), put (filter (\<lambda>y. nm y \<noteq> nm x) (get s)) s))\<rparr>"

text \<open>
  What the API promises of a resource kind whose objects in a state are \<open>objs\<close>: the name
  identifies an object, a list may come in any order, and a write changes the object it names.
\<close>

definition serves :: "('s \<Rightarrow> 'o list) \<Rightarrow> ('o \<Rightarrow> string) \<Rightarrow> ('o \<Rightarrow> 'o \<Rightarrow> bool) \<Rightarrow> ('s, 'o) ResClient \<Rightarrow> bool" where
  "serves objs nm created c \<longleftrightarrow>
     (\<forall>s. \<exists>xs. mset xs = mset (objs s) \<and> c_List c s = (Inr xs, s)) \<and>
     (\<forall>n s. c_Get c n s = (case find_named nm n (objs s) of None \<Rightarrow> Inl NotFound | Some x \<Rightarrow> Inr x, s)) \<and>
     (\<forall>x s. nm x \<in> nm ` set (objs s) \<longrightarrow> c_Create c x s = (Inl AlreadyExists, s)) \<and>
     (\<forall>x s. nm x \<notin> nm ` set (objs s) \<longrightarrow>
        (\<exists>y s'. c_Create c x s = (Inr (), s') \<and> created x y \<and> objs s' = objs s @ [y])) \<and>
     (\<forall>x s. nm x \<notin> nm ` set (objs s) \<longrightarrow> c_Delete c x s = (Inl NotFound, s)) \<and>
     (\<forall>x s. nm x \<in> nm ` set (objs s) \<longrightarrow>
        (\<exists>s'. c_Delete c x s = (Inr (), s') \<and> objs s' = filter (\<lambda>y. nm y \<noteq> nm x) (objs s)))"

section \<open>The monad\<close>

lemma io_return_apply [io_simps]: "io_return x s = (Inr x, s)"
  by (simp add: io_return_def)

lemma io_throw_apply [io_simps]: "io_throw e s = (Inl e, s)"
  by (simp add: io_throw_def)

lemma io_lift_apply [io_simps]: "io_lift r s = (r, s)"
  by (simp add: io_lift_def)

lemma io_bind_Inr [io_simps]: "m s = (Inr x, s') \<Longrightarrow> io_bind m f s = f x s'"
  by (simp add: io_bind_def)

lemma io_bind_Inl [io_simps]: "m s = (Inl e, s') \<Longrightarrow> io_bind m f s = (Inl e, s')"
  by (simp add: io_bind_def)

lemma io_catch_Inr [io_simps]: "m s = (Inr x, s') \<Longrightarrow> io_catch m h f s = f x s'"
  by (simp add: io_catch_def)

lemma io_catch_Inl [io_simps]: "m s = (Inl e, s') \<Longrightarrow> io_catch m h f s = h e s'"
  by (simp add: io_catch_def)

lemma io_wrap_Inr [io_simps]: "m s = (Inr x, s') \<Longrightarrow> io_wrap w m s = (Inr x, s')"
  by (simp add: io_wrap_def io_simps)

lemma io_wrap_Inl [io_simps]: "m s = (Inl e, s') \<Longrightarrow> io_wrap w m s = (Inl (w e), s')"
  by (simp add: io_wrap_def io_simps)

lemma io_wrap_eq_Inr [simp]: "io_wrap w m s = (Inr x, s') \<longleftrightarrow> m s = (Inr x, s')"
  by (cases "m s"; cases "fst (m s)") (auto simp: io_simps)

lemmas api_simps = io_simps api_def wrapErr_def

lemma io_bind_InrE:
  assumes "io_bind m f s = (Inr y, s'')"
  obtains x s' where "m s = (Inr x, s')" "f x s' = (Inr y, s'')"
  using assms by (auto simp: io_bind_def split: prod.splits sum.splits)

lemma io_return_bind [simp]: "io_bind (io_return x) f = f x"
  by (rule ext) (simp add: io_bind_def io_return_def)

lemma io_bind_assoc: "io_bind (io_bind m f) g = io_bind m (\<lambda>x. io_bind (f x) g)"
  by (rule ext) (simp add: io_bind_def split: prod.splits sum.splits)

text \<open>An operation that leaves what \<open>obs\<close> sees of the world alone.\<close>

definition keeps :: "('s \<Rightarrow> 'a) \<Rightarrow> ('s, 'e, 'b) io \<Rightarrow> bool" where
  "keeps obs m \<longleftrightarrow> (\<forall>s. obs (snd (m s)) = obs s)"

lemma keepsD: "keeps obs m \<Longrightarrow> m s = (x, s') \<Longrightarrow> obs s' = obs s"
  by (metis keeps_def snd_conv)

lemma keeps_return [keeps_intros]: "keeps obs (io_return x)"
  by (simp add: keeps_def io_return_def)

lemma keeps_throw [keeps_intros]: "keeps obs (io_throw e)"
  by (simp add: keeps_def io_throw_def)

lemma keeps_catch [keeps_intros]:
  "keeps obs m \<Longrightarrow> (\<And>e. keeps obs (h e)) \<Longrightarrow> (\<And>x. keeps obs (f x)) \<Longrightarrow> keeps obs (io_catch m h f)"
  unfolding keeps_def io_catch_def by (metis (mono_tags, lifting) old.prod.case prod.collapse sum.case sum.exhaust_sel)

lemma keeps_wrap [keeps_intros]: "keeps obs m \<Longrightarrow> keeps obs (io_wrap w m)"
  unfolding io_wrap_def by (intro keeps_intros)

lemma keeps_wrapErr [keeps_intros]: "keeps obs m \<Longrightarrow> keeps obs (wrapErr msg m)"
  unfolding wrapErr_def by (rule keeps_wrap)

lemma keeps_api [keeps_intros]: "keeps obs m \<Longrightarrow> keeps obs (api msg m)"
  unfolding api_def by (rule keeps_wrap)

lemma keeps_bind [keeps_intros]: "keeps obs m \<Longrightarrow> (\<And>x. keeps obs (f x)) \<Longrightarrow> keeps obs (io_bind m f)"
  unfolding keeps_def io_bind_def by (metis (mono_tags, lifting) old.prod.case prod.collapse snd_conv sum.case sum.exhaust_sel)

section \<open>The in-memory server\<close>

lemma find_named_None: "find_named nm n xs = None \<longleftrightarrow> n \<notin> nm ` set xs"
  by (auto simp: find_named_def find_None_iff)

lemma find_named_Some: "find_named nm n xs = Some x \<Longrightarrow> x \<in> set xs \<and> nm x = n"
  by (auto simp: find_named_def find_Some_iff)

lemma find_named_name: "find_named nm n xs = Some x \<Longrightarrow> n \<in> nm ` set xs"
  using find_named_None [of nm n xs] by simp

lemma find_named_mem: "distinct (map nm xs) \<Longrightarrow> x \<in> set xs \<Longrightarrow> find_named nm (nm x) xs = Some x"
  by (induction xs) (auto simp: find_named_def rev_image_eqI)

lemma find_replace:
  assumes "nm y = n" and "n \<in> nm ` set xs"
  shows "find_named nm m (replace_named nm n (\<lambda>_. y) xs) = (if m = n then Some y else find_named nm m xs)"
  using assms(2)
proof (induction xs)
  case (Cons x xs)
  show ?case
  proof (cases "n \<in> nm ` set xs")
    case False
    then have "map (\<lambda>x. if nm x = n then y else x) xs = xs" by (intro map_idI) (auto simp: image_iff)
    with Cons.prems False assms(1) show ?thesis by (auto simp: find_named_def replace_named_def)
  qed (use Cons.IH assms(1) in \<open>auto simp: find_named_def replace_named_def\<close>)
qed simp

lemma find_append_new:
  assumes "nm y = n" and "n \<notin> nm ` set xs"
  shows "find_named nm m (xs @ [y]) = (if m = n then Some y else find_named nm m xs)"
  using assms(2)
proof (induction xs)
  case (Cons x xs)
  then have "nm x \<noteq> n" "n \<notin> nm ` set xs" by auto
  with Cons.IH show ?case by (cases "nm x = m") (simp_all add: find_named_def)
qed (simp add: find_named_def assms(1) eq_commute)

lemma serves_store_client:
  assumes "\<And>xs s. get (put xs s) = xs" "\<And>x s. nm (stamp s x) = nm x" "\<And>x s. created x (stamp s x)"
  shows "serves get nm created (store_client get put nm stamp mergeSpec mergeStatus)"
  using assms unfolding serves_def
  by (auto simp: store_client_def find_named_None split: option.splits dest: find_named_name)

lemma names_replace_named:
  "(\<And>x. x \<in> set xs \<Longrightarrow> nm x = n \<Longrightarrow> nm (f x) = n) \<Longrightarrow> map nm (replace_named nm n f xs) = map nm xs"
  by (simp add: replace_named_def)

end
