(* ===== verification/Resolver.thy ===== *)
theory Resolver
  imports Ip_Math Connector_Types Kube_Client
begin

text \<open>
  \<open>pkg/reconciler/intent/resolver\<close>: the reference graph of the intent resources. \<open>ResolveAll\<close>
  turns the lists the reconciler fetched into maps from names to specifications; the methods of
  \<open>ResolvedData\<close> in \<open>status_derive.go\<close> read it for the status of the resources.

  \<open>metav1.LabelSelectorAsSelector\<close> is a parameter: for a selector, which may be nil, it gives an
  error or the set of label maps it matches. What its documentation says of nil, that it matches
  nothing, is \<open>nil_matches_nothing\<close>. A Go set, a map to empty structs that is only inserted into
  and then sorted, is the list of its elements.
\<close>

type_synonym labelSet = "(string, string) gomap"
type_synonym asSelector = "LabelSelector option \<Rightarrow> (GoError, labelSet \<Rightarrow> bool) result"

definition nil_matches_nothing :: "asSelector \<Rightarrow> bool" where
  "nil_matches_nothing asSel \<longleftrightarrow> asSel None = Inr (\<lambda>_. False)"

record FetchedResources =
  fr_Nodes :: "Node list"
  fr_VRFs :: "NcVRF list"
  fr_Networks :: "Network list"
  fr_Destinations :: "Destination list"
  fr_Layer2Attachments :: "Layer2Attachment list"
  fr_Inbounds :: "Inbound list"
  fr_Outbounds :: "Outbound list"
  fr_PodNetworks :: "PodNetwork list"
  fr_BGPPeerings :: "NcBGPPeering list"
  fr_Collectors :: "Collector list"
  fr_TrafficMirrors :: "TrafficMirror list"
  fr_AnnouncementPolicies :: "AnnouncementPolicy list"
  fr_NodeAttachments :: "NodeAttachment list"
  fr_BGPPasswords :: "(string, string) gomap"
  fr_AllNetworks :: "Network list"
  fr_AllVRFs :: "NcVRF list"
  fr_AllDestinations :: "Destination list"

record ResolvedVRF =
  rv_Name :: string
  rv_Spec :: VRFSpec

record ResolvedNetwork =
  rn_Name :: string
  rn_Spec :: NetworkSpec

record ResolvedDestination =
  rdst_Name :: string
  rdst_Spec :: DestinationSpec
  rdst_VRFSpec :: "VRFSpec option"

type_synonym networks = "(string, ResolvedNetwork) gomap"

record ResolvedData =
  d_Nodes :: "Node list"
  d_VRFs :: "(string, ResolvedVRF) gomap"
  d_Networks :: networks
  d_Destinations :: "(string, ResolvedDestination) gomap"
  d_RawDestinations :: "Destination list"
  d_Layer2Attachments :: "Layer2Attachment list"
  d_Inbounds :: "Inbound list"
  d_Outbounds :: "Outbound list"
  d_PodNetworks :: "PodNetwork list"
  d_BGPPeerings :: "NcBGPPeering list"
  d_Collectors :: "Collector list"
  d_TrafficMirrors :: "TrafficMirror list"
  d_AnnouncementPolicies :: "AnnouncementPolicy list"
  d_NodeAttachments :: "NodeAttachment list"
  d_BGPPasswords :: "(string, string) gomap"

section \<open>Resolving references\<close>

definition ResolveVRFs :: "NcVRF list \<Rightarrow> (string, ResolvedVRF) gomap" where
  "ResolveVRFs vrfs = fold (\<lambda>v. gm_put (om_Name v) \<lparr>rv_Name = om_Name v, rv_Spec = ncvrf_Spec v\<rparr>) vrfs []"

definition ResolveNetworks :: "Network list \<Rightarrow> networks" where
  "ResolveNetworks nws = fold (\<lambda>n. gm_put (om_Name n) \<lparr>rn_Name = om_Name n, rn_Spec = nw_Spec n\<rparr>) nws []"

definition resolveDestination ::
  "(string, ResolvedVRF) gomap \<Rightarrow> Destination \<Rightarrow> (string, ResolvedDestination) gomap \<Rightarrow>
   (string, ResolvedDestination) gomap" where
  "resolveDestination vrfs dest resolved =
     (let d = \<lparr>rdst_Name = om_Name dest, rdst_Spec = dst_Spec dest, rdst_VRFSpec = None\<rparr> in
      case dsts_VRFRef (dst_Spec dest) of
        None \<Rightarrow> gm_put (om_Name dest) d resolved
      | Some vrfName \<Rightarrow>
        (case gm_get vrfs vrfName of
           None \<Rightarrow> resolved
         | Some vrf \<Rightarrow> gm_put (om_Name dest) (d\<lparr>rdst_VRFSpec := Some (rv_Spec vrf)\<rparr>) resolved))"

definition ResolveDestinations ::
  "Destination list \<Rightarrow> (string, ResolvedVRF) gomap \<Rightarrow> (string, ResolvedDestination) gomap" where
  "ResolveDestinations destinations vrfs = fold (resolveDestination vrfs) destinations []"

definition ResolveAll :: "FetchedResources \<Rightarrow> ResolvedData" where
  "ResolveAll fetched =
     (let vrfs = ResolveVRFs (fr_VRFs fetched) in
      \<lparr>d_Nodes = fr_Nodes fetched, d_VRFs = vrfs, d_Networks = ResolveNetworks (fr_Networks fetched),
       d_Destinations = ResolveDestinations (fr_Destinations fetched) vrfs,
       d_RawDestinations = fr_Destinations fetched, d_Layer2Attachments = fr_Layer2Attachments fetched,
       d_Inbounds = fr_Inbounds fetched, d_Outbounds = fr_Outbounds fetched, d_PodNetworks = fr_PodNetworks fetched,
       d_BGPPeerings = fr_BGPPeerings fetched, d_Collectors = fr_Collectors fetched,
       d_TrafficMirrors = fr_TrafficMirrors fetched, d_AnnouncementPolicies = fr_AnnouncementPolicies fetched,
       d_NodeAttachments = fr_NodeAttachments fetched, d_BGPPasswords = fr_BGPPasswords fetched\<rparr>)"

section \<open>What the status reports\<close>

definition NetworkCIDRs :: "ResolvedData \<Rightarrow> string \<Rightarrow> string \<times> string" where
  "NetworkCIDRs d networkRef =
     (case gm_get (d_Networks d) networkRef of
        None \<Rightarrow> ('''', '''')
      | Some net \<Rightarrow> (case nws_IPv4 (rn_Spec net) of Some n \<Rightarrow> ipn_CIDR n | None \<Rightarrow> '''',
                     case nws_IPv6 (rn_Spec net) of Some n \<Rightarrow> ipn_CIDR n | None \<Rightarrow> ''''))"

definition sortedStringSet :: "string list \<Rightarrow> string list" where
  "sortedStringSet xs = sort (remdups xs)"

definition SelectorVRFRefs :: "asSelector \<Rightarrow> ResolvedData \<Rightarrow> LabelSelector option \<Rightarrow> string list" where
  "SelectorVRFRefs asSel d sel =
     (if sel = None then []
      else case asSel sel of
        Inl _ \<Rightarrow> []
      | Inr selector \<Rightarrow> sortedStringSet (List.map_filter
          (\<lambda>rd. if selector (om_Labels rd) then
             (case dsts_VRFRef (dst_Spec rd) of Some v \<Rightarrow> if v = '''' then None else Some v | None \<Rightarrow> None)
           else None) (d_RawDestinations d)))"

definition attachmentVRFRefs :: "asSelector \<Rightarrow> ResolvedData \<Rightarrow> string \<Rightarrow> string list" where
  "attachmentVRFRefs asSel d attachmentRef =
     (case find (\<lambda>l2a. om_Name l2a = attachmentRef) (d_Layer2Attachments d) of
        Some l2a \<Rightarrow> SelectorVRFRefs asSel d (l2as_Destinations (l2a_Spec l2a))
      | None \<Rightarrow> [])"

definition inboundVRFRefs :: "asSelector \<Rightarrow> ResolvedData \<Rightarrow> string \<Rightarrow> string list" where
  "inboundVRFRefs asSel d inboundRef =
     (case find (\<lambda>ib. om_Name ib = inboundRef) (d_Inbounds d) of
        Some ib \<Rightarrow> SelectorVRFRefs asSel d (inbs_Destinations (inb_Spec ib))
      | None \<Rightarrow> [])"

definition BGPPeeringVRFRefs :: "asSelector \<Rightarrow> ResolvedData \<Rightarrow> NcBGPPeering \<Rightarrow> string list" where
  "BGPPeeringVRFRefs asSel d bp =
     (let ref = bps_Ref (bp_Spec bp) in
      sortedStringSet
        ((case bpr_AttachmentRef ref of Some a \<Rightarrow> attachmentVRFRefs asSel d a | None \<Rightarrow> []) @
         concat (map (inboundVRFRefs asSel d) (bpr_InboundRefs ref))))"

definition BGPPeeringModeListenRange :: string where
  "BGPPeeringModeListenRange = ''listenRange''"

definition BGPPeeringModeLoopbackPeer :: string where
  "BGPPeeringModeLoopbackPeer = ''loopbackPeer''"

text \<open>The gateway of one family, as a bare address.\<close>

definition localIP :: "IPNetwork option \<Rightarrow> string list" where
  "localIP fam = (case fam of None \<Rightarrow> []
     | Some n \<Rightarrow> if ipn_CIDR n = '''' then [] else
         let ip = fst (ParseCIDRParts (ipn_CIDR n)) in if ip = '''' then [] else [ip])"

definition BGPPeeringLocalIPs :: "ResolvedData \<Rightarrow> NcBGPPeering \<Rightarrow> string list" where
  "BGPPeeringLocalIPs d bp =
     (if bps_Mode (bp_Spec bp) \<noteq> BGPPeeringModeListenRange then []
      else case bpr_AttachmentRef (bps_Ref (bp_Spec bp)) of
        None \<Rightarrow> []
      | Some a \<Rightarrow>
        (case find (\<lambda>l2a. om_Name l2a = a) (d_Layer2Attachments d) of
           None \<Rightarrow> []
         | Some l2a \<Rightarrow>
           (case gm_get (d_Networks d) (l2as_NetworkRef (l2a_Spec l2a)) of
              None \<Rightarrow> []
            | Some net \<Rightarrow> localIP (nws_IPv4 (rn_Spec net)) @ localIP (nws_IPv6 (rn_Spec net)))))"

text \<open>A nil selector matches every node here, unlike in \<open>LabelSelectorAsSelector\<close>.\<close>

definition matchNodeNames :: "asSelector \<Rightarrow> ResolvedData \<Rightarrow> LabelSelector option \<Rightarrow> string list" where
  "matchNodeNames asSel d selector =
     (case (if selector = None then Inr (\<lambda>_. True) else asSel selector) of
        Inl _ \<Rightarrow> []
      | Inr sel \<Rightarrow> map om_Name (filter (\<lambda>n. sel (om_Labels n)) (d_Nodes d)))"

definition BGPPeeringNodes :: "asSelector \<Rightarrow> ResolvedData \<Rightarrow> NcBGPPeering \<Rightarrow> string list" where
  "BGPPeeringNodes asSel d bp =
     (if bps_Mode (bp_Spec bp) = BGPPeeringModeListenRange then
        (case bpr_AttachmentRef (bps_Ref (bp_Spec bp)) of
           None \<Rightarrow> []
         | Some a \<Rightarrow>
           (case find (\<lambda>l2a. om_Name l2a = a) (d_Layer2Attachments d) of
              None \<Rightarrow> []
            | Some l2a \<Rightarrow> matchNodeNames asSel d (l2as_NodeSelector (l2a_Spec l2a))))
      else matchNodeNames asSel d None)"

end
