(* ===== verification/Addr_Cursor.thy ===== *)
theory Addr_Cursor
  imports Go_Net
begin

text \<open>
  What every address allocator of the operator relies on: a cursor that is advanced by an increment
  and checked against a network. The contract of the increment is the locale \<open>addr_cursor\<close>; both
  increments of the source, the byte loop of \<open>pkg/reconciler/operator\<close> and the word arithmetic of
  \<open>pkg/reconciler/intent/ipam\<close>, implement it. The lemmas are independent of which one is used: a
  cursor inside a network of positive prefix length either moves up by one or leaves the network,
  so every scan ends.
\<close>

text \<open>The number of an address in its 16-byte form: the two forms of an IPv4 address agree.\<close>

definition av :: "net_IP \<Rightarrow> nat" where
  "av ip = be_nat (As16 ip)"

definition ip_ok :: "net_IP \<Rightarrow> bool" where
  "ip_ok ip \<longleftrightarrow> length ip = 4 \<or> length ip = 16"

definition canon :: "net_IP \<Rightarrow> net_IP" where
  "canon ip = (case To4 ip of Some x \<Rightarrow> x | None \<Rightarrow> ip)"

text \<open>A network with a canonical mask of positive length.\<close>

definition net_proper :: "IPNet \<Rightarrow> bool" where
  "net_proper n \<longleftrightarrow> (case networkNumberAndMask n of None \<Rightarrow> False
     | Some (nn, m) \<Rightarrow> length m = length nn \<and>
         (case simpleMaskLength m of None \<Rightarrow> False | Some k \<Rightarrow> 0 < k))"

lemma be_nat_append: "be_nat (a @ b) = be_nat a * 256 ^ length b + be_nat b"
  by (induction a) (simp_all add: algebra_simps power_add)

lemma length_v4InV6Prefix [simp]: "length v4InV6Prefix = 12"
  by (simp add: v4InV6Prefix_def)

lemma be_nat_replicate_0 [simp]: "be_nat (replicate n 0) = 0"
  by (induction n) simp_all

lemma length_As16_ok [simp]: "ip_ok ip \<Longrightarrow> length (As16 ip) = 16"
  by (auto simp: ip_ok_def As16_def)

lemma length_canon: "ip_ok ip \<Longrightarrow> length (canon ip) = 4 \<or> length (canon ip) = 16"
  by (auto simp: ip_ok_def canon_def To4_def split: if_splits)

lemma As16_canon: "ip_ok ip \<Longrightarrow> As16 (canon ip) = As16 ip"
  by (auto simp: ip_ok_def canon_def To4_def As16_def) (metis append_take_drop_id)

lemma canon_As16: "ip_ok ip \<Longrightarrow> canon (As16 ip) = canon ip"
  by (auto simp: ip_ok_def canon_def To4_def As16_def)

lemma av_eq_iff: "ip_ok a \<Longrightarrow> ip_ok b \<Longrightarrow> av a = av b \<longleftrightarrow> canon a = canon b"
  by (metis As16_canon av_def be_nat_inject canon_As16 length_As16_ok)

lemma av_canon [simp]: "ip_ok a \<Longrightarrow> av (canon a) = av a"
  by (simp add: av_def As16_canon)

lemma av_less: "ip_ok a \<Longrightarrow> av a < 256 ^ 16"
  using be_nat_less [of "As16 a"] by (simp add: av_def del: be_nat_less)

lemma IPEqual_iff_av:
  assumes "ip_ok a" and "ip_ok b"
  shows "IPEqual a b \<longleftrightarrow> av a = av b"
  using assms unfolding av_eq_iff [OF assms]
  by (auto simp: ip_ok_def IPEqual_def canon_def To4_def) (metis append_take_drop_id)

lemma Contains_canon:
  "Contains n ip \<longleftrightarrow> (case networkNumberAndMask n of None \<Rightarrow> canon ip = []
     | Some (nn, m) \<Rightarrow> length (canon ip) = length nn \<and> andBytes nn m = andBytes (canon ip) m)"
  by (auto simp: Contains_def canon_def Let_def split: option.split)

lemma Contains_av: "ip_ok a \<Longrightarrow> ip_ok b \<Longrightarrow> av a = av b \<Longrightarrow> Contains n a \<longleftrightarrow> Contains n b"
  by (simp only: Contains_canon av_eq_iff)

lemma simpleMaskLength_Some: "simpleMaskLength m = Some k \<Longrightarrow> k \<le> 8 * length m \<and> cidrMask k (length m) = m"
  by (auto simp: simpleMaskLength_def find_Some_iff nth_append)

lemma Contains_proper:
  assumes "net_proper n"
  obtains nn k where "0 < k" and "k \<le> 8 * length nn"
    and "\<And>ip. Contains n ip \<longleftrightarrow> length (canon ip) = length nn \<and>
      be_nat (canon ip) div 2 ^ (8 * length nn - k) = be_nat nn div 2 ^ (8 * length nn - k)"
proof -
  from assms obtain nn m k where m: "networkNumberAndMask n = Some (nn, m)" "length m = length nn"
    "simpleMaskLength m = Some k" "0 < k"
    by (auto simp: net_proper_def split: option.splits)
  with simpleMaskLength_Some [OF m(3)] have n: "networkNumberAndMask n = Some (nn, cidrMask k (length nn))"
    and k: "0 < k" "k \<le> 8 * length nn" by simp_all
  show thesis
  proof (rule that [OF k])
    show "Contains n ip \<longleftrightarrow> length (canon ip) = length nn \<and>
      be_nat (canon ip) div 2 ^ (8 * length nn - k) = be_nat nn div 2 ^ (8 * length nn - k)" for ip
      using n k mask_eq_iff [of nn "length nn" "canon ip" k] by (auto simp: Contains_canon)
  qed
qed

lemma mapped_value:
  assumes "length x = 16" and "take 12 x = v4InV6Prefix"
  shows "0 < be_nat x" and "be_nat x + 1 < 256 ^ length x"
proof -
  have "be_nat x = be_nat v4InV6Prefix * 256 ^ 4 + be_nat (drop 12 x)"
    using be_nat_append [of "take 12 x" "drop 12 x"] assms by (simp del: append_take_drop_id)
      (metis append_take_drop_id)
  moreover have "be_nat v4InV6Prefix = 65535" by (simp add: v4InV6Prefix_def be_nat_append)
  ultimately have x: "be_nat x = 65535 * 256 ^ 4 + be_nat (drop 12 x)" by simp
  show "0 < be_nat x" unfolding x by simp
  have "be_nat (drop 12 x) < 256 ^ 4"
    using be_nat_less [of "drop 12 x"] assms(1) by (simp del: be_nat_less)
  moreover have "(65535::nat) * 256 ^ 4 + 256 ^ 4 < 256 ^ 16" by simp
  ultimately show "be_nat x + 1 < 256 ^ length x" unfolding x assms(1) by linarith
qed

text \<open>A proper network does not contain both the all-zeros and the all-ones address.\<close>

lemma no_wrap:
  assumes "net_proper n" and ok: "ip_ok a" and len: "length b = length a"
    and a: "be_nat a + 1 = 256 ^ length a" and b: "be_nat b = 0"
    and "Contains n a" and "Contains n b"
  shows False
proof -
  have can: "canon a = a" "canon b = b"
  proof -
    have "take 12 a \<noteq> v4InV6Prefix" if "length a = 16"
      using mapped_value(2) [OF that] a by (metis less_irrefl)
    moreover have "take 12 b \<noteq> v4InV6Prefix" if "length b = 16"
      using mapped_value(1) [OF that] b by (metis less_irrefl)
    ultimately show "canon a = a" "canon b = b"
      using len by (auto simp: canon_def To4_def)
  qed
  obtain nn k where k: "0 < k" "k \<le> 8 * length nn"
    and C: "\<And>ip. Contains n ip \<longleftrightarrow> length (canon ip) = length nn \<and>
      be_nat (canon ip) div 2 ^ (8 * length nn - k) = be_nat nn div 2 ^ (8 * length nn - k)"
    by (rule Contains_proper [OF assms(1)]) (rule that)
  note Ca = iffD1 [OF C \<open>Contains n a\<close>, unfolded can]
    and Cb = iffD1 [OF C \<open>Contains n b\<close>, unfolded can]
  have l: "length nn = length a" by (rule conjunct1 [OF Ca, symmetric])
  have "be_nat a div 2 ^ (8 * length a - k) = be_nat b div 2 ^ (8 * length a - k)"
    using trans [OF conjunct2 [OF Ca] conjunct2 [OF Cb, symmetric]] unfolding l .
  then have "be_nat a div 2 ^ (8 * length a - k) = 0" unfolding b by (simp only: div_0)
  then have "be_nat a < 2 ^ (8 * length a - k)" by (simp only: div_eq_0_iff) simp
  then have "be_nat a + 1 \<le> 2 ^ (8 * length a - k)" by linarith
  also have "\<dots> < 2 ^ (8 * length a)"
    using k l by (intro power_strict_increasing) simp_all
  also have "(2::nat) ^ (8 * length a) = 256 ^ length a" by (simp only: power_mult) simp
  finally show False unfolding a by (simp only: less_irrefl)
qed

section \<open>The contract of an increment\<close>

locale addr_cursor =
  fixes nxt :: "net_IP \<Rightarrow> net_IP"
  assumes nxt_length: "ip_ok ip \<Longrightarrow> length (nxt ip) = length ip"
    and nxt_value: "ip_ok ip \<Longrightarrow> be_nat (nxt ip) = (be_nat ip + 1) mod 256 ^ length ip"
begin

lemma nxt_ok [simp]: "ip_ok ip \<Longrightarrow> ip_ok (nxt ip)"
  by (simp add: ip_ok_def nxt_length [unfolded ip_ok_def])

lemma nxt_av:
  assumes "ip_ok c" and "be_nat c + 1 \<noteq> 256 ^ length c"
  shows "av (nxt c) = av c + 1"
proof -
  have "be_nat c + 1 < 256 ^ length c" using assms(2) be_nat_less [of c] by linarith
  then have v: "be_nat (nxt c) = be_nat c + 1" using assms(1) by (simp add: nxt_value)
  show ?thesis
    using assms(1) v nxt_length [OF assms(1)] by (auto simp: av_def As16_def be_nat_append ip_ok_def)
qed

lemma nxt_contained:
  assumes "net_proper n" and "ip_ok c" and "Contains n c" and "Contains n (nxt c)"
  shows "av (nxt c) = av c + 1"
proof (rule nxt_av [OF assms(2)])
  show "be_nat c + 1 \<noteq> 256 ^ length c"
  proof
    assume "be_nat c + 1 = 256 ^ length c"
    moreover from this have "be_nat (nxt c) = 0" using assms(2) by (simp add: nxt_value)
    ultimately show False using no_wrap [OF assms(1,2)] assms nxt_length by blast
  qed
qed

text \<open>Induction along a scan: the step may use the claim for the next cursor whenever the present one
  is inside the network.\<close>

lemma cursor_induct:
  assumes net: "net_proper n" and ok: "ip_ok c"
    and step: "\<And>c. ip_ok c \<Longrightarrow> (Contains n c \<Longrightarrow> P (nxt c)) \<Longrightarrow> P c"
  shows "P c"
proof -
  define top :: nat where "top = 256 ^ 16"
  have bound: "ip_ok c \<Longrightarrow> av c < top" for c unfolding top_def by (rule av_less)
  show ?thesis
    using ok
  proof (induction "top - av c" arbitrary: c rule: less_induct)
    case less
    show ?case
    proof (rule step [OF less.prems])
      assume c: "Contains n c"
      show "P (nxt c)"
      proof (cases "Contains n (nxt c)")
        case True
        then have "av (nxt c) = av c + 1" using net less.prems c by (intro nxt_contained)
        then show ?thesis using less.prems bound [OF less.prems] by (intro less.hyps) simp_all
      next
        case False
        show ?thesis by (rule step) (use less.prems False in auto)
      qed
    qed
  qed
qed

end

section \<open>Parsed networks\<close>

lemma IPMask_As16:
  assumes "ip_ok a"
  shows "IPMask (As16 a) (cidrMask k (length a)) = andBytes a (cidrMask k (length a))"
  using assms by (auto simp: ip_ok_def IPMask_def As16_def Let_def)

lemma ParseCIDR_net:
  assumes "ParseCIDR s = Some (ip, n)"
  obtains a k where "ip = As16 a" and "ip_ok a" and "k \<le> 8 * length a"
    and "net_Mask n = cidrMask k (length a)" and "net_IP n = andBytes a (cidrMask k (length a))"
proof -
  from assms obtain t bits where s: "cutSlash s = Some (t, bits)"
    by (auto simp: ParseCIDR_def split: option.splits)
  from assms obtain a k where a: "ParseAddr t = Some a" "dtoi bits = Some k"
    by (simp add: ParseCIDR_def s split: option.splits)
  from assms have k: "k \<le> 8 * length a"
    and r: "ip = As16 a" "n = \<lparr>net_IP = IPMask (As16 a) (cidrMask k (length a)), net_Mask = cidrMask k (length a)\<rparr>"
    by (auto simp: ParseCIDR_def s a Let_def split: if_splits)
  from a have "ip_ok a" by (simp add: ip_ok_def length_ParseAddr)
  with r k show thesis by (intro that) (simp_all add: IPMask_As16)
qed

lemma ip_ok_ParseCIDR: "ParseCIDR s = Some (ip, n) \<Longrightarrow> ip_ok ip \<and> ip_ok (net_IP n)"
  by (erule ParseCIDR_net) (auto simp: ip_ok_def As16_def)

end
