(* ===== verification/Go_Net_Round.thy ===== *)
theory Go_Net_Round
  imports Addr_Cursor
begin

text \<open>
  Parsing a printed address gives the address back, for both families: \<open>ParseIP\<close> after
  \<open>IP.String\<close> is the 16-byte form. The addresses the allocators write into resource status are
  read back this way on the next pass, and distinct addresses have distinct texts.
\<close>

section \<open>IPv4\<close>

lemma splitOn_nosep: "d \<notin> set s \<Longrightarrow> splitOn d s = [s]"
  by (induction s) auto

lemma splitOn_append: "d \<notin> set s \<Longrightarrow> splitOn d (s @ d # t) = s # splitOn d t"
  by (induction s) auto

lemma splitOn_join:
  "fs \<noteq> [] \<Longrightarrow> \<forall>f \<in> set fs. d \<notin> set f \<Longrightarrow> splitOn d (joinWith [d] fs) = fs"
  by (induction "[d]" fs rule: joinWith.induct) (simp_all add: splitOn_nosep splitOn_append)

lemma digit_not_dot [simp]: "CHR ''.'' \<notin> set (utoa n)" "CHR '':'' \<notin> set (utoa n)" "CHR ''%'' \<notin> set (utoa n)"
  using utoa_digits [of n] by (force simp: digit_val_def)+

lemma utoa_hd: "10 \<le> n \<Longrightarrow> hd (utoa n) \<noteq> CHR ''0''"
proof (induction n rule: utoa.induct)
  case (1 n)
  have "hd (utoa n) = hd (utoa (n div 10))" using 1(2) by (subst utoa.simps) simp
  moreover have "hd (utoa (n div 10)) \<noteq> CHR ''0''"
  proof (cases "10 \<le> n div 10")
    case False
    then have "utoa (n div 10) = [digit_char (n div 10)]" by (subst utoa.simps) simp
    moreover have "0 < n div 10" using 1(2) by auto
    ultimately show ?thesis using False by (auto simp: digit_char_def dest!: arg_cong [of _ _ "of_char :: char \<Rightarrow> nat"])
  qed (use 1 in auto)
  ultimately show ?case by simp
qed

lemma utoa_single: "1 < length (utoa n) \<Longrightarrow> 10 \<le> n"
  by (subst (asm) utoa.simps) (auto split: if_splits)

lemma parseOctet_utoa: "parseOctet (utoa (unat b)) = Some b"
proof -
  have "unat b \<le> 255" using byte_less [of b] by linarith
  then show ?thesis
    using utoa_digits [of "unat b"] utoa_hd [of "unat b"] utoa_single [of "unat b"]
    by (auto simp: parseOctet_def isDigit_def list_all_iff dec_val_utoa)
qed

lemma parseIPv4_show: "length ip = 4 \<Longrightarrow> parseIPv4 (showIPv4 ip) = Some ip"
  by (cases ip) (simp_all add: parseIPv4_def showIPv4_def splitOn_join parseOctet_utoa list_all_iff comp_def)

lemma find_skip: "\<forall>x \<in> set s. \<not> P x \<Longrightarrow> find P (s @ t) = find P t"
  by (induction s) auto

lemma ParseAddr_showIPv4:
  assumes "length ip = 4"
  shows "ParseAddr (showIPv4 ip) = Some ip"
proof -
  obtain a b c d where ip: "ip = [a, b, c, d]"
    using assms by (auto simp: numeral_eq_Suc length_Suc_conv)
  have "CHR ''%'' \<notin> set (showIPv4 ip)" by (auto simp: ip showIPv4_def)
  moreover have "find (\<lambda>x. x = CHR ''.'' \<or> x = CHR '':'') (utoa n @ CHR ''.'' # t) = Some CHR ''.''" for n t
    by (subst find_skip) (metis digit_not_dot, simp)
  then have "find (\<lambda>x. x = CHR ''.'' \<or> x = CHR '':'') (showIPv4 ip) = Some CHR ''.''"
    by (simp add: ip showIPv4_def)
  ultimately show ?thesis using parseIPv4_show [OF assms] by (simp add: ParseAddr_def)
qed

section \<open>IPv6\<close>

lemma hexVal_hex_char: "d < 16 \<Longrightarrow> hexVal (hex_char d) = Some d"
  by (auto simp: hexVal_def hex_char_def Let_def)

lemma hexVal_sep [simp]: "hexVal CHR '':'' = None" "hexVal CHR ''.'' = None" "hexVal CHR ''%'' = None"
  by (simp_all add: hexVal_def)

lemma hexa_digits: "\<forall>c \<in> set (hexa n). hexVal c \<noteq> None"
proof (induction n rule: hexa.induct)
  case (1 n)
  show ?case
  proof (cases "n < 16")
    case True
    then show ?thesis by (subst hexa.simps) (simp add: hexVal_hex_char)
  next
    case False
    then show ?thesis using 1 by (subst hexa.simps) (simp add: hexVal_hex_char)
  qed
qed

lemma hexa_not_Nil [simp]: "hexa n \<noteq> []"
  by (subst hexa.simps) simp

lemma hexa_value: "foldl (\<lambda>a c. 16 * a + the (hexVal c)) 0 (hexa n) = n"
proof (induction n rule: hexa.induct)
  case (1 n)
  show ?case
  proof (cases "n < 16")
    case True
    then show ?thesis by (subst hexa.simps) (simp add: hexVal_hex_char)
  next
    case False
    then show ?thesis using 1 by (subst hexa.simps) (simp add: hexVal_hex_char)
  qed
qed

lemma hexa_length: "n < 16 ^ k \<Longrightarrow> 0 < k \<Longrightarrow> length (hexa n) \<le> k"
proof (induction k arbitrary: n)
  case (Suc k)
  show ?case
  proof (cases "n < 16")
    case True
    then show ?thesis by (subst hexa.simps) simp
  next
    case False
    then have "k \<noteq> 0" using Suc.prems by (cases k) auto
    moreover have "n div 16 < 16 ^ k" using Suc.prems by (simp add: less_mult_imp_div_less mult.commute)
    ultimately have "length (hexa (n div 16)) \<le> k" by (intro Suc.IH) auto
    with False show ?thesis by (subst hexa.simps) simp
  qed
qed simp

text \<open>The two bytes of a group.\<close>

definition gb :: "nat \<Rightarrow> byte list" where
  "gb n = [word_of_nat (n div 256), word_of_nat (n mod 256)]"

lemma takeWhile_hexa:
  "r = [] \<or> hd r = CHR '':'' \<Longrightarrow> takeWhile (\<lambda>c. hexVal c \<noteq> None) (hexa n @ r) = hexa n"
  using hexa_digits [of n] by (cases r) (auto simp: takeWhile_append)

lemma parseGroups_hexa:
  assumes "n < 65536" and "r = [] \<or> hd r = CHR '':''"
  shows "parseGroups (Suc k) (hexa n @ r) ip ell =
    (case r of [] \<Rightarrow> Some (ip @ gb n, ell, [])
     | c # t \<Rightarrow> if t = [] then None
        else if hd t = CHR '':'' then
          (if ell \<noteq> None then None
           else if tl t = [] then Some (ip @ gb n, Some (length ip + 2), [])
           else parseGroups k (tl t) (ip @ gb n) (Some (length ip + 2)))
        else parseGroups k t (ip @ gb n) ell)"
proof -
  have l: "length (hexa n) \<le> 4" using hexa_length [of n 4] assms(1) by simp
  show ?thesis
    unfolding parseGroups.simps takeWhile_hexa [OF assms(2)]
    using l assms(2) hexa_value [of n] by (cases r) (auto simp: gb_def Let_def)
qed

declare parseGroups.simps(2) [simp del]

lemma hexa_hd [simp]: "hd (hexa n) \<noteq> CHR '':''"
  using hexa_digits [of n] by (cases "hexa n") auto

abbreviation groups :: "nat list \<Rightarrow> string" where
  "groups gs \<equiv> joinWith '':'' (map hexa gs)"

lemma groups_Cons:
  "gs \<noteq> [] \<Longrightarrow> joinWith '':'' (hexa g # map hexa gs) = hexa g @ '':'' @ groups gs"
  by (cases gs) simp_all

lemma groups_hd: "gs \<noteq> [] \<Longrightarrow> groups gs @ t \<noteq> [] \<and> hd (groups gs @ t) \<noteq> CHR '':''"
  by (cases gs; cases "tl gs") (auto simp: groups_Cons)

lemma parseGroups_plain:
  "gs \<noteq> [] \<Longrightarrow> \<forall>g \<in> set gs. g < 65536 \<Longrightarrow> length gs \<le> k \<Longrightarrow>
   parseGroups k (groups gs) ip ell = Some (ip @ concat (map gb gs), ell, [])"
proof (induction gs arbitrary: k ip)
  case (Cons g gs)
  obtain k' where k: "k = Suc k'" using Cons.prems by (cases k) auto
  show ?case
  proof (cases "gs = []")
    case True
    then show ?thesis using parseGroups_hexa [of g "[]" k' ip ell] Cons.prems k by simp
  next
    case False
    then show ?thesis
      using parseGroups_hexa [of g "'':'' @ groups gs" k' ip ell] Cons.prems k groups_hd [OF False, of "[]"]
        Cons.IH [OF False, of k' "ip @ gb g"]
      by (auto simp: groups_Cons)
  qed
qed simp

lemma parseGroups_ellipsis:
  "gs \<noteq> [] \<Longrightarrow> \<forall>g \<in> set gs. g < 65536 \<Longrightarrow> length gs \<le> k \<Longrightarrow>
   parseGroups k (groups gs @ ''::'' @ t) ip None =
     (let ip' = ip @ concat (map gb gs) in
      if t = [] then Some (ip', Some (length ip'), [])
      else parseGroups (k - length gs) t ip' (Some (length ip')))"
proof (induction gs arbitrary: k ip)
  case (Cons g gs)
  obtain k' where k: "k = Suc k'" using Cons.prems by (cases k) auto
  show ?case
  proof (cases "gs = []")
    case True
    then show ?thesis
      using parseGroups_hexa [of g "''::'' @ t" k' ip None] Cons.prems k by (simp add: gb_def Let_def)
  next
    case False
    then show ?thesis
      using parseGroups_hexa [of g "'':'' @ groups gs @ ''::'' @ t" k' ip None] Cons.prems k
        groups_hd [OF False, of "''::'' @ t"] Cons.IH [OF False, of k' "ip @ gb g"]
      by (auto simp: groups_Cons Let_def)
  qed
qed simp

section \<open>The zero run and the round trip\<close>

lemma bestRun_Some:
  assumes "bestRun ip = Some (z, l)"
  shows "z + l \<le> 8" and "2 \<le> l" and "\<forall>j \<in> {z..<z + l}. v6u16 ip j = 0"
proof -
  define f where "f = (\<lambda>best i. let l = zeroRun ip i in
      if 2 \<le> l \<and> (case best of None \<Rightarrow> True | Some (_, l') \<Rightarrow> l' < l) then Some (i, l) else best)"
  have inv: "foldl f b is = Some (z, l) \<Longrightarrow> (b = Some (z, l) \<longrightarrow> l = zeroRun ip z \<and> 2 \<le> l) \<Longrightarrow>
      l = zeroRun ip z \<and> 2 \<le> l" for b "is"
    by (induction "is" arbitrary: b) (auto simp: f_def Let_def split: if_splits)
  have l: "l = zeroRun ip z" "2 \<le> l"
    using inv [OF assms [unfolded bestRun_def, folded f_def]] by simp_all
  have "length (takeWhile (\<lambda>j. v6u16 ip j = 0) [z..<8]) \<le> length [z..<8]"
    by (rule length_takeWhile_le)
  with l show "z + l \<le> 8" "2 \<le> l" by (auto simp: zeroRun_def)
  have "takeWhile (\<lambda>j. v6u16 ip j = 0) [z..<8] = take l [z..<8]"
    unfolding l(1) zeroRun_def by (rule takeWhile_eq_take)
  then have "takeWhile (\<lambda>j. v6u16 ip j = 0) [z..<8] = [z..<z + l]"
    using \<open>z + l \<le> 8\<close> by simp
  then have "{z..<z + l} = set (takeWhile (\<lambda>j. v6u16 ip j = 0) [z..<8])" by (simp only: atLeastLessThan_upt)
  then show "\<forall>j \<in> {z..<z + l}. v6u16 ip j = 0" by (auto dest: set_takeWhileD)
qed

lemma gb_v6u16: "gb (v6u16 ip i) = [ip ! (2 * i), ip ! (2 * i + 1)]"
  by (simp add: gb_def v6u16_def)

lemma v6u16_less: "v6u16 ip i < 65536"
proof -
  have "unat (ip ! (2 * i)) \<le> 255" "unat (ip ! (2 * i + 1)) \<le> 255"
    using byte_less [of "ip ! (2 * i)"] byte_less [of "ip ! (2 * i + 1)"] by linarith+
  then show ?thesis by (simp add: v6u16_def)
qed

lemma pairs_take:
  "2 * n \<le> length xs \<Longrightarrow> concat (map (\<lambda>i. [xs ! (2 * i), xs ! (2 * i + 1)]) [0..<n]) = take (2 * n) xs"
  by (induction n) (simp_all add: take_Suc_conv_app_nth)

lemma groups_all: "length ip = 16 \<Longrightarrow> concat (map (\<lambda>i. gb (v6u16 ip i)) [0..<8]) = ip"
  unfolding gb_v6u16 by (subst pairs_take) simp_all

lemma groups_zero:
  "\<forall>j \<in> set js. v6u16 ip j = 0 \<Longrightarrow> concat (map (\<lambda>i. gb (v6u16 ip i)) js) = replicate (2 * length js) 0"
  by (induction js) (simp_all add: gb_def)

abbreviation gbytes :: "byte list \<Rightarrow> nat list \<Rightarrow> byte list" where
  "gbytes ip js \<equiv> concat (map (\<lambda>i. gb (v6u16 ip i)) js)"

lemma length_gbytes [simp]: "length (gbytes ip js) = 2 * length js"
  by (induction js) (simp_all add: gb_def)

lemma gbytes_run:
  assumes "length ip = 16" and "z + l \<le> 8" and "\<forall>j \<in> {z..<z + l}. v6u16 ip j = 0"
  shows "gbytes ip [0..<z] @ replicate (2 * l) 0 @ gbytes ip [z + l..<8] = ip"
proof -
  have "[0..<8] = [0..<z] @ [z..<z + l] @ [z + l..<8]"
    using upt_add_eq_append [of 0 z l] upt_add_eq_append [of 0 "z + l" "8 - (z + l)"] assms(2) by simp
  then have "gbytes ip [0..<8] = gbytes ip [0..<z] @ gbytes ip [z..<z + l] @ gbytes ip [z + l..<8]"
    by (simp only: map_append concat_append)
  then show ?thesis using groups_all [OF assms(1)] groups_zero [of "[z..<z + l]" ip] assms(3) by simp
qed

lemma not_lead: "gs \<noteq> [] \<Longrightarrow> take 2 (groups gs @ t) \<noteq> ''::''"
  using groups_hd [of gs t] by (cases "groups gs @ t") (auto simp: numeral_2_eq_2)

lemma parseIPv6_show:
  assumes "length ip = 16"
  shows "parseIPv6 (showIPv6 ip) = Some ip"
proof (cases "bestRun ip")
  case None
  define gs where "gs = map (v6u16 ip) [0..<8]"
  have gs: "gs \<noteq> []" "\<forall>g \<in> set gs. g < 65536" "length gs = 8"
    by (auto simp: gs_def v6u16_less upt_rec)
  have s: "showIPv6 ip = groups gs" by (simp add: showIPv6_def None gs_def comp_def)
  have "concat (map gb gs) = ip" using groups_all [OF assms] by (simp add: gs_def comp_def)
  then show ?thesis
    using parseGroups_plain [OF gs(1,2), of 8 "[]" None] gs(3) not_lead [OF gs(1), of "[]"] assms
    by (simp add: parseIPv6_def s Let_def)
next
  case (Some zl)
  obtain z l where zl: "zl = (z, l)" by force
  note run = bestRun_Some [OF Some [unfolded zl]]
  define pre post where "pre = map (v6u16 ip) [0..<z]" and "post = map (v6u16 ip) [z + l..<8]"
  have b: "concat (map gb pre) = gbytes ip [0..<z]" "concat (map gb post) = gbytes ip [z + l..<8]"
    by (simp_all add: pre_def post_def comp_def)
  have small: "\<forall>g \<in> set pre. g < 65536" "\<forall>g \<in> set post. g < 65536"
    by (auto simp: pre_def post_def v6u16_less)
  have len: "length pre = z" "length post = 8 - (z + l)" by (simp_all add: pre_def post_def)
  have s: "showIPv6 ip = groups pre @ ''::'' @ groups post"
    by (simp add: showIPv6_def Some zl pre_def post_def comp_def Let_def)
  have ip: "gbytes ip [0..<z] @ replicate (2 * l) 0 @ gbytes ip [z + l..<8] = ip"
    by (rule gbytes_run [OF assms run(1,3)])
  have post: "groups post = [] \<longleftrightarrow> z + l = 8"
    using groups_hd [of post "[]"] len run(1) by (cases "post = []") auto
  have post_parse: "z + l < 8 \<Longrightarrow> 8 - (z + l) \<le> k \<Longrightarrow>
      parseGroups k (groups post) a e = Some (a @ gbytes ip [z + l..<8], e, [])" for k a e
    using parseGroups_plain [of post k a e] small len b by (cases "post = []") auto
  show ?thesis
  proof (cases "z = 0")
    case True
    then have "pre = []" by (simp add: pre_def)
    moreover have "16 - 2 * (8 - l) = 2 * l" using run(1) True by simp
    ultimately show ?thesis
      using post_parse [of 8 "[]" "Some 0"] True ip post run(1,2) s
      by (cases "l = 8") (auto simp: parseIPv6_def Let_def)
  next
    case False
    then have ne: "pre \<noteq> []" using len by auto
    have "16 - (2 * z + 2 * (8 - (z + l))) = 2 * l" "z + l = 8 \<Longrightarrow> 16 - 2 * z = 2 * l"
      using run(1) by linarith+
    then
    show ?thesis
      using parseGroups_ellipsis [OF ne small(1), of 8 "groups post" "[]"] len b post ip run(1,2) False
        post_parse [of "8 - z" "gbytes ip [0..<z]" "Some (2 * z)"] not_lead [OF ne, of "''::'' @ groups post"]
      by (cases "z + l = 8") (auto simp: parseIPv6_def s Let_def)
  qed
qed

lemma joinWith_set: "set (joinWith sep fs) \<subseteq> set sep \<union> (\<Union>f \<in> set fs. set f)"
  by (induction sep fs rule: joinWith.induct) auto

lemma showIPv6_chars: "c \<in> set (showIPv6 ip) \<Longrightarrow> hexVal c \<noteq> None \<or> c = CHR '':''"
proof -
  have "c \<in> set (groups gs) \<Longrightarrow> hexVal c \<noteq> None \<or> c = CHR '':''" for gs
    using joinWith_set [of "'':''" "map hexa gs"] hexa_digits by fastforce
  then have "c \<in> set (groups (map (v6u16 ip) js)) \<Longrightarrow> hexVal c \<noteq> None \<or> c = CHR '':''" for js by blast
  then show "c \<in> set (showIPv6 ip) \<Longrightarrow> hexVal c \<noteq> None \<or> c = CHR '':''"
    by (auto simp: showIPv6_def Let_def comp_def split: option.splits prod.splits)
qed

lemma showIPv6_colon: "CHR '':'' \<in> set (showIPv6 ip)"
proof (cases "bestRun ip")
  case None
  have "[0..<8] = 0 # 1 # [2..<8]" by (simp add: upt_rec)
  then show ?thesis by (simp add: showIPv6_def None)
qed (auto simp: showIPv6_def Let_def)

lemma find_colon: "CHR ''.'' \<notin> set s \<Longrightarrow> CHR '':'' \<in> set s \<Longrightarrow>
    find (\<lambda>x. x = CHR ''.'' \<or> x = CHR '':'') s = Some CHR '':''"
  by (induction s) auto

lemma ParseAddr_showIPv6: "length ip = 16 \<Longrightarrow> ParseAddr (showIPv6 ip) = Some ip"
proof -
  assume l: "length ip = 16"
  have "CHR ''%'' \<notin> set (showIPv6 ip)" "CHR ''.'' \<notin> set (showIPv6 ip)"
    using showIPv6_chars [of "CHR ''%''" ip] showIPv6_chars [of "CHR ''.''" ip] by auto
  then show ?thesis
    using parseIPv6_show [OF l] showIPv6_colon by (simp add: ParseAddr_def find_colon)
qed

theorem ParseIP_IPString: "ip_ok ip \<Longrightarrow> ParseIP (IPString ip) = Some (As16 ip)"
  by (auto simp: ip_ok_def IPString_def To4_def ParseIP_def ParseAddr_showIPv4 ParseAddr_showIPv6 As16_def)
    (metis append_take_drop_id)

lemma IPString_As16: "ip_ok ip \<Longrightarrow> IPString (As16 ip) = IPString ip"
  by (auto simp: ip_ok_def IPString_def To4_def As16_def)

lemma IPString_inject:
  assumes "ip_ok a" and "ip_ok b"
  shows "IPString a = IPString b \<longleftrightarrow> av a = av b"
proof
  assume "IPString a = IPString b"
  then have "As16 a = As16 b" using ParseIP_IPString assms by (metis option.inject)
  then show "av a = av b" by (simp add: av_def)
next
  assume "av a = av b"
  then have "As16 a = As16 b" using assms by (simp add: av_def be_nat_inject)
  then show "IPString a = IPString b" using IPString_As16 assms by metis
qed

end
