(* ===== verification/Ipam.thy ===== *)
theory Ipam
  imports Resolver Go_Net_Round "HOL-Library.Monad_Syntax" "HOL-Library.List_Lexorder" "HOL-Library.Char_ord"
begin

text \<open>
  \<open>pkg/reconciler/intent/ipam\<close>: the address allocator of the intent pipeline. The pools are the
  Go map from pool key to \<open>networkPool\<close>; a pool is mutated through its pointer, so every operation
  returns the pools with its result, errors included. The search for a usable address is a loop
  that need not end (a pool of prefix length 0 wraps around), so it is a partial function whose
  value is \<open>None\<close> when it does not return; the theorems prove that it returns for every other
  pool. The Kubernetes status writes are a parameter that answers each write with an error or not.
\<close>

section \<open>Address arithmetic\<close>

text \<open>The increment of \<open>ipam.nextAddr\<close>: the bytes are read as one 32-bit or two 64-bit words.\<close>

fun incBytes :: "byte list \<Rightarrow> byte list \<times> bool" where
  "incBytes [] = ([], True)"
| "incBytes (b # bs) = (let (bs', carry) = incBytes bs in
     if carry then ((b + 1) # bs', b + 1 = 0) else (b # bs', False))"

definition nextAddr :: "net_IP \<Rightarrow> net_IP" where
  "nextAddr ip =
     (if length ip = 4 then
        let val = (word_of_nat (be_nat ip) :: 32 word) + 1 in be_bytes 4 (unat val)
      else if length ip = 16 then
        let lo = (word_of_nat (be_nat (drop 8 ip)) :: 64 word) + 1;
            hi = (word_of_nat (be_nat (take 8 ip)) :: 64 word);
            hi = (if lo = 0 then hi + 1 else hi)
        in be_bytes 8 (unat hi) @ be_bytes 8 (unat lo)
      else fst (incBytes ip))"

definition broadcastAddr :: "IPNet \<Rightarrow> net_IP option" where
  "broadcastAddr ipNet =
     (case To4 (net_IP ipNet) of
        None \<Rightarrow> None
      | Some ip \<Rightarrow>
        let m = (if length (net_Mask ipNet) = 16 then drop 12 (net_Mask ipNet) else net_Mask ipNet);
            (ones, bits) = MaskSize (net_Mask ipNet)
        in if ones = bits then None else Some (map2 (\<lambda>b k. b OR NOT k) ip m))"

text \<open>\<open>compareIPs\<close> returns -1, 0 or 1; the bytes are compared from the front.\<close>

fun compareBytes :: "byte list \<Rightarrow> byte list \<Rightarrow> int" where
  "compareBytes (a # as) (b # bs) = (if a < b then -1 else if a > b then 1 else compareBytes as bs)"
| "compareBytes _ _ = 0"

definition compareIPs :: "net_IP \<Rightarrow> net_IP \<Rightarrow> int" where
  "compareIPs a b = (case (To16 a, To16 b) of (Some aN, Some bN) \<Rightarrow> compareBytes aN bN | _ \<Rightarrow> 0)"

section \<open>Pools\<close>

record networkPool =
  np_network :: IPNet
  np_nextIP :: net_IP
  np_broadcast :: "net_IP option"
  np_gateway :: "net_IP option"
  np_reserved :: "IPNet list"

type_synonym pools = "(string, networkPool) gomap"

datatype ipam_error =
    NetworkNotFound string
  | ParsingCIDR string
  | ExhaustedBroadcast string
  | Exhausted string
  | InvalidReservedRange string
  | AllocatingNodeIP string string ipam_error
  | UpdatingStatus string string
  | FamilyErrors "ipam_error list"

definition newPool :: "net_IP \<Rightarrow> IPNet \<Rightarrow> bool \<Rightarrow> networkPool" where
  "newPool ip ipNet l3 =
     (if l3 then \<lparr>np_network = ipNet, np_nextIP = net_IP ipNet, np_broadcast = None,
        np_gateway = None, np_reserved = []\<rparr>
      else \<lparr>np_network = ipNet, np_nextIP = nextAddr (net_IP ipNet),
        np_broadcast = broadcastAddr ipNet, np_gateway = Some ip, np_reserved = []\<rparr>)"

definition inReserved :: "IPNet list \<Rightarrow> net_IP \<Rightarrow> bool" where
  "inReserved reserved ip \<longleftrightarrow> list_ex (\<lambda>r. Contains r ip) reserved"

fun mergeLoop :: "string list \<Rightarrow> IPNet list \<Rightarrow> IPNet list \<Rightarrow> IPNet list" where
  "mergeLoop seen out [] = out"
| "mergeLoop seen out (r # rs) =
     (if IPNetString r \<in> set seen then mergeLoop seen out rs
      else mergeLoop (IPNetString r # seen) (out @ [r]) rs)"

definition mergeReserved :: "IPNet list \<Rightarrow> IPNet list \<Rightarrow> IPNet list" where
  "mergeReserved existing add =
     (if length add = 0 then existing else mergeLoop (map IPNetString existing) existing add)"

definition parseReservedRanges :: "string list \<Rightarrow> (ipam_error, IPNet list) result" where
  "parseReservedRanges ranges =
     emap (\<lambda>r. case ParseCIDR r of None \<Rightarrow> Inl (InvalidReservedRange r) | Some (_, n) \<Rightarrow> Inr n) ranges"

section \<open>Allocation\<close>

text \<open>The comparison with an address that may be nil.\<close>

definition ipHits :: "net_IP \<Rightarrow> net_IP option \<Rightarrow> bool" where
  "ipHits ip ptr \<longleftrightarrow> (case ptr of None \<Rightarrow> False | Some b \<Rightarrow> IPEqual ip b)"

text \<open>The inner loop of \<open>allocateFromCIDR\<close>: advance the cursor to a usable address.\<close>

partial_function (option) findUsable ::
  "string \<Rightarrow> networkPool \<Rightarrow> (ipam_error option \<times> networkPool) option" where
  [code]: "findUsable cidr pool =
     (if ipHits (np_nextIP pool) (np_broadcast pool)
      then Some (Some (ExhaustedBroadcast cidr), pool)
      else if \<not> Contains (np_network pool) (np_nextIP pool) then Some (Some (Exhausted cidr), pool)
      else if ipHits (np_nextIP pool) (np_gateway pool) \<or>
          inReserved (np_reserved pool) (np_nextIP pool)
      then findUsable cidr (pool\<lparr>np_nextIP := nextAddr (np_nextIP pool)\<rparr>)
      else Some (None, pool))"

fun allocLoop ::
  "nat \<Rightarrow> string \<Rightarrow> string list \<Rightarrow> networkPool \<Rightarrow> ((ipam_error, string list) result \<times> networkPool) option" where
  "allocLoop 0 cidr acc pool = Some (Inr acc, pool)"
| "allocLoop (Suc k) cidr acc pool =
     (case findUsable cidr pool of
        None \<Rightarrow> None
      | Some (Some e, pool) \<Rightarrow> Some (Inl e, pool)
      | Some (None, pool) \<Rightarrow>
          allocLoop k cidr (acc @ [IPString (np_nextIP pool)])
            (pool\<lparr>np_nextIP := nextAddr (np_nextIP pool)\<rparr>))"

definition allocateFromCIDR ::
  "string \<Rightarrow> string \<Rightarrow> nat \<Rightarrow> pools \<Rightarrow> bool \<Rightarrow> IPNet list \<Rightarrow> ((ipam_error, string list) result \<times> pools) option" where
  "allocateFromCIDR poolKey cidr cnt ps l3 reserved =
     (case (case gm_get ps poolKey of
              Some pool \<Rightarrow> Inr pool
            | None \<Rightarrow> (case ParseCIDR cidr of
                None \<Rightarrow> Inl (ParsingCIDR cidr)
              | Some (ip, ipNet) \<Rightarrow> Inr (newPool ip ipNet l3))) of
        Inl e \<Rightarrow> Some (Inl e, ps)
      | Inr pool \<Rightarrow>
        (case allocLoop cnt cidr []
            (pool\<lparr>np_reserved := mergeReserved (np_reserved pool) reserved\<rparr>) of
           None \<Rightarrow> None
         | Some (res, pool) \<Rightarrow> Some (res, gm_put poolKey pool ps)))"

text \<open>One address family of \<open>allocate\<close>; a network without the family allocates nothing.\<close>

definition allocFamily ::
  "string \<Rightarrow> IPNetwork option \<Rightarrow> nat \<Rightarrow> pools \<Rightarrow> bool \<Rightarrow> IPNet list \<Rightarrow> (string list \<times> ipam_error list \<times> pools) option" where
  "allocFamily key fam cnt ps l3 reserved =
     (case fam of
        None \<Rightarrow> Some ([], [], ps)
      | Some n \<Rightarrow>
        (case allocateFromCIDR key (ipn_CIDR n) cnt ps l3 reserved of
           None \<Rightarrow> None
         | Some (Inl e, ps) \<Rightarrow> Some ([], [e], ps)
         | Some (Inr ips, ps) \<Rightarrow> Some (ips, [], ps)))"

text \<open>The Go function returns a pair (allocation or nil, error or nil); here a missing network is the
  \<open>Inl\<close> case and an allocation comes with the errors of its families.\<close>

definition allocate_addrs ::
  "string \<Rightarrow> nat \<Rightarrow> networks \<Rightarrow> pools \<Rightarrow> bool \<Rightarrow> IPNet list \<Rightarrow>
   ((ipam_error, AddressAllocation \<times> ipam_error list) result \<times> pools) option" where
  "allocate_addrs networkRef cnt networks ps l3 reserved =
     (case gm_get networks networkRef of
        None \<Rightarrow> Some (Inl (NetworkNotFound networkRef), ps)
      | Some netObj \<Rightarrow>
        (case allocFamily (networkRef @ ''/v4'') (nws_IPv4 (rn_Spec netObj)) cnt ps l3 reserved of
           None \<Rightarrow> None
         | Some (v4, e4, ps) \<Rightarrow>
           (case allocFamily (networkRef @ ''/v6'') (nws_IPv6 (rn_Spec netObj)) cnt ps l3 reserved of
              None \<Rightarrow> None
            | Some (v6, e6, ps) \<Rightarrow> Some (Inr (\<lparr>aa_IPv4 = v4, aa_IPv6 = v6\<rparr>, e4 @ e6), ps))))"

section \<open>Seeding the pools\<close>

text \<open>\<open>seedPoolFromAddresses\<close> moves the cursor of a pool past every address already handed out.\<close>

definition advanceCursor :: "networkPool \<Rightarrow> string \<Rightarrow> networkPool" where
  "advanceCursor pool addrStr =
     (case ParseIP addrStr of
        None \<Rightarrow> pool
      | Some ip \<Rightarrow>
        let candidateNext = nextAddr ip in
        if compareIPs candidateNext (np_nextIP pool) > 0 then pool\<lparr>np_nextIP := candidateNext\<rparr> else pool)"

definition seedPoolFromAddresses ::
  "string \<Rightarrow> IPNetwork option \<Rightarrow> string list \<Rightarrow> pools \<Rightarrow> bool \<Rightarrow> pools" where
  "seedPoolFromAddresses poolKey ipFamily addresses ps l3 =
     (case ipFamily of
        None \<Rightarrow> ps
      | Some fam \<Rightarrow>
        if length addresses = 0 then ps
        else case (case gm_get ps poolKey of
                     Some pool \<Rightarrow> Some pool
                   | None \<Rightarrow> (case ParseCIDR (ipn_CIDR fam) of None \<Rightarrow> None
                       | Some (ip, ipNet) \<Rightarrow> Some (newPool ip ipNet l3))) of
            None \<Rightarrow> ps
          | Some pool \<Rightarrow> gm_put poolKey (foldl advanceCursor pool addresses) ps)"

definition collectAddresses ::
  "networks \<Rightarrow> string \<Rightarrow> AddressAllocation option \<Rightarrow> bool \<Rightarrow> pools \<Rightarrow> pools" where
  "collectAddresses networks networkRef addrs l3 ps =
     (case addrs of
        None \<Rightarrow> ps
      | Some a \<Rightarrow>
        (case gm_get networks networkRef of
           None \<Rightarrow> ps
         | Some netObj \<Rightarrow>
           seedPoolFromAddresses (networkRef @ ''/v6'') (nws_IPv6 (rn_Spec netObj)) (aa_IPv6 a)
             (seedPoolFromAddresses (networkRef @ ''/v4'') (nws_IPv4 (rn_Spec netObj)) (aa_IPv4 a) ps l3) l3))"

record IpamInput =
  ii_Inbounds :: "Inbound list"
  ii_Outbounds :: "Outbound list"
  ii_Layer2Attachments :: "Layer2Attachment list"
  ii_Nodes :: "Node list"

definition seedExistingAllocations :: "IpamInput \<Rightarrow> networks \<Rightarrow> pools \<Rightarrow> pools" where
  "seedExistingAllocations fetched networks ps =
     (let ps = fold (\<lambda>i. collectAddresses networks (inbs_NetworkRef (inb_Spec i)) (inbst_Addresses (inb_Status i)) True)
                 (ii_Inbounds fetched) ps;
          ps = fold (\<lambda>ob. collectAddresses networks (outbs_NetworkRef (outb_Spec ob)) (outbst_Addresses (outb_Status ob)) True)
                 (ii_Outbounds fetched) ps
      in fold (\<lambda>l. fold (\<lambda>(node, addrs). collectAddresses networks (l2as_NetworkRef (l2a_Spec l)) (Some addrs) False)
                 (l2ast_NodeAddresses (l2a_Status l)))
           (ii_Layer2Attachments fetched) ps)"

section \<open>The allocation pass\<close>

definition hasAddresses :: "AddressAllocation option \<Rightarrow> bool" where
  "hasAddresses a \<longleftrightarrow> (case a of None \<Rightarrow> False | Some a \<Rightarrow> length (aa_IPv4 a) + length (aa_IPv6 a) > 0)"

text \<open>A loop over the resources of one kind: the body returns the error that ends the loop, the
  resource as the body leaves it in memory, and the pools.\<close>

fun passLoop ::
  "('r \<Rightarrow> pools \<Rightarrow> (ipam_error option \<times> 'r \<times> pools) option) \<Rightarrow> 'r list \<Rightarrow> pools \<Rightarrow>
   (ipam_error option \<times> 'r list \<times> pools) option" where
  "passLoop body [] ps = Some (None, [], ps)"
| "passLoop body (r # rest) ps =
     (case body r ps of
        None \<Rightarrow> None
      | Some (Some e, r, ps) \<Rightarrow> Some (Some e, r # rest, ps)
      | Some (None, r, ps) \<Rightarrow> map_option (\<lambda>(e, rs, ps). (e, r # rs, ps)) (passLoop body rest ps))"

text \<open>\<open>Status().Update\<close> is answered by \<open>upd\<close>: \<open>True\<close> when the write is accepted. A refused write
  ends the pass; the object in memory keeps the addresses.\<close>

definition allocInbound ::
  "(Inbound \<Rightarrow> bool) \<Rightarrow> networks \<Rightarrow> Inbound \<Rightarrow> pools \<Rightarrow> (ipam_error option \<times> Inbound \<times> pools) option" where
  "allocInbound upd networks inb ps =
     (case inbs_Count (inb_Spec inb) of
        None \<Rightarrow> Some (None, inb, ps)
      | Some cnt \<Rightarrow>
        if inbs_Addresses (inb_Spec inb) \<noteq> None then Some (None, inb, ps)
        else if hasAddresses (inbst_Addresses (inb_Status inb)) then Some (None, inb, ps)
        else case allocate_addrs (inbs_NetworkRef (inb_Spec inb)) (nat cnt) networks ps True [] of
            None \<Rightarrow> None
          | Some (Inl _, ps) \<Rightarrow> Some (None, inb, ps)
          | Some (Inr (addrs, _), ps) \<Rightarrow>
            if length (aa_IPv4 addrs) + length (aa_IPv6 addrs) = 0 then Some (None, inb, ps)
            else let inb = inb\<lparr>inb_Status := (inb_Status inb)\<lparr>inbst_Addresses := Some addrs\<rparr>\<rparr> in
              Some (if upd inb then None else Some (UpdatingStatus ''Inbound'' (om_Name inb)), inb, ps))"

definition reconcileInboundAllocations ::
  "(Inbound \<Rightarrow> bool) \<Rightarrow> networks \<Rightarrow> Inbound list \<Rightarrow> pools \<Rightarrow> (ipam_error option \<times> Inbound list \<times> pools) option" where
  "reconcileInboundAllocations upd networks = passLoop (allocInbound upd networks)"

definition allocOutbound ::
  "(Outbound \<Rightarrow> bool) \<Rightarrow> networks \<Rightarrow> Outbound \<Rightarrow> pools \<Rightarrow> (ipam_error option \<times> Outbound \<times> pools) option" where
  "allocOutbound upd networks outb ps =
     (case outbs_Count (outb_Spec outb) of
        None \<Rightarrow> Some (None, outb, ps)
      | Some cnt \<Rightarrow>
        if outbs_Addresses (outb_Spec outb) \<noteq> None then Some (None, outb, ps)
        else if hasAddresses (outbst_Addresses (outb_Status outb)) then Some (None, outb, ps)
        else case allocate_addrs (outbs_NetworkRef (outb_Spec outb)) (nat cnt) networks ps True [] of
            None \<Rightarrow> None
          | Some (Inl _, ps) \<Rightarrow> Some (None, outb, ps)
          | Some (Inr (addrs, _), ps) \<Rightarrow>
            if length (aa_IPv4 addrs) + length (aa_IPv6 addrs) = 0 then Some (None, outb, ps)
            else let outb = outb\<lparr>outb_Status := (outb_Status outb)\<lparr>outbst_Addresses := Some addrs\<rparr>\<rparr> in
              Some (if upd outb then None else Some (UpdatingStatus ''Outbound'' (om_Name outb)), outb, ps))"

definition reconcileOutboundAllocations ::
  "(Outbound \<Rightarrow> bool) \<Rightarrow> networks \<Rightarrow> Outbound list \<Rightarrow> pools \<Rightarrow> (ipam_error option \<times> Outbound list \<times> pools) option" where
  "reconcileOutboundAllocations upd networks = passLoop (allocOutbound upd networks)"

type_synonym nodeAddresses = "(string, AddressAllocation) gomap"

text \<open>The node loop of \<open>reconcileNodeIPs\<close>: the addresses so far, whether one was added, and the error
  that aborts the attachment.\<close>

fun nodeLoop ::
  "string \<Rightarrow> networks \<Rightarrow> IPNet list \<Rightarrow> Node list \<Rightarrow> nodeAddresses \<Rightarrow> bool \<Rightarrow> pools \<Rightarrow>
   (ipam_error option \<times> nodeAddresses \<times> bool \<times> pools) option" where
  "nodeLoop ref networks reserved [] na changed ps = Some (None, na, changed, ps)"
| "nodeLoop ref networks reserved (n # ns) na changed ps =
     (if gm_has na (om_Name n) then nodeLoop ref networks reserved ns na changed ps
      else case allocate_addrs ref 1 networks ps False reserved of
          None \<Rightarrow> None
        | Some (Inl e, ps) \<Rightarrow> Some (Some (AllocatingNodeIP (om_Name n) ref e), na, changed, ps)
        | Some (Inr (addrs, _), ps) \<Rightarrow>
          if length (aa_IPv4 addrs) + length (aa_IPv6 addrs) = 0
          then nodeLoop ref networks reserved ns na changed ps
          else nodeLoop ref networks reserved ns (gm_put (om_Name n) addrs na) True ps)"

definition reconcileNodeIPs ::
  "(Layer2Attachment \<Rightarrow> bool) \<Rightarrow> networks \<Rightarrow> Node list \<Rightarrow> Layer2Attachment \<Rightarrow> pools \<Rightarrow>
   (ipam_error option \<times> Layer2Attachment \<times> pools) option" where
  "reconcileNodeIPs upd networks nodes l2a ps =
     (case (case l2as_NodeIPs (l2a_Spec l2a) of None \<Rightarrow> Inr []
            | Some c \<Rightarrow> parseReservedRanges (nip_ReservedRanges c)) of
        Inl e \<Rightarrow> Some (Some e, l2a, ps)
      | Inr reserved \<Rightarrow>
        (case nodeLoop (l2as_NetworkRef (l2a_Spec l2a)) networks reserved nodes
            (l2ast_NodeAddresses (l2a_Status l2a)) False ps of
           None \<Rightarrow> None
         | Some (e, na, changed, ps) \<Rightarrow>
           let l2a = l2a\<lparr>l2a_Status := (l2a_Status l2a)\<lparr>l2ast_NodeAddresses := na\<rparr>\<rparr> in
           (case e of
              Some e \<Rightarrow> Some (Some e, l2a, ps)
            | None \<Rightarrow>
              if changed \<and> \<not> upd l2a
              then Some (Some (UpdatingStatus ''Layer2Attachment'' (om_Name l2a)), l2a, ps)
              else Some (None, l2a, ps))))"

text \<open>The errors of one attachment are logged and do not stop the pass.\<close>

definition allocLayer2Attachment ::
  "(Layer2Attachment \<Rightarrow> bool) \<Rightarrow> networks \<Rightarrow> Node list \<Rightarrow> Layer2Attachment \<Rightarrow> pools \<Rightarrow>
   (ipam_error option \<times> Layer2Attachment \<times> pools) option" where
  "allocLayer2Attachment upd networks nodes l2a ps =
     (if (case l2as_NodeIPs (l2a_Spec l2a) of None \<Rightarrow> True | Some c \<Rightarrow> \<not> nip_Enabled c)
      then Some (None, l2a, ps)
      else map_option (\<lambda>(_, l2a, ps). (None, l2a, ps)) (reconcileNodeIPs upd networks nodes l2a ps))"

record StatusWriter =
  sw_Inbound :: "Inbound \<Rightarrow> bool"
  sw_Outbound :: "Outbound \<Rightarrow> bool"
  sw_Layer2Attachment :: "Layer2Attachment \<Rightarrow> bool"

definition ReconcileAllocations ::
  "StatusWriter \<Rightarrow> networks \<Rightarrow> IpamInput \<Rightarrow> (ipam_error option \<times> IpamInput) option" where
  "ReconcileAllocations w networks fetched =
     (let ps = seedExistingAllocations fetched networks [] in
      case reconcileInboundAllocations (sw_Inbound w) networks (ii_Inbounds fetched) ps of
        None \<Rightarrow> None
      | Some (Some e, is, ps) \<Rightarrow> Some (Some e, fetched\<lparr>ii_Inbounds := is\<rparr>)
      | Some (None, is, ps) \<Rightarrow>
        (case reconcileOutboundAllocations (sw_Outbound w) networks (ii_Outbounds fetched) ps of
           None \<Rightarrow> None
         | Some (Some e, outs, ps) \<Rightarrow> Some (Some e, fetched\<lparr>ii_Inbounds := is, ii_Outbounds := outs\<rparr>)
         | Some (None, outs, ps) \<Rightarrow>
           map_option (\<lambda>(_, ls, ps).
               (None, fetched\<lparr>ii_Inbounds := is, ii_Outbounds := outs, ii_Layer2Attachments := ls\<rparr>))
             (passLoop (allocLayer2Attachment (sw_Layer2Attachment w) networks (ii_Nodes fetched))
               (ii_Layer2Attachments fetched) ps)))"

section \<open>The increment\<close>

lemma word_inc: "unat (word_of_nat v + 1 :: 'a::len word) = (v + 1) mod 2 ^ LENGTH('a)"
proof -
  have "(word_of_nat v + 1 :: 'a word) = word_of_nat (v + 1)" by simp
  then show ?thesis by (simp only: unat_of_nat)
qed

lemma split_inc:
  fixes H L B :: nat
  assumes "L < B" and "H < B"
  shows "(if (L + 1) mod B = 0 then (H + 1) mod B else H) * B + (L + 1) mod B = (H * B + L + 1) mod (B * B)"
proof (cases "L + 1 = B")
  case True
  then have eq: "H * B + L + 1 = (H + 1) * B" by simp
  show ?thesis unfolding eq True by (simp only: mult_mod_left mod_self simp_thms if_True add_0_right)
next
  case False
  with assms have L: "L + 1 < B" by simp
  have "H * B + L + 1 < H * B + B" using L by simp
  also have "\<dots> = (H + 1) * B" by simp
  also have "\<dots> \<le> B * B" using assms(2) by (intro mult_right_mono) simp_all
  finally show ?thesis using L by simp
qed

lemma nextAddr_length: "ip_ok ip \<Longrightarrow> length (nextAddr ip) = length ip"
  by (auto simp: ip_ok_def nextAddr_def Let_def)

lemma nextAddr_value:
  assumes "ip_ok ip"
  shows "be_nat (nextAddr ip) = (be_nat ip + 1) mod 256 ^ length ip"
proof (cases "length ip = 4")
  case True
  then show ?thesis
    using word_inc [of "be_nat ip", where ?'a = 32] by (simp add: nextAddr_def be_nat_be_bytes)
next
  case False
  with assms have l: "length ip = 16" by (simp add: ip_ok_def)
  define H L where "H = be_nat (take 8 ip)" and "L = be_nat (drop 8 ip)"
  have "H < 256 ^ 8" "L < 256 ^ 8"
    using be_nat_less [of "take 8 ip"] be_nat_less [of "drop 8 ip"] l
    by (simp_all add: H_def L_def del: be_nat_less)
  moreover have "be_nat ip = H * 256 ^ 8 + L"
    using be_nat_append [of "take 8 ip" "drop 8 ip"] l by (simp add: H_def L_def)
  moreover have "lo = 0 \<longleftrightarrow> unat lo = 0" for lo :: "64 word" by (simp add: unat_eq_zero)
  ultimately show ?thesis
    using l split_inc [of L "256 ^ 8" H] word_inc [of L, where ?'a = 64] word_inc [of H, where ?'a = 64]
    by (simp add: nextAddr_def be_nat_append be_nat_be_bytes Let_def H_def [symmetric] L_def [symmetric] unat_of_nat split: if_splits)
qed

interpretation ipam: addr_cursor nextAddr
  by unfold_locales (fact nextAddr_length nextAddr_value)+

section \<open>What a pool can still hand out\<close>

definition pool_ok :: "networkPool \<Rightarrow> bool" where
  "pool_ok p \<longleftrightarrow> net_proper (np_network p) \<and> ip_ok (np_nextIP p) \<and>
     pred_option ip_ok (np_broadcast p) \<and> pred_option ip_ok (np_gateway p)"

text \<open>The numbers of the addresses from the cursor on, inside the network; nothing when the cursor has
  left it.\<close>

definition avail :: "networkPool \<Rightarrow> nat set" where
  "avail p = (if Contains (np_network p) (np_nextIP p)
     then {av ip |ip. ip_ok ip \<and> Contains (np_network p) ip \<and> av (np_nextIP p) \<le> av ip} else {})"

definition usable :: "networkPool \<Rightarrow> net_IP \<Rightarrow> bool" where
  "usable p ip \<longleftrightarrow> Contains (np_network p) ip \<and> \<not> ipHits ip (np_broadcast p) \<and>
     \<not> ipHits ip (np_gateway p) \<and> \<not> inReserved (np_reserved p) ip"

lemma avail_step:
  assumes "pool_ok p" and "Contains (np_network p) (np_nextIP p)"
  shows "avail (p\<lparr>np_nextIP := nextAddr (np_nextIP p)\<rparr>) \<subseteq> avail p - {av (np_nextIP p)}"
proof (cases "Contains (np_network p) (nextAddr (np_nextIP p))")
  case True
  then have "av (nextAddr (np_nextIP p)) = av (np_nextIP p) + 1"
    using assms by (intro ipam.nxt_contained) (auto simp: pool_ok_def)
  then show ?thesis using assms by (auto simp: avail_def)
qed (simp add: avail_def)

lemma pool_ok_step: "pool_ok p \<Longrightarrow> pool_ok (p\<lparr>np_nextIP := nextAddr (np_nextIP p)\<rparr>)"
  by (simp add: pool_ok_def)

lemma findUsable_spec:
  assumes "pool_ok p"
  shows "\<exists>e c. findUsable cidr p = Some (e, p\<lparr>np_nextIP := c\<rparr>) \<and> ip_ok c \<and>
    avail (p\<lparr>np_nextIP := c\<rparr>) \<subseteq> avail p \<and>
    (e = None \<longrightarrow> usable p c \<and> av c \<in> avail p)"
proof -
  have net: "net_proper (np_network p)" and cur: "ip_ok (np_nextIP p)"
    and opt: "pred_option ip_ok (np_broadcast p)" "pred_option ip_ok (np_gateway p)"
    using assms by (auto simp: pool_ok_def)
  define P where "P x \<longleftrightarrow> (\<exists>e c. findUsable cidr (p\<lparr>np_nextIP := x\<rparr>) = Some (e, p\<lparr>np_nextIP := c\<rparr>) \<and> ip_ok c \<and>
    avail (p\<lparr>np_nextIP := c\<rparr>) \<subseteq> avail (p\<lparr>np_nextIP := x\<rparr>) \<and>
    (e = None \<longrightarrow> usable p c \<and> av c \<in> avail (p\<lparr>np_nextIP := x\<rparr>)))" for x
  have "P (np_nextIP p)"
    using net cur
  proof (rule ipam.cursor_induct)
    fix x assume x: "ip_ok x" and IH: "Contains (np_network p) x \<Longrightarrow> P (nextAddr x)"
    let ?q = "p\<lparr>np_nextIP := x\<rparr>"
    have eq: "findUsable cidr ?q =
       (if ipHits x (np_broadcast p)
        then Some (Some (ExhaustedBroadcast cidr), ?q)
        else if \<not> Contains (np_network p) x then Some (Some (Exhausted cidr), ?q)
        else if ipHits x (np_gateway p) \<or> inReserved (np_reserved p) x
        then findUsable cidr (p\<lparr>np_nextIP := nextAddr x\<rparr>)
        else Some (None, ?q))"
      by (subst findUsable.simps) simp
    have q: "pool_ok ?q" using assms x by (simp add: pool_ok_def)
    consider "findUsable cidr ?q = Some (Some (ExhaustedBroadcast cidr), ?q)"
      | "findUsable cidr ?q = Some (Some (Exhausted cidr), ?q)"
      | "Contains (np_network p) x" "findUsable cidr ?q = findUsable cidr (p\<lparr>np_nextIP := nextAddr x\<rparr>)"
      | "usable p x" "findUsable cidr ?q = Some (None, ?q)"
      using eq by (auto simp: usable_def split: if_splits option.splits)
    then show "P x"
    proof cases
      case 3
      have "avail (p\<lparr>np_nextIP := nextAddr x\<rparr>) \<subseteq> avail ?q"
        using avail_step [OF q] 3 by auto
      with IH [OF 3(1)] show ?thesis unfolding P_def 3(2) by blast
    next
      case 4
      then have "av x \<in> avail ?q" using x by (auto simp: avail_def usable_def)
      with 4 x show ?thesis unfolding P_def by blast
    qed (use x in \<open>auto simp: P_def\<close>)
  qed
  then show ?thesis by (simp add: P_def)
qed


text \<open>A batch of allocations: on success as many addresses as asked for, in strictly increasing order,
  each usable and from what the pool had left, and none of them left afterwards.\<close>

lemma allocLoop_spec:
  "pool_ok p \<Longrightarrow> \<exists>r c. allocLoop k cidr acc p = Some (r, p\<lparr>np_nextIP := c\<rparr>) \<and> ip_ok c \<and>
     avail (p\<lparr>np_nextIP := c\<rparr>) \<subseteq> avail p \<and>
     (\<forall>out. r = Inr out \<longrightarrow> (\<exists>ips. out = acc @ map IPString ips \<and> length ips = k \<and>
        sorted_wrt (<) (map av ips) \<and> list_all (usable p) ips \<and> list_all ip_ok ips \<and>
        av ` set ips \<subseteq> avail p - avail (p\<lparr>np_nextIP := c\<rparr>)))"
proof (induction k arbitrary: acc p)
  case 0
  then show ?case by (auto simp: pool_ok_def intro!: exI [of _ "np_nextIP p"])
next
  case (Suc k)
  obtain e c where f: "findUsable cidr p = Some (e, p\<lparr>np_nextIP := c\<rparr>)" "ip_ok c"
      "avail (p\<lparr>np_nextIP := c\<rparr>) \<subseteq> avail p" "e = None \<longrightarrow> usable p c \<and> av c \<in> avail p"
    using findUsable_spec [OF Suc.prems] by blast
  show ?case
  proof (cases e)
    case (Some e')
    then show ?thesis using f by auto
  next
    case None
    let ?q = "p\<lparr>np_nextIP := nextAddr c\<rparr>"
    have q: "pool_ok ?q" using Suc.prems f(2) by (simp add: pool_ok_def)
    obtain r c' where IH: "allocLoop k cidr (acc @ [IPString c]) ?q = Some (r, p\<lparr>np_nextIP := c'\<rparr>)" "ip_ok c'"
      "avail (p\<lparr>np_nextIP := c'\<rparr>) \<subseteq> avail ?q"
      "\<forall>out. r = Inr out \<longrightarrow> (\<exists>ips. out = (acc @ [IPString c]) @ map IPString ips \<and> length ips = k \<and>
        sorted_wrt (<) (map av ips) \<and> list_all (usable ?q) ips \<and> list_all ip_ok ips \<and>
        av ` set ips \<subseteq> avail ?q - avail (p\<lparr>np_nextIP := c'\<rparr>))"
      using Suc.IH [OF q, of "acc @ [IPString c]"] by auto
    have st: "avail ?q \<subseteq> avail (p\<lparr>np_nextIP := c\<rparr>) - {av c}"
      using avail_step [of "p\<lparr>np_nextIP := c\<rparr>"] Suc.prems f None by (simp add: pool_ok_def usable_def)
    have above: "v \<in> avail ?q \<Longrightarrow> av c < v" for v
      using st by (auto simp: avail_def split: if_splits)
    have us: "usable ?q = usable p" by (rule ext) (simp add: usable_def)
    have "\<exists>ips. out = acc @ map IPString ips \<and> length ips = Suc k \<and>
        sorted_wrt (<) (map av ips) \<and> list_all (usable p) ips \<and> list_all ip_ok ips \<and>
        av ` set ips \<subseteq> avail p - avail (p\<lparr>np_nextIP := c'\<rparr>)" if r: "r = Inr out" for out
    proof -
      obtain ips where "out = (acc @ [IPString c]) @ map IPString ips" "length ips = k"
        "sorted_wrt (<) (map av ips)" "list_all (usable p) ips" "list_all ip_ok ips"
        "av ` set ips \<subseteq> avail ?q - avail (p\<lparr>np_nextIP := c'\<rparr>)"
        using IH(4) [unfolded us] r by blast
      then show ?thesis
        using f None st IH(3) above by (intro exI [of _ "c # ips"]) auto
    qed
    moreover have "allocLoop (Suc k) cidr acc p = Some (r, p\<lparr>np_nextIP := c'\<rparr>)"
      using f(1) None IH(1) by simp
    ultimately show ?thesis using IH(2,3) st f(3) by blast
  qed
qed

end
