(* ===== verification/Ipam_Unique.thy ===== *)
theory Ipam_Unique
  imports Ipam
begin

text \<open>
  No address is handed out twice. The claims of a resource are the addresses of its status, read
  back as numbers, with the pool they belong to. One allocation pass adds claims that are pairwise
  different and different from every claim any resource had before, whatever the order of the
  resources, the answers of the status writes, and the shape of the networks.
\<close>

section \<open>Pools of parsed networks\<close>

text \<open>The networks the allocator is sound for: a CIDR of positive prefix length that does not contain
  the last IPv6 address.\<close>

definition cidr_ok :: "string \<Rightarrow> bool" where
  "cidr_ok cidr \<longleftrightarrow> (case ParseCIDR cidr of None \<Rightarrow> True
     | Some (ip, n) \<Rightarrow> net_proper n \<and> \<not> Contains n (replicate 16 0xff))"

definition spec_ok :: "NetworkSpec \<Rightarrow> bool" where
  "spec_ok s \<longleftrightarrow> (case nws_IPv4 s of None \<Rightarrow> True | Some n \<Rightarrow> cidr_ok (ipn_CIDR n)) \<and>
     (case nws_IPv6 s of None \<Rightarrow> True | Some n \<Rightarrow> cidr_ok (ipn_CIDR n))"

definition networks_ok :: "networks \<Rightarrow> bool" where
  "networks_ok ns \<longleftrightarrow> list_all (\<lambda>(k, n). spec_ok (rn_Spec n)) ns"

text \<open>The claims: a pool key with the number of an address.\<close>

definition fam_claims :: "string \<Rightarrow> string list \<Rightarrow> (string \<times> nat) list" where
  "fam_claims key addrs = List.map_filter (\<lambda>a. map_option (\<lambda>ip. (key, av ip)) (ParseIP a)) addrs"

definition alloc_claims :: "string \<Rightarrow> AddressAllocation \<Rightarrow> (string \<times> nat) list" where
  "alloc_claims ref a = fam_claims (ref @ ''/v4'') (aa_IPv4 a) @ fam_claims (ref @ ''/v6'') (aa_IPv6 a)"

definition opt_claims :: "string \<Rightarrow> AddressAllocation option \<Rightarrow> (string \<times> nat) list" where
  "opt_claims ref a = (case a of None \<Rightarrow> [] | Some a \<Rightarrow> alloc_claims ref a)"

definition inb_claims :: "Inbound \<Rightarrow> (string \<times> nat) list" where
  "inb_claims i = opt_claims (inbs_NetworkRef (inb_Spec i)) (inbst_Addresses (inb_Status i))"

definition outb_claims :: "Outbound \<Rightarrow> (string \<times> nat) list" where
  "outb_claims i = opt_claims (outbs_NetworkRef (outb_Spec i)) (outbst_Addresses (outb_Status i))"

definition node_claims :: "string \<Rightarrow> nodeAddresses \<Rightarrow> (string \<times> nat) list" where
  "node_claims ref na = concat (map (\<lambda>(n, a). alloc_claims ref a) na)"

definition l2a_claims :: "Layer2Attachment \<Rightarrow> (string \<times> nat) list" where
  "l2a_claims l = node_claims (l2as_NetworkRef (l2a_Spec l)) (l2ast_NodeAddresses (l2a_Status l))"

definition claims :: "IpamInput \<Rightarrow> (string \<times> nat) list" where
  "claims f = concat (map inb_claims (ii_Inbounds f)) @ concat (map outb_claims (ii_Outbounds f)) @
     concat (map l2a_claims (ii_Layer2Attachments f))"

section \<open>Comparison and seeding\<close>

lemma compareBytes_be_nat:
  "length a = length b \<Longrightarrow>
   compareBytes a b = (if be_nat a < be_nat b then -1 else if be_nat b < be_nat a then 1 else 0)"
proof (induction a b rule: list_induct2)
  case (Cons x a y b)
  have lt: "be_nat (u # c) < be_nat (v # d)" if "u < v" "length c = length d" for u v :: byte and c d
  proof -
    have "unat u + 1 \<le> unat v" using that(1) by (simp add: word_less_nat_alt)
    then have "(unat u + 1) * 256 ^ length d \<le> unat v * 256 ^ length d" by (intro mult_right_mono) simp_all
    then show ?thesis using be_nat_less [of c] that(2) by simp
  qed
  consider "x < y" | "y < x" | "x = y" by (meson linorder_neqE)
  then show ?case
  proof cases
    case 3
    then show ?thesis using Cons by simp
  qed (use lt [of x y a b] lt [of y x b a] Cons.hyps in auto)
qed simp

lemma compareIPs_av: "ip_ok a \<Longrightarrow> ip_ok b \<Longrightarrow> compareIPs a b > 0 \<longleftrightarrow> av b < av a"
proof -
  assume ok: "ip_ok a" "ip_ok b"
  then have "To16 a = Some (As16 a)" "To16 b = Some (As16 b)"
    by (auto simp: To16_def As16_def ip_ok_def)
  then show ?thesis using ok by (simp add: compareIPs_def compareBytes_be_nat av_def)
qed

definition pool_good :: "networkPool \<Rightarrow> bool" where
  "pool_good p \<longleftrightarrow> pool_ok p \<and> \<not> Contains (np_network p) (replicate 16 0xff)"

lemma broadcastAddr_ok: "ip_ok (net_IP n) \<Longrightarrow> length (net_Mask n) = length (net_IP n) \<Longrightarrow> pred_option ip_ok (broadcastAddr n)"
  by (auto simp: broadcastAddr_def Let_def To4_def ip_ok_def split: prod.splits if_splits)

lemma newPool_good:
  assumes "ParseCIDR cidr = Some (ip, n)" and "cidr_ok cidr"
  shows "pool_good (newPool ip n l3)"
proof -
  obtain a k where "ip = As16 a" "ip_ok a" "net_Mask n = cidrMask k (length a)"
    "net_IP n = andBytes a (cidrMask k (length a))"
    using ParseCIDR_net [OF assms(1)] by metis
  then show ?thesis
    using assms ip_ok_ParseCIDR [OF assms(1)] broadcastAddr_ok [of n]
    by (simp add: pool_good_def pool_ok_def newPool_def cidr_ok_def)
qed

text \<open>While the pools are seeded the cursor only moves up: every claim stays below it (the last IPv6
  address, whose successor wraps, is in no pool).\<close>

definition below :: "networkPool \<Rightarrow> nat \<Rightarrow> bool" where
  "below p v \<longleftrightarrow> v < av (np_nextIP p) \<or> v + 1 = 256 ^ 16"

lemma be_nat_ones: "be_nat (replicate n 0xff) + 1 = 256 ^ n"
  by (induction n) simp_all

lemma all_ones:
  assumes "ip_ok ip" and "av ip + 1 = 256 ^ 16"
  shows "av ip = av (replicate 16 0xff)"
  using assms(2) be_nat_ones [of 16] by (simp only: av_def As16_def) simp

lemma below_not_avail:
  assumes "pool_good p" and "below p v"
  shows "v \<notin> avail p"
proof
  assume "v \<in> avail p"
  then obtain ip where ip: "v = av ip" "ip_ok ip" "Contains (np_network p) ip" "av (np_nextIP p) \<le> v"
    by (auto simp: avail_def split: if_splits)
  then have "av ip + 1 = 256 ^ 16" using assms(2) by (simp add: below_def)
  then have "Contains (np_network p) (replicate 16 0xff)"
    using ip Contains_av [of ip "replicate 16 0xff"] all_ones [of ip] by (simp add: ip_ok_def)
  with assms(1) show False by (simp add: pool_good_def)
qed

lemma advanceCursor_good: "pool_good p \<Longrightarrow> pool_good (advanceCursor p a)"
  by (auto simp: advanceCursor_def pool_good_def pool_ok_def Let_def ip_ok_def length_ParseIP
      nextAddr_length split: option.split)

lemma advanceCursor_mono: "pool_good p \<Longrightarrow> below p v \<Longrightarrow> below (advanceCursor p a) v"
  using compareIPs_av [of _ "np_nextIP p"]
  by (fastforce simp: advanceCursor_def below_def pool_good_def pool_ok_def Let_def ip_ok_def
      length_ParseIP nextAddr_length split: option.split)

lemma advanceCursor_below:
  assumes "pool_good p" and "ParseIP a = Some ip"
  shows "below (advanceCursor p a) (av ip)"
proof (cases "av ip + 1 = 256 ^ 16")
  case False
  have ok: "ip_ok ip" "length ip = 16" using length_ParseIP [OF assms(2)] by (simp_all add: ip_ok_def)
  then have "av (nextAddr ip) = av ip + 1"
    using False ipam.nxt_av [of ip] by (simp add: av_def As16_def)
  moreover have "compareIPs (nextAddr ip) (np_nextIP p) > 0 \<longleftrightarrow> av (np_nextIP p) < av (nextAddr ip)"
    using assms(1) ok by (intro compareIPs_av) (auto simp: pool_good_def pool_ok_def)
  ultimately show ?thesis using assms(2) by (auto simp: advanceCursor_def below_def Let_def)
qed (simp add: below_def)

lemma advance_all:
  "pool_good p \<Longrightarrow> pool_good (foldl advanceCursor p addrs) \<and>
     (\<forall>v. below p v \<longrightarrow> below (foldl advanceCursor p addrs) v) \<and>
     (\<forall>a ip. a \<in> set addrs \<longrightarrow> ParseIP a = Some ip \<longrightarrow> below (foldl advanceCursor p addrs) (av ip))"
proof (induction addrs arbitrary: p)
  case (Cons a addrs)
  then show ?case
    using advanceCursor_good advanceCursor_mono advanceCursor_below
    by (metis (no_types, lifting) foldl_Cons set_ConsD)
qed simp

section \<open>The invariant of the pools\<close>

text \<open>The family of a network a pool key stands for, and the keys a pool can be made for.\<close>

definition famOf :: "networks \<Rightarrow> string \<Rightarrow> IPNetwork option \<Rightarrow> bool" where
  "famOf ns key fam \<longleftrightarrow> (\<exists>ref n. gm_get ns ref = Some n \<and>
     (key = ref @ ''/v4'' \<and> fam = nws_IPv4 (rn_Spec n) \<or> key = ref @ ''/v6'' \<and> fam = nws_IPv6 (rn_Spec n)))"

definition creatable :: "networks \<Rightarrow> string \<Rightarrow> bool" where
  "creatable ns key \<longleftrightarrow> (\<exists>fam. famOf ns key (Some fam) \<and> ParseCIDR (ipn_CIDR fam) \<noteq> None)"

text \<open>What the pools must satisfy for the claims in \<open>A\<close>: every pool is good and of a resolved
  network, and the pool of a claim exists and satisfies the predicate for it.\<close>

definition covers :: "(networkPool \<Rightarrow> nat \<Rightarrow> bool) \<Rightarrow> networks \<Rightarrow> pools \<Rightarrow> (string \<times> nat) set \<Rightarrow> bool" where
  "covers Q ns ps A \<longleftrightarrow> (\<forall>key p. gm_get ps key = Some p \<longrightarrow> pool_good p \<and> creatable ns key) \<and>
     (\<forall>key v. (key, v) \<in> A \<longrightarrow> creatable ns key \<longrightarrow> (\<exists>p. gm_get ps key = Some p \<and> Q p v))"

lemma famOf_unique: "famOf ns key f \<Longrightarrow> famOf ns key g \<Longrightarrow> f = g"
  by (auto simp: famOf_def)

lemma networks_ok_get: "networks_ok ns \<Longrightarrow> gm_get ns ref = Some n \<Longrightarrow> spec_ok (rn_Spec n)"
  by (auto simp: networks_ok_def list_all_iff dest!: map_of_SomeD)

lemma famOf_cidr_ok:
  assumes "networks_ok ns" and "famOf ns key (Some fam)"
  shows "cidr_ok (ipn_CIDR fam)"
proof -
  obtain ref n where "gm_get ns ref = Some n" "Some fam = nws_IPv4 (rn_Spec n) \<or> Some fam = nws_IPv6 (rn_Spec n)"
    using assms(2) by (auto simp: famOf_def)
  with networks_ok_get [OF assms(1)] show ?thesis
    unfolding spec_ok_def by (metis option.simps(5))
qed

lemma covers_put:
  assumes "covers Q ns ps A" and "pool_good p'" and "creatable ns key"
    and "\<And>p v. gm_get ps key = Some p \<Longrightarrow> Q p v \<Longrightarrow> Q p' v"
    and "\<And>k v. (k, v) \<in> B \<Longrightarrow> k = key \<and> Q p' v"
  shows "covers Q ns (gm_put key p' ps) (A \<union> B)"
  unfolding covers_def update_conv
proof (intro conjI allI impI)
  fix k v assume kv: "(k, v) \<in> A \<union> B" "creatable ns k"
  show "\<exists>p. ((map_of ps)(key \<mapsto> p')) k = Some p \<and> Q p v"
  proof (cases "(k, v) \<in> B")
    case False
    with kv assms(1) obtain p where "gm_get ps k = Some p" "Q p v" unfolding covers_def by blast
    with assms(4) show ?thesis by (cases "k = key") auto
  qed (use assms(5) in auto)
qed (use assms in \<open>auto simp: covers_def split: if_splits\<close>)

lemma fam_claims_key: "(k, v) \<in> set (fam_claims key addrs) \<longleftrightarrow>
    k = key \<and> (\<exists>a ip. a \<in> set addrs \<and> ParseIP a = Some ip \<and> v = av ip)"
  by (force simp: fam_claims_def List.map_filter_def image_iff)

lemma covers_skip: "covers Q ns ps A \<Longrightarrow> (\<And>k v. (k, v) \<in> B \<Longrightarrow> \<not> creatable ns k) \<Longrightarrow> covers Q ns ps (A \<union> B)"
  by (auto simp: covers_def)

text \<open>The pool a key has or would get.\<close>

definition poolFor :: "pools \<Rightarrow> string \<Rightarrow> string \<Rightarrow> bool \<Rightarrow> networkPool option" where
  "poolFor ps key cidr l3 = (case gm_get ps key of Some p \<Rightarrow> Some p
     | None \<Rightarrow> map_option (\<lambda>(ip, n). newPool ip n l3) (ParseCIDR cidr))"

lemma poolFor_good:
  assumes "covers Q ns ps A" and "networks_ok ns" and "famOf ns key (Some fam)"
  shows "poolFor ps key (ipn_CIDR fam) l3 = Some p \<Longrightarrow> pool_good p \<and> creatable ns key"
    and "poolFor ps key (ipn_CIDR fam) l3 = None \<Longrightarrow> \<not> creatable ns key"
proof -
  show "pool_good p \<and> creatable ns key" if "poolFor ps key (ipn_CIDR fam) l3 = Some p"
    using that assms newPool_good famOf_cidr_ok [OF assms(2,3)]
    by (auto simp: poolFor_def covers_def creatable_def split: option.splits)
  show "\<not> creatable ns key" if "poolFor ps key (ipn_CIDR fam) l3 = None"
    using that famOf_unique [OF assms(3)] by (fastforce simp: poolFor_def creatable_def split: option.splits)
qed

lemma seedPool_covers:
  assumes "covers below ns ps A" and "networks_ok ns" and "famOf ns key fam"
  shows "covers below ns (seedPoolFromAddresses key fam addrs ps l3) (A \<union> set (fam_claims key addrs))"
proof (cases "fam = None \<or> addrs = []")
  case True
  then have "\<not> creatable ns key \<or> addrs = []"
    using famOf_unique [OF assms(3)] by (auto simp: creatable_def)
  moreover have "seedPoolFromAddresses key fam addrs ps l3 = ps"
    using True by (auto simp: seedPoolFromAddresses_def split: option.split)
  ultimately show ?thesis using assms(1) by (auto intro!: covers_skip simp: fam_claims_key)
next
  case False
  then obtain f where f: "fam = Some f" "addrs \<noteq> []" by auto
  have eq: "seedPoolFromAddresses key fam addrs ps l3 =
      (case poolFor ps key (ipn_CIDR f) l3 of None \<Rightarrow> ps
       | Some p \<Rightarrow> gm_put key (foldl advanceCursor p addrs) ps)"
    using f by (auto simp: seedPoolFromAddresses_def poolFor_def split: option.split)
  note good = poolFor_good [OF assms(1,2) assms(3) [unfolded f(1)], of l3]
  show ?thesis
  proof (cases "poolFor ps key (ipn_CIDR f) l3")
    case None
    with eq good(2) assms(1) show ?thesis by (auto intro!: covers_skip simp: fam_claims_key)
  next
    case (Some p)
    have "gm_get ps key = Some q \<Longrightarrow> q = p" for q using Some by (simp add: poolFor_def)
    with Some eq good(1) [OF Some] advance_all [of p addrs] assms(1) show ?thesis
      by (auto intro!: covers_put simp: fam_claims_key)
  qed
qed

section \<open>Allocation keeps the invariant\<close>

abbreviation unavail :: "networkPool \<Rightarrow> nat \<Rightarrow> bool" where
  "unavail p v \<equiv> v \<notin> avail p"

lemma covers_unavail: "covers below ns ps A \<Longrightarrow> covers unavail ns ps A"
  unfolding covers_def using below_not_avail by blast

lemma fam_claims_printed:
  "list_all ip_ok ips \<Longrightarrow> fam_claims key (map IPString ips) = map (\<lambda>ip. (key, av ip)) ips"
  by (induction ips) (auto simp: fam_claims_def List.map_filter_def ParseIP_IPString av_def As16_def ip_ok_def)

text \<open>Claims \<open>new\<close> are added to the claimed set \<open>A\<close>: pairwise different and different from all of \<open>A\<close>.\<close>

definition fresh :: "(string \<times> nat) list \<Rightarrow> (string \<times> nat) set \<Rightarrow> bool" where
  "fresh new A \<longleftrightarrow> distinct new \<and> set new \<inter> A = {}"

lemma fresh_append: "fresh a A \<Longrightarrow> fresh b (A \<union> set a) \<Longrightarrow> fresh (a @ b) A"
  by (auto simp: fresh_def)

lemma fresh_Nil [simp]: "fresh [] A"
  by (simp add: fresh_def)

lemma avail_reserved [simp]: "avail (p\<lparr>np_reserved := r\<rparr>) = avail p"
  by (simp add: avail_def)

lemma allocateFromCIDR_covers:
  assumes "covers unavail ns ps A" and "networks_ok ns" and "famOf ns key (Some fam)"
  shows "\<exists>r ps'. allocateFromCIDR key (ipn_CIDR fam) k ps l3 res = Some (r, ps') \<and>
    (case r of Inl e \<Rightarrow> covers unavail ns ps' A
     | Inr out \<Rightarrow> covers unavail ns ps' (A \<union> set (fam_claims key out)) \<and> fresh (fam_claims key out) A)"
proof (cases "poolFor ps key (ipn_CIDR fam) l3")
  case None
  then have "allocateFromCIDR key (ipn_CIDR fam) k ps l3 res = Some (Inl (ParsingCIDR (ipn_CIDR fam)), ps)"
    by (simp add: allocateFromCIDR_def poolFor_def split: option.splits)
  with assms(1) show ?thesis by simp
next
  case (Some p)
  define q where "q = p\<lparr>np_reserved := mergeReserved (np_reserved p) res\<rparr>"
  have good: "pool_good p" "creatable ns key" using poolFor_good(1) [OF assms Some] by auto
  then have q: "pool_ok q" by (simp add: q_def pool_good_def pool_ok_def)
  obtain r c where al: "allocLoop k (ipn_CIDR fam) [] q = Some (r, q\<lparr>np_nextIP := c\<rparr>)" "ip_ok c"
    "avail (q\<lparr>np_nextIP := c\<rparr>) \<subseteq> avail q"
    "\<forall>out. r = Inr out \<longrightarrow> (\<exists>ips. out = [] @ map IPString ips \<and> length ips = k \<and>
        sorted_wrt (<) (map av ips) \<and> list_all (usable q) ips \<and> list_all ip_ok ips \<and>
        av ` set ips \<subseteq> avail q - avail (q\<lparr>np_nextIP := c\<rparr>))"
    using allocLoop_spec [OF q, of k "ipn_CIDR fam" "[]"] by blast
  let ?q' = "q\<lparr>np_nextIP := c\<rparr>"
  have run: "allocateFromCIDR key (ipn_CIDR fam) k ps l3 res = Some (r, gm_put key ?q' ps)"
    using Some al(1) by (auto simp: allocateFromCIDR_def poolFor_def q_def split: option.splits)
  have q': "pool_good ?q'" using good al(2) by (simp add: q_def pool_good_def pool_ok_def)
  have mono: "gm_get ps key = Some p' \<Longrightarrow> unavail p' v \<Longrightarrow> unavail ?q' v" for p' v
    using Some al(3) by (auto simp: poolFor_def q_def)
  show ?thesis
  proof (cases r)
    case (Inl e)
    then show ?thesis
      using run covers_put [OF assms(1) q' good(2) mono, where B = "{}"] by simp
  next
    case (Inr out)
    then obtain ips where ips: "out = map IPString ips" "sorted_wrt (<) (map av ips)" "list_all ip_ok ips"
        "av ` set ips \<subseteq> avail p - avail ?q'"
      using al(4) by (auto simp: q_def)
    have cl: "fam_claims key out = map (\<lambda>ip. (key, av ip)) ips"
      using ips by (simp add: fam_claims_printed)
    have "distinct (map av ips)" using ips(2) by (simp add: strict_sorted_iff)
    then have "distinct (fam_claims key out)" by (simp add: cl distinct_map inj_on_def)
    moreover have "set (fam_claims key out) \<inter> A = {}"
      using assms(1) ips(4) Some good(2) by (fastforce simp: cl covers_def poolFor_def)
    moreover have "covers unavail ns (gm_put key ?q' ps) (A \<union> set (fam_claims key out))"
      using ips(4) by (intro covers_put [OF assms(1) q' good(2) mono]) (auto simp: cl)
    ultimately show ?thesis using run Inr by (simp add: fresh_def)
  qed
qed

lemma allocFamily_covers:
  assumes "covers unavail ns ps A" and "networks_ok ns" and "famOf ns key fam"
  shows "\<exists>ips es ps'. allocFamily key fam k ps l3 res = Some (ips, es, ps') \<and>
    covers unavail ns ps' (A \<union> set (fam_claims key ips)) \<and> fresh (fam_claims key ips) A"
proof (cases fam)
  case None
  then show ?thesis using assms(1) by (simp add: allocFamily_def fam_claims_def List.map_filter_def)
next
  case (Some f)
  obtain r ps' where "allocateFromCIDR key (ipn_CIDR f) k ps l3 res = Some (r, ps')"
    "case r of Inl e \<Rightarrow> covers unavail ns ps' A
     | Inr out \<Rightarrow> covers unavail ns ps' (A \<union> set (fam_claims key out)) \<and> fresh (fam_claims key out) A"
    using allocateFromCIDR_covers [OF assms(1,2) assms(3) [unfolded Some]] by blast
  then show ?thesis using Some
    by (cases r) (auto simp: allocFamily_def fam_claims_def List.map_filter_def)
qed

lemma allocate_covers:
  assumes "covers unavail ns ps A" and "networks_ok ns"
  shows "\<exists>r ps'. allocate_addrs ref k ns ps l3 res = Some (r, ps') \<and>
    (case r of Inl e \<Rightarrow> covers unavail ns ps' A
     | Inr (a, es) \<Rightarrow> covers unavail ns ps' (A \<union> set (alloc_claims ref a)) \<and> fresh (alloc_claims ref a) A)"
proof (cases "gm_get ns ref")
  case None
  then show ?thesis using assms(1) by (simp add: allocate_addrs_def)
next
  case (Some n)
  have fam: "famOf ns (ref @ ''/v4'') (nws_IPv4 (rn_Spec n))" "famOf ns (ref @ ''/v6'') (nws_IPv6 (rn_Spec n))"
    using Some by (auto simp: famOf_def)
  obtain v4 e4 ps4 where v4: "allocFamily (ref @ ''/v4'') (nws_IPv4 (rn_Spec n)) k ps l3 res = Some (v4, e4, ps4)"
    "covers unavail ns ps4 (A \<union> set (fam_claims (ref @ ''/v4'') v4))" "fresh (fam_claims (ref @ ''/v4'') v4) A"
    using allocFamily_covers [OF assms fam(1)] by blast
  obtain v6 e6 ps6 where v6: "allocFamily (ref @ ''/v6'') (nws_IPv6 (rn_Spec n)) k ps4 l3 res = Some (v6, e6, ps6)"
    "covers unavail ns ps6 (A \<union> set (fam_claims (ref @ ''/v4'') v4) \<union> set (fam_claims (ref @ ''/v6'') v6))"
    "fresh (fam_claims (ref @ ''/v6'') v6) (A \<union> set (fam_claims (ref @ ''/v4'') v4))"
    using allocFamily_covers [OF v4(2) assms(2) fam(2)] by blast
  show ?thesis
    using Some v4 v6 by (simp add: allocate_addrs_def alloc_claims_def fresh_append Un_assoc)
qed

section \<open>The whole pass\<close>

lemma collectAddresses_covers:
  assumes "covers below ns ps A" and "networks_ok ns"
  shows "covers below ns (collectAddresses ns ref a l3 ps) (A \<union> set (opt_claims ref a))"
proof (cases "a = None \<or> gm_get ns ref = None")
  case True
  have "\<not> creatable ns k" if "(k, v) \<in> set (opt_claims ref a)" for k v
    using True that
    by (auto simp: opt_claims_def alloc_claims_def fam_claims_key creatable_def famOf_def split: option.splits)
  moreover have "collectAddresses ns ref a l3 ps = ps"
    using True by (auto simp: collectAddresses_def split: option.split)
  ultimately show ?thesis using assms(1) by (auto intro!: covers_skip)
next
  case False
  then obtain al n where al: "a = Some al" "gm_get ns ref = Some n" by auto
  have fam: "famOf ns (ref @ ''/v4'') (nws_IPv4 (rn_Spec n))" "famOf ns (ref @ ''/v6'') (nws_IPv6 (rn_Spec n))"
    using al by (auto simp: famOf_def)
  show ?thesis
    using seedPool_covers [OF seedPool_covers [OF assms fam(1)] assms(2) fam(2)] al
    by (simp add: collectAddresses_def opt_claims_def alloc_claims_def Un_assoc)
qed

lemma fold_covers:
  assumes "networks_ok ns" and "\<And>x ps A. covers Q ns ps A \<Longrightarrow> covers Q ns (f x ps) (A \<union> set (cl x))"
  shows "covers Q ns ps A \<Longrightarrow> covers Q ns (fold f xs ps) (A \<union> set (concat (map cl xs)))"
  using assms(2)
proof (induction xs arbitrary: ps A)
  case (Cons x xs)
  from Cons.IH [OF Cons.prems(2) [OF Cons.prems(1), of x] Cons.prems(2)]
  show ?case by (simp add: Un_assoc)
qed simp

lemma seedExisting_covers:
  assumes "networks_ok ns"
  shows "covers below ns (seedExistingAllocations f ns []) (set (claims f))"
proof -
  have nil: "covers below ns [] {}" by (simp add: covers_def)
  have inb: "covers below ns ps A \<Longrightarrow> covers below ns (collectAddresses ns (inbs_NetworkRef (inb_Spec i))
      (inbst_Addresses (inb_Status i)) True ps) (A \<union> set (inb_claims i))" for ps A i
    unfolding inb_claims_def by (rule collectAddresses_covers [OF _ assms])
  have outb: "covers below ns ps A \<Longrightarrow> covers below ns (collectAddresses ns (outbs_NetworkRef (outb_Spec i))
      (outbst_Addresses (outb_Status i)) True ps) (A \<union> set (outb_claims i))" for ps A i
    unfolding outb_claims_def by (rule collectAddresses_covers [OF _ assms])
  have addr: "covers below ns ps A \<Longrightarrow> covers below ns
      ((\<lambda>(n, a). collectAddresses ns ref (Some a) False) x ps) (A \<union> set ((\<lambda>(n, a). alloc_claims ref a) x))"
    for ps A ref and x :: "string \<times> AddressAllocation"
    using collectAddresses_covers [OF _ assms, of ps A ref "Some (snd x)" False]
    by (simp add: opt_claims_def split_def)
  have node: "covers below ns ps A \<Longrightarrow> covers below ns
      (fold (\<lambda>(n, a). collectAddresses ns (l2as_NetworkRef (l2a_Spec l)) (Some a) False)
        (l2ast_NodeAddresses (l2a_Status l)) ps) (A \<union> set (l2a_claims l))" for ps A l
    unfolding l2a_claims_def node_claims_def by (rule fold_covers [OF assms addr])
  show ?thesis
    using fold_covers [OF assms node fold_covers [OF assms outb fold_covers [OF assms inb nil,
          where xs = "ii_Inbounds f"], where xs = "ii_Outbounds f"], where xs = "ii_Layer2Attachments f"]
    unfolding seedExistingAllocations_def claims_def Let_def set_append
    by (simp only: Un_assoc Un_empty_left)
qed

text \<open>The effect of a part of the pass on the claims.\<close>

definition grows :: "networks \<Rightarrow> pools \<Rightarrow> (string \<times> nat) set \<Rightarrow> (string \<times> nat) list \<Rightarrow> (string \<times> nat) list \<Rightarrow> bool" where
  "grows ns ps A old cl \<longleftrightarrow> (\<exists>new. mset cl = mset old + mset new \<and> fresh new A \<and> covers unavail ns ps (A \<union> set new))"

lemma grows_refl: "covers unavail ns ps A \<Longrightarrow> grows ns ps A old old"
  unfolding grows_def by (intro exI [of _ "[]"]) simp

lemma grows_append:
  assumes "fresh new A" and "mset c' = mset c + mset new" and "grows ns ps (A \<union> set new) old cl"
  shows "grows ns ps A (c @ old) (c' @ cl)"
proof -
  obtain n where n: "mset cl = mset old + mset n" "fresh n (A \<union> set new)" "covers unavail ns ps (A \<union> set new \<union> set n)"
    using assms(3) by (auto simp: grows_def)
  show ?thesis
    unfolding grows_def using assms n fresh_append [OF assms(1) n(2)]
    by (intro exI [of _ "new @ n"]) (simp add: Un_assoc)
qed

lemma passLoop_grows:
  assumes "\<And>x ps A. covers unavail ns ps A \<Longrightarrow>
      \<exists>e x' ps'. body x ps = Some (e, x', ps') \<and> grows ns ps' A (cl x) (cl x')"
  shows "covers unavail ns ps A \<Longrightarrow> \<exists>e xs' ps'. passLoop body xs ps = Some (e, xs', ps') \<and>
      grows ns ps' A (concat (map cl xs)) (concat (map cl xs'))"
proof (induction xs arbitrary: ps A)
  case (Cons x xs)
  obtain e x' ps1 new where b: "body x ps = Some (e, x', ps1)" "mset (cl x') = mset (cl x) + mset new"
    "fresh new A" "covers unavail ns ps1 (A \<union> set new)"
    using assms [OF Cons.prems, of x] unfolding grows_def by blast
  show ?case
  proof (cases e)
    case None
    obtain e' xs' ps' where IH: "passLoop body xs ps1 = Some (e', xs', ps')"
      "grows ns ps' (A \<union> set new) (concat (map cl xs)) (concat (map cl xs'))"
      using Cons.IH [OF b(4)] by blast
    then show ?thesis using b(1) None grows_append [OF b(3,2) IH(2)] by simp
  next
    case (Some e')
    then show ?thesis using b(1) grows_append [OF b(3,2) grows_refl [OF b(4)]] by simp
  qed
qed (simp add: grows_refl)

lemma growsI: "covers unavail ns ps (A \<union> set c) \<Longrightarrow> fresh c A \<Longrightarrow> mset cl = mset old + mset c \<Longrightarrow> grows ns ps A old cl"
  unfolding grows_def by blast

lemma claims_no_addresses:
  "\<not> hasAddresses a \<Longrightarrow> opt_claims ref a = []"
  "length (aa_IPv4 b) + length (aa_IPv6 b) = 0 \<Longrightarrow> alloc_claims ref b = []"
  by (auto simp: opt_claims_def hasAddresses_def alloc_claims_def fam_claims_def List.map_filter_def
      split: option.splits)

lemma allocInbound_grows:
  assumes "covers unavail ns ps A" and "networks_ok ns"
  shows "\<exists>e x' ps'. allocInbound upd ns x ps = Some (e, x', ps') \<and> grows ns ps' A (inb_claims x) (inb_claims x')"
proof (cases "inbs_Count (inb_Spec x) = None \<or> inbs_Addresses (inb_Spec x) \<noteq> None \<or>
      hasAddresses (inbst_Addresses (inb_Status x))")
  case True
  then show ?thesis using grows_refl [OF assms(1)] by (auto simp: allocInbound_def split: option.split)
next
  case False
  then obtain k where k: "inbs_Count (inb_Spec x) = Some k" by auto
  obtain r ps1 where al: "allocate_addrs (inbs_NetworkRef (inb_Spec x)) (nat k) ns ps True [] = Some (r, ps1)"
    "case r of Inl e \<Rightarrow> covers unavail ns ps1 A
     | Inr (a, es) \<Rightarrow> covers unavail ns ps1 (A \<union> set (alloc_claims (inbs_NetworkRef (inb_Spec x)) a)) \<and>
         fresh (alloc_claims (inbs_NetworkRef (inb_Spec x)) a) A"
    using allocate_covers [OF assms] by blast
  show ?thesis
    using False k al grows_refl [of ns ps1 A] claims_no_addresses
    by (auto simp: allocInbound_def inb_claims_def opt_claims_def Let_def split: sum.splits option.splits
        intro!: growsI)
qed

lemma allocOutbound_grows:
  assumes "covers unavail ns ps A" and "networks_ok ns"
  shows "\<exists>e x' ps'. allocOutbound upd ns x ps = Some (e, x', ps') \<and> grows ns ps' A (outb_claims x) (outb_claims x')"
proof (cases "outbs_Count (outb_Spec x) = None \<or> outbs_Addresses (outb_Spec x) \<noteq> None \<or>
      hasAddresses (outbst_Addresses (outb_Status x))")
  case True
  then show ?thesis using grows_refl [OF assms(1)] by (auto simp: allocOutbound_def split: option.split)
next
  case False
  then obtain k where k: "outbs_Count (outb_Spec x) = Some k" by auto
  obtain r ps1 where al: "allocate_addrs (outbs_NetworkRef (outb_Spec x)) (nat k) ns ps True [] = Some (r, ps1)"
    "case r of Inl e \<Rightarrow> covers unavail ns ps1 A
     | Inr (a, es) \<Rightarrow> covers unavail ns ps1 (A \<union> set (alloc_claims (outbs_NetworkRef (outb_Spec x)) a)) \<and>
         fresh (alloc_claims (outbs_NetworkRef (outb_Spec x)) a) A"
    using allocate_covers [OF assms] by blast
  show ?thesis
    using False k al grows_refl [of ns ps1 A] claims_no_addresses
    by (auto simp: allocOutbound_def outb_claims_def opt_claims_def Let_def split: sum.splits option.splits
        intro!: growsI)
qed

lemma gm_put_absent: "\<not> gm_has m k \<Longrightarrow> gm_put k v m = m @ [(k, v)]"
  by (induction m) (auto simp: gm_has_def split: if_splits)

lemma nodeLoop_grows:
  "covers unavail ns ps A \<Longrightarrow> networks_ok ns \<Longrightarrow>
   \<exists>e na' c' ps'. nodeLoop ref ns res nodes na c ps = Some (e, na', c', ps') \<and>
     grows ns ps' A (node_claims ref na) (node_claims ref na')"
proof (induction nodes arbitrary: na c ps A)
  case (Cons n nodes)
  show ?case
  proof (cases "gm_has na (om_Name n)")
    case True
    then show ?thesis using Cons.IH [OF Cons.prems] by simp
  next
    case False
    obtain r ps1 where al: "allocate_addrs ref 1 ns ps False res = Some (r, ps1)"
      "case r of Inl e \<Rightarrow> covers unavail ns ps1 A
       | Inr (a, es) \<Rightarrow> covers unavail ns ps1 (A \<union> set (alloc_claims ref a)) \<and> fresh (alloc_claims ref a) A"
      using allocate_covers [OF Cons.prems] by blast
    show ?thesis
    proof (cases r)
      case (Inl e)
      then show ?thesis using al False by (auto intro: grows_refl)
    next
      case (Inr ae)
      obtain a es where ae: "ae = (a, es)" by force
      let ?c = "alloc_claims ref a"
      have c: "covers unavail ns ps1 (A \<union> set ?c)" "fresh ?c A" using al(2) Inr ae by auto
      show ?thesis
      proof (cases "length (aa_IPv4 a) + length (aa_IPv6 a) = 0")
        case True
        with c Cons.IH [of ps1 A na c] Cons.prems(2) claims_no_addresses(2) [OF True]
        show ?thesis using al False Inr ae by simp
      next
        case nz: False
        obtain e na' c' ps' where IH: "nodeLoop ref ns res nodes (na @ [(om_Name n, a)]) True ps1 = Some (e, na', c', ps')"
          "grows ns ps' (A \<union> set ?c) (node_claims ref (na @ [(om_Name n, a)])) (node_claims ref na')"
          using Cons.IH [OF c(1) Cons.prems(2)] by blast
        obtain new where "mset (node_claims ref na') = mset (node_claims ref (na @ [(om_Name n, a)])) + mset new"
          "fresh new (A \<union> set ?c)" "covers unavail ns ps' (A \<union> set ?c \<union> set new)"
          using IH(2) unfolding grows_def by blast
        then have "grows ns ps' A (node_claims ref na) (node_claims ref na')"
          using c(2) by (intro growsI [where c = "?c @ new"]) (auto simp: Un_assoc fresh_append node_claims_def)
        then show ?thesis using IH(1) nz al False Inr ae by (auto simp: gm_put_absent)
      qed
    qed
  qed
qed (simp add: grows_refl)

lemma allocLayer2Attachment_grows:
  assumes "covers unavail ns ps A" and "networks_ok ns"
  shows "\<exists>e x' ps'. allocLayer2Attachment upd ns nodes x ps = Some (e, x', ps') \<and>
    grows ns ps' A (l2a_claims x) (l2a_claims x')"
proof (cases "case l2as_NodeIPs (l2a_Spec x) of None \<Rightarrow> True | Some c \<Rightarrow> \<not> nip_Enabled c")
  case True
  then show ?thesis using grows_refl [OF assms(1)] by (simp add: allocLayer2Attachment_def)
next
  case False
  then obtain c where c: "l2as_NodeIPs (l2a_Spec x) = Some c" "nip_Enabled c" by (auto split: option.splits)
  show ?thesis
  proof (cases "parseReservedRanges (nip_ReservedRanges c)")
    case (Inl e)
    then show ?thesis using grows_refl [OF assms(1)] c
      by (simp add: allocLayer2Attachment_def reconcileNodeIPs_def)
  next
    case (Inr res)
    obtain e na' c' ps' where n: "nodeLoop (l2as_NetworkRef (l2a_Spec x)) ns res nodes
        (l2ast_NodeAddresses (l2a_Status x)) False ps = Some (e, na', c', ps')"
      "grows ns ps' A (l2a_claims x) (node_claims (l2as_NetworkRef (l2a_Spec x)) na')"
      using nodeLoop_grows [OF assms] unfolding l2a_claims_def by metis
    have "l2a_claims (x\<lparr>l2a_Status := (l2a_Status x)\<lparr>l2ast_NodeAddresses := na'\<rparr>\<rparr>) =
        node_claims (l2as_NetworkRef (l2a_Spec x)) na'"
      by (simp add: l2a_claims_def)
    with n c Inr show ?thesis
      by (auto simp: allocLayer2Attachment_def reconcileNodeIPs_def Let_def split: option.split)
  qed
qed

lemma inbounds_grow:
  "networks_ok ns \<Longrightarrow> covers unavail ns ps A \<Longrightarrow>
   \<exists>e is ps'. reconcileInboundAllocations upd ns xs ps = Some (e, is, ps') \<and>
     grows ns ps' A (concat (map inb_claims xs)) (concat (map inb_claims is))"
  unfolding reconcileInboundAllocations_def
  by (rule passLoop_grows) (simp_all add: allocInbound_grows)

lemma outbounds_grow:
  "networks_ok ns \<Longrightarrow> covers unavail ns ps A \<Longrightarrow>
   \<exists>e is ps'. reconcileOutboundAllocations upd ns xs ps = Some (e, is, ps') \<and>
     grows ns ps' A (concat (map outb_claims xs)) (concat (map outb_claims is))"
  unfolding reconcileOutboundAllocations_def
  by (rule passLoop_grows) (simp_all add: allocOutbound_grows)

lemma l2as_grow:
  "networks_ok ns \<Longrightarrow> covers unavail ns ps A \<Longrightarrow>
   \<exists>e is ps'. passLoop (allocLayer2Attachment upd ns nodes) xs ps = Some (e, is, ps') \<and>
     grows ns ps' A (concat (map l2a_claims xs)) (concat (map l2a_claims is))"
  by (rule passLoop_grows) (simp_all add: allocLayer2Attachment_grows)

text \<open>C11. The allocation pass never hands out an address twice. For networks of positive prefix
  length the pass always ends. The claims of all resources after it are those before it together
  with new ones, and the new claims are pairwise different and different from every earlier claim:
  addresses already in some status are read back from their text and never allocated again. This
  holds also when a status write is refused and ends the pass early.\<close>

theorem ReconcileAllocations_unique:
  assumes "networks_ok ns"
  shows "\<exists>e f' new. ReconcileAllocations w ns f = Some (e, f') \<and>
    mset (claims f') = mset (claims f) + mset new \<and> distinct new \<and> set new \<inter> set (claims f) = {}"
proof -
  note c0 = covers_unavail [OF seedExisting_covers [OF assms, of f]]
  obtain e1 "is" ps1 n1 where i: "reconcileInboundAllocations (sw_Inbound w) ns (ii_Inbounds f)
      (seedExistingAllocations f ns []) = Some (e1, is, ps1)"
    "mset (concat (map inb_claims is)) = mset (concat (map inb_claims (ii_Inbounds f))) + mset n1"
    "fresh n1 (set (claims f))" "covers unavail ns ps1 (set (claims f) \<union> set n1)"
    using inbounds_grow [OF assms c0, of "sw_Inbound w" "ii_Inbounds f"] unfolding grows_def by blast
  obtain e2 os2 ps2 n2 where out: "reconcileOutboundAllocations (sw_Outbound w) ns (ii_Outbounds f) ps1 = Some (e2, os2, ps2)"
    "mset (concat (map outb_claims os2)) = mset (concat (map outb_claims (ii_Outbounds f))) + mset n2"
    "fresh n2 (set (claims f) \<union> set n1)" "covers unavail ns ps2 (set (claims f) \<union> set n1 \<union> set n2)"
    using outbounds_grow [OF assms i(4), of "sw_Outbound w" "ii_Outbounds f"] unfolding grows_def by blast
  obtain e3 ls ps3 n3 where l: "passLoop (allocLayer2Attachment (sw_Layer2Attachment w) ns (ii_Nodes f))
      (ii_Layer2Attachments f) ps2 = Some (e3, ls, ps3)"
    "mset (concat (map l2a_claims ls)) = mset (concat (map l2a_claims (ii_Layer2Attachments f))) + mset n3"
    "fresh n3 (set (claims f) \<union> set n1 \<union> set n2)"
    using l2as_grow [OF assms out(4), of "sw_Layer2Attachment w" "ii_Nodes f" "ii_Layer2Attachments f"]
    unfolding grows_def by blast
  have f12: "fresh (n1 @ n2) (set (claims f))" using i(3) out(3) by (rule fresh_append)
  have f123: "fresh ((n1 @ n2) @ n3) (set (claims f))"
    by (rule fresh_append [OF f12]) (use l(3) in \<open>simp add: Un_assoc\<close>)
  show ?thesis
  proof (cases e1)
    case (Some e)
    then show ?thesis
      using i by (auto simp: ReconcileAllocations_def claims_def fresh_def intro!: exI [of _ n1])
  next
    case None
    show ?thesis
    proof (cases e2)
      case (Some e)
      then show ?thesis using None i out f12
        by (auto simp: ReconcileAllocations_def claims_def fresh_def intro!: exI [of _ "n1 @ n2"])
    next
      case None2: None
      then show ?thesis using None i out l f123
        by (auto simp: ReconcileAllocations_def claims_def fresh_def intro!: exI [of _ "n1 @ n2 @ n3"])
    qed
  qed
qed


definition sampleNetworks :: networks where
  "sampleNetworks = [(''net'', \<lparr>rn_Name = ''net'', rn_Spec =
     \<lparr>nws_IPv4 = Some \<lparr>ipn_CIDR = ''10.0.0.0/24'', ipn_PrefixLength = None\<rparr>,
      nws_IPv6 = Some \<lparr>ipn_CIDR = ''fd00::/8'', ipn_PrefixLength = None\<rparr>,
      nws_VLAN = Some 100, nws_VNI = Some 5000\<rparr>\<rparr>)]"

definition sampleMeta :: "string \<Rightarrow> ObjectMeta" where
  "sampleMeta n = \<lparr>om_Name = n, om_Namespace = ''default'', om_UID = n, om_Labels = [], om_Annotations = [],
     om_Generation = 1, om_CreationTimestamp = 0, om_DeletionTimestamp = None, om_Finalizers = []\<rparr>"

definition sampleInbound :: "string \<Rightarrow> AddressAllocation option \<Rightarrow> Inbound" where
  "sampleInbound n a = ObjectMeta.extend (sampleMeta n) (Inbound.fields
     \<lparr>inbs_NetworkRef = ''net'', inbs_Destinations = None, inbs_Count = Some 2, inbs_Addresses = None,
      inbs_PoolName = None, inbs_TenantLoadBalancerClass = None, inbs_AdvertisementType = ''bgp''\<rparr>
     \<lparr>inbst_ObservedGeneration = 0, inbst_Addresses = a, inbst_PoolName = None, inbst_VRFs = [],
      inbst_Conditions = []\<rparr>)"

definition sampleInput :: IpamInput where
  "sampleInput = \<lparr>ii_Inbounds = [sampleInbound ''a'' (Some \<lparr>aa_IPv4 = [''10.0.0.4''], aa_IPv6 = []\<rparr>),
     sampleInbound ''b'' None], ii_Outbounds = [], ii_Layer2Attachments = [], ii_Nodes = []\<rparr>"

lemma sampleNetworks_ok: "networks_ok sampleNetworks"
  by code_simp

theorem ReconcileAllocations_unique_witness:
  "networks_ok sampleNetworks \<and>
   (\<exists>e f' new. ReconcileAllocations \<lparr>sw_Inbound = \<lambda>_. True, sw_Outbound = \<lambda>_. True, sw_Layer2Attachment = \<lambda>_. True\<rparr>
      sampleNetworks sampleInput = Some (e, f') \<and>
      mset (claims f') = mset (claims sampleInput) + mset new \<and> distinct new \<and>
      set new \<inter> set (claims sampleInput) = {})"
  by (intro conjI sampleNetworks_ok ReconcileAllocations_unique)


text \<open>
  An L2 pool reserves the host part of the authored CIDR as the gateway. Networks carry their network
  address, so nothing is reserved, and the first node gets the address that \<open>GatewayAddr\<close>
  derives for the anycast gateway of the same subnet.
\<close>

lemma first_node_ip_is_gateway:
  "(case allocateFromCIDR ''net/v4'' ''10.0.1.0/24'' 1 [] False [] of
      Some (Inr [a], _) \<Rightarrow> a = fst (ParseCIDRParts ''10.0.1.0/24'') | _ \<Rightarrow> False)"
  by code_simp

end
