(* ===== verification/Revision_Types.thy ===== *)
theory Revision_Types
  imports Kube_Types Nnc_Types
begin

text \<open>
  The northbound resources of \<open>api/v1alpha1\<close> (\<open>vrfrouteconfiguration_types.go\<close>,
  \<open>layer2networkconfiguration_types.go\<close>, \<open>bgppeering_types.go\<close>, \<open>mirrortarget_types.go\<close>,
  \<open>mirrorselector_types.go\<close>) and the revisions made of them (\<open>networkconfigrevision_types.go\<close>).
  A revision entry embeds the specification of its resource, so it is a record extension of it.
  A Go \<open>int\<close> that only configures something is an \<open>int\<close>; where the operators narrow it to a
  \<open>uint32\<close> or \<open>uint16\<close> the narrowing is written out.
\<close>

record VrfRouteConfigurationPrefixItem =
  pi_CIDR :: string
  pi_Seq :: int
  pi_GE :: "int option"
  pi_LE :: "int option"
  pi_Action :: string

record VRFLoopback =
  vl_Name :: string
  vl_Subnet :: string

record VRFRouteConfigurationSpec =
  vrc_VRF :: string
  vrc_RouteTarget :: "string option"
  vrc_VNI :: "int option"
  vrc_Import :: "VrfRouteConfigurationPrefixItem list"
  vrc_Export :: "VrfRouteConfigurationPrefixItem list"
  vrc_Aggregate :: "string list"
  vrc_SBRPrefixes :: "string list"
  vrc_Seq :: int
  vrc_Community :: "string option"
  vrc_Communities :: "string list"
  vrc_NodeSelector :: "LabelSelector option"
  vrc_Loopbacks :: "VRFLoopback list"

record VRFRouteConfiguration = ObjectMeta +
  vrc_Spec :: VRFRouteConfigurationSpec

record Layer2NetworkConfigurationSpec =
  l2c_ID :: int
  l2c_MTU :: int
  l2c_VNI :: int
  l2c_AnycastMac :: string
  l2c_AnycastGateways :: "string list"
  l2c_AdvertiseNeighbors :: bool
  l2c_CreateMACVLANInterface :: bool
  l2c_NeighSuppression :: "bool option"
  l2c_DisableSegmentation :: bool
  l2c_VRF :: string
  l2c_NodeSelector :: "LabelSelector option"

record Layer2NetworkConfiguration = ObjectMeta +
  l2c_Spec :: Layer2NetworkConfigurationSpec

record BGPPeeringVLAN =
  bpv_Name :: string

record BGPPeeringLoopback =
  bpl_IPAddresses :: "string list"

record BGPPeeringSpec =
  bgs_PeeringVlan :: "BGPPeeringVLAN option"
  bgs_LoopbackPeer :: "BGPPeeringLoopback option"
  bgs_RemoteASN :: u32
  bgs_EnableBFD :: bool
  bgs_MaximumPrefixes :: "u32 option"
  bgs_HoldTime :: "int option"
  bgs_KeepaliveTime :: "int option"
  bgs_Import :: "VrfRouteConfigurationPrefixItem list"
  bgs_Export :: "VrfRouteConfigurationPrefixItem list"
  bgs_NodeSelector :: "LabelSelector option"

record BGPPeering = ObjectMeta +
  bgs_Spec :: BGPPeeringSpec

text \<open>\<open>MirrorTargetType\<close> is a string with two documented values.\<close>

type_synonym MirrorTargetType = string

definition MirrorTargetTypeL2GRE :: MirrorTargetType where
  "MirrorTargetTypeL2GRE = ''l2gre''"

definition MirrorTargetTypeL3GRE :: MirrorTargetType where
  "MirrorTargetTypeL3GRE = ''l3gre''"

record MirrorTargetSpec =
  mts_Type :: MirrorTargetType
  mts_DestinationIP :: string
  mts_TunnelKey :: "u32 option"
  mts_DestinationVrf :: string
  mts_SourceLoopback :: string

record MirrorTargetStatus =
  mtst_ActiveSelectors :: int
  mtst_ActiveNodes :: int
  mtst_Conditions :: "Condition list"

record MirrorTarget = ObjectMeta +
  mt_Spec :: MirrorTargetSpec
  mt_Status :: MirrorTargetStatus

record MirrorSelectorSpec =
  mss_TrafficMatch :: TrafficMatch
  mss_MirrorTarget :: TypedObjectReference
  mss_MirrorSource :: TypedObjectReference
  mss_Direction :: MirrorDirection

record MirrorSelectorStatus =
  msst_Conditions :: "Condition list"

record MirrorSelector = ObjectMeta +
  msel_Spec :: MirrorSelectorSpec
  msel_Status :: MirrorSelectorStatus

section \<open>Revisions\<close>

record Layer2Revision = Layer2NetworkConfigurationSpec +
  l2rev_Name :: string

record VRFRevision = VRFRouteConfigurationSpec +
  vrev_Name :: string

record BGPRevision = BGPPeeringSpec +
  brev_Name :: string

record MirrorTargetRevision = MirrorTargetSpec +
  mtrev_Name :: string

record MirrorSelectorRevision = MirrorSelectorSpec +
  msrev_Name :: string

record NetworkConfigRevisionSpec =
  rs_Layer2 :: "Layer2Revision list"
  rs_Vrf :: "VRFRevision list"
  rs_BGP :: "BGPRevision list"
  rs_MirrorTargets :: "MirrorTargetRevision list"
  rs_MirrorSelectors :: "MirrorSelectorRevision list"
  rs_Revision :: string

record NetworkConfigRevisionStatus =
  rst_IsInvalid :: bool
  rst_Ready :: int
  rst_Ongoing :: int
  rst_Queued :: int
  rst_Total :: int
  rst_FailedNode :: string
  rst_FailedMessage :: string
  rst_FailedAt :: "gotime option"

record NetworkConfigRevision = ObjectMeta +
  rev_Spec :: NetworkConfigRevisionSpec
  rev_Status :: NetworkConfigRevisionStatus

definition zeroRevisionStatus :: NetworkConfigRevisionStatus where
  "zeroRevisionStatus = \<lparr>rst_IsInvalid = False, rst_Ready = 0, rst_Ongoing = 0, rst_Queued = 0, rst_Total = 0,
     rst_FailedNode = '''', rst_FailedMessage = '''', rst_FailedAt = None\<rparr>"

definition namedMeta :: "string \<Rightarrow> ObjectMeta" where
  "namedMeta n = \<lparr>om_Name = n, om_Namespace = '''', om_UID = n, om_Labels = [], om_Annotations = [], om_Generation = 0,
     om_CreationTimestamp = 0, om_DeletionTimestamp = None, om_Finalizers = []\<rparr>"

section \<open>Netplan\<close>

text \<open>
  \<open>NodeNetplanConfig\<close>: the desired state is a netplan network state; a device is its raw JSON
  text. The operator sets the version, the VLANs and the dummy devices.
\<close>

record NetworkState =
  ns_Version :: int
  ns_Ethernets :: "(string, string) gomap"
  ns_Modems :: "(string, string) gomap"
  ns_Wifis :: "(string, string) gomap"
  ns_Bridges :: "(string, string) gomap"
  ns_Bonds :: "(string, string) gomap"
  ns_Tunnels :: "(string, string) gomap"
  ns_VLans :: "(string, string) gomap"
  ns_VRFs :: "(string, string) gomap"
  ns_Dummies :: "(string, string) gomap"

record NodeNetplanConfig =
  npc_Name :: string
  npc_Labels :: "(string, string) gomap"
  npc_OwnerReferences :: "OwnerReference list"
  npc_DesiredState :: NetworkState

end
