(* ===== verification/Go_Json.thy ===== *)
theory Go_Json
  imports Prelude "HOL-Library.Product_Lexorder"
begin

text \<open>
  What the operators use of two packages of the Go library.

  \<^item> \<open>encoding/json\<close>: a marshalled value is a \<open>json\<close> tree, \<open>jprint\<close> its compact text with the
    string escapes \<open>json.Marshal\<close> writes, HTML escapes and the replacement of invalid UTF-8
    included. The fields of an object are in the order of the struct; \<open>jmap\<close> sorts the keys of a
    map, as \<open>Marshal\<close> does.
  \<^item> \<open>slices\<close>: \<open>SortFunc\<close> is the insertion sort of the library. The library switches to
    pattern-defeating quicksort above twelve elements, which may leave elements that compare equal
    in another order; for a comparison that is 0 only on equal elements the result is the same
    (\<open>SortFunc_perm\<close>).
\<close>

datatype json = JNull | JBool bool | JInt int | JStr string | JArr "json list" | JObj "(string \<times> json) list"

definition jhex :: "nat \<Rightarrow> char" where
  "jhex d = (if d < 10 then char_of (48 + d) else char_of (87 + d))"

text \<open>\<open>utf8.DecodeRuneInString\<close>: the length of the multi-byte rune at the front, 0 when invalid.\<close>

definition cont :: "nat \<Rightarrow> nat \<Rightarrow> char \<Rightarrow> bool" where
  "cont lo hi c \<longleftrightarrow> lo \<le> of_char c \<and> of_char c \<le> hi"

definition runeLen :: "char \<Rightarrow> string \<Rightarrow> nat" where
  "runeLen c cs = (let b = of_char c :: nat in
     if 0xC2 \<le> b \<and> b \<le> 0xDF then
       (case cs of c1 # _ \<Rightarrow> if cont 0x80 0xBF c1 then 2 else 0 | _ \<Rightarrow> 0)
     else if 0xE0 \<le> b \<and> b \<le> 0xEF then
       (case cs of c1 # c2 # _ \<Rightarrow>
          if cont (if b = 0xE0 then 0xA0 else 0x80) (if b = 0xED then 0x9F else 0xBF) c1
             \<and> cont 0x80 0xBF c2 then 3 else 0
        | _ \<Rightarrow> 0)
     else if 0xF0 \<le> b \<and> b \<le> 0xF4 then
       (case cs of c1 # c2 # c3 # _ \<Rightarrow>
          if cont (if b = 0xF0 then 0x90 else 0x80) (if b = 0xF4 then 0x8F else 0xBF) c1
             \<and> cont 0x80 0xBF c2 \<and> cont 0x80 0xBF c3 then 4 else 0
        | _ \<Rightarrow> 0)
     else 0)"

definition escByte :: "char \<Rightarrow> string" where
  "escByte c = (let b = of_char c :: nat in
     if c = CHR 0x22 \<or> c = CHR 0x5C then [CHR 0x5C, c]
     else if b = 8 then [CHR 0x5C, CHR ''b'']
     else if b = 12 then [CHR 0x5C, CHR ''f'']
     else if b = 10 then [CHR 0x5C, CHR ''n'']
     else if b = 13 then [CHR 0x5C, CHR ''r'']
     else if b = 9 then [CHR 0x5C, CHR ''t'']
     else if b < 32 \<or> c = CHR ''<'' \<or> c = CHR ''>'' \<or> c = CHR ''&'' then
       CHR 0x5C # ''u00'' @ [jhex (b div 16), jhex (b mod 16)]
     else [c])"

fun jesc :: "string \<Rightarrow> string" where
  "jesc [] = []"
| "jesc (c # cs) =
     (if (of_char c :: nat) < 0x80 then escByte c @ jesc cs
      else let n = runeLen c cs in
        if n = 0 then CHR 0x5C # ''ufffd'' @ jesc cs
        else if c = CHR 0xE2 \<and> take 2 cs = [CHR 0x80, CHR 0xA8] then CHR 0x5C # ''u2028'' @ jesc (drop 2 cs)
        else if c = CHR 0xE2 \<and> take 2 cs = [CHR 0x80, CHR 0xA9] then CHR 0x5C # ''u2029'' @ jesc (drop 2 cs)
        else c # take (n - 1) cs @ jesc (drop (n - 1) cs))"

definition jquote :: "string \<Rightarrow> string" where
  "jquote s = CHR 0x22 # jesc s @ [CHR 0x22]"

fun joinComma :: "string list \<Rightarrow> string" where
  "joinComma [] = []"
| "joinComma [x] = x"
| "joinComma (x # y # xs) = x @ '','' @ joinComma (y # xs)"

fun jprint :: "json \<Rightarrow> string" where
  "jprint JNull = ''null''"
| "jprint (JBool b) = (if b then ''true'' else ''false'')"
| "jprint (JInt n) = itoa n"
| "jprint (JStr s) = jquote s"
| "jprint (JArr js) = ''['' @ joinComma (map jprint js) @ '']''"
| "jprint (JObj kvs) = ''{'' @ joinComma (map (\<lambda>(k, j). jquote k @ '':'' @ jprint j) kvs) @ ''}''"

text \<open>A struct field tagged \<open>omitempty\<close>, an optional one, a map.\<close>

definition jomit :: "string \<Rightarrow> bool \<Rightarrow> json \<Rightarrow> (string \<times> json) list" where
  "jomit k isEmpty j = (if isEmpty then [] else [(k, j)])"

definition jopt :: "string \<Rightarrow> ('a \<Rightarrow> json) \<Rightarrow> 'a option \<Rightarrow> (string \<times> json) list" where
  "jopt k f x = (case x of None \<Rightarrow> [] | Some y \<Rightarrow> [(k, f y)])"

definition jstrs :: "string list \<Rightarrow> json" where
  "jstrs xs = JArr (map JStr xs)"

definition jmap :: "(string, json) gomap \<Rightarrow> json" where
  "jmap m = JObj (sort_key fst m)"

text \<open>\<open>slices.SortFunc\<close>: each element moves left past the elements it compares below.\<close>

fun moveLeft :: "('a \<Rightarrow> 'a \<Rightarrow> int) \<Rightarrow> 'a \<Rightarrow> 'a list \<Rightarrow> 'a list" where
  "moveLeft cmp x [] = [x]"
| "moveLeft cmp x (y # ys) = (if cmp x y < 0 then y # moveLeft cmp x ys else x # y # ys)"

definition SortFunc :: "('a \<Rightarrow> 'a \<Rightarrow> int) \<Rightarrow> 'a list \<Rightarrow> 'a list" where
  "SortFunc cmp xs = rev (foldl (\<lambda>acc x. moveLeft cmp x acc) [] xs)"

section \<open>Sorting\<close>

text \<open>A comparison function that orders by a key.\<close>

definition cmp_by :: "('a \<Rightarrow> 'k :: linorder) \<Rightarrow> ('a \<Rightarrow> 'a \<Rightarrow> int) \<Rightarrow> bool" where
  "cmp_by key cmp \<longleftrightarrow> (\<forall>x y. cmp x y < 0 \<longleftrightarrow> key x < key y)"

lemma moveLeft_sorted:
  assumes "cmp_by key cmp"
  shows "sorted (map key (rev acc)) \<Longrightarrow>
         rev (moveLeft cmp x acc) = filter (\<lambda>y. key y \<le> key x) (rev acc) @ x # filter (\<lambda>y. key x < key y) (rev acc)"
proof (induction acc)
  case (Cons y ys)
  show ?case
  proof (cases "key x < key y")
    case True
    with Cons assms show ?thesis by (auto simp: cmp_by_def sorted_append)
  next
    case False
    have "\<forall>z \<in> set (rev (y # ys)). key z \<le> key x"
      using False Cons.prems by (auto simp: sorted_append)
    then have "filter (\<lambda>z. key z \<le> key x) (rev (y # ys)) = rev (y # ys)"
      "filter (\<lambda>z. key x < key z) (rev (y # ys)) = []"
      by (auto simp: filter_id_conv filter_empty_conv leD)
    with False assms show ?thesis by (simp add: cmp_by_def)
  qed
qed simp

lemma sort_key_snoc:
  "sort_key key (xs @ [x]) =
     filter (\<lambda>y. key y \<le> key x) (sort_key key xs) @ x # filter (\<lambda>y. key x < key y) (sort_key key xs)"
    (is "_ = ?ys")
proof (rule properties_for_sort_key)
  have "mset (filter P ys) + mset (filter (\<lambda>y. \<not> P y) ys) = mset ys" for P and ys :: "'a list"
    using multiset_partition [of "mset ys" P] by simp
  from this [of "\<lambda>y. key y \<le> key x" "sort_key key xs"]
  show "mset ?ys = mset (xs @ [x])" by (simp add: not_le)
next
  have sorted: "sorted (map key (sort_key key xs))" by simp
  then show "sorted (map key ?ys)"
    by (auto simp: sorted_append intro: sorted_filter)
  fix k
  have stable: "filter (\<lambda>y. key k = key y) (sort_key key xs) = filter (\<lambda>y. key k = key y) xs"
    by (simp only: eq_commute [of "key k"] sort_key_stable)
  show "filter (\<lambda>y. key k = key y) ?ys = filter (\<lambda>y. key k = key y) (xs @ [x])"
  proof (cases "key k \<le> key x")
    case True
    then have "filter (\<lambda>y. key y \<le> key x \<and> key k = key y) zs = filter (\<lambda>y. key k = key y) zs"
      and "filter (\<lambda>y. key x < key y \<and> key k = key y) zs = []" for zs
      by (auto intro!: filter_cong [OF refl] simp: filter_empty_conv)
    with stable show ?thesis by (auto simp: filter_empty_conv)
  next
    case False
    then have "filter (\<lambda>y. key y \<le> key x \<and> key k = key y) zs = []"
      and "filter (\<lambda>y. key x < key y \<and> key k = key y) zs = filter (\<lambda>y. key k = key y) zs" for zs
      by (auto intro!: filter_cong [OF refl] simp: filter_empty_conv)
    with stable False show ?thesis by auto
  qed
qed

text \<open>On a comparison by key the insertion sort is the stable sort.\<close>

lemma SortFunc_sort_key:
  assumes "cmp_by key cmp"
  shows "SortFunc cmp xs = sort_key key xs"
proof (induction xs rule: rev_induct)
  case (snoc x xs)
  define acc where "acc = foldl (\<lambda>acc x. moveLeft cmp x acc) [] xs"
  have "rev acc = sort_key key xs" using snoc by (simp add: SortFunc_def acc_def)
  moreover have "SortFunc cmp (xs @ [x]) = rev (moveLeft cmp x acc)" by (simp add: SortFunc_def acc_def)
  ultimately show ?case by (simp add: moveLeft_sorted [OF assms] sort_key_snoc)
qed (simp add: SortFunc_def)

lemma SortFunc_perm:
  assumes "cmp_by key cmp" "mset xs = mset ys" "inj_on key (set xs)"
  shows "SortFunc cmp xs = SortFunc cmp ys"
proof -
  have "sort_key key xs = sort_key key ys"
    using assms by (intro sort_key_inj_key_eq) simp_all
  then show ?thesis by (simp add: SortFunc_sort_key [OF assms(1)])
qed

lemma set_SortFunc: "set (SortFunc cmp xs) = set xs"
proof -
  have "set (moveLeft cmp x acc) = insert x (set acc)" for x acc
    by (induction acc) auto
  then have "set (foldl (\<lambda>acc x. moveLeft cmp x acc) acc xs) = set acc \<union> set xs" for acc
    by (induction xs arbitrary: acc) auto
  then show ?thesis by (simp add: SortFunc_def)
qed

end
