(* ===== verification/Revision.thy ===== *)
theory Revision
  imports Revision_Types Kube_Client Go_Json Go_Sha256
begin

text \<open>
  Revisions of the configuration: \<open>NewRevision\<close> of \<open>api/v1alpha1/networkconfigrevision_types.go\<close>
  and the reconciler of \<open>pkg/reconciler/operator/config_reconciler.go\<close> that turns the resources
  of the cluster into a \<open>NetworkConfigRevision\<close>.

  \<open>json.Marshal\<close> prints the revision's specification, so the encoders of its types are here,
  field by field after the struct tags. The types of \<open>k8s.io/apimachinery\<close> and \<open>k8s.io/api\<close>
  marshal themselves; their encoders are the parameter \<open>K8sJson\<close>. A slice without \<open>omitempty\<close>
  (the import and export lists) is required by the resource's schema, so an empty one is an
  empty array. \<open>Marshal\<close> cannot fail on these types and neither can the hash's \<open>Write\<close>, so
  \<open>NewRevision\<close> has no error branch.

  The debouncer that calls \<open>ReconcileDebounced\<close>, the logger and the request timeout are left
  out; an expired deadline is an error the client returns.
\<close>

record K8sJson =
  kj_selector :: "LabelSelector \<Rightarrow> json"
  kj_ref :: "TypedObjectReference \<Rightarrow> json"
  kj_duration :: "int \<Rightarrow> json"

definition encPrefixItem :: "VrfRouteConfigurationPrefixItem \<Rightarrow> json" where
  "encPrefixItem i = JObj
     (jomit ''cidr'' (pi_CIDR i = '''') (JStr (pi_CIDR i)) @
      jomit ''seq'' (pi_Seq i = 0) (JInt (pi_Seq i)) @
      jopt ''ge'' JInt (pi_GE i) @
      jopt ''le'' JInt (pi_LE i) @
      [(''action'', JStr (pi_Action i))])"

definition encLoopback :: "VRFLoopback \<Rightarrow> json" where
  "encLoopback l = JObj [(''name'', JStr (vl_Name l)), (''subnet'', JStr (vl_Subnet l))]"

definition encVRFRevision :: "K8sJson \<Rightarrow> VRFRevision \<Rightarrow> json" where
  "encVRFRevision kj v = JObj
     (jomit ''name'' (vrev_Name v = '''') (JStr (vrev_Name v)) @
      jomit ''vrf'' (vrc_VRF v = '''') (JStr (vrc_VRF v)) @
      jopt ''routeTarget'' JStr (vrc_RouteTarget v) @
      jopt ''vni'' JInt (vrc_VNI v) @
      [(''import'', JArr (map encPrefixItem (vrc_Import v))),
       (''export'', JArr (map encPrefixItem (vrc_Export v)))] @
      jomit ''aggregate'' (vrc_Aggregate v = []) (jstrs (vrc_Aggregate v)) @
      jomit ''sbrPrefixes'' (vrc_SBRPrefixes v = []) (jstrs (vrc_SBRPrefixes v)) @
      [(''seq'', JInt (vrc_Seq v))] @
      jopt ''community'' JStr (vrc_Community v) @
      jomit ''communities'' (vrc_Communities v = []) (jstrs (vrc_Communities v)) @
      jopt ''nodeSelector'' (kj_selector kj) (vrc_NodeSelector v) @
      jomit ''loopbacks'' (vrc_Loopbacks v = []) (JArr (map encLoopback (vrc_Loopbacks v))))"

definition encLayer2Revision :: "K8sJson \<Rightarrow> Layer2Revision \<Rightarrow> json" where
  "encLayer2Revision kj l = JObj
     (jomit ''name'' (l2rev_Name l = '''') (JStr (l2rev_Name l)) @
      [(''id'', JInt (l2c_ID l)), (''mtu'', JInt (l2c_MTU l)), (''vni'', JInt (l2c_VNI l))] @
      jomit ''anycastMac'' (l2c_AnycastMac l = '''') (JStr (l2c_AnycastMac l)) @
      jomit ''anycastGateways'' (l2c_AnycastGateways l = []) (jstrs (l2c_AnycastGateways l)) @
      jomit ''advertiseNeighbors'' (\<not> l2c_AdvertiseNeighbors l) (JBool (l2c_AdvertiseNeighbors l)) @
      jomit ''createMacVLANInterface'' (\<not> l2c_CreateMACVLANInterface l) (JBool (l2c_CreateMACVLANInterface l)) @
      jopt ''neighSuppression'' JBool (l2c_NeighSuppression l) @
      jomit ''disableSegmentation'' (\<not> l2c_DisableSegmentation l) (JBool (l2c_DisableSegmentation l)) @
      jomit ''vrf'' (l2c_VRF l = '''') (JStr (l2c_VRF l)) @
      jopt ''nodeSelector'' (kj_selector kj) (l2c_NodeSelector l))"

definition encBGPRevision :: "K8sJson \<Rightarrow> BGPRevision \<Rightarrow> json" where
  "encBGPRevision kj b = JObj
     (jomit ''name'' (brev_Name b = '''') (JStr (brev_Name b)) @
      jopt ''peeringVlan'' (\<lambda>p. JObj [(''name'', JStr (bpv_Name p))]) (bgs_PeeringVlan b) @
      jopt ''loopbackPeer'' (\<lambda>p. JObj [(''ips'', jstrs (bpl_IPAddresses p))]) (bgs_LoopbackPeer b) @
      [(''remoteASN'', JInt (uint (bgs_RemoteASN b))), (''enableBFD'', JBool (bgs_EnableBFD b))] @
      jopt ''maximumPrefixes'' (\<lambda>w. JInt (uint w)) (bgs_MaximumPrefixes b) @
      jopt ''holdTime'' (kj_duration kj) (bgs_HoldTime b) @
      jopt ''keepaliveTime'' (kj_duration kj) (bgs_KeepaliveTime b) @
      [(''import'', JArr (map encPrefixItem (bgs_Import b))),
       (''export'', JArr (map encPrefixItem (bgs_Export b)))] @
      jopt ''nodeSelector'' (kj_selector kj) (bgs_NodeSelector b))"

definition encMirrorTargetRevision :: "MirrorTargetRevision \<Rightarrow> json" where
  "encMirrorTargetRevision t = JObj
     (jomit ''name'' (mtrev_Name t = '''') (JStr (mtrev_Name t)) @
      [(''type'', JStr (mts_Type t)), (''destinationIP'', JStr (mts_DestinationIP t))] @
      jopt ''key'' (\<lambda>w. JInt (uint w)) (mts_TunnelKey t) @
      [(''destinationVrf'', JStr (mts_DestinationVrf t)), (''sourceLoopback'', JStr (mts_SourceLoopback t))])"

definition encTrafficMatch :: "TrafficMatch \<Rightarrow> json" where
  "encTrafficMatch m = JObj
     (jopt ''srcPrefix'' JStr (tm_SrcPrefix m) @
      jopt ''dstPrefix'' JStr (tm_DstPrefix m) @
      jopt ''srcPort'' (\<lambda>w. JInt (uint w)) (tm_SrcPort m) @
      jopt ''dstPort'' (\<lambda>w. JInt (uint w)) (tm_DstPort m) @
      jopt ''protocol'' JStr (tm_Protocol m))"

fun directionString :: "MirrorDirection \<Rightarrow> string" where
  "directionString MirrorDirectionIngress = ''ingress''"
| "directionString MirrorDirectionEgress = ''egress''"

definition encMirrorSelectorRevision :: "K8sJson \<Rightarrow> MirrorSelectorRevision \<Rightarrow> json" where
  "encMirrorSelectorRevision kj s = JObj
     (jomit ''name'' (msrev_Name s = '''') (JStr (msrev_Name s)) @
      [(''trafficMatch'', encTrafficMatch (mss_TrafficMatch s)),
       (''mirrorTarget'', kj_ref kj (mss_MirrorTarget s)),
       (''mirrorSource'', kj_ref kj (mss_MirrorSource s)),
       (''direction'', JStr (directionString (mss_Direction s)))])"

definition encRevisionSpec :: "K8sJson \<Rightarrow> NetworkConfigRevisionSpec \<Rightarrow> json" where
  "encRevisionSpec kj s = JObj
     (jomit ''layer2'' (rs_Layer2 s = []) (JArr (map (encLayer2Revision kj) (rs_Layer2 s))) @
      jomit ''vrf'' (rs_Vrf s = []) (JArr (map (encVRFRevision kj) (rs_Vrf s))) @
      jomit ''bgp'' (rs_BGP s = []) (JArr (map (encBGPRevision kj) (rs_BGP s))) @
      jomit ''mirrorTargets'' (rs_MirrorTargets s = [])
        (JArr (map encMirrorTargetRevision (rs_MirrorTargets s))) @
      jomit ''mirrorSelectors'' (rs_MirrorSelectors s = [])
        (JArr (map (encMirrorSelectorRevision kj) (rs_MirrorSelectors s))) @
      [(''revision'', JStr (rs_Revision s))])"

definition NewRevision ::
  "K8sJson \<Rightarrow> Layer2Revision list \<Rightarrow> VRFRevision list \<Rightarrow> BGPRevision list \<Rightarrow> MirrorTargetRevision list \<Rightarrow>
   MirrorSelectorRevision list \<Rightarrow> NetworkConfigRevision" where
  "NewRevision kj layer2 vrfs bgps mirrorTargets mirrorSelectors =
     (let spec = \<lparr>rs_Layer2 = layer2, rs_Vrf = vrfs, rs_BGP = bgps, rs_MirrorTargets = mirrorTargets,
                  rs_MirrorSelectors = mirrorSelectors, rs_Revision = ''''\<rparr>;
          hashHex = sha256_hex (jprint (encRevisionSpec kj spec)) in
      ObjectMeta.extend (namedMeta (take 10 hashHex))
        \<lparr>rev_Spec = spec\<lparr>rs_Revision := hashHex\<rparr>, rev_Status = zeroRevisionStatus\<rparr>)"

section \<open>Fetching the configuration\<close>

record 's OperatorClients =
  oc_Layer2 :: "('s, Layer2NetworkConfiguration) ResClient"
  oc_Vrf :: "('s, VRFRouteConfiguration) ResClient"
  oc_BGP :: "('s, BGPPeering) ResClient"
  oc_MirrorTargets :: "('s, MirrorTarget) ResClient"
  oc_MirrorSelectors :: "('s, MirrorSelector) ResClient"
  oc_Revisions :: "('s, NetworkConfigRevision) ResClient"
  oc_Nodes :: "('s, Node) ResClient"
  oc_Configs :: "('s, NodeNetworkConfig) ResClient"
  oc_Netplan :: "('s, NodeNetplanConfig) ResClient"

definition cmpLess :: "('k :: linorder) \<Rightarrow> 'k \<Rightarrow> int" where
  "cmpLess a b = (if a < b then -1 else if a > b then 1 else 0)"

definition lessLayer2 :: "Layer2Revision \<Rightarrow> Layer2Revision \<Rightarrow> int" where
  "lessLayer2 a b = (if l2c_ID a < l2c_ID b then -1 else if l2c_ID a > l2c_ID b then 1 else 0)"

definition lessLayer3 :: "VRFRevision \<Rightarrow> VRFRevision \<Rightarrow> int" where
  "lessLayer3 a b =
     (if vrev_Name a < vrev_Name b then -1 else if vrev_Name a > vrev_Name b then 1
      else if vrc_Seq a < vrc_Seq b then -1 else if vrc_Seq a > vrc_Seq b then 1 else 0)"

definition lessBgp :: "BGPRevision \<Rightarrow> BGPRevision \<Rightarrow> int" where
  "lessBgp a b = (if brev_Name a < brev_Name b then -1 else if brev_Name a > brev_Name b then 1 else 0)"

definition lessMirrorTarget :: "MirrorTargetRevision \<Rightarrow> MirrorTargetRevision \<Rightarrow> int" where
  "lessMirrorTarget a b = cmpLess (mtrev_Name a) (mtrev_Name b)"

definition lessMirrorSelector :: "MirrorSelectorRevision \<Rightarrow> MirrorSelectorRevision \<Rightarrow> int" where
  "lessMirrorSelector a b = cmpLess (msrev_Name a) (msrev_Name b)"

definition lessRevision :: "NetworkConfigRevision \<Rightarrow> NetworkConfigRevision \<Rightarrow> int" where
  "lessRevision a b = cmpLess (om_CreationTimestamp b) (om_CreationTimestamp a)"

fun checkL2Duplicates :: "Layer2NetworkConfiguration list \<Rightarrow> (GoError, unit) result" where
  "checkL2Duplicates [] = Inr ()"
| "checkL2Duplicates (c # cs) =
     (case find (\<lambda>d. l2c_VNI (l2c_Spec c) = l2c_VNI (l2c_Spec d)) cs of
        Some d \<Rightarrow> Inl (ErrorString (''dupliate Layer2 VNI found: '' @ om_Name c @ '' '' @ om_Name d))
      | None \<Rightarrow> checkL2Duplicates cs)"

definition layer2Revision :: "Layer2NetworkConfiguration \<Rightarrow> Layer2Revision" where
  "layer2Revision c = Layer2NetworkConfigurationSpec.extend (l2c_Spec c) \<lparr>l2rev_Name = om_Name c\<rparr>"

definition vrfRevision :: "VRFRouteConfiguration \<Rightarrow> VRFRevision" where
  "vrfRevision c = VRFRouteConfigurationSpec.extend (vrc_Spec c) \<lparr>vrev_Name = om_Name c\<rparr>"

definition bgpRevision :: "BGPPeering \<Rightarrow> BGPRevision" where
  "bgpRevision c = BGPPeeringSpec.extend (bgs_Spec c) \<lparr>brev_Name = om_Name c\<rparr>"

definition mirrorTargetRevision :: "MirrorTarget \<Rightarrow> MirrorTargetRevision" where
  "mirrorTargetRevision c = MirrorTargetSpec.extend (mt_Spec c) \<lparr>mtrev_Name = om_Name c\<rparr>"

definition mirrorSelectorRevision :: "MirrorSelector \<Rightarrow> MirrorSelectorRevision" where
  "mirrorSelectorRevision c = MirrorSelectorSpec.extend (msel_Spec c) \<lparr>msrev_Name = om_Name c\<rparr>"

definition fetchLayer2 :: "'s OperatorClients \<Rightarrow> ('s, GoError, Layer2Revision list) io" where
  "fetchLayer2 r = io_bind (api ''error getting list of Layer2s from Kubernetes'' (c_List (oc_Layer2 r)))
     (\<lambda>items. io_bind (io_lift (checkL2Duplicates items))
     (\<lambda>_. io_return (SortFunc lessLayer2 (map layer2Revision items))))"

definition fetchLayer3 :: "'s OperatorClients \<Rightarrow> ('s, GoError, VRFRevision list) io" where
  "fetchLayer3 r = io_bind (api ''error getting list of VRFs from Kubernetes'' (c_List (oc_Vrf r)))
     (\<lambda>items. io_return (SortFunc lessLayer3 (map vrfRevision items)))"

definition fetchBgp :: "'s OperatorClients \<Rightarrow> ('s, GoError, BGPRevision list) io" where
  "fetchBgp r = io_bind
     (api ''error getting list of BGP peering configurations from Kubernetes'' (c_List (oc_BGP r)))
     (\<lambda>items. io_return (SortFunc lessBgp (map bgpRevision items)))"

definition fetchMirrorTargets :: "'s OperatorClients \<Rightarrow> ('s, GoError, MirrorTargetRevision list) io" where
  "fetchMirrorTargets r = io_bind
     (api ''error getting list of MirrorTargets from Kubernetes'' (c_List (oc_MirrorTargets r)))
     (\<lambda>items. io_return (SortFunc lessMirrorTarget (map mirrorTargetRevision items)))"

definition fetchMirrorSelectors :: "'s OperatorClients \<Rightarrow> ('s, GoError, MirrorSelectorRevision list) io" where
  "fetchMirrorSelectors r = io_bind
     (api ''error getting list of MirrorSelectors from Kubernetes'' (c_List (oc_MirrorSelectors r)))
     (\<lambda>items. io_return (SortFunc lessMirrorSelector (map mirrorSelectorRevision items)))"

record revisionData =
  rd_layer2 :: "Layer2Revision list"
  rd_vrfs :: "VRFRevision list"
  rd_bgps :: "BGPRevision list"
  rd_mirrorTargets :: "MirrorTargetRevision list"
  rd_mirrorSelectors :: "MirrorSelectorRevision list"

definition fetchConfigData :: "'s OperatorClients \<Rightarrow> ('s, GoError, revisionData) io" where
  "fetchConfigData r =
     io_bind (wrapErr ''error getting list of Layer2s from Kubernetes'' (fetchLayer2 r)) (\<lambda>l2vnis.
     io_bind (fetchLayer3 r) (\<lambda>l3vnis.
     io_bind (fetchBgp r) (\<lambda>bgps.
     io_bind (fetchMirrorTargets r) (\<lambda>mirrorTargets.
     io_bind (fetchMirrorSelectors r) (\<lambda>mirrorSelectors.
     io_return \<lparr>rd_layer2 = l2vnis, rd_vrfs = l3vnis, rd_bgps = bgps, rd_mirrorTargets = mirrorTargets,
                rd_mirrorSelectors = mirrorSelectors\<rparr>)))))"

definition listRevisions :: "'s OperatorClients \<Rightarrow> ('s, GoError, NetworkConfigRevision list) io" where
  "listRevisions r = io_bind (api ''error listing NetworkConfigRevisions'' (c_List (oc_Revisions r)))
     (\<lambda>items. io_return (SortFunc lessRevision items))"

section \<open>Creating the revision\<close>

definition revHash :: "NetworkConfigRevision \<Rightarrow> string" where
  "revHash r = rs_Revision (rev_Spec r)"

definition revInvalid :: "NetworkConfigRevision \<Rightarrow> bool" where
  "revInvalid r = rst_IsInvalid (rev_Status r)"

definition shouldSkip :: "NetworkConfigRevision list \<Rightarrow> NetworkConfigRevision \<Rightarrow> bool" where
  "shouldSkip revisions p =
     (if (case revisions of r # _ \<Rightarrow> revHash r = revHash p | [] \<Rightarrow> False) then True
      else if (case find (\<lambda>r. \<not> revInvalid r) revisions of Some r \<Rightarrow> revHash r = revHash p | None \<Rightarrow> False)
      then True
      else list_ex (\<lambda>r. revHash r = revHash p \<and> revInvalid r) revisions)"

definition createRevision :: "'s OperatorClients \<Rightarrow> NetworkConfigRevision \<Rightarrow> ('s, GoError, unit) io" where
  "createRevision r revision = io_catch (c_Create (oc_Revisions r) revision)
     (\<lambda>err. if err \<noteq> AlreadyExists then io_throw (Wrap ''error creating NodeConfigRevision'' (ApiErr err))
       else io_bind (io_catch (c_Delete (oc_Revisions r) revision)
           (\<lambda>err. if err \<noteq> NotFound
              then io_throw (Wrap (''error deleting old instance of revision '' @ om_Name revision) (ApiErr err))
              else io_return ()) io_return)
         (\<lambda>_. api (''error creating new instance of revision '' @ om_Name revision)
               (c_Create (oc_Revisions r) revision)))
     io_return"

definition ReconcileDebounced :: "K8sJson \<Rightarrow> 's OperatorClients \<Rightarrow> ('s, GoError, unit) io" where
  "ReconcileDebounced kj r =
     io_bind (wrapErr ''failed to fetch configuration details'' (fetchConfigData r)) (\<lambda>data.
     let revision = NewRevision kj (rd_layer2 data) (rd_vrfs data) (rd_bgps data) (rd_mirrorTargets data)
                      (rd_mirrorSelectors data) in
     io_bind (wrapErr ''failed to list NetworkConfigRevisions'' (listRevisions r)) (\<lambda>revisions.
     if shouldSkip revisions revision then io_return ()
     else wrapErr (''faild to create NetworkConfigRevision '' @ om_Name revision) (createRevision r revision)))"

section \<open>The order of the lists does not matter\<close>

lemma cmp_by_lessLayer2: "cmp_by l2c_ID lessLayer2"
  by (simp add: cmp_by_def lessLayer2_def)

lemma cmp_by_lessLayer3: "cmp_by (\<lambda>v. (vrev_Name v, vrc_Seq v)) lessLayer3"
  by (auto simp: cmp_by_def lessLayer3_def)

lemma cmp_by_lessBgp: "cmp_by brev_Name lessBgp"
  by (simp add: cmp_by_def lessBgp_def)

lemma cmp_by_lessMirrorTarget: "cmp_by mtrev_Name lessMirrorTarget"
  by (simp add: cmp_by_def lessMirrorTarget_def cmpLess_def)

lemma cmp_by_lessMirrorSelector: "cmp_by msrev_Name lessMirrorSelector"
  by (simp add: cmp_by_def lessMirrorSelector_def cmpLess_def)

lemma cmp_by_lessRevision: "cmp_by (\<lambda>r. - om_CreationTimestamp r) lessRevision"
  by (simp add: cmp_by_def lessRevision_def cmpLess_def)

lemma revision_names [simp]:
  "l2c_ID (layer2Revision a) = l2c_ID (l2c_Spec a)" "vrev_Name (vrfRevision b) = om_Name b"
  "brev_Name (bgpRevision c) = om_Name c" "mtrev_Name (mirrorTargetRevision d) = om_Name d"
  "msrev_Name (mirrorSelectorRevision e) = om_Name e"
  by (simp_all add: layer2Revision_def vrfRevision_def bgpRevision_def mirrorTargetRevision_def
      mirrorSelectorRevision_def Layer2NetworkConfigurationSpec.extend_def VRFRouteConfigurationSpec.extend_def
      BGPPeeringSpec.extend_def MirrorTargetSpec.extend_def MirrorSelectorSpec.extend_def)

lemma SortFunc_map_perm:
  assumes "cmp_by key cmp" "mset xs = mset ys" "distinct (map (\<lambda>x. key (f x)) xs)"
  shows "SortFunc cmp (map f xs) = SortFunc cmp (map f ys)"
proof (rule SortFunc_perm [OF assms(1)])
  show "mset (map f xs) = mset (map f ys)" using assms(2) by simp
  have "inj_on (\<lambda>x. key (f x)) (set xs)" using assms(3) by (simp add: distinct_map)
  then show "inj_on key (set (map f xs))" by (auto simp: inj_on_def)
qed

lemma checkL2Duplicates_iff:
  "checkL2Duplicates cs = Inr () \<longleftrightarrow> distinct (map (\<lambda>c. l2c_VNI (l2c_Spec c)) cs)"
proof (induction cs)
  case (Cons c cs)
  define r where "r = find (\<lambda>d. l2c_VNI (l2c_Spec c) = l2c_VNI (l2c_Spec d)) cs"
  have "r = None \<longleftrightarrow> l2c_VNI (l2c_Spec c) \<notin> (\<lambda>c. l2c_VNI (l2c_Spec c)) ` set cs"
    by (auto simp: r_def find_None_iff)
  with Cons show ?case by (cases r) (simp_all add: r_def [symmetric])
qed simp

text \<open>What the five lists return in a state.\<close>

definition lists_config ::
  "'s OperatorClients \<Rightarrow> 's \<Rightarrow> Layer2NetworkConfiguration list \<Rightarrow> VRFRouteConfiguration list \<Rightarrow> BGPPeering list \<Rightarrow>
   MirrorTarget list \<Rightarrow> MirrorSelector list \<Rightarrow> bool" where
  "lists_config r s l2 vrf bgp mt ms \<longleftrightarrow>
     c_List (oc_Layer2 r) s = (Inr l2, s) \<and> c_List (oc_Vrf r) s = (Inr vrf, s) \<and>
     c_List (oc_BGP r) s = (Inr bgp, s) \<and> c_List (oc_MirrorTargets r) s = (Inr mt, s) \<and>
     c_List (oc_MirrorSelectors r) s = (Inr ms, s)"

definition configData ::
  "Layer2NetworkConfiguration list \<Rightarrow> VRFRouteConfiguration list \<Rightarrow> BGPPeering list \<Rightarrow> MirrorTarget list \<Rightarrow>
   MirrorSelector list \<Rightarrow> revisionData" where
  "configData l2 vrf bgp mt ms =
     \<lparr>rd_layer2 = SortFunc lessLayer2 (map layer2Revision l2), rd_vrfs = SortFunc lessLayer3 (map vrfRevision vrf),
      rd_bgps = SortFunc lessBgp (map bgpRevision bgp),
      rd_mirrorTargets = SortFunc lessMirrorTarget (map mirrorTargetRevision mt),
      rd_mirrorSelectors = SortFunc lessMirrorSelector (map mirrorSelectorRevision ms)\<rparr>"

lemma fetchConfigData_lists:
  assumes "lists_config r s l2 vrf bgp mt ms"
  shows "fetchConfigData r s =
    (case checkL2Duplicates l2 of
       Inl e \<Rightarrow> (Inl (Wrap ''error getting list of Layer2s from Kubernetes'' e), s)
     | Inr _ \<Rightarrow> (Inr (configData l2 vrf bgp mt ms), s))"
  using assms
  by (simp add: fetchConfigData_def fetchLayer2_def fetchLayer3_def fetchBgp_def fetchMirrorTargets_def
      fetchMirrorSelectors_def lists_config_def configData_def io_bind_def io_wrap_def io_catch_def api_def
      wrapErr_def io_return_def io_throw_def io_lift_def split: sum.split)

lemma configData_perm:
  assumes "mset l2 = mset l2'" "mset vrf = mset vrf'" "mset bgp = mset bgp'" "mset mt = mset mt'"
    "mset ms = mset ms'"
    and "distinct (map (\<lambda>c. l2c_ID (l2c_Spec c)) l2)" "distinct (map om_Name vrf)" "distinct (map om_Name bgp)"
    "distinct (map om_Name mt)" "distinct (map om_Name ms)"
  shows "configData l2 vrf bgp mt ms = configData l2' vrf' bgp' mt' ms'"
proof -
  have "distinct (map (\<lambda>x. (om_Name x, vrc_Seq (vrfRevision x))) vrf)"
    using assms(7) by (auto simp: distinct_map inj_on_def)
  with assms show ?thesis
    by (simp add: configData_def SortFunc_map_perm [OF cmp_by_lessLayer2] SortFunc_map_perm [OF cmp_by_lessLayer3]
        SortFunc_map_perm [OF cmp_by_lessBgp] SortFunc_map_perm [OF cmp_by_lessMirrorTarget]
        SortFunc_map_perm [OF cmp_by_lessMirrorSelector])
qed

text \<open>C27. The revision does not depend on the order in which the API lists the resources: whatever
  two passes read in different orders, they both succeed with the same data, hence the same hash, or
  both report duplicate VNIs. This needs distinct VLAN ids among the Layer-2 resources, the only
  key \<open>lessLayer2\<close> compares.\<close>

theorem fetchConfigData_order_independent:
  assumes "lists_config r s l2 vrf bgp mt ms" "lists_config r' s' l2' vrf' bgp' mt' ms'"
    and perm: "mset l2 = mset l2'" "mset vrf = mset vrf'" "mset bgp = mset bgp'" "mset mt = mset mt'"
      "mset ms = mset ms'"
    and keys: "distinct (map (\<lambda>c. l2c_ID (l2c_Spec c)) l2)" "distinct (map om_Name vrf)"
      "distinct (map om_Name bgp)" "distinct (map om_Name mt)" "distinct (map om_Name ms)"
  shows "(\<exists>d. fetchConfigData r s = (Inr d, s) \<and> fetchConfigData r' s' = (Inr d, s')) \<or>
         (\<exists>e e'. fetchConfigData r s = (Inl e, s) \<and> fetchConfigData r' s' = (Inl e', s'))"
proof -
  have "distinct (map (\<lambda>c. l2c_VNI (l2c_Spec c)) l2) \<longleftrightarrow> distinct (map (\<lambda>c. l2c_VNI (l2c_Spec c)) l2')"
    using perm(1) by (metis mset_eq_imp_distinct_iff mset_map)
  then have "checkL2Duplicates l2 = Inr () \<longleftrightarrow> checkL2Duplicates l2' = Inr ()"
    by (simp add: checkL2Duplicates_iff)
  then show ?thesis
    unfolding fetchConfigData_lists [OF assms(1)] fetchConfigData_lists [OF assms(2)]
      configData_perm [OF perm keys]
    by (cases "checkL2Duplicates l2"; cases "checkL2Duplicates l2'") auto
qed

section \<open>When a revision is created\<close>

text \<open>C26. \<open>shouldSkip\<close>, on the revisions newest first: a new revision is created exactly when every
  existing revision with the same content is valid and superseded, that is, preceded by a newer
  valid one. In particular content that is known to be invalid is never deployed again.\<close>

theorem shouldSkip_iff:
  "\<not> shouldSkip revisions p \<longleftrightarrow>
     (\<forall>i < length revisions. revHash (revisions ! i) = revHash p \<longrightarrow>
        \<not> revInvalid (revisions ! i) \<and> (\<exists>j < i. \<not> revInvalid (revisions ! j)))"
proof
  assume skip: "\<not> shouldSkip revisions p"
  show "\<forall>i < length revisions. revHash (revisions ! i) = revHash p \<longrightarrow>
        \<not> revInvalid (revisions ! i) \<and> (\<exists>j < i. \<not> revInvalid (revisions ! j))"
  proof (intro allI impI conjI)
    fix i assume i: "i < length revisions" "revHash (revisions ! i) = revHash p"
    with skip show valid: "\<not> revInvalid (revisions ! i)"
      by (auto simp: shouldSkip_def list_ex_iff split: if_splits)
    have "\<exists>r \<in> set revisions. \<not> revInvalid r" using valid nth_mem [OF i(1)] by blast
    then have "find (\<lambda>r. \<not> revInvalid r) revisions \<noteq> None" by (auto simp: find_None_iff)
    then obtain r where r: "find (\<lambda>r. \<not> revInvalid r) revisions = Some r" by blast
    then obtain k where k: "k < length revisions" "\<not> revInvalid (revisions ! k)" "r = revisions ! k"
      "\<forall>j < k. revInvalid (revisions ! j)" by (auto simp: find_Some_iff)
    have "revHash r \<noteq> revHash p" using skip r by (simp add: shouldSkip_def split: if_splits)
    with i k valid have "k < i" by (metis linorder_neqE_nat)
    with k show "\<exists>j < i. \<not> revInvalid (revisions ! j)" by blast
  qed
next
  assume *: "\<forall>i < length revisions. revHash (revisions ! i) = revHash p \<longrightarrow>
        \<not> revInvalid (revisions ! i) \<and> (\<exists>j < i. \<not> revInvalid (revisions ! j))"
  have "revHash r \<noteq> revHash p" if "revisions = r # rs" for r rs using * [rule_format, of 0] that by auto
  moreover have "revHash r \<noteq> revHash p" if "find (\<lambda>r. \<not> revInvalid r) revisions = Some r" for r
    using * that by (auto simp: find_Some_iff)
  moreover have "\<not> list_ex (\<lambda>r. revHash r = revHash p \<and> revInvalid r) revisions"
    using * by (auto simp: list_ex_iff in_set_conv_nth)
  ultimately show "\<not> shouldSkip revisions p"
    by (auto simp: shouldSkip_def split: list.splits option.splits)
qed

definition sampleRevision :: "string \<Rightarrow> gotime \<Rightarrow> NetworkConfigRevision" where
  "sampleRevision h t = ObjectMeta.extend ((namedMeta h)\<lparr>om_CreationTimestamp := t\<rparr>)
     \<lparr>rev_Spec = \<lparr>rs_Layer2 = [], rs_Vrf = [], rs_BGP = [], rs_MirrorTargets = [], rs_MirrorSelectors = [], rs_Revision = h\<rparr>,
      rev_Status = zeroRevisionStatus\<rparr>"

text \<open>Content that a newer valid revision superseded is deployed again.\<close>

theorem shouldSkip_iff_witness:
  "\<not> shouldSkip [sampleRevision ''b'' 2, sampleRevision ''a'' 1] (sampleRevision ''a'' 3)"
proof -
  have valid: "\<not> revInvalid (sampleRevision h t)" for h t
    by (simp add: revInvalid_def sampleRevision_def zeroRevisionStatus_def ObjectMeta.defs)
  have "revHash (sampleRevision h t) = h" for h t
    by (simp add: revHash_def sampleRevision_def ObjectMeta.defs)
  with valid show ?thesis unfolding shouldSkip_iff by (auto simp: less_Suc_eq)
qed

text \<open>
  The operator's resources on the in-memory server: a state with a list per kind and a clock, which
  stamps created objects.
\<close>

record OpStore =
  os_Layer2 :: "Layer2NetworkConfiguration list"
  os_Vrf :: "VRFRouteConfiguration list"
  os_BGP :: "BGPPeering list"
  os_MirrorTargets :: "MirrorTarget list"
  os_MirrorSelectors :: "MirrorSelector list"
  os_Revisions :: "NetworkConfigRevision list"
  os_Nodes :: "Node list"
  os_Configs :: "NodeNetworkConfig list"
  os_Netplan :: "NodeNetplanConfig list"
  os_clock :: gotime

definition plain_store ::
  "('s \<Rightarrow> 'o list) \<Rightarrow> ('o list \<Rightarrow> 's \<Rightarrow> 's) \<Rightarrow> ('o \<Rightarrow> string) \<Rightarrow> ('s, 'o) ResClient" where
  "plain_store get put nm = store_client get put nm (\<lambda>_ x. x) (\<lambda>_ x. x) (\<lambda>_ x. x)"

text \<open>A status update of a revision conflicts when the revision has changed since it was read.\<close>

definition store_revisions :: "(OpStore, NetworkConfigRevision) ResClient" where
  "store_revisions =
     (let c = store_client os_Revisions (\<lambda>xs. os_Revisions_update (\<lambda>_. xs)) om_Name
        (\<lambda>s x. x\<lparr>om_CreationTimestamp := os_clock s, rev_Status := zeroRevisionStatus\<rparr>)
        (\<lambda>old x. x\<lparr>rev_Status := rev_Status old\<rparr>) (\<lambda>old x. old\<lparr>rev_Status := rev_Status x\<rparr>) in
      c\<lparr>c_UpdateStatus := (\<lambda>x s.
        if (case find_named om_Name (om_Name x) (os_Revisions s) of Some old \<Rightarrow> rev_Spec old = rev_Spec x | None \<Rightarrow> True)
        then c_UpdateStatus c x s else (Inl ConflictErr, s))\<rparr>)"

definition store_configs :: "(OpStore, NodeNetworkConfig) ResClient" where
  "store_configs = store_client os_Configs (\<lambda>xs. os_Configs_update (\<lambda>_. xs)) nnc_Name
     (\<lambda>s x. x\<lparr>nnc_Status := emptyStatus\<rparr>)
     (\<lambda>old x. x\<lparr>nnc_Status := nnc_Status old\<rparr>) (\<lambda>old x. old\<lparr>nnc_Status := nnc_Status x\<rparr>)"

definition opStoreClients :: "OpStore OperatorClients" where
  "opStoreClients =
     \<lparr>oc_Layer2 = plain_store os_Layer2 (\<lambda>xs. os_Layer2_update (\<lambda>_. xs)) om_Name,
      oc_Vrf = plain_store os_Vrf (\<lambda>xs. os_Vrf_update (\<lambda>_. xs)) om_Name,
      oc_BGP = plain_store os_BGP (\<lambda>xs. os_BGP_update (\<lambda>_. xs)) om_Name,
      oc_MirrorTargets = store_client os_MirrorTargets (\<lambda>xs. os_MirrorTargets_update (\<lambda>_. xs)) om_Name
        (\<lambda>_ x. x) (\<lambda>old x. x\<lparr>mt_Status := mt_Status old\<rparr>) (\<lambda>old x. old\<lparr>mt_Status := mt_Status x\<rparr>),
      oc_MirrorSelectors = store_client os_MirrorSelectors (\<lambda>xs. os_MirrorSelectors_update (\<lambda>_. xs)) om_Name
        (\<lambda>_ x. x) (\<lambda>old x. x\<lparr>msel_Status := msel_Status old\<rparr>) (\<lambda>old x. old\<lparr>msel_Status := msel_Status x\<rparr>),
      oc_Revisions = store_revisions,
      oc_Nodes = plain_store os_Nodes (\<lambda>xs. os_Nodes_update (\<lambda>_. xs)) om_Name,
      oc_Configs = store_configs,
      oc_Netplan = plain_store os_Netplan (\<lambda>xs. os_Netplan_update (\<lambda>_. xs)) npc_Name\<rparr>"

definition emptyStore :: OpStore where
  "emptyStore = \<lparr>os_Layer2 = [], os_Vrf = [], os_BGP = [], os_MirrorTargets = [], os_MirrorSelectors = [],
     os_Revisions = [], os_Nodes = [], os_Configs = [], os_Netplan = [], os_clock = 1\<rparr>"

text \<open>What the API stores for a created revision: its specification under its name, with an
  empty status.\<close>

definition createdRevision :: "NetworkConfigRevision \<Rightarrow> NetworkConfigRevision \<Rightarrow> bool" where
  "createdRevision x y \<longleftrightarrow>
     om_Name y = om_Name x \<and> rev_Spec y = rev_Spec x \<and> rev_Status y = zeroRevisionStatus"

lemma createRevision_serves:
  assumes "serves objs om_Name createdRevision (oc_Revisions r)"
  shows "\<exists>y s'. createRevision r p s = (Inr (), s') \<and> createdRevision p y \<and>
           objs s' = filter (\<lambda>x. om_Name x \<noteq> om_Name p) (objs s) @ [y]"
proof (cases "om_Name p \<in> om_Name ` set (objs s)")
  case False
  with assms obtain y s' where "c_Create (oc_Revisions r) p s = (Inr (), s')" "createdRevision p y"
    "objs s' = objs s @ [y]" unfolding serves_def by blast
  moreover have "filter (\<lambda>x. om_Name x \<noteq> om_Name p) (objs s) = objs s"
    unfolding filter_id_conv using False by (metis imageI)
  ultimately show ?thesis by (auto simp: createRevision_def io_simps)
next
  case True
  with assms obtain s1 where 1: "c_Create (oc_Revisions r) p s = (Inl AlreadyExists, s)"
    "c_Delete (oc_Revisions r) p s = (Inr (), s1)" "objs s1 = filter (\<lambda>x. om_Name x \<noteq> om_Name p) (objs s)"
    unfolding serves_def by blast
  then have "om_Name p \<notin> om_Name ` set (objs s1)" by auto
  with assms obtain y s' where "c_Create (oc_Revisions r) p s1 = (Inr (), s')" "createdRevision p y"
    "objs s' = objs s1 @ [y]" unfolding serves_def by blast
  with 1 show ?thesis
    by (auto simp: createRevision_def io_simps api_def io_catch_def io_bind_def io_wrap_def io_return_def)
qed

text \<open>C23. A pass of the configuration reconciler. With duplicate VNIs it reports an error and
  writes nothing. Otherwise it succeeds, and either the revision is skipped and nothing is written,
  or afterwards there is exactly one object under the revision's name, with the revision's content
  and an empty status, and every other revision is untouched. The lists may come in any order.\<close>

theorem ReconcileDebounced_correct:
  fixes kj :: K8sJson and r :: "'s OperatorClients"
  assumes lists: "lists_config r s l2 vrf bgp mt ms"
    and serves: "serves objs om_Name createdRevision (oc_Revisions r)"
    and d: "d = configData l2 vrf bgp mt ms"
    and p: "p = NewRevision kj (rd_layer2 d) (rd_vrfs d) (rd_bgps d) (rd_mirrorTargets d) (rd_mirrorSelectors d)"
  shows "if distinct (map (\<lambda>c. l2c_VNI (l2c_Spec c)) l2)
         then \<exists>revs s'. mset revs = mset (objs s) \<and> ReconcileDebounced kj r s = (Inr (), s') \<and>
           (if shouldSkip (SortFunc lessRevision revs) p then s' = s
            else \<exists>y. createdRevision p y \<and> objs s' = filter (\<lambda>x. om_Name x \<noteq> om_Name p) (objs s) @ [y])
         else \<exists>e. ReconcileDebounced kj r s = (Inl e, s)"
proof (cases "distinct (map (\<lambda>c. l2c_VNI (l2c_Spec c)) l2)")
  case True
  then have fetch: "fetchConfigData r s = (Inr d, s)"
    using fetchConfigData_lists [OF lists] d checkL2Duplicates_iff [of l2] by simp
  from serves obtain revs where revs: "mset revs = mset (objs s)" "c_List (oc_Revisions r) s = (Inr revs, s)"
    unfolding serves_def by blast
  from createRevision_serves [OF serves, of p s] obtain y s' where
    y: "createRevision r p s = (Inr (), s')" "createdRevision p y"
      "objs s' = filter (\<lambda>x. om_Name x \<noteq> om_Name p) (objs s) @ [y]" by blast
  have "ReconcileDebounced kj r s =
      (Inr (), if shouldSkip (SortFunc lessRevision revs) p then s else s')"
    using fetch revs(2) y(1) p
    by (simp add: ReconcileDebounced_def listRevisions_def Let_def io_bind_def io_wrap_def io_catch_def api_def
        wrapErr_def io_return_def)
  with True revs(1) y show ?thesis by auto
next
  case False
  then obtain e where "checkL2Duplicates l2 = Inl e"
    using checkL2Duplicates_iff [of l2] by (cases "checkL2Duplicates l2") auto
  then have "\<exists>e. ReconcileDebounced kj r s = (Inl e, s)"
    using fetchConfigData_lists [OF lists]
    by (simp add: ReconcileDebounced_def io_bind_def io_wrap_def io_catch_def wrapErr_def io_throw_def)
  with False show ?thesis by (simp only: if_False)
qed

definition kjPlain :: K8sJson where
  "kjPlain = \<lparr>kj_selector = (\<lambda>_. JNull), kj_ref = (\<lambda>_. JNull), kj_duration = JInt\<rparr>"

definition sampleL2 :: "string \<Rightarrow> int \<Rightarrow> int \<Rightarrow> Layer2NetworkConfiguration" where
  "sampleL2 n i vni = ObjectMeta.extend (namedMeta n)
     \<lparr>l2c_Spec = \<lparr>l2c_ID = i, l2c_MTU = 1500, l2c_VNI = vni, l2c_AnycastMac = '''', l2c_AnycastGateways = [],
        l2c_AdvertiseNeighbors = False, l2c_CreateMACVLANInterface = False, l2c_NeighSuppression = None,
        l2c_DisableSegmentation = False, l2c_VRF = '''', l2c_NodeSelector = None\<rparr>\<rparr>"

lemma serves_store_revisions: "serves os_Revisions om_Name createdRevision store_revisions"
proof -
  have upd: "serves objs nm cr (c\<lparr>c_UpdateStatus := f\<rparr>) \<longleftrightarrow> serves objs nm cr c" for objs nm cr f
    and c :: "(OpStore, NetworkConfigRevision) ResClient"
    by (simp add: serves_def)
  show ?thesis
    unfolding store_revisions_def Let_def upd by (rule serves_store_client) (simp_all add: createdRevision_def)
qed

lemma lists_config_store:
  "lists_config opStoreClients s (os_Layer2 s) (os_Vrf s) (os_BGP s) (os_MirrorTargets s) (os_MirrorSelectors s)"
  by (simp add: lists_config_def opStoreClients_def plain_store_def store_client_def)

theorem ReconcileDebounced_correct_witness:
  "\<exists>y s'. ReconcileDebounced kjPlain opStoreClients (emptyStore\<lparr>os_Layer2 := [sampleL2 ''a'' 100 1, sampleL2 ''b'' 101 2]\<rparr>)
     = (Inr (), s') \<and> os_Revisions s' = [y]"
proof -
  let ?s = "emptyStore\<lparr>os_Layer2 := [sampleL2 ''a'' 100 1, sampleL2 ''b'' 101 2]\<rparr>"
  have "oc_Revisions opStoreClients = store_revisions" by (simp add: opStoreClients_def)
  then have serves: "serves os_Revisions om_Name createdRevision (oc_Revisions opStoreClients)"
    using serves_store_revisions by simp
  show ?thesis
    using ReconcileDebounced_correct [OF lists_config_store [of ?s] serves refl refl, of kjPlain]
    by (auto simp: emptyStore_def sampleL2_def ObjectMeta.extend_def namedMeta_def SortFunc_def shouldSkip_def)
qed

theorem fetchConfigData_order_independent_witness:
  "\<exists>d. fetchConfigData opStoreClients (emptyStore\<lparr>os_Layer2 := [sampleL2 ''a'' 100 1, sampleL2 ''b'' 101 2]\<rparr>)
         = (Inr d, emptyStore\<lparr>os_Layer2 := [sampleL2 ''a'' 100 1, sampleL2 ''b'' 101 2]\<rparr>) \<and>
       fetchConfigData opStoreClients (emptyStore\<lparr>os_Layer2 := [sampleL2 ''b'' 101 2, sampleL2 ''a'' 100 1]\<rparr>)
         = (Inr d, emptyStore\<lparr>os_Layer2 := [sampleL2 ''b'' 101 2, sampleL2 ''a'' 100 1]\<rparr>)"
proof -
  let ?s = "emptyStore\<lparr>os_Layer2 := [sampleL2 ''a'' 100 1, sampleL2 ''b'' 101 2]\<rparr>"
  let ?t = "emptyStore\<lparr>os_Layer2 := [sampleL2 ''b'' 101 2, sampleL2 ''a'' 100 1]\<rparr>"
  have "\<exists>d. fetchConfigData opStoreClients ?s = (Inr d, ?s)"
    by (simp add: fetchConfigData_lists [OF lists_config_store] sampleL2_def ObjectMeta.extend_def)
  then show ?thesis
    using fetchConfigData_order_independent [OF lists_config_store [of ?s] lists_config_store [of ?t]]
    by (auto simp: emptyStore_def sampleL2_def ObjectMeta.extend_def)
qed


end
