(* ===== verification/Node_Build.thy ===== *)
theory Node_Build
  imports Revision Go_Net
begin

text \<open>
  How the operator builds a node's configuration from a revision:
  \<open>pkg/reconciler/operator/vrf.go\<close>, \<open>layer2.go\<close>, \<open>bgp.go\<close>, \<open>conversion.go\<close>, the node selectors of
  \<open>configrevision_reconciler.go\<close> and \<open>GetVNIAndRT\<close> of \<open>pkg/config/config.go\<close>.

  The Go code builds a \<open>NodeNetworkConfig\<close> in place; here every function takes the specification
  built so far and returns the new one. The sorts of the revision's slices are in place: what a
  function sorts is in its definition, and \<open>sortedVrf\<close>, \<open>sortedLayer2\<close> and \<open>sortedBGP\<close> are the
  revision the calls after it see. The lists inside an entry are sorted only by the function that
  reads them.

  Parameters: the requirement matching of \<open>k8s.io/apimachinery/pkg/labels\<close> (\<open>Labels\<close>), and the
  order in which a \<open>range\<close> loop visits the map of default imports (\<open>be_iter\<close>).
  \<open>strings.ToLower\<close> is modelled on ASCII, the alphabet of selector operators.
\<close>

record 'q Labels =
  lb_NewRequirement :: "string \<Rightarrow> string \<Rightarrow> string list \<Rightarrow> (GoError, 'q) result"
  lb_Matches :: "'q list \<Rightarrow> (string, string) gomap \<Rightarrow> bool"

record VRFConfig =
  vc_VNI :: int
  vc_RT :: string

record Config =
  cfg_VRFToVNI :: "(string, int) gomap"
  cfg_VRFConfig :: "(string, VRFConfig) gomap"

datatype ImportMode = ImportModeImport | ImportModeStaticRoute

datatype IPFamily = Both | IPv4 | IPv6

record 'q BuildEnv =
  be_labels :: "'q Labels"
  be_vrfConfig :: Config
  be_importMode :: ImportMode
  be_hbnHostNextHop :: string
  be_iter :: "(string, VRFImport) gomap \<Rightarrow> (string, VRFImport) gomap"

section \<open>Node selectors\<close>

definition toLower :: "string \<Rightarrow> string" where
  "toLower = map (\<lambda>c. if CHR ''A'' \<le> c \<and> c \<le> CHR ''Z'' then char_of (of_char c + 32 :: nat) else c)"

definition convertSelector ::
  "'q Labels \<Rightarrow> (string, string) gomap \<Rightarrow> LabelSelectorRequirement list \<Rightarrow> (GoError, 'q list) result" where
  "convertSelector lb matchLabels matchExpressions =
     ebind (emap (\<lambda>(key, val). lb_NewRequirement lb key ''='' [val]) matchLabels) (\<lambda>reqs.
     ebind (emap (\<lambda>req. lb_NewRequirement lb (lsr_Key req) (toLower (lsr_Operator req)) (lsr_Values req))
       matchExpressions) (\<lambda>reqs'.
     Inr (reqs @ reqs')))"

definition matchSelector :: "'q Labels \<Rightarrow> Node \<Rightarrow> LabelSelector option \<Rightarrow> bool" where
  "matchSelector lb node selector =
     (case selector of None \<Rightarrow> True
      | Some sel \<Rightarrow>
        (case convertSelector lb (ls_MatchLabels sel) (ls_MatchExpressions sel) of
           Inl _ \<Rightarrow> False
         | Inr reqs \<Rightarrow> lb_Matches lb reqs (om_Labels node)))"

section \<open>VRFs\<close>

definition GetVNIAndRT :: "Config \<Rightarrow> string \<Rightarrow> (GoError, int \<times> string) result" where
  "GetVNIAndRT c vrf =
     (case gm_get (cfg_VRFConfig c) vrf of Some vc \<Rightarrow> Inr (vc_VNI vc, vc_RT vc)
      | None \<Rightarrow>
        (case gm_get (cfg_VRFToVNI c) vrf of Some vni \<Rightarrow> Inr (vni, '''')
         | None \<Rightarrow> Inl (ErrorString (''vrf '' @ vrf @ '' not found in config''))))"

definition createDefaultClusterVRF :: VRF where
  "createDefaultClusterVRF = zeroVRF\<lparr>Redistribute :=
     Some \<lparr>rd_Connected = Some (emptyFilter Accept), rd_Static = Some (emptyFilter Accept)\<rparr>\<rparr>"

definition createFabricVRF :: "Config \<Rightarrow> VRFRevision \<Rightarrow> (GoError, FabricVRF) result" where
  "createFabricVRF cfg vrf =
     ebind
       (case (vrc_RouteTarget vrf, vrc_VNI vrf) of
          (Some rt, Some vni) \<Rightarrow> Inr (vni, rt)
        | _ \<Rightarrow>
          (case GetVNIAndRT cfg (vrc_VRF vrf) of
             Inr r \<Rightarrow> Inr r
           | Inl err \<Rightarrow> Inl (Wrap (''error getting VNI and RT for VRF '' @ vrc_VRF vrf) err)))
       (\<lambda>(vni, rt). Inr (VRF.extend
          (zeroVRF\<lparr>VRFImports := [\<lparr>vi_FromVRF = ''cluster'', vi_Filter = emptyFilter Reject\<rparr>]\<rparr>)
          \<lparr>fv_VNI = word_of_int vni,
           EVPNImportRouteTargets = (if rt \<noteq> '''' then [rt] else []),
           EVPNExportRouteTargets = (if rt \<noteq> '''' then [rt] else []),
           EVPNExportFilter = Some (emptyFilter Reject)\<rparr>))"

definition permitAction :: "VrfRouteConfigurationPrefixItem \<Rightarrow> ActionType" where
  "permitAction i = (if pi_Action i = ''permit'' then Accept else Reject)"

definition addItem :: "FilterItem \<Rightarrow> Filter \<Rightarrow> Filter" where
  "addItem i f = f\<lparr>f_Items := f_Items f @ [i]\<rparr>"

definition exportItem :: "VRFRevision \<Rightarrow> VrfRouteConfigurationPrefixItem \<Rightarrow> FilterItem" where
  "exportItem vrf export =
     (let comms = (if vrc_Communities vrf = [] then
            (case vrc_Community vrf of Some c \<Rightarrow> [c] | None \<Rightarrow> []) else vrc_Communities vrf) in
      prefixItem (pi_CIDR export) (pi_GE export) (pi_LE export)
        \<lparr>act_Type = permitAction export,
         act_ModifyRoute = (if comms \<noteq> [] then
            Some \<lparr>mra_AddCommunities = comms, mra_AdditiveCommunities = Some True,
                  mra_RemoveCommunities = [], mra_RemoveAllCommunities = None\<rparr> else None)\<rparr>)"

text \<open>
  One export: an entry of the EVPN export filter and the same entry of the first VRF import. The
  source indexes \<open>VRFImports[0]\<close> and dereferences the filter; without them it panics, which is
  the value \<open>None\<close> here.
\<close>

definition processExport :: "VRFRevision \<Rightarrow> VrfRouteConfigurationPrefixItem \<Rightarrow> FabricVRF \<Rightarrow> FabricVRF option" where
  "processExport vrf export fv =
     (case (EVPNExportFilter fv, VRFImports fv) of
        (Some flt, vi # vis) \<Rightarrow>
          Some (fv\<lparr>EVPNExportFilter := Some (addItem (exportItem vrf export) flt),
                   VRFImports := vi\<lparr>vi_Filter := addItem (exportItem vrf export) (vi_Filter vi)\<rparr> # vis\<rparr>)
      | _ \<Rightarrow> None)"

fun processExportList :: "VRFRevision \<Rightarrow> VrfRouteConfigurationPrefixItem list \<Rightarrow> FabricVRF \<Rightarrow> FabricVRF option" where
  "processExportList vrf [] fv = Some fv"
| "processExportList vrf (e # es) fv =
     (case processExport vrf e fv of None \<Rightarrow> None | Some fv' \<Rightarrow> processExportList vrf es fv')"

definition processExports :: "VRFRevision \<Rightarrow> FabricVRF \<Rightarrow> FabricVRF option" where
  "processExports vrf fv = processExportList vrf (sort_key pi_Seq (vrc_Export vrf)) fv"

definition processImport ::
  "VRFRevision \<Rightarrow> VrfRouteConfigurationPrefixItem \<Rightarrow> (string, VRFImport) gomap \<Rightarrow> (string, VRFImport) gomap" where
  "processImport vrf i m =
     (let cur = (case gm_get m (vrc_VRF vrf) of
            Some vi \<Rightarrow> vi | None \<Rightarrow> \<lparr>vi_FromVRF = vrc_VRF vrf, vi_Filter = emptyFilter Reject\<rparr>) in
      gm_put (vrc_VRF vrf)
        (cur\<lparr>vi_Filter := addItem (prefixItem (pi_CIDR i) (pi_GE i) (pi_LE i) (plainAction (permitAction i)))
           (vi_Filter cur)\<rparr>) m)"

definition processImports :: "VRFRevision \<Rightarrow> (string, VRFImport) gomap \<Rightarrow> (string, VRFImport) gomap" where
  "processImports vrf m = foldl (\<lambda>m i. processImport vrf i m) m (sort_key pi_Seq (vrc_Import vrf))"

definition updateFabricVRF ::
  "FabricVRF \<Rightarrow> VRFRevision \<Rightarrow> (string, VRFImport) gomap \<Rightarrow> ImportMode \<Rightarrow>
   (FabricVRF \<times> (string, VRFImport) gomap) option" where
  "updateFabricVRF fv vrf imports mode =
     (let fv = fv\<lparr>StaticRoutes := StaticRoutes fv @
            map (\<lambda>a. \<lparr>sr_Prefix = a, sr_NextHop = None, sr_BFDProfile = None\<rparr>) (vrc_Aggregate vrf)\<rparr> in
      case processExports vrf fv of
        None \<Rightarrow> None
      | Some fv \<Rightarrow> Some (fv, if mode \<noteq> ImportModeImport then imports else processImports vrf imports))"

definition permitted :: "VRFRevision \<Rightarrow> VrfRouteConfigurationPrefixItem list" where
  "permitted vrf = filter (\<lambda>i. pi_Action i = ''permit'') (vrc_Import vrf)"

definition appendImportsAsStaticRoutes :: "StaticRoute list \<Rightarrow> VRFRevision \<Rightarrow> StaticRoute list" where
  "appendImportsAsStaticRoutes srs vrf = srs @
     map (\<lambda>i. \<lparr>sr_Prefix = pi_CIDR i, sr_NextHop = Some \<lparr>nh_Address = None, nh_Vrf = Some (vrc_VRF vrf)\<rparr>,
               sr_BFDProfile = None\<rparr>) (permitted vrf)"

definition dropStaticRouteImports :: "Redistribute \<Rightarrow> VRFRevision \<Rightarrow> Redistribute" where
  "dropStaticRouteImports rd vrf = rd\<lparr>rd_Static := map_option
     (\<lambda>f. f\<lparr>f_Items := f_Items f @
        map (\<lambda>i. prefixItem (pi_CIDR i) None None (plainAction Reject)) (permitted vrf)\<rparr>) (rd_Static rd)\<rparr>"

definition sbrIntermediateName :: "VRFRevision \<Rightarrow> string" where
  "sbrIntermediateName vrf = ''s-'' @ vrc_VRF vrf"

definition updateLocalVRFs ::
  "(string, VRF) gomap \<Rightarrow> VRF \<Rightarrow> VRFRevision \<Rightarrow> (string, VRF) gomap \<times> VRF" where
  "updateLocalVRFs localVrfs clusterVrf vrf =
     (if vrc_SBRPrefixes vrf = [] then (localVrfs, clusterVrf)
      else
        (gm_put (sbrIntermediateName vrf)
           (zeroVRF\<lparr>VRFImports := [\<lparr>vi_FromVRF = vrc_VRF vrf, vi_Filter = emptyFilter Accept\<rparr>,
                                  \<lparr>vi_FromVRF = ''cluster'', vi_Filter = emptyFilter Accept\<rparr>]\<rparr>) localVrfs,
         clusterVrf\<lparr>PolicyRoutes := PolicyRoutes clusterVrf @
           map (\<lambda>p. \<lparr>pr_TrafficMatch = \<lparr>tm_SrcPrefix = Some p, tm_DstPrefix = None, tm_SrcPort = None,
                        tm_DstPort = None, tm_Protocol = None\<rparr>,
                     pr_NextHop = \<lparr>nh_Address = None, nh_Vrf = Some (sbrIntermediateName vrf)\<rparr>\<rparr>)
             (vrc_SBRPrefixes vrf)\<rparr>))"

text \<open>The state of the loop of \<open>buildNodeVrf\<close>; a panic of \<open>processExports\<close> is an error of its own.\<close>

record VrfBuild =
  vb_Fabric :: "(string, FabricVRF) gomap"
  vb_Local :: "(string, VRF) gomap"
  vb_Cluster :: VRF
  vb_Imports :: "(string, VRFImport) gomap"

definition panicErr :: GoError where
  "panicErr = ErrorString ''panic''"

definition buildVrfStep :: "'q BuildEnv \<Rightarrow> VRFRevision \<Rightarrow> VrfBuild \<Rightarrow> (GoError, VrfBuild) result" where
  "buildVrfStep env vrf b =
     ebind
       (case gm_get (vb_Fabric b) (vrc_VRF vrf) of
          Some fv \<Rightarrow> Inr fv
        | None \<Rightarrow>
          (case createFabricVRF (be_vrfConfig env) vrf of
             Inr fv \<Rightarrow> Inr fv
           | Inl err \<Rightarrow> Inl (Wrap ''failed to create fabric VRF definition'' err)))
       (\<lambda>fv.
        case updateFabricVRF fv vrf (vb_Imports b) (be_importMode env) of
          None \<Rightarrow> Inl panicErr
        | Some (fv, imports) \<Rightarrow>
          (let (locals, cluster) = updateLocalVRFs (vb_Local b) (vb_Cluster b) vrf;
               cluster = (if be_importMode env = ImportModeStaticRoute then
                 cluster\<lparr>StaticRoutes := appendImportsAsStaticRoutes (StaticRoutes cluster) vrf,
                         Redistribute := map_option (\<lambda>rd. dropStaticRouteImports rd vrf) (Redistribute cluster)\<rparr>
                 else cluster) in
           Inr \<lparr>vb_Fabric = gm_put (vrc_VRF vrf) fv (vb_Fabric b), vb_Local = locals, vb_Cluster = cluster,
                vb_Imports = imports\<rparr>))"

definition matchingVrfs :: "'q BuildEnv \<Rightarrow> Node \<Rightarrow> VRFRevision list \<Rightarrow> VRFRevision list" where
  "matchingVrfs env node vrfs =
     filter (\<lambda>v. matchSelector (be_labels env) node (vrc_NodeSelector v)) (sort_key vrc_Seq vrfs)"

definition buildNodeVrf ::
  "'q BuildEnv \<Rightarrow> Node \<Rightarrow> NetworkConfigRevisionSpec \<Rightarrow> NodeNetworkConfigSpec \<Rightarrow>
   (GoError, NodeNetworkConfigSpec) result" where
  "buildNodeVrf env node revision c =
     ebind (efold (buildVrfStep env) (matchingVrfs env node (rs_Vrf revision))
        \<lparr>vb_Fabric = [], vb_Local = [], vb_Cluster = createDefaultClusterVRF, vb_Imports = []\<rparr>)
       (\<lambda>b. Inr (c\<lparr>FabricVRFs := vb_Fabric b, LocalVRFs := vb_Local b,
          ClusterVRF := Some ((vb_Cluster b)\<lparr>VRFImports := VRFImports (vb_Cluster b) @
             map snd (be_iter env (vb_Imports b))\<rparr>)\<rparr>))"

definition sortedVrf :: "NetworkConfigRevisionSpec \<Rightarrow> NetworkConfigRevisionSpec" where
  "sortedVrf revision = revision\<lparr>rs_Vrf := sort_key vrc_Seq (rs_Vrf revision)\<rparr>"

definition sortedLayer2 :: "NetworkConfigRevisionSpec \<Rightarrow> NetworkConfigRevisionSpec" where
  "sortedLayer2 revision = revision\<lparr>rs_Layer2 := sort_key l2c_ID (rs_Layer2 revision)\<rparr>"

definition sortedBGP :: "NetworkConfigRevisionSpec \<Rightarrow> NetworkConfigRevisionSpec" where
  "sortedBGP revision = revision\<lparr>rs_BGP := sort_key brev_Name (rs_BGP revision)\<rparr>"

section \<open>Layer 2\<close>

definition layer2Key :: "Layer2Revision \<Rightarrow> string" where
  "layer2Key l2 = itoa (l2c_ID l2)"

definition nodeLayer2 :: "Layer2Revision \<Rightarrow> Layer2" where
  "nodeLayer2 l2 = zeroLayer2\<lparr>l2_VNI := word_of_int (l2c_VNI l2), l2_VLAN := word_of_int (l2c_ID l2),
     l2_MTU := word_of_int (l2c_MTU l2), l2_DisableSegmentation := l2c_DisableSegmentation l2,
     l2_IRB := (if l2c_AnycastGateways l2 = [] then None
       else Some \<lparr>irb_VRF = l2c_VRF l2, irb_MACAddress = l2c_AnycastMac l2,
                  irb_IPAddresses = l2c_AnycastGateways l2\<rparr>)\<rparr>"

definition buildLayer2Step ::
  "Layer2Revision \<Rightarrow> (string, Layer2) gomap \<Rightarrow> (GoError, (string, Layer2) gomap) result" where
  "buildLayer2Step l2 m =
     (if gm_has m (layer2Key l2) then Inl (ErrorString (''duplicate Layer2 ID found: '' @ itoa (l2c_ID l2)))
      else Inr (gm_put (layer2Key l2) (nodeLayer2 l2) m))"

definition matchingLayer2s :: "'q BuildEnv \<Rightarrow> Node \<Rightarrow> Layer2Revision list \<Rightarrow> Layer2Revision list" where
  "matchingLayer2s env node l2s =
     filter (\<lambda>l. matchSelector (be_labels env) node (l2c_NodeSelector l)) (sort_key l2c_ID l2s)"

definition buildNodeLayer2 ::
  "'q BuildEnv \<Rightarrow> Node \<Rightarrow> NetworkConfigRevisionSpec \<Rightarrow> NodeNetworkConfigSpec \<Rightarrow>
   (GoError, NodeNetworkConfigSpec) result" where
  "buildNodeLayer2 env node revision c =
     ebind (efold buildLayer2Step (matchingLayer2s env node (rs_Layer2 revision)) [])
       (\<lambda>m. Inr (c\<lparr>Layer2s := m\<rparr>))"

definition netplanVlan :: "Layer2Revision \<Rightarrow> json" where
  "netplanVlan l2 = jmap
     ([(''id'', JInt (l2c_ID l2)), (''link'', JStr ''hbn''), (''mtu'', JInt (l2c_MTU l2)), (''critical'', JBool True)] @
      (if l2c_DisableSegmentation l2 then
         [(''generic-receive-offload'', JBool False), (''generic-segmentation-offload'', JBool False),
          (''tcp-segmentation-offload'', JBool False)] else []))"

definition buildNetplanVLANs ::
  "'q BuildEnv \<Rightarrow> Node \<Rightarrow> NetworkConfigRevisionSpec \<Rightarrow> (string, string) gomap" where
  "buildNetplanVLANs env node revision =
     foldl (\<lambda>m l2. gm_put (''vlan.'' @ itoa (l2c_ID l2)) (jprint (netplanVlan l2)) m) []
       (matchingLayer2s env node (rs_Layer2 revision))"

section \<open>BGP peers\<close>

text \<open>The error of \<open>net.ParseCIDR\<close>.\<close>

definition cidrErr :: "string \<Rightarrow> GoError" where
  "cidrErr s = ErrorString (''invalid CIDR address: '' @ s)"

definition buildFilterItem ::
  "IPFamily \<Rightarrow> VrfRouteConfigurationPrefixItem \<Rightarrow> (GoError, FilterItem option) result" where
  "buildFilterItem family item =
     (case ParseCIDR (pi_CIDR item) of
        None \<Rightarrow> Inl (Wrap (''failed to parse CIDR '' @ pi_CIDR item) (cidrErr (pi_CIDR item)))
      | Some (ip, _) \<Rightarrow>
        if family = IPv4 \<and> To4 ip = None then Inr None
        else if family = IPv6 \<and> To4 ip \<noteq> None then Inr None
        else Inr (Some (prefixItem (pi_CIDR item) (pi_GE item) (pi_LE item) (plainAction (permitAction item)))))"

definition buildFilterItems ::
  "VrfRouteConfigurationPrefixItem list \<Rightarrow> IPFamily \<Rightarrow> (GoError, FilterItem list) result" where
  "buildFilterItems items family =
     ebind (emap (buildFilterItem family) (sort_key pi_Seq items))
       (\<lambda>r. Inr (List.map_filter id r))"

definition buildBgpAddressFamily :: "BGPRevision \<Rightarrow> IPFamily \<Rightarrow> (GoError, AddressFamily) result" where
  "buildBgpAddressFamily peer family =
     (case buildFilterItems (bgs_Export peer) family of
        Inl err \<Rightarrow> Inl (Wrap ''failed to build filter items for export'' err)
      | Inr exportItems \<Rightarrow>
        (case buildFilterItems (bgs_Import peer) family of
           Inl err \<Rightarrow> Inl (Wrap ''failed to build filter items for import'' err)
         | Inr importItems \<Rightarrow>
           Inr \<lparr>af_ExportFilter = Some ((emptyFilter Reject)\<lparr>f_Items := exportItems\<rparr>),
                af_ImportFilter = Some ((emptyFilter Reject)\<lparr>f_Items := importItems\<rparr>),
                af_MaxPrefixes = bgs_MaximumPrefixes peer\<rparr>))"

definition familyOf :: "net_IP \<Rightarrow> IPFamily" where
  "familyOf ip = (if To4 ip \<noteq> None then IPv4 else IPv6)"

definition bgpPeerFamily :: "string option \<Rightarrow> string option \<Rightarrow> (GoError, IPFamily) result" where
  "bgpPeerFamily loopbackIP listenRange =
     (case loopbackIP of
        Some l \<Rightarrow>
          (case ParseIP l of None \<Rightarrow> Inl (ErrorString (''failed to parse loopback IP '' @ l))
           | Some ip \<Rightarrow> Inr (familyOf ip))
      | None \<Rightarrow>
        (case listenRange of
           Some r \<Rightarrow>
             (case ParseCIDR r of None \<Rightarrow> Inl (Wrap (''failed to parse listen range '' @ r) (cidrErr r))
              | Some (ip, _) \<Rightarrow> Inr (familyOf ip))
         | None \<Rightarrow> Inr Both))"

definition optFamily ::
  "bool \<Rightarrow> string \<Rightarrow> (GoError, AddressFamily) result \<Rightarrow> (GoError, AddressFamily option) result" where
  "optFamily b name r =
     (if b then
        (case r of Inl err \<Rightarrow> Inl (Wrap (''failed to build BGP address family for '' @ name) err)
         | Inr af \<Rightarrow> Inr (Some af))
      else Inr None)"

definition buildBgpPeer :: "string option \<Rightarrow> string option \<Rightarrow> BGPRevision \<Rightarrow> (GoError, BGPPeer) result" where
  "buildBgpPeer loopbackIP listenRange peer =
     ebind (bgpPeerFamily loopbackIP listenRange) (\<lambda>family.
     ebind (optFamily (family = IPv4 \<or> loopbackIP \<noteq> None) ''IPv4'' (buildBgpAddressFamily peer IPv4)) (\<lambda>v4.
     ebind (optFamily (family = IPv6) ''IPv6'' (buildBgpAddressFamily peer IPv6)) (\<lambda>v6.
     Inr \<lparr>bp_Address = loopbackIP, bp_ListenRange = listenRange, bp_RemoteASN = bgs_RemoteASN peer,
          bp_IPv4 = v4, bp_IPv6 = v6, bp_BFDProfile = None,
          bp_Multihop = (if loopbackIP \<noteq> None then Some 2 else None),
          bp_HoldTime = bgs_HoldTime peer, bp_KeepaliveTime = bgs_KeepaliveTime peer, bp_Password = None\<rparr>)))"

definition addFabricPeer :: "string \<Rightarrow> BGPPeer \<Rightarrow> NodeNetworkConfigSpec \<Rightarrow> (GoError, NodeNetworkConfigSpec) result" where
  "addFabricPeer vrf p c =
     (case gm_get (FabricVRFs c) vrf of
        None \<Rightarrow> Inl (ErrorString (''fabric VRF '' @ vrf @ '' not found''))
      | Some fv \<Rightarrow> Inr (c\<lparr>FabricVRFs := gm_put vrf (fv\<lparr>BGPPeers := BGPPeers fv @ [p]\<rparr>) (FabricVRFs c)\<rparr>))"

definition addClusterPeer :: "BGPPeer \<Rightarrow> NodeNetworkConfigSpec \<Rightarrow> NodeNetworkConfigSpec" where
  "addClusterPeer p c = c\<lparr>ClusterVRF := map_option (\<lambda>v. v\<lparr>BGPPeers := BGPPeers v @ [p]\<rparr>) (ClusterVRF c)\<rparr>"

definition peeringVlanIP ::
  "BGPRevision \<Rightarrow> string \<Rightarrow> string \<Rightarrow> NodeNetworkConfigSpec \<Rightarrow> (GoError, NodeNetworkConfigSpec) result" where
  "peeringVlanIP peer vrf ip c =
     (case ParseCIDR ip of
        None \<Rightarrow> Inl (Wrap (''failed to parse IP address '' @ ip) (cidrErr ip))
      | Some (_, ipNet) \<Rightarrow>
        (case buildBgpPeer None (Some (IPNetString ipNet)) peer of
           Inl err \<Rightarrow> Inl (Wrap ''failed to build BGP peer'' err)
         | Inr p \<Rightarrow> if vrf \<noteq> '''' then addFabricPeer vrf p c else Inr (addClusterPeer p c)))"

definition buildPeeringVlanPeer ::
  "'q BuildEnv \<Rightarrow> Node \<Rightarrow> BGPRevision \<Rightarrow> BGPPeeringVLAN \<Rightarrow> NetworkConfigRevisionSpec \<Rightarrow>
   NodeNetworkConfigSpec \<Rightarrow> (GoError, NodeNetworkConfigSpec) result" where
  "buildPeeringVlanPeer env node peer vlan revision c =
     (let (irbIPs, vrf) =
        (case find (\<lambda>l2. matchSelector (be_labels env) node (l2c_NodeSelector l2) \<and> l2rev_Name l2 = bpv_Name vlan)
           (rs_Layer2 revision) of
           Some l2 \<Rightarrow> (l2c_AnycastGateways l2, l2c_VRF l2) | None \<Rightarrow> ([], '''')) in
      if irbIPs = [] then Inl (ErrorString (''no IRB IPs found for peering VLAN '' @ bpv_Name vlan))
      else efold (peeringVlanIP peer vrf) irbIPs c)"

definition convertIPToCIDR :: "string \<Rightarrow> (GoError, string) result" where
  "convertIPToCIDR ip =
     (case ParseIP ip of
        None \<Rightarrow> Inl (ErrorString (''failed to parse IP address '' @ ip))
      | Some parsed \<Rightarrow> Inr (IPString parsed @ (if To4 parsed \<noteq> None then ''/32'' else ''/128'')))"

definition loopbackPeerIP ::
  "'q BuildEnv \<Rightarrow> BGPRevision \<Rightarrow> string \<Rightarrow> NodeNetworkConfigSpec \<Rightarrow> (GoError, NodeNetworkConfigSpec) result" where
  "loopbackPeerIP env peer ip c =
     (case buildBgpPeer (Some ip) None peer of
        Inl err \<Rightarrow> Inl (Wrap ''failed to build BGP peer'' err)
      | Inr p \<Rightarrow>
        (case convertIPToCIDR ip of
           Inl err \<Rightarrow> Inl (Wrap (''failed to convert IP address '' @ ip @ '' to CIDR'') err)
         | Inr ipAddr \<Rightarrow>
           Inr ((addClusterPeer p c)\<lparr>ClusterVRF := map_option (\<lambda>v. v\<lparr>StaticRoutes := StaticRoutes v @
              [\<lparr>sr_Prefix = ipAddr, sr_NextHop = Some \<lparr>nh_Address = Some (be_hbnHostNextHop env), nh_Vrf = None\<rparr>,
                sr_BFDProfile = None\<rparr>]\<rparr>) (ClusterVRF (addClusterPeer p c))\<rparr>)))"

definition buildNodeBgpPeer ::
  "'q BuildEnv \<Rightarrow> Node \<Rightarrow> NetworkConfigRevisionSpec \<Rightarrow> BGPRevision \<Rightarrow> NodeNetworkConfigSpec \<Rightarrow>
   (GoError, NodeNetworkConfigSpec) result" where
  "buildNodeBgpPeer env node revision bgp c =
     (case bgs_PeeringVlan bgp of
        Some vlan \<Rightarrow>
          (case buildPeeringVlanPeer env node bgp vlan revision c of
             Inl err \<Rightarrow> Inl (Wrap ''failed to build peering VLAN peer'' err) | Inr c' \<Rightarrow> Inr c')
      | None \<Rightarrow>
        (case bgs_LoopbackPeer bgp of
           Some l \<Rightarrow>
             if bpl_IPAddresses l \<noteq> [] then efold (loopbackPeerIP env bgp) (bpl_IPAddresses l) c
             else Inl (ErrorString (''no loopback IPs found for BGP peer '' @ brev_Name bgp))
         | None \<Rightarrow> Inl (ErrorString (''no loopback IPs found for BGP peer '' @ brev_Name bgp))))"

definition matchingBGPs :: "'q BuildEnv \<Rightarrow> Node \<Rightarrow> BGPRevision list \<Rightarrow> BGPRevision list" where
  "matchingBGPs env node bgps = filter (\<lambda>b. matchSelector (be_labels env) node (bgs_NodeSelector b)) bgps"

definition buildNodeBgpPeers ::
  "'q BuildEnv \<Rightarrow> Node \<Rightarrow> NetworkConfigRevisionSpec \<Rightarrow> NodeNetworkConfigSpec \<Rightarrow>
   (GoError, NodeNetworkConfigSpec) result" where
  "buildNodeBgpPeers env node revision c =
     efold (buildNodeBgpPeer env node revision) (matchingBGPs env node (sort_key brev_Name (rs_BGP revision))) c"

definition dummyName :: "BGPRevision \<Rightarrow> string" where
  "dummyName bgp = ''bgp'' @ take 10 (sha256_hex (brev_Name bgp))"

definition buildNetplanDummy ::
  "BGPRevision \<Rightarrow> (string, string) gomap \<Rightarrow> (GoError, (string, string) gomap) result" where
  "buildNetplanDummy bgp m =
     (case bgs_LoopbackPeer bgp of
        Some l \<Rightarrow>
          if bpl_IPAddresses l = [] then Inr m
          else
            ebind (emap (\<lambda>ip. case convertIPToCIDR ip of
                 Inl err \<Rightarrow> Inl (Wrap (''failed to convert IP address '' @ ip @ '' to CIDR'') err) | Inr a \<Rightarrow> Inr a)
               (bpl_IPAddresses l))
              (\<lambda>addresses. Inr (gm_put (dummyName bgp) (jprint (jmap [(''addresses'', jstrs addresses)])) m))
      | None \<Rightarrow> Inr m)"

definition buildNetplanDummies ::
  "'q BuildEnv \<Rightarrow> Node \<Rightarrow> NetworkConfigRevisionSpec \<Rightarrow> (GoError, (string, string) gomap) result" where
  "buildNetplanDummies env node revision =
     efold buildNetplanDummy (matchingBGPs env node (rs_BGP revision)) []"

section \<open>The fabric VRFs\<close>

text \<open>
  What the fabric VRFs of a node should be: one per VRF name among the matching revisions, created
  from the first of them, with the exports of all of them in order, as EVPN export filter and as
  filter of the import from the cluster VRF, and with their aggregates as static routes.
\<close>

definition ofVrf :: "string \<Rightarrow> VRFRevision list \<Rightarrow> VRFRevision list" where
  "ofVrf name ms = filter (\<lambda>v. vrc_VRF v = name) ms"

definition exportsOf :: "string \<Rightarrow> VRFRevision list \<Rightarrow> FilterItem list" where
  "exportsOf name ms = concat (map (\<lambda>v. map (exportItem v) (sort_key pi_Seq (vrc_Export v))) (ofVrf name ms))"

definition aggregatesOf :: "string \<Rightarrow> VRFRevision list \<Rightarrow> StaticRoute list" where
  "aggregatesOf name ms = concat (map (\<lambda>v. map (\<lambda>a. \<lparr>sr_Prefix = a, sr_NextHop = None, sr_BFDProfile = None\<rparr>)
     (vrc_Aggregate v)) (ofVrf name ms))"

definition withExports :: "FilterItem list \<Rightarrow> FabricVRF \<Rightarrow> FabricVRF" where
  "withExports items fv = fv\<lparr>EVPNExportFilter := Some \<lparr>f_Items = items, f_DefaultAction = plainAction Reject\<rparr>,
     VRFImports := [\<lparr>vi_FromVRF = ''cluster'',
                     vi_Filter = \<lparr>f_Items = items, f_DefaultAction = plainAction Reject\<rparr>\<rparr>]\<rparr>"

definition fabricRef :: "Config \<Rightarrow> VRFRevision list \<Rightarrow> string \<Rightarrow> FabricVRF option" where
  "fabricRef cfg ms name =
     (case ofVrf name ms of [] \<Rightarrow> None
      | v # _ \<Rightarrow>
        (case createFabricVRF cfg v of Inl _ \<Rightarrow> None
         | Inr fv \<Rightarrow> Some (withExports (exportsOf name ms) (fv\<lparr>StaticRoutes := aggregatesOf name ms\<rparr>))))"

lemma withExports_items [simp]: "withExports a (withExports b fv) = withExports a fv"
  by (simp add: withExports_def)

lemma processExportList_with:
  "processExportList vrf es (withExports items fv) = Some (withExports (items @ map (exportItem vrf) es) fv)"
proof (induction es arbitrary: items)
  case (Cons e es)
  have "processExport vrf e (withExports items fv) = Some (withExports (items @ [exportItem vrf e]) fv)"
    by (simp add: processExport_def withExports_def addItem_def)
  with Cons show ?case by simp
qed (simp add: withExports_def)

lemma createFabricVRF_with:
  "createFabricVRF cfg v = Inr fv \<Longrightarrow> fv = withExports [] (fv\<lparr>StaticRoutes := []\<rparr>)"
  by (auto simp: createFabricVRF_def ebind_eq_Inr withExports_def VRF.extend_def zero_defs
      split: prod.splits)

lemma updateFabricVRF_with:
  "updateFabricVRF (withExports items fv) vrf m mode =
     Some (withExports (items @ map (exportItem vrf) (sort_key pi_Seq (vrc_Export vrf)))
        (fv\<lparr>StaticRoutes := StaticRoutes fv @
           map (\<lambda>a. \<lparr>sr_Prefix = a, sr_NextHop = None, sr_BFDProfile = None\<rparr>) (vrc_Aggregate vrf)\<rparr>),
      if mode \<noteq> ImportModeImport then m else processImports vrf m)"
proof -
  have "withExports items fv\<lparr>StaticRoutes := xs\<rparr> = withExports items (fv\<lparr>StaticRoutes := xs\<rparr>)" for xs
    by (simp add: withExports_def)
  moreover have "StaticRoutes (withExports items fv) = StaticRoutes fv" by (simp add: withExports_def)
  ultimately show ?thesis
    by (simp add: updateFabricVRF_def processExports_def processExportList_with Let_def)
qed

lemma ofVrf_snoc [simp]: "ofVrf name (ms @ [v]) = ofVrf name ms @ (if vrc_VRF v = name then [v] else [])"
  by (simp add: ofVrf_def)

lemma fabricRef_snoc_other: "vrc_VRF v \<noteq> name \<Longrightarrow> fabricRef cfg (ms @ [v]) name = fabricRef cfg ms name"
  by (simp add: fabricRef_def exportsOf_def aggregatesOf_def split: list.split sum.split)

lemma buildVrfStep_fabric:
  assumes wf: "gm_wf (vb_Fabric b)" and ref: "\<And>n. gm_get (vb_Fabric b) n = fabricRef cfg ms n"
    and cfg: "cfg = be_vrfConfig env"
    and def: "ofVrf (vrc_VRF v) ms \<noteq> [] \<Longrightarrow> fabricRef cfg ms (vrc_VRF v) \<noteq> None"
  shows "case buildVrfStep env v b of
      Inr b' \<Rightarrow> gm_wf (vb_Fabric b') \<and> (\<forall>n. gm_get (vb_Fabric b') n = fabricRef cfg (ms @ [v]) n) \<and>
                fabricRef cfg (ms @ [v]) (vrc_VRF v) \<noteq> None
    | Inl e \<Rightarrow> fabricRef cfg (ms @ [v]) (vrc_VRF v) = None \<and> e \<noteq> panicErr"
proof -
  have other: "gm_get (gm_put (vrc_VRF v) fv (vb_Fabric b)) n = fabricRef cfg (ms @ [v]) n"
    if "fabricRef cfg (ms @ [v]) (vrc_VRF v) = Some fv" for fv n
    using that fabricRef_snoc_other [of v n cfg ms] ref by (cases "n = vrc_VRF v") (simp_all add: gomap_simps)
  show ?thesis
  proof (cases "ofVrf (vrc_VRF v) ms")
    case Nil
    then have none: "gm_get (vb_Fabric b) (vrc_VRF v) = None" by (simp add: ref fabricRef_def)
    show ?thesis
    proof (cases "createFabricVRF cfg v")
      case (Inl e)
      with Nil none cfg show ?thesis by (simp add: buildVrfStep_def fabricRef_def panicErr_def)
    next
      case (Inr fv)
      define fv0 where "fv0 = fv\<lparr>StaticRoutes := []\<rparr>"
      have fv: "fv = withExports [] fv0" unfolding fv0_def by (rule createFabricVRF_with [OF Inr])
      have new: "fabricRef cfg (ms @ [v]) (vrc_VRF v) =
          Some (withExports (map (exportItem v) (sort_key pi_Seq (vrc_Export v)))
            (fv0\<lparr>StaticRoutes := map (\<lambda>a. \<lparr>sr_Prefix = a, sr_NextHop = None, sr_BFDProfile = None\<rparr>) (vrc_Aggregate v)\<rparr>))"
        using Nil Inr by (simp add: fabricRef_def exportsOf_def aggregatesOf_def fv0_def)
      have sr0: "StaticRoutes fv0 = []" by (simp add: fv0_def)
      show ?thesis
        using none Inr cfg wf other [OF new] new
        by (simp add: buildVrfStep_def fv updateFabricVRF_with sr0 split: prod.split add: gomap_wf)
    qed
  next
    case (Cons w ws)
    with def obtain fv where fv: "createFabricVRF cfg w = Inr fv"
      "fabricRef cfg ms (vrc_VRF v) =
         Some (withExports (exportsOf (vrc_VRF v) ms) (fv\<lparr>StaticRoutes := aggregatesOf (vrc_VRF v) ms\<rparr>))"
      by (cases "createFabricVRF cfg w") (auto simp: fabricRef_def)
    then have get: "gm_get (vb_Fabric b) (vrc_VRF v) =
        Some (withExports (exportsOf (vrc_VRF v) ms) (fv\<lparr>StaticRoutes := aggregatesOf (vrc_VRF v) ms\<rparr>))"
      by (simp add: ref)
    have new: "fabricRef cfg (ms @ [v]) (vrc_VRF v) =
        Some (withExports (exportsOf (vrc_VRF v) ms @ map (exportItem v) (sort_key pi_Seq (vrc_Export v)))
          (fv\<lparr>StaticRoutes := aggregatesOf (vrc_VRF v) ms @
             map (\<lambda>a. \<lparr>sr_Prefix = a, sr_NextHop = None, sr_BFDProfile = None\<rparr>) (vrc_Aggregate v)\<rparr>))"
      using Cons fv(1) by (simp add: fabricRef_def exportsOf_def aggregatesOf_def)
    show ?thesis
      using get wf other [OF new] new
      by (simp add: buildVrfStep_def updateFabricVRF_with split: prod.split add: gomap_wf)
  qed
qed

text \<open>C22. \<open>buildNodeVrf\<close> builds exactly the fabric VRFs of \<open>fabricRef\<close>, whatever the revision. It
  fails only when the first revision of some VRF name has no VNI and route target of its own and the
  operator's configuration does not know the VRF; it never panics on a missing import or filter.\<close>

theorem buildNodeVrf_fabric:
  "case buildNodeVrf env node revision c of
     Inr c' \<Rightarrow> gm_wf (FabricVRFs c') \<and>
       (\<forall>name. gm_get (FabricVRFs c') name =
          fabricRef (be_vrfConfig env) (matchingVrfs env node (rs_Vrf revision)) name) \<and>
       set (gm_keys (FabricVRFs c')) = vrc_VRF ` set (matchingVrfs env node (rs_Vrf revision))
   | Inl e \<Rightarrow> e \<noteq> panicErr \<and>
       (\<exists>ms v ns. matchingVrfs env node (rs_Vrf revision) = ms @ v # ns \<and>
          fabricRef (be_vrfConfig env) (ms @ [v]) (vrc_VRF v) = None)"
proof -
  define ms where "ms = matchingVrfs env node (rs_Vrf revision)"
  let ?cfg = "be_vrfConfig env"
  let ?b0 = "\<lparr>vb_Fabric = [], vb_Local = [], vb_Cluster = createDefaultClusterVRF, vb_Imports = []\<rparr>"
  define inv where "inv = (\<lambda>ms (b :: VrfBuild). gm_wf (vb_Fabric b) \<and> (\<forall>n. gm_get (vb_Fabric b) n = fabricRef ?cfg ms n) \<and>
      (\<forall>v \<in> set ms. fabricRef ?cfg ms (vrc_VRF v) \<noteq> None))"
  have "inv [] ?b0" by (simp add: inv_def gomap_wf fabricRef_def ofVrf_def)
  have step: "case buildVrfStep env v b of Inr b' \<Rightarrow> inv (ms @ [v]) b'
      | Inl e \<Rightarrow> fabricRef ?cfg (ms @ [v]) (vrc_VRF v) = None \<and> e \<noteq> panicErr" if "inv ms b" for ms v b
  proof -
    have def: "ofVrf (vrc_VRF v) ms \<noteq> [] \<Longrightarrow> fabricRef ?cfg ms (vrc_VRF v) \<noteq> None"
      using that by (auto simp: inv_def ofVrf_def filter_empty_conv)
    have keep: "fabricRef ?cfg (ms @ [v]) (vrc_VRF w) \<noteq> None"
      if "w \<in> set ms" "fabricRef ?cfg (ms @ [v]) (vrc_VRF v) \<noteq> None" for w
      using that \<open>inv ms b\<close> fabricRef_snoc_other [of v "vrc_VRF w" ?cfg ms]
      by (cases "vrc_VRF v = vrc_VRF w") (auto simp: inv_def)
    show ?thesis
      using buildVrfStep_fabric [OF _ _ refl def, of b] that keep
      by (auto simp: inv_def split: sum.splits)
  qed
  show ?thesis
  proof (cases "efold (buildVrfStep env) ms ?b0")
    case (Inr b)
    have "inv ms b"
      by (rule efold_prefix [where I = inv, OF Inr \<open>inv [] ?b0\<close>]) (use step in \<open>force split: sum.splits\<close>)
    moreover have "n \<in> vrc_VRF ` set ms" if "fabricRef ?cfg ms n = Some fv" for n fv
    proof (rule ccontr)
      assume "n \<notin> vrc_VRF ` set ms"
      then have "ofVrf n ms = []" by (auto simp: ofVrf_def filter_empty_conv)
      with that show False by (simp add: fabricRef_def)
    qed
    moreover have "set (gm_keys (vb_Fabric b)) = {n. gm_get (vb_Fabric b) n \<noteq> None}"
      by (auto simp: map_of_eq_None_iff)
    ultimately show ?thesis using Inr by (auto simp: buildNodeVrf_def ms_def [symmetric] inv_def)
  next
    case (Inl e)
    then obtain ys x zs t where s: "ms = ys @ x # zs" "efold (buildVrfStep env) ys ?b0 = Inr t"
      "buildVrfStep env x t = Inl e" by (blast dest: efold_Inl_split)
    have "inv ys t"
      by (rule efold_prefix [where I = inv, OF s(2) \<open>inv [] ?b0\<close>]) (use step in \<open>force split: sum.splits\<close>)
    with step [of ys t x] s Inl show ?thesis by (auto simp: buildNodeVrf_def ms_def [symmetric])
  qed
qed

section \<open>The Layer-2 segments\<close>

lemma buildLayer2_fold:
  "case efold buildLayer2Step ls m of
     Inr m' \<Rightarrow> distinct (map l2c_ID ls) \<and> (\<forall>l \<in> set ls. \<not> gm_has m (layer2Key l)) \<and>
               m' = m @ map (\<lambda>l. (layer2Key l, nodeLayer2 l)) ls
   | Inl e \<Rightarrow> \<not> (distinct (map l2c_ID ls) \<and> (\<forall>l \<in> set ls. \<not> gm_has m (layer2Key l)))"
proof (induction ls arbitrary: m)
  case (Cons l ls)
  show ?case
  proof (cases "gm_has m (layer2Key l)")
    case True
    then show ?thesis by (simp add: buildLayer2Step_def)
  next
    case False
    then have put: "gm_put (layer2Key l) (nodeLayer2 l) m = m @ [(layer2Key l, nodeLayer2 l)]"
      by (induction m) (auto simp: gm_has_def split: if_splits)
    have has: "gm_has (m @ [(layer2Key l, nodeLayer2 l)]) (layer2Key l') \<longleftrightarrow>
        gm_has m (layer2Key l') \<or> l2c_ID l' = l2c_ID l" for l'
      by (auto simp: gm_has_iff layer2Key_def)
    have "buildLayer2Step l m = Inr (m @ [(layer2Key l, nodeLayer2 l)])"
      using False by (simp add: buildLayer2Step_def put)
    with Cons.IH [of "m @ [(layer2Key l, nodeLayer2 l)]"] False show ?thesis
      by (auto simp: has image_iff eq_commute [of "l2c_ID l"] split: sum.splits)
  qed
qed simp

text \<open>C29. \<open>buildNodeLayer2\<close> fails exactly when two matching segments share a VLAN id; otherwise the
  node gets one segment per matching resource, in the order of the ids, keyed by the id, with VNI,
  VLAN and MTU at the width of the southbound API.\<close>

theorem buildNodeLayer2_correct:
  "case buildNodeLayer2 env node revision c of
     Inr c' \<Rightarrow> distinct (map l2c_ID (matchingLayer2s env node (rs_Layer2 revision))) \<and>
       gm_wf (Layer2s c') \<and>
       c' = c\<lparr>Layer2s := map (\<lambda>l. (itoa (l2c_ID l), nodeLayer2 l)) (matchingLayer2s env node (rs_Layer2 revision))\<rparr>
   | Inl e \<Rightarrow> \<not> distinct (map l2c_ID (matchingLayer2s env node (rs_Layer2 revision)))"
proof -
  let ?ls = "matchingLayer2s env node (rs_Layer2 revision)"
  have "inj itoa" by (simp add: inj_def)
  then have "distinct (map l2c_ID ?ls) \<Longrightarrow> gm_wf (map (\<lambda>l. (itoa (l2c_ID l), nodeLayer2 l)) ?ls)"
    by (auto simp: gm_wf_def distinct_map o_def inj_on_def)
  with buildLayer2_fold [of ?ls "[]"] show ?thesis
    by (auto simp: buildNodeLayer2_def layer2Key_def gm_has_def ebind_def split: sum.splits)
qed

text \<open>C31. The narrowing to the widths of the southbound API: VNI and MTU keep every value the
  resource's schema admits, the VLAN id, which the schema does not bound, is taken modulo 65536.\<close>

theorem nodeLayer2_bounds:
  assumes "1 \<le> l2c_VNI l" "l2c_VNI l \<le> 16777215" "1000 \<le> l2c_MTU l" "l2c_MTU l \<le> 9000"
  shows "uint (l2_VNI (nodeLayer2 l)) = l2c_VNI l \<and> uint (l2_MTU (nodeLayer2 l)) = l2c_MTU l \<and>
         uint (l2_VLAN (nodeLayer2 l)) = l2c_ID l mod 65536"
  using assms by (simp add: nodeLayer2_def zeroLayer2_def uint_word_of_int)

theorem nodeLayer2_bounds_witness:
  "uint (l2_VLAN (nodeLayer2 (layer2Revision (sampleL2 ''b'' 65636 2)))) = 100"
  using nodeLayer2_bounds [of "layer2Revision (sampleL2 ''b'' 65636 2)"]
  by (simp add: layer2Revision_def sampleL2_def ObjectMeta.extend_def Layer2NetworkConfigurationSpec.extend_def)


section \<open>Filters and BGP peers\<close>

definition inFamily :: "IPFamily \<Rightarrow> VrfRouteConfigurationPrefixItem \<Rightarrow> bool" where
  "inFamily family i = (case ParseCIDR (pi_CIDR i) of None \<Rightarrow> False
     | Some (ip, _) \<Rightarrow> family = Both \<or> familyOf ip = family)"

definition plainItem :: "VrfRouteConfigurationPrefixItem \<Rightarrow> FilterItem" where
  "plainItem i = prefixItem (pi_CIDR i) (pi_GE i) (pi_LE i) (plainAction (permitAction i))"

lemma buildFilterItem_eq:
  "buildFilterItem family i = (if ParseCIDR (pi_CIDR i) = None
     then Inl (Wrap (''failed to parse CIDR '' @ pi_CIDR i) (cidrErr (pi_CIDR i)))
     else Inr (if inFamily family i then Some (plainItem i) else None))"
  by (cases family; cases "ParseCIDR (pi_CIDR i)")
     (auto simp: buildFilterItem_def inFamily_def familyOf_def plainItem_def split: if_splits)

lemma buildFilterItems_emap:
  "emap (buildFilterItem family) is =
     (case find (\<lambda>i. ParseCIDR (pi_CIDR i) = None) is of
        Some i \<Rightarrow> Inl (Wrap (''failed to parse CIDR '' @ pi_CIDR i) (cidrErr (pi_CIDR i)))
      | None \<Rightarrow> Inr (map (\<lambda>i. if inFamily family i then Some (plainItem i) else None) is))"
  by (induction "is") (simp_all add: buildFilterItem_eq split: option.splits)

lemma map_filter_if: "List.map_filter id (map (\<lambda>i. if P i then Some (f i) else None) is) = map f (filter P is)"
  by (induction "is") (simp_all add: List.map_filter_def)

text \<open>C30. \<open>buildFilterItems\<close> keeps the items of the family, in the order of their sequence numbers
  and, for equal numbers, of the list; it reports the first item of that order whose prefix does not
  parse.\<close>

theorem buildFilterItems_correct:
  "buildFilterItems items family =
     (case find (\<lambda>i. ParseCIDR (pi_CIDR i) = None) (sort_key pi_Seq items) of
        Some i \<Rightarrow> Inl (Wrap (''failed to parse CIDR '' @ pi_CIDR i) (cidrErr (pi_CIDR i)))
      | None \<Rightarrow> Inr (map plainItem (filter (inFamily family) (sort_key pi_Seq items))))"
  by (simp add: buildFilterItems_def buildFilterItems_emap map_filter_if split: option.split)

text \<open>The families of a peer. A listen range gets the family of its addresses alone; a loopback
  peer always gets IPv4, and IPv6 when its address is one. Only loopback peers are multihop.\<close>

lemma buildBgpPeer_families:
  "buildBgpPeer loopbackIP listenRange peer = Inr p \<Longrightarrow>
     (\<exists>fam. bgpPeerFamily loopbackIP listenRange = Inr fam \<and>
        (bp_IPv4 p \<noteq> None \<longleftrightarrow> fam = IPv4 \<or> loopbackIP \<noteq> None) \<and>
        (bp_IPv6 p \<noteq> None \<longleftrightarrow> fam = IPv6) \<and>
        (bp_Multihop p = (if loopbackIP = None then None else Some 2)) \<and>
        (\<forall>af. bp_IPv4 p = Some af \<longrightarrow> buildBgpAddressFamily peer IPv4 = Inr af) \<and>
        (\<forall>af. bp_IPv6 p = Some af \<longrightarrow> buildBgpAddressFamily peer IPv6 = Inr af))"
  by (auto simp: buildBgpPeer_def ebind_eq_Inr optFamily_def split: if_splits sum.splits)

end
