(* ===== verification/Mirror_Status.thy ===== *)
theory Mirror_Status
  imports Mirror
begin

text \<open>
  The status of mirror targets and selectors, \<open>pkg/reconciler/operator/mirror_status.go\<close>.

  Parameters (\<open>StatusLib\<close>): \<open>meta.SetStatusCondition\<close> of apimachinery and \<open>retry.RetryOnConflict\<close> of
  client-go, which runs the closure again while it reports a conflict. The semantic deep equality of
  two statuses or ACLs is equality of the values, as no field distinguishes nil from empty.
\<close>

record 's StatusLib =
  sl_SetStatusCondition :: "Condition list \<Rightarrow> Condition \<Rightarrow> Condition list"
  sl_RetryOnConflict :: "('s, GoError, unit) io \<Rightarrow> ('s, GoError, unit) io"

definition mkCondition :: "string \<Rightarrow> int \<Rightarrow> bool \<Rightarrow> string \<Rightarrow> string \<Rightarrow> Condition" where
  "mkCondition t gen st reason msg = \<lparr>cond_Type = t, cond_Status = (if st then ''True'' else ''False''),
     cond_Reason = reason, cond_Message = msg, cond_ObservedGeneration = gen, cond_LastTransitionTime = 0\<rparr>"

definition targetReadyCondition :: "int \<Rightarrow> int \<Rightarrow> Condition" where
  "targetReadyCondition generation activeNodes =
     (if activeNodes = 0
      then mkCondition ''Ready'' generation False ''NotConfigured'' ''GRE tunnel is not configured on any node''
      else mkCondition ''Ready'' generation True ''Configured'' ''GRE tunnel configured on at least one node'')"

definition resolvedCondition :: "int \<Rightarrow> bool \<Rightarrow> bool \<Rightarrow> Condition" where
  "resolvedCondition generation targetFound sourceFound =
     (if \<not> targetFound \<and> \<not> sourceFound then mkCondition ''Resolved'' generation False ''ReferencesNotFound''
        ''referenced MirrorTarget and MirrorSource do not exist''
      else if \<not> targetFound then mkCondition ''Resolved'' generation False ''TargetNotFound''
        ''referenced MirrorTarget does not exist''
      else if \<not> sourceFound then mkCondition ''Resolved'' generation False ''SourceNotFound''
        ''referenced MirrorSource does not exist''
      else mkCondition ''Resolved'' generation True ''Resolved'' ''MirrorTarget and MirrorSource references resolved'')"

definition appliedCondition :: "int \<Rightarrow> bool \<Rightarrow> Condition" where
  "appliedCondition generation applied =
     (if applied then mkCondition ''Applied'' generation True ''Applied'' ''mirror rules programmed on at least one node''
      else mkCondition ''Applied'' generation False ''Pending'' ''mirror rules are not yet programmed on any node'')"

definition countTargetNodes :: "MirrorTarget \<Rightarrow> NodeNetworkConfig list \<Rightarrow> int" where
  "countTargetNodes target configs =
     (let greName = greInterfaceName (om_Name target) (mts_Type (mt_Spec target)) in
      int (length (filter (\<lambda>cfg. case gm_get (FabricVRFs (nnc_Spec cfg)) (mts_DestinationVrf (mt_Spec target)) of
          None \<Rightarrow> False | Some fv \<Rightarrow> gm_has (GREs fv) greName) configs)))"

definition containsMirrorACL :: "MirrorACL list \<Rightarrow> MirrorACL \<Rightarrow> bool" where
  "containsMirrorACL acls want = list_ex (\<lambda>a. a = want) acls"

definition sourceACLs :: "MirrorSelector \<Rightarrow> string \<Rightarrow> NodeNetworkConfig \<Rightarrow> MirrorACL list" where
  "sourceACLs sel sourceKey cfg =
     (let kind = tor_Kind (mss_MirrorSource (msel_Spec sel)) in
      if kind = sourceKindLayer2 then
        (case gm_get (Layer2s (nnc_Spec cfg)) sourceKey of None \<Rightarrow> [] | Some l \<Rightarrow> l2_MirrorACLs l)
      else if kind = sourceKindVRF then
        (case gm_get (FabricVRFs (nnc_Spec cfg)) sourceKey of None \<Rightarrow> [] | Some fv \<Rightarrow> MirrorACLs fv)
      else [])"

definition countSelectorNodes ::
  "MirrorSelector \<Rightarrow> MirrorTarget option \<Rightarrow> string \<Rightarrow> NodeNetworkConfig list \<Rightarrow> int" where
  "countSelectorNodes sel target sourceKey configs =
     (case target of None \<Rightarrow> 0
      | Some t \<Rightarrow>
        (let want = \<lparr>acl_TrafficMatch = mss_TrafficMatch (msel_Spec sel),
                     acl_MirrorDestination = greInterfaceName (om_Name t) (mts_Type (mt_Spec t)),
                     acl_Direction = mss_Direction (msel_Spec sel)\<rparr> in
         int (length (filter (\<lambda>cfg. containsMirrorACL (sourceACLs sel sourceKey cfg) want) configs))))"

record mirrorSourceResolver =
  msr_layer2Keys :: "(string, string) gomap"
  msr_vrfKeys :: "(string, string) gomap"

definition buildMirrorSourceResolver :: "'s OperatorClients \<Rightarrow> ('s, GoError, mirrorSourceResolver) io" where
  "buildMirrorSourceResolver r =
     io_bind (api ''error listing Layer2NetworkConfigurations for mirror status'' (c_List (oc_Layer2 r))) (\<lambda>l2s.
     io_bind (api ''error listing VRFRouteConfigurations for mirror status'' (c_List (oc_Vrf r))) (\<lambda>vrfs.
     io_return \<lparr>msr_layer2Keys = fold (\<lambda>l. gm_put (om_Name l) (itoa (l2c_ID (l2c_Spec l)))) l2s [],
                msr_vrfKeys = fold (\<lambda>v. gm_put (om_Name v) (vrc_VRF (vrc_Spec v))) vrfs []\<rparr>))"

definition resolve :: "mirrorSourceResolver \<Rightarrow> TypedObjectReference \<Rightarrow> string option" where
  "resolve r src =
     (if \<not> refAPIGroupOK src then None
      else if tor_Kind src = sourceKindLayer2 then gm_get (msr_layer2Keys r) (tor_Name src)
      else if tor_Kind src = sourceKindVRF then gm_get (msr_vrfKeys r) (tor_Name src)
      else None)"

section \<open>Writing the status\<close>

text \<open>A loop that goes on after an error and joins the errors at the end.\<close>

fun io_collect :: "('a \<Rightarrow> ('s, GoError, unit) io) \<Rightarrow> 'a list \<Rightarrow> GoError list \<Rightarrow> ('s, GoError, unit) io" where
  "io_collect f [] errs = (if errs = [] then io_return () else io_throw (Joined errs))"
| "io_collect f (x # xs) errs =
     io_catch (f x) (\<lambda>e. io_collect f xs (errs @ [e])) (\<lambda>_. io_collect f xs errs)"

definition updateTargetStatus ::
  "'s OperatorClients \<Rightarrow> 's StatusLib \<Rightarrow> string \<Rightarrow> int \<Rightarrow> int \<Rightarrow> ('s, GoError, unit) io" where
  "updateTargetStatus r lib name activeSelectors activeNodes =
     io_bind (api (''error getting MirrorTarget '' @ name) (c_Get (oc_MirrorTargets r) name)) (\<lambda>cur.
     let newStatus = \<lparr>mtst_ActiveSelectors = activeSelectors, mtst_ActiveNodes = activeNodes,
           mtst_Conditions = sl_SetStatusCondition lib (mtst_Conditions (mt_Status cur))
             (targetReadyCondition (om_Generation cur) activeNodes)\<rparr> in
     if mt_Status cur = newStatus then io_return ()
     else io_bind (io_wrap ApiErr (c_UpdateStatus (oc_MirrorTargets r) (cur\<lparr>mt_Status := newStatus\<rparr>)))
       (\<lambda>_. io_return ()))"

definition updateTargetStatuses ::
  "'s OperatorClients \<Rightarrow> 's StatusLib \<Rightarrow> MirrorTarget list \<Rightarrow> (string, int) gomap \<Rightarrow> NodeNetworkConfig list \<Rightarrow>
   ('s, GoError, unit) io" where
  "updateTargetStatuses r lib targets selectorCount configs =
     io_collect (\<lambda>t. wrapErr (''error updating MirrorTarget '' @ om_Name t @ '' status'')
       (sl_RetryOnConflict lib (updateTargetStatus r lib (om_Name t)
         (case gm_get selectorCount (om_Name t) of Some n \<Rightarrow> n | None \<Rightarrow> 0) (countTargetNodes t configs)))) targets []"

definition updateSelectorStatus ::
  "'s OperatorClients \<Rightarrow> 's StatusLib \<Rightarrow> string \<Rightarrow> bool \<Rightarrow> bool \<Rightarrow> bool \<Rightarrow> ('s, GoError, unit) io" where
  "updateSelectorStatus r lib name targetFound sourceFound applied =
     io_bind (api (''error getting MirrorSelector '' @ name) (c_Get (oc_MirrorSelectors r) name)) (\<lambda>cur.
     let conds = sl_SetStatusCondition lib (msst_Conditions (msel_Status cur))
           (resolvedCondition (om_Generation cur) targetFound sourceFound);
         newStatus = \<lparr>msst_Conditions = sl_SetStatusCondition lib conds
           (appliedCondition (om_Generation cur) applied)\<rparr> in
     if msel_Status cur = newStatus then io_return ()
     else io_bind (io_wrap ApiErr (c_UpdateStatus (oc_MirrorSelectors r) (cur\<lparr>msel_Status := newStatus\<rparr>)))
       (\<lambda>_. io_return ()))"

definition selectorFlags ::
  "(string, MirrorTarget) gomap \<Rightarrow> mirrorSourceResolver \<Rightarrow> NodeNetworkConfig list \<Rightarrow> MirrorSelector \<Rightarrow>
   bool \<times> bool \<times> bool" where
  "selectorFlags targetByName resolver configs s =
     (let ref = mss_MirrorTarget (msel_Spec s);
          target = gm_get targetByName (tor_Name ref);
          targetFound = (target \<noteq> None \<and> validMirrorTargetRef ref);
          source = resolve resolver (mss_MirrorSource (msel_Spec s));
          sourceFound = (source \<noteq> None);
          applied = (targetFound \<and> sourceFound \<and>
            countSelectorNodes s target (case source of Some k \<Rightarrow> k | None \<Rightarrow> '''') configs > 0) in
      (targetFound, sourceFound, applied))"

definition updateSelectorStatuses ::
  "'s OperatorClients \<Rightarrow> 's StatusLib \<Rightarrow> MirrorSelector list \<Rightarrow> (string, MirrorTarget) gomap \<Rightarrow> mirrorSourceResolver \<Rightarrow>
   NodeNetworkConfig list \<Rightarrow> ('s, GoError, unit) io" where
  "updateSelectorStatuses r lib selectors targetByName resolver configs =
     io_collect (\<lambda>s. case selectorFlags targetByName resolver configs s of (targetFound, sourceFound, applied) \<Rightarrow>
       wrapErr (''error updating MirrorSelector '' @ om_Name s @ '' status'')
         (sl_RetryOnConflict lib (updateSelectorStatus r lib (om_Name s) targetFound sourceFound applied))) selectors []"

definition selectorCounts :: "MirrorSelector list \<Rightarrow> (string, int) gomap" where
  "selectorCounts selectors =
     fold (\<lambda>s m. let ref = mss_MirrorTarget (msel_Spec s) in
       if \<not> validMirrorTargetRef ref then m
       else gm_put (tor_Name ref) ((case gm_get m (tor_Name ref) of Some n \<Rightarrow> n | None \<Rightarrow> 0) + 1) m) selectors []"

definition reconcileMirrorStatus :: "'s OperatorClients \<Rightarrow> 's StatusLib \<Rightarrow> ('s, GoError, unit) io" where
  "reconcileMirrorStatus r lib =
     io_bind (api ''error listing MirrorSelectors'' (c_List (oc_MirrorSelectors r))) (\<lambda>selectors.
     io_bind (api ''error listing MirrorTargets'' (c_List (oc_MirrorTargets r))) (\<lambda>targets.
     if selectors = [] \<and> targets = [] then io_return ()
     else
       io_bind (wrapErr ''error listing configs for mirror status'' (listConfigs r)) (\<lambda>configs.
       io_bind (buildMirrorSourceResolver r) (\<lambda>resolver.
       io_bind (updateTargetStatuses r lib targets (selectorCounts selectors) configs) (\<lambda>_.
       updateSelectorStatuses r lib selectors (fold (\<lambda>t. gm_put (om_Name t) t) targets []) resolver configs)))))"

end
