(* ===== verification/Rollout.thy ===== *)
theory Rollout
  imports Mirror_Status
begin

text \<open>
  The rollout of revisions to the nodes, \<open>pkg/reconciler/operator/configrevision_reconciler.go\<close>: a
  pass counts how the nodes fare with each revision, invalidates revisions that fail, deploys the
  newest valid revision to at most one more node while fewer than \<open>maxUpdating\<close> are in progress,
  and cleans up revisions nobody uses.

  The reconciler (\<open>CRR\<close>) has the API clients and, as parameters, what it takes from elsewhere: the
  reading of the configuration file into the present configuration, \<open>SetOwnerReference\<close> of
  controller-runtime, the clock, and the order in which a \<open>range\<close> loop visits the map of nodes. Its
  memory between passes (\<open>CRRState\<close>) is the VRF configuration and the cached mirror allocator; it
  survives a pass that fails. A \<open>run\<close> is a computation over the cluster and this memory, \<open>None\<close>
  when it does not return (the scan of the mirror allocator on a subnet of length zero).
\<close>

record CRRState =
  cs_vrfConfig :: Config
  cs_mirrorAllocCache :: mirrorAllocCache

record ('s, 'q) CRR =
  crr_clients :: "'s OperatorClients"
  crr_lib :: "'s StatusLib"
  crr_labels :: "'q Labels"
  crr_importMode :: ImportMode
  crr_hbnHostNextHop :: string
  crr_importIter :: "(string, VRFImport) gomap \<Rightarrow> (string, VRFImport) gomap"
  crr_nodeIter :: "(string, Node) gomap \<Rightarrow> (string, Node) gomap"
  crr_ReloadConfig :: "Config \<Rightarrow> ('s, GoError, Config) io"
  crr_SetOwnerReference :: "OwnerReference \<Rightarrow> OwnerReference list \<Rightarrow> (GoError, OwnerReference list) result"
  crr_Now :: "'s \<Rightarrow> gotime"
  crr_configTimeout :: int
  crr_preconfigTimeout :: int
  crr_maxUpdating :: int

type_synonym ('s, 'a) run = "'s \<times> CRRState \<Rightarrow> ((GoError, 'a) result \<times> ('s \<times> CRRState)) option"

definition r_return :: "'a \<Rightarrow> ('s, 'a) run" where
  "r_return x = (\<lambda>st. Some (Inr x, st))"

definition r_throw :: "GoError \<Rightarrow> ('s, 'a) run" where
  "r_throw e = (\<lambda>st. Some (Inl e, st))"

definition r_bind :: "('s, 'a) run \<Rightarrow> ('a \<Rightarrow> ('s, 'b) run) \<Rightarrow> ('s, 'b) run" where
  "r_bind m f = (\<lambda>st. case m st of None \<Rightarrow> None
     | Some (Inl e, st') \<Rightarrow> Some (Inl e, st') | Some (Inr x, st') \<Rightarrow> f x st')"

definition r_io :: "('s, GoError, 'a) io \<Rightarrow> ('s, 'a) run" where
  "r_io m = (\<lambda>(s, c). case m s of (r, s') \<Rightarrow> Some (r, (s', c)))"

definition r_lift :: "(GoError, 'a) result \<Rightarrow> ('s, 'a) run" where
  "r_lift r = (\<lambda>st. Some (r, st))"

definition r_wrap :: "string \<Rightarrow> ('s, 'a) run \<Rightarrow> ('s, 'a) run" where
  "r_wrap msg m = (\<lambda>st. case m st of None \<Rightarrow> None
     | Some (Inl e, st') \<Rightarrow> Some (Inl (Wrap msg e), st') | Some (Inr x, st') \<Rightarrow> Some (Inr x, st'))"

definition wrapR :: "string \<Rightarrow> (GoError, 'a) result \<Rightarrow> (GoError, 'a) result" where
  "wrapR msg r = (case r of Inl e \<Rightarrow> Inl (Wrap msg e) | Inr x \<Rightarrow> Inr x)"

section \<open>Counting\<close>

record counters =
  cnt_ready :: int
  cnt_ongoing :: int
  cnt_invalid :: int
  cnt_failedNode :: string
  cnt_failedMessage :: string
  cnt_failedAt :: gotime

definition zeroCounters :: counters where
  "zeroCounters = \<lparr>cnt_ready = 0, cnt_ongoing = 0, cnt_invalid = 0, cnt_failedNode = '''', cnt_failedMessage = '''',
     cnt_failedAt = 0\<rparr>"

definition cfgRevision :: "NodeNetworkConfig \<Rightarrow> string" where
  "cfgRevision cfg = nns_Revision (nnc_Spec cfg)"

definition wasConfigTimeoutReached :: "gotime \<Rightarrow> NodeNetworkConfig \<Rightarrow> int \<Rightarrow> bool" where
  "wasConfigTimeoutReached now cfg timeout =
     (let lu = st_LastUpdate (nnc_Status cfg) in if lu = 0 then False else now > lu + timeout)"

definition noteFailure :: "string \<Rightarrow> string \<Rightarrow> gotime \<Rightarrow> counters \<Rightarrow> counters" where
  "noteFailure node msg at cnt =
     (let cnt = cnt\<lparr>cnt_invalid := cnt_invalid cnt + 1\<rparr> in
      if cnt_failedNode cnt = '''' \<or> node < cnt_failedNode cnt
      then cnt\<lparr>cnt_failedNode := node, cnt_failedMessage := msg, cnt_failedAt := at\<rparr> else cnt)"

definition countOngoing :: "gotime \<Rightarrow> int \<Rightarrow> NodeNetworkConfig \<Rightarrow> counters \<Rightarrow> counters" where
  "countOngoing now timeout cfg cnt =
     (let cnt = cnt\<lparr>cnt_ongoing := cnt_ongoing cnt + 1\<rparr> in
      if wasConfigTimeoutReached now cfg timeout
      then noteFailure (nnc_Name cfg) ''provisioning timeout reached'' (st_LastUpdate (nnc_Status cfg) + timeout) cnt
      else cnt)"

definition countConfig :: "gotime \<Rightarrow> int \<Rightarrow> int \<Rightarrow> NodeNetworkConfig \<Rightarrow> counters \<Rightarrow> counters" where
  "countConfig now configTimeout preconfigTimeout cfg cnt =
     (case st_ConfigStatus (nnc_Status cfg) of
        StatusProvisioned \<Rightarrow> cnt\<lparr>cnt_ready := cnt_ready cnt + 1\<rparr>
      | StatusInvalid \<Rightarrow>
          noteFailure (nnc_Name cfg) (st_ErrorMessage (nnc_Status cfg)) (st_LastUpdate (nnc_Status cfg)) cnt
      | StatusNone \<Rightarrow> countOngoing now preconfigTimeout cfg cnt
      | StatusProvisioning \<Rightarrow> countOngoing now configTimeout cfg cnt)"

definition getRevisionCounters ::
  "gotime \<Rightarrow> int \<Rightarrow> int \<Rightarrow> NodeNetworkConfig list \<Rightarrow> NetworkConfigRevision \<Rightarrow> counters" where
  "getRevisionCounters now configTimeout preconfigTimeout configs revision =
     foldl (\<lambda>cnt cfg. if cfgRevision cfg \<noteq> revHash revision then cnt
       else countConfig now configTimeout preconfigTimeout cfg cnt) zeroCounters configs"

definition numOfRefs :: nat where
  "numOfRefs = 2"

fun removeRedundantConfigs ::
  "'s OperatorClients \<Rightarrow> NodeNetworkConfig list \<Rightarrow> ('s, GoError, NodeNetworkConfig list) io" where
  "removeRedundantConfigs r [] = io_return []"
| "removeRedundantConfigs r (cfg # cfgs) =
     (if length (nnc_OwnerReferences cfg) < numOfRefs then
        io_bind (io_catch (c_Delete (oc_Configs r) cfg)
            (\<lambda>e. if e \<noteq> NotFound then io_throw (Wrap (''error deleting redundant node config - '' @ nnc_Name cfg) (ApiErr e))
               else io_return ()) io_return)
          (\<lambda>_. removeRedundantConfigs r cfgs)
      else io_bind (removeRedundantConfigs r cfgs) (\<lambda>rest. io_return (cfg # rest)))"

definition invalidateRevision ::
  "'s OperatorClients \<Rightarrow> NetworkConfigRevision \<Rightarrow> string \<Rightarrow> string \<Rightarrow> gotime \<Rightarrow> ('s, GoError, NetworkConfigRevision) io" where
  "invalidateRevision r revision failedNode failedMessage failedAt =
     (let st = (rev_Status revision)\<lparr>rst_IsInvalid := True, rst_FailedNode := failedNode,
            rst_FailedMessage := failedMessage\<rparr>;
          st = (if failedAt \<noteq> 0 then st\<lparr>rst_FailedAt := Some failedAt\<rparr> else st) in
      api (''failed to update revision status '' @ om_Name revision)
        (c_UpdateStatus (oc_Revisions r) (revision\<lparr>rev_Status := st\<rparr>)))"

definition processConfigsForRevision ::
  "('s, 'q) CRR \<Rightarrow> NodeNetworkConfig list \<Rightarrow> NetworkConfigRevision \<Rightarrow>
   ('s, GoError, counters \<times> NetworkConfigRevision) io" where
  "processConfigsForRevision crr configs revision =
     io_bind (wrapErr ''failed to remove redundant configs'' (removeRedundantConfigs (crr_clients crr) configs)) (\<lambda>configs.
     (\<lambda>s. let cnt = getRevisionCounters (crr_Now crr s) (crr_configTimeout crr) (crr_preconfigTimeout crr) configs revision in
       if cnt_invalid cnt > 0 \<and>
          (\<not> rst_IsInvalid (rev_Status revision) \<or> rst_FailedNode (rev_Status revision) \<noteq> cnt_failedNode cnt)
       then io_bind (wrapErr (''failed to invalidate revision '' @ om_Name revision)
              (invalidateRevision (crr_clients crr) revision (cnt_failedNode cnt) (cnt_failedMessage cnt) (cnt_failedAt cnt)))
              (\<lambda>revision. io_return (cnt, revision)) s
       else io_return (cnt, revision) s))"

fun processRevisions ::
  "('s, 'q) CRR \<Rightarrow> NodeNetworkConfig list \<Rightarrow> NetworkConfigRevision list \<Rightarrow> (string, counters) gomap \<Rightarrow>
   ('s, GoError, NetworkConfigRevision list \<times> (string, counters) gomap) io" where
  "processRevisions crr configs [] cntMap = io_return ([], cntMap)"
| "processRevisions crr configs (rv # rvs) cntMap =
     io_bind (wrapErr (''failed to process configs for revision '' @ om_Name rv)
         (processConfigsForRevision crr configs rv)) (\<lambda>(cnt, rv).
     io_bind (processRevisions crr configs rvs (gm_put (revHash rv) cnt cntMap)) (\<lambda>(rvs, cntMap).
     io_return (rv # rvs, cntMap)))"

text \<open>The revision to deploy, by its index: the code keeps a pointer into the slice.\<close>

fun firstValidIndex :: "NetworkConfigRevision list \<Rightarrow> nat option" where
  "firstValidIndex [] = None"
| "firstValidIndex (r # rs) = (if \<not> revInvalid r then Some 0 else map_option Suc (firstValidIndex rs))"

definition getFirstValidRevision :: "NetworkConfigRevision list \<Rightarrow> NetworkConfigRevision option" where
  "getFirstValidRevision revisions = map_option (\<lambda>i. revisions ! i) (firstValidIndex revisions)"

definition getOutdatedNodes ::
  "((string, Node) gomap \<Rightarrow> (string, Node) gomap) \<Rightarrow> (string, Node) gomap \<Rightarrow> NodeNetworkConfig list \<Rightarrow>
   NetworkConfigRevision option \<Rightarrow> Node list" where
  "getOutdatedNodes iter nodes configs revision =
     (case revision of None \<Rightarrow> []
      | Some rv \<Rightarrow>
        map snd (iter (filter (\<lambda>(nodeName, _). \<not> list_ex (\<lambda>cfg. nnc_Name cfg = nodeName \<and> cfgRevision cfg = revHash rv)
          configs) nodes)))"

fun updateRevisionCounters ::
  "'s OperatorClients \<Rightarrow> string option \<Rightarrow> int \<Rightarrow> int \<Rightarrow> (string, counters) gomap \<Rightarrow> NetworkConfigRevision list \<Rightarrow>
   ('s, GoError, NetworkConfigRevision list) io" where
  "updateRevisionCounters r current queued totalNodes cnt [] = io_return []"
| "updateRevisionCounters r current queued totalNodes cnt (rv # rvs) =
     (case gm_get cnt (revHash rv) of
        None \<Rightarrow> io_throw panicErr
      | Some c \<Rightarrow>
        io_bind (api (''failed to update counters for revision '' @ om_Name rv)
          (c_UpdateStatus (oc_Revisions r) (rv\<lparr>rev_Status := (rev_Status rv)
             \<lparr>rst_Queued := (if current = Some (revHash rv) then queued else 0), rst_Ongoing := cnt_ongoing c,
              rst_Ready := cnt_ready c, rst_Total := totalNodes\<rparr>\<rparr>))) (\<lambda>rv.
        io_bind (updateRevisionCounters r current queued totalNodes cnt rvs) (\<lambda>rvs. io_return (rv # rvs))))"

section \<open>Cleaning up\<close>

definition countReferences :: "NetworkConfigRevision \<Rightarrow> NodeNetworkConfig list \<Rightarrow> nat" where
  "countReferences revision configs = length (filter (\<lambda>cfg. cfgRevision cfg = revHash revision) configs)"

definition revisionCleanup :: "'s OperatorClients \<Rightarrow> ('s, GoError, unit) io" where
  "revisionCleanup r =
     io_bind (wrapErr ''failed to list revisions'' (listRevisions r)) (\<lambda>revisions.
     case revisions of
       newest # rest \<Rightarrow>
         if rest = [] then io_return ()
         else io_bind (wrapErr ''failed to list configs'' (listConfigs r)) (\<lambda>configs.
           if \<not> revInvalid newest \<and> rst_Ready (rev_Status newest) = rst_Total (rev_Status newest)
           then io_each (\<lambda>rv. if countReferences rv configs = 0
               then api (''failed to delete revision '' @ om_Name rv) (c_Delete (oc_Revisions r) rv)
               else io_return ()) rest
           else io_return ())
     | [] \<Rightarrow> io_return ())"

section \<open>Deploying\<close>

definition crrEnv :: "('s, 'q) CRR \<Rightarrow> Config \<Rightarrow> 'q BuildEnv" where
  "crrEnv crr cfg = \<lparr>be_labels = crr_labels crr, be_vrfConfig = cfg, be_importMode = crr_importMode crr,
     be_hbnHostNextHop = crr_hbnHostNextHop crr, be_iter = crr_importIter crr\<rparr>"

definition r_reload :: "('s, 'q) CRR \<Rightarrow> ('s, Config) run" where
  "r_reload crr = (\<lambda>(s, st). case crr_ReloadConfig crr (cs_vrfConfig st) s of
       (Inl e, s') \<Rightarrow> Some (Inl e, (s', st))
     | (Inr cfg, s') \<Rightarrow> Some (Inr cfg, (s', st\<lparr>cs_vrfConfig := cfg\<rparr>)))"

definition r_mirror ::
  "('s, 'q) CRR \<Rightarrow> string \<Rightarrow> NetworkConfigRevisionSpec \<Rightarrow> NodeNetworkConfigSpec \<Rightarrow> ('s, NodeNetworkConfigSpec) run" where
  "r_mirror crr nodeName revision c = (\<lambda>(s, st).
     case buildNodeMirror (crr_clients crr) nodeName revision c (cs_mirrorAllocCache st) s of
       (Inl e, s') \<Rightarrow> Some (Inl e, (s', st))
     | (Inr None, s') \<Rightarrow> None
     | (Inr (Some (c', cache)), s') \<Rightarrow> Some (Inr c', (s', st\<lparr>cs_mirrorAllocCache := cache\<rparr>)))"

definition ownerOf :: "string \<Rightarrow> 'a ObjectMeta_scheme \<Rightarrow> OwnerReference" where
  "ownerOf kind x = \<lparr>or_Kind = kind, or_Name = om_Name x, or_UID = om_UID x\<rparr>"

definition ownerReferences ::
  "('s, 'q) CRR \<Rightarrow> Node \<Rightarrow> NetworkConfigRevision \<Rightarrow> (GoError, OwnerReference list) result" where
  "ownerReferences crr node revision =
     ebind (wrapR ''error setting owner references (node)'' (crr_SetOwnerReference crr (ownerOf ''Node'' node) []))
       (\<lambda>refs. wrapR ''error setting owner references (revision)''
          (crr_SetOwnerReference crr (ownerOf ''NetworkConfigRevision'' revision) refs))"

text \<open>The revision as the calls after the in-place sorts of the builders see it.\<close>

definition sortedRevision :: "NetworkConfigRevisionSpec \<Rightarrow> NetworkConfigRevisionSpec" where
  "sortedRevision spec = sortedBGP (sortedLayer2 (sortedVrf spec))"

definition buildNodeSpec ::
  "'q BuildEnv \<Rightarrow> Node \<Rightarrow> NetworkConfigRevisionSpec \<Rightarrow> (GoError, NodeNetworkConfigSpec) result" where
  "buildNodeSpec env node spec =
     ebind (wrapR ''error building node VRFs'' (buildNodeVrf env node spec emptySpec)) (\<lambda>c.
     ebind (wrapR ''error building node Layer2'' (buildNodeLayer2 env node (sortedVrf spec) c)) (\<lambda>c.
     wrapR ''error building node Layer2'' (buildNodeBgpPeers env node (sortedLayer2 (sortedVrf spec)) c)))"

definition CreateNodeNetworkConfig ::
  "('s, 'q) CRR \<Rightarrow> Node \<Rightarrow> NetworkConfigRevision \<Rightarrow> ('s, NodeNetworkConfig) run" where
  "CreateNodeNetworkConfig crr node revision =
     r_bind (r_wrap ''error reloading config'' (r_reload crr)) (\<lambda>cfg.
     r_bind (r_lift (buildNodeSpec (crrEnv crr cfg) node (rev_Spec revision))) (\<lambda>c.
     r_bind (r_wrap ''error building node mirror config''
        (r_mirror crr (om_Name node) (sortedRevision (rev_Spec revision)) c)) (\<lambda>c.
     r_bind (r_lift (ownerReferences crr node revision)) (\<lambda>refs.
     r_return \<lparr>nnc_Name = om_Name node, nnc_Labels = [], nnc_Annotations = [], nnc_OwnerReferences = refs,
               nnc_Spec = c\<lparr>nns_Revision := revHash revision\<rparr>, nnc_Status = emptyStatus\<rparr>))))"

definition createNodeNetplanConfig ::
  "('s, 'q) CRR \<Rightarrow> Config \<Rightarrow> Node \<Rightarrow> NetworkConfigRevision \<Rightarrow> (GoError, NodeNetplanConfig) result" where
  "createNodeNetplanConfig crr cfg node revision =
     (let spec = sortedRevision (rev_Spec revision); env = crrEnv crr cfg in
      ebind (wrapR ''error building netplan dummies'' (buildNetplanDummies env node spec)) (\<lambda>dummies.
      ebind (ownerReferences crr node revision) (\<lambda>refs.
      Inr \<lparr>npc_Name = om_Name node, npc_Labels = [], npc_OwnerReferences = refs,
           npc_DesiredState =
             \<lparr>ns_Version = 2, ns_Ethernets = [], ns_Modems = [], ns_Wifis = [], ns_Bridges = [], ns_Bonds = [],
              ns_Tunnels = [], ns_VLans = buildNetplanVLANs env node spec, ns_VRFs = [], ns_Dummies = dummies\<rparr>\<rparr>)))"

definition getOrNone :: "string \<Rightarrow> ('s, ApiError, 'a) io \<Rightarrow> ('s, GoError, 'a option) io" where
  "getOrNone msg m = io_catch m
     (\<lambda>e. if e \<noteq> NotFound then io_throw (Wrap msg (ApiErr e)) else io_return None) (\<lambda>x. io_return (Some x))"

definition createOrUpdateNetplanConfig ::
  "('s, 'q) CRR \<Rightarrow> Config \<Rightarrow> Node \<Rightarrow> NetworkConfigRevision \<Rightarrow> ('s, GoError, unit) io" where
  "createOrUpdateNetplanConfig crr cfg node revision =
     (let np = oc_Netplan (crr_clients crr); n = om_Name node in
      io_bind (getOrNone (''error getting NodeNetplanConfig object for node '' @ n) (c_Get np n)) (\<lambda>current.
      io_bind (wrapErr (''error creating NodeNetplanConfig for node '' @ n)
        (io_lift (createNodeNetplanConfig crr cfg node revision))) (\<lambda>netplanConfig.
      case current of
        None \<Rightarrow> api (''error creating NodeNetplanConfig for node '' @ n) (c_Create np netplanConfig)
      | Some cur \<Rightarrow> io_bind (api (''error updating NodeNetplanConfig for node '' @ n)
          (c_Update np (cur\<lparr>npc_DesiredState := npc_DesiredState netplanConfig\<rparr>))) (\<lambda>_. io_return ()))))"

definition deployNodeNetworkConfig ::
  "('s, 'q) CRR \<Rightarrow> NodeNetworkConfig \<Rightarrow> NodeNetworkConfig option \<Rightarrow> Node \<Rightarrow> ('s, GoError, unit) io" where
  "deployNodeNetworkConfig crr newConfig currentConfig node =
     (let cl = oc_Configs (crr_clients crr) in
      case currentConfig of
        Some cur \<Rightarrow> io_bind (api (''error updating NodeNetworkConfig for node '' @ om_Name node)
          (c_Update cl (cur\<lparr>nnc_Spec := nnc_Spec newConfig, nnc_OwnerReferences := nnc_OwnerReferences newConfig,
             nnc_Name := om_Name node\<rparr>))) (\<lambda>_. io_return ())
      | None \<Rightarrow> api (''error creating NodeNetworkConfig for node '' @ om_Name node) (c_Create cl newConfig))"

definition numOfDeploymentRetries :: nat where
  "numOfDeploymentRetries = 3"

text \<open>The retry loop; running out of retries is not an error.\<close>

fun deployRetry ::
  "('s, 'q) CRR \<Rightarrow> NodeNetworkConfig \<Rightarrow> NodeNetworkConfig option \<Rightarrow> Node \<Rightarrow> nat \<Rightarrow> ('s, GoError, unit) io" where
  "deployRetry crr newConfig currentConfig node 0 = io_return ()"
| "deployRetry crr newConfig currentConfig node (Suc k) =
     io_catch (deployNodeNetworkConfig crr newConfig currentConfig node)
       (\<lambda>e. if errorsIs DeadlineExceeded e then deployRetry crr newConfig currentConfig node k
            else io_throw (Wrap (''error deploying NodeNetworkConfig for node '' @ om_Name node) e))
       io_return"

definition deployNodeConfig :: "('s, 'q) CRR \<Rightarrow> Node \<Rightarrow> NetworkConfigRevision \<Rightarrow> ('s, unit) run" where
  "deployNodeConfig crr node revision =
     r_bind (r_io (getOrNone (''error getting NodeNetworkConfig object for node '' @ om_Name node)
        (c_Get (oc_Configs (crr_clients crr)) (om_Name node)))) (\<lambda>currentConfig.
     if (case currentConfig of Some cur \<Rightarrow> cfgRevision cur = revHash revision | None \<Rightarrow> False) then r_return ()
     else
       r_bind (r_wrap (''error preparing NodeNetworkConfig for node '' @ om_Name node)
          (CreateNodeNetworkConfig crr node revision)) (\<lambda>newConfig.
       r_bind (r_io (deployRetry crr newConfig currentConfig node numOfDeploymentRetries)) (\<lambda>_.
       (\<lambda>(s, st). r_io (wrapErr ''failed to deploy NodeNetworkConfig''
          (createOrUpdateNetplanConfig crr (cs_vrfConfig st) node revision)) (s, st)))))"

section \<open>A pass\<close>

definition reconcileDebounced :: "('s, 'q) CRR \<Rightarrow> ('s, unit) run" where
  "reconcileDebounced crr =
     (let r = crr_clients crr in
      r_bind (r_io (wrapErr ''error listing revisions'' (listRevisions r))) (\<lambda>revisions.
      r_bind (r_io (wrapErr ''error listing nodes'' (listNodes r))) (\<lambda>nodes.
      r_bind (r_io (wrapErr ''error listing configs'' (listConfigs r))) (\<lambda>configs.
      r_bind (r_io (processRevisions crr configs revisions [])) (\<lambda>(revisions, cntMap).
      let i = firstValidIndex revisions;
          nodesToDeploy = getOutdatedNodes (crr_nodeIter crr) nodes configs (getFirstValidRevision revisions) in
      r_bind (r_io (wrapErr ''failed to update queue counters''
        (updateRevisionCounters r (map_option (\<lambda>i. revHash (revisions ! i)) i) (int (length nodesToDeploy))
          (int (length nodes)) cntMap revisions))) (\<lambda>revisions.
      case i of
        None \<Rightarrow> r_return ()
      | Some i \<Rightarrow>
        r_bind
          (case nodesToDeploy of
             node # _ \<Rightarrow>
               if rst_Ongoing (rev_Status (revisions ! i)) < crr_maxUpdating crr
               then r_wrap ''error deploying node configurations'' (deployNodeConfig crr node (revisions ! i))
               else r_return ()
           | [] \<Rightarrow> r_return ()) (\<lambda>_.
        r_bind (r_io (wrapErr ''error reconciling mirror status'' (reconcileMirrorStatus r (crr_lib crr)))) (\<lambda>_.
        r_io (wrapErr ''error cleaning redundant revisions'' (revisionCleanup r))))))))))"

end
