(* ===== verification/Rollout_Counters.thy ===== *)
theory Rollout_Counters
  imports Rollout
begin

text \<open>
  The counters of a revision: they count what they should, and they do not depend on the order in
  which the API lists the node configurations.
\<close>

definition ofRevision :: "string \<Rightarrow> NodeNetworkConfig list \<Rightarrow> NodeNetworkConfig list" where
  "ofRevision h configs = filter (\<lambda>cfg. cfgRevision cfg = h) configs"

definition inProgress :: "NodeNetworkConfig \<Rightarrow> bool" where
  "inProgress cfg \<longleftrightarrow> st_ConfigStatus (nnc_Status cfg) \<in> {StatusNone, StatusProvisioning}"

definition timeoutOf :: "int \<Rightarrow> int \<Rightarrow> NodeNetworkConfig \<Rightarrow> int" where
  "timeoutOf ct pt cfg = (if st_ConfigStatus (nnc_Status cfg) = StatusNone then pt else ct)"

definition failing :: "gotime \<Rightarrow> int \<Rightarrow> int \<Rightarrow> NodeNetworkConfig \<Rightarrow> bool" where
  "failing now ct pt cfg \<longleftrightarrow> st_ConfigStatus (nnc_Status cfg) = StatusInvalid \<or>
     inProgress cfg \<and> wasConfigTimeoutReached now cfg (timeoutOf ct pt cfg)"

definition failureOf :: "int \<Rightarrow> int \<Rightarrow> NodeNetworkConfig \<Rightarrow> string \<times> gotime" where
  "failureOf ct pt cfg =
     (if st_ConfigStatus (nnc_Status cfg) = StatusInvalid
      then (st_ErrorMessage (nnc_Status cfg), st_LastUpdate (nnc_Status cfg))
      else (''provisioning timeout reached'', st_LastUpdate (nnc_Status cfg) + timeoutOf ct pt cfg))"

text \<open>The failed node a list of failing configurations reports: the first name in order.\<close>

definition reported :: "int \<Rightarrow> int \<Rightarrow> NodeNetworkConfig list \<Rightarrow> counters \<Rightarrow> bool" where
  "reported ct pt fs cnt \<longleftrightarrow>
     (if fs = [] then cnt_failedNode cnt = '''' \<and> cnt_failedMessage cnt = '''' \<and> cnt_failedAt cnt = 0
      else \<exists>f \<in> set fs. (\<forall>g \<in> set fs. nnc_Name f \<le> nnc_Name g) \<and> cnt_failedNode cnt = nnc_Name f \<and>
             (cnt_failedMessage cnt, cnt_failedAt cnt) = failureOf ct pt f)"

definition counts ::
  "gotime \<Rightarrow> int \<Rightarrow> int \<Rightarrow> NodeNetworkConfig list \<Rightarrow> counters \<Rightarrow> bool" where
  "counts now ct pt cs cnt \<longleftrightarrow>
     cnt_ready cnt = int (length (filter (\<lambda>c. st_ConfigStatus (nnc_Status c) = StatusProvisioned) cs)) \<and>
     cnt_ongoing cnt = int (length (filter inProgress cs)) \<and>
     cnt_invalid cnt = int (length (filter (failing now ct pt) cs)) \<and>
     reported ct pt (filter (failing now ct pt) cs) cnt"

lemma noteFailure_numbers [simp]:
  "cnt_ready (noteFailure n m a cnt) = cnt_ready cnt" "cnt_ongoing (noteFailure n m a cnt) = cnt_ongoing cnt"
  "cnt_invalid (noteFailure n m a cnt) = cnt_invalid cnt + 1"
  by (simp_all add: noteFailure_def Let_def)

lemma noteFailure_reported:
  assumes "reported ct pt fs cnt" "\<forall>f \<in> set (fs @ [g]). nnc_Name f \<noteq> ''''" "failureOf ct pt g = (m, a)"
  shows "reported ct pt (fs @ [g]) (noteFailure (nnc_Name g) m a cnt)"
proof (cases "fs = []")
  case True
  with assms show ?thesis by (simp add: reported_def noteFailure_def Let_def)
next
  case False
  with assms(1) obtain f where f: "f \<in> set fs" "\<forall>g \<in> set fs. nnc_Name f \<le> nnc_Name g"
    "cnt_failedNode cnt = nnc_Name f" "(cnt_failedMessage cnt, cnt_failedAt cnt) = failureOf ct pt f"
    by (auto simp: reported_def)
  have ne: "nnc_Name f \<noteq> ''''" using assms(2) f(1) by simp
  show ?thesis
  proof (cases "nnc_Name g < nnc_Name f")
    case True
    then have "\<forall>h \<in> set (fs @ [g]). nnc_Name g \<le> nnc_Name h" using f(2) by force
    with True assms(3) f(3) show ?thesis by (simp add: reported_def noteFailure_def Let_def)
  next
    case less: False
    then have "\<forall>h \<in> set (fs @ [g]). nnc_Name f \<le> nnc_Name h" using f(2) by (simp add: not_less)
    moreover have "noteFailure (nnc_Name g) m a cnt = cnt\<lparr>cnt_invalid := cnt_invalid cnt + 1\<rparr>"
      using less ne f(3) by (simp add: noteFailure_def Let_def)
    ultimately show ?thesis using f by (auto simp: reported_def)
  qed
qed

lemma reported_cong:
  "cnt_failedNode c = cnt_failedNode d \<Longrightarrow> cnt_failedMessage c = cnt_failedMessage d \<Longrightarrow>
   cnt_failedAt c = cnt_failedAt d \<Longrightarrow> reported ct pt fs c \<longleftrightarrow> reported ct pt fs d"
  by (simp add: reported_def)

lemma reported_upd:
  "reported ct pt fs (cnt\<lparr>cnt_ongoing := x\<rparr>) = reported ct pt fs cnt"
  "reported ct pt fs (cnt\<lparr>cnt_ready := x\<rparr>) = reported ct pt fs cnt"
  by (rule reported_cong; simp)+

lemma countConfig_counts:
  assumes "counts now ct pt cs cnt" "\<forall>c \<in> set (cs @ [cfg]). nnc_Name c \<noteq> ''''"
  shows "counts now ct pt (cs @ [cfg]) (countConfig now ct pt cfg cnt)"
proof -
  let ?fs = "filter (failing now ct pt) cs"
  have nf: "reported ct pt (?fs @ [cfg]) (noteFailure (nnc_Name cfg) m a cnt')"
    if "failureOf ct pt cfg = (m, a)" "reported ct pt ?fs cnt'" for m a cnt'
    using noteFailure_reported [OF that(2) _ that(1)] assms(2) by simp
  have ong: "reported ct pt ?fs (cnt\<lparr>cnt_ongoing := cnt_ongoing cnt + 1\<rparr>)"
    "reported ct pt ?fs (cnt\<lparr>cnt_ready := cnt_ready cnt + 1\<rparr>)"
    using assms(1) by (simp_all only: counts_def reported_upd)
  show ?thesis
  proof (cases "st_ConfigStatus (nnc_Status cfg)")
    case StatusInvalid
    then show ?thesis
      using assms nf [of "st_ErrorMessage (nnc_Status cfg)" "st_LastUpdate (nnc_Status cfg)" cnt]
      by (simp add: counts_def countConfig_def failing_def inProgress_def failureOf_def)
  next
    case StatusProvisioned
    then show ?thesis using assms ong by (simp add: counts_def countConfig_def failing_def inProgress_def)
  next
    case StatusNone
    then show ?thesis
      using assms ong nf [of _ _ "cnt\<lparr>cnt_ongoing := cnt_ongoing cnt + 1\<rparr>"]
      by (simp add: counts_def countConfig_def countOngoing_def Let_def failing_def inProgress_def failureOf_def timeoutOf_def)
  next
    case StatusProvisioning
    then show ?thesis
      using assms ong nf [of _ _ "cnt\<lparr>cnt_ongoing := cnt_ongoing cnt + 1\<rparr>"]
      by (simp add: counts_def countConfig_def countOngoing_def Let_def failing_def inProgress_def failureOf_def timeoutOf_def)
  qed
qed

text \<open>C24. The counters of a revision: the configurations of that revision that are provisioned, in
  progress, and failing, where failing means reported invalid or in progress beyond the timeout; the
  failure reported is that of the failing node whose name comes first.\<close>

theorem getRevisionCounters_correct:
  assumes "\<forall>c \<in> set configs. nnc_Name c \<noteq> ''''"
  shows "counts now ct pt (ofRevision (revHash revision) configs) (getRevisionCounters now ct pt configs revision)"
  using assms
proof (induction configs rule: rev_induct)
  case Nil
  then show ?case by (simp add: getRevisionCounters_def ofRevision_def counts_def zeroCounters_def reported_def)
next
  case (snoc cfg configs)
  then have "counts now ct pt (ofRevision (revHash revision) configs) (getRevisionCounters now ct pt configs revision)"
    by simp
  with countConfig_counts [OF this, of cfg] snoc.prems show ?case
    by (simp add: getRevisionCounters_def ofRevision_def)
qed

definition sampleConfig :: "string \<Rightarrow> string \<Rightarrow> ConfigStatus \<Rightarrow> gotime \<Rightarrow> NodeNetworkConfig" where
  "sampleConfig n h st t = \<lparr>nnc_Name = n, nnc_Labels = [], nnc_Annotations = [],
     nnc_OwnerReferences = [\<lparr>or_Kind = ''Node'', or_Name = n, or_UID = n\<rparr>,
       \<lparr>or_Kind = ''NetworkConfigRevision'', or_Name = h, or_UID = h\<rparr>],
     nnc_Spec = emptySpec\<lparr>nns_Revision := h\<rparr>, nnc_Status = emptyStatus\<lparr>st_ConfigStatus := st, st_LastUpdate := t\<rparr>\<rparr>"



theorem getRevisionCounters_correct_witness:
  "cnt_failedNode (getRevisionCounters 1000 120 600
     [sampleConfig ''n2'' ''r'' StatusInvalid 5, sampleConfig ''n1'' ''r'' StatusProvisioning 10] (sampleRevision ''r'' 1)) = ''n1''"
  using getRevisionCounters_correct [of "[sampleConfig ''n2'' ''r'' StatusInvalid 5, sampleConfig ''n1'' ''r'' StatusProvisioning 10]"
    1000 120 600 "sampleRevision ''r'' 1"]
  by (simp add: sampleConfig_def sampleRevision_def ofRevision_def counts_def reported_def failing_def inProgress_def
      cfgRevision_def revHash_def ObjectMeta.extend_def zero_defs wasConfigTimeoutReached_def timeoutOf_def)

lemma counts_unique:
  assumes "counts now ct pt cs c" "counts now ct pt ds d" "mset cs = mset ds" "distinct (map nnc_Name cs)"
  shows "c = d"
proof -
  have len: "length (filter P cs) = length (filter P ds)" for P
    using assms(3) by (metis mset_filter size_mset)
  have sets: "set (filter P cs) = set (filter P ds)" for P using assms(3) by (metis mset_filter set_mset_mset)
  have inj: "f = g" if "f \<in> set cs" "g \<in> set cs" "nnc_Name f = nnc_Name g" for f g
    using assms(4) that by (metis distinct_map inj_onD)
  let ?F = "filter (failing now ct pt)"
  have "cnt_failedNode c = cnt_failedNode d \<and> cnt_failedMessage c = cnt_failedMessage d \<and> cnt_failedAt c = cnt_failedAt d"
  proof (cases "?F cs = []")
    case True
    then have "?F ds = []" using sets by (metis set_empty)
    with True assms(1,2) show ?thesis by (simp add: counts_def reported_def)
  next
    case False
    then have "?F ds \<noteq> []" using sets by (metis set_empty)
    with False assms(1,2) obtain f g where
      f: "f \<in> set (?F cs)" "\<forall>h \<in> set (?F cs). nnc_Name f \<le> nnc_Name h" "cnt_failedNode c = nnc_Name f"
        "(cnt_failedMessage c, cnt_failedAt c) = failureOf ct pt f" and
      g: "g \<in> set (?F ds)" "\<forall>h \<in> set (?F ds). nnc_Name g \<le> nnc_Name h" "cnt_failedNode d = nnc_Name g"
        "(cnt_failedMessage d, cnt_failedAt d) = failureOf ct pt g"
      unfolding counts_def reported_def by (metis (no_types, lifting))
    have "g \<in> set (?F cs)" "f \<in> set (?F ds)" using f(1) g(1) sets by blast+
    then have "nnc_Name f = nnc_Name g" using f(2) g(2) by (intro order_antisym) blast+
    with \<open>g \<in> set (?F cs)\<close> f(1) have "f = g" by (intro inj) simp_all
    with f(3,4) g(3,4) show ?thesis by (metis prod.inject)
  qed
  moreover have "cnt_ready c = cnt_ready d" "cnt_ongoing c = cnt_ongoing d" "cnt_invalid c = cnt_invalid d"
    using assms(1,2) len by (simp_all add: counts_def)
  ultimately show ?thesis by simp
qed

text \<open>C28. Listing the configurations in another order changes no counter and no reported failure.\<close>

theorem getRevisionCounters_deterministic:
  assumes "mset configs = mset configs'" "distinct (map nnc_Name configs)" "\<forall>c \<in> set configs. nnc_Name c \<noteq> ''''"
  shows "getRevisionCounters now ct pt configs revision = getRevisionCounters now ct pt configs' revision"
proof (rule counts_unique)
  show "counts now ct pt (ofRevision (revHash revision) configs) (getRevisionCounters now ct pt configs revision)"
    by (rule getRevisionCounters_correct [OF assms(3)])
  have "set configs' = set configs" using assms(1) by (metis set_mset_mset)
  then show "counts now ct pt (ofRevision (revHash revision) configs') (getRevisionCounters now ct pt configs' revision)"
    using assms(3) by (intro getRevisionCounters_correct) simp
  show "mset (ofRevision (revHash revision) configs) = mset (ofRevision (revHash revision) configs')"
    using assms(1) by (simp add: ofRevision_def)
  show "distinct (map nnc_Name (ofRevision (revHash revision) configs))"
    using assms(2) by (simp add: ofRevision_def distinct_map_filter)
qed

theorem getRevisionCounters_deterministic_witness:
  "getRevisionCounters 1000 120 600
     [sampleConfig ''n2'' ''r'' StatusInvalid 5, sampleConfig ''n1'' ''r'' StatusProvisioning 10] (sampleRevision ''r'' 1) =
   getRevisionCounters 1000 120 600
     [sampleConfig ''n1'' ''r'' StatusProvisioning 10, sampleConfig ''n2'' ''r'' StatusInvalid 5] (sampleRevision ''r'' 1)"
  by (rule getRevisionCounters_deterministic) (simp_all add: sampleConfig_def)

end
