(* ===== verification/Rollout_Safety.thy ===== *)
theory Rollout_Safety
  imports Rollout_Counters
begin

text \<open>
  What a pass of the rollout may write, for every behaviour of the API, errors included. A ghost
  \<open>log\<close> of the cluster state records the writes to the node configurations; \<open>emits P m\<close> says that
  the computation \<open>m\<close> adds only writes that satisfy \<open>P\<close>.
\<close>

datatype 'o call = CreateCall 'o | UpdateCall 'o | DeleteCall 'o

definition emits :: "('s \<Rightarrow> 'o call list) \<Rightarrow> ('o call \<Rightarrow> bool) \<Rightarrow> ('s, 'e, 'a) io \<Rightarrow> bool" where
  "emits log P m \<longleftrightarrow> (\<forall>s. \<exists>ws. log (snd (m s)) = log s @ ws \<and> list_all P ws)"

definition remits :: "('s \<Rightarrow> 'o call list) \<Rightarrow> ('o call \<Rightarrow> bool) \<Rightarrow> ('s, 'a) run \<Rightarrow> bool" where
  "remits log P m \<longleftrightarrow> (\<forall>s c r s' c'. m (s, c) = Some (r, (s', c')) \<longrightarrow>
     (\<exists>ws. log s' = log s @ ws \<and> list_all P ws))"

text \<open>What the ghost log is: a write of a node configuration appends itself, also when it fails;
  nothing else changes it. \<open>RetryOnConflict\<close> only runs its closure.\<close>

definition quiet_client :: "('s \<Rightarrow> 'o call list) \<Rightarrow> ('s, 'x) ResClient \<Rightarrow> bool" where
  "quiet_client log c \<longleftrightarrow>
     emits log (\<lambda>_. False) (c_List c) \<and> (\<forall>n. emits log (\<lambda>_. False) (c_Get c n)) \<and>
     (\<forall>x. emits log (\<lambda>_. False) (c_Create c x)) \<and> (\<forall>x. emits log (\<lambda>_. False) (c_Update c x)) \<and>
     (\<forall>x. emits log (\<lambda>_. False) (c_UpdateStatus c x)) \<and> (\<forall>x. emits log (\<lambda>_. False) (c_Delete c x))"

definition logging_client :: "('s \<Rightarrow> 'o call list) \<Rightarrow> ('s, 'o) ResClient \<Rightarrow> bool" where
  "logging_client log c \<longleftrightarrow>
     emits log (\<lambda>_. False) (c_List c) \<and> (\<forall>n. emits log (\<lambda>_. False) (c_Get c n)) \<and>
     (\<forall>x s. log (snd (c_Create c x s)) = log s @ [CreateCall x]) \<and>
     (\<forall>x s. log (snd (c_Update c x s)) = log s @ [UpdateCall x]) \<and>
     (\<forall>x s. log (snd (c_Delete c x s)) = log s @ [DeleteCall x])"

definition logs_configs :: "('s \<Rightarrow> NodeNetworkConfig call list) \<Rightarrow> ('s, 'q) CRR \<Rightarrow> bool" where
  "logs_configs log crr \<longleftrightarrow>
     quiet_client log (oc_Layer2 (crr_clients crr)) \<and> quiet_client log (oc_Vrf (crr_clients crr)) \<and>
     quiet_client log (oc_MirrorTargets (crr_clients crr)) \<and> quiet_client log (oc_MirrorSelectors (crr_clients crr)) \<and>
     quiet_client log (oc_Revisions (crr_clients crr)) \<and> quiet_client log (oc_Nodes (crr_clients crr)) \<and>
     quiet_client log (oc_Netplan (crr_clients crr)) \<and> logging_client log (oc_Configs (crr_clients crr)) \<and>
     (\<forall>m. emits log (\<lambda>_. False) m \<longrightarrow> emits log (\<lambda>_. False) (sl_RetryOnConflict (crr_lib crr) m)) \<and>
     (\<forall>cfg. emits log (\<lambda>_. False) (crr_ReloadConfig crr cfg))"

named_theorems emit_intros \<open>computations and the writes they emit\<close>

section \<open>Composition\<close>

lemma emits_weaken:
  fixes log :: "'s \<Rightarrow> 'o call list"
  shows "emits log (\<lambda>_. False) m \<Longrightarrow> emits log P m"
proof -
  have "list_all (\<lambda>_. False) ws \<longleftrightarrow> ws = []" for ws :: "'o call list" by (cases ws) simp_all
  then show "emits log (\<lambda>_. False) m \<Longrightarrow> emits log P m" by (simp add: emits_def)
qed

lemma emits_return [emit_intros]: "emits log P (io_return x)"
  by (simp add: emits_def io_return_def)

lemma emits_throw [emit_intros]: "emits log P (io_throw e)"
  by (simp add: emits_def io_throw_def)

lemma emits_lift [emit_intros]: "emits log P (io_lift r)"
  by (simp add: emits_def io_lift_def)

lemma emits_catch [emit_intros]:
  assumes "emits log P m" "\<And>e. emits log P (h e)" "\<And>x. emits log P (f x)"
  shows "emits log P (io_catch m h f)"
  unfolding emits_def
proof
  fix s
  obtain r s' where m: "m s = (r, s')" by fastforce
  with assms(1) obtain ws where ws: "log s' = log s @ ws" "list_all P ws" by (metis emits_def snd_conv)
  define g where "g = (case r of Inl e \<Rightarrow> h e | Inr x \<Rightarrow> f x)"
  have "emits log P g" using assms(2,3) by (simp add: g_def split: sum.split)
  then obtain vs where "log (snd (g s')) = log s' @ vs" "list_all P vs" unfolding emits_def by blast
  moreover have "io_catch m h f s = g s'" by (simp add: io_catch_def m g_def split: sum.split)
  ultimately show "\<exists>ws. log (snd (io_catch m h f s)) = log s @ ws \<and> list_all P ws"
    using ws by (intro exI [of _ "ws @ vs"]) simp
qed

lemma emits_bind [emit_intros]:
  "emits log P m \<Longrightarrow> (\<And>x. emits log P (f x)) \<Longrightarrow> emits log P (io_bind m f)"
proof -
  have "io_bind m f = io_catch m io_throw f"
    by (rule ext) (simp add: io_bind_def io_catch_def io_throw_def split: prod.split sum.split)
  then show "emits log P m \<Longrightarrow> (\<And>x. emits log P (f x)) \<Longrightarrow> emits log P (io_bind m f)"
    by (auto intro: emit_intros)
qed

lemma emits_wrap [emit_intros]: "emits log P m \<Longrightarrow> emits log P (io_wrap w m)"
  by (simp add: io_wrap_def emit_intros)

lemma emits_api [emit_intros]: "emits log P m \<Longrightarrow> emits log P (api msg m)"
  by (simp add: api_def emit_intros)

lemma emits_wrapErr [emit_intros]: "emits log P m \<Longrightarrow> emits log P (wrapErr msg m)"
  by (simp add: wrapErr_def emit_intros)

lemma emits_each [emit_intros]: "(\<And>x. emits log P (f x)) \<Longrightarrow> emits log P (io_each f xs)"
  by (induction xs) (simp_all add: emit_intros)

lemma emits_collect [emit_intros]: "(\<And>x. emits log P (f x)) \<Longrightarrow> emits log P (io_collect f xs errs)"
  by (induction xs arbitrary: errs) (simp_all add: emit_intros)

lemma emits_getOrNone [emit_intros]: "emits log P m \<Longrightarrow> emits log P (getOrNone msg m)"
  by (simp add: getOrNone_def emit_intros)

lemma quiet_clientD:
  assumes "quiet_client log c"
  shows "emits log P (c_List c)" "emits log P (c_Get c n)" "emits log P (c_Create c x)" "emits log P (c_Update c x)"
    "emits log P (c_UpdateStatus c x)" "emits log P (c_Delete c x)"
  using assms by (simp_all add: quiet_client_def emits_weaken)

lemma remits_return [emit_intros]: "remits log P (r_return x)"
  by (simp add: remits_def r_return_def)

lemma remits_lift [emit_intros]: "remits log P (r_lift r)"
  by (simp add: remits_def r_lift_def)

lemma remits_io [emit_intros]: "emits log P m \<Longrightarrow> remits log P (r_io m)"
  unfolding remits_def emits_def r_io_def by (auto split: prod.splits) (metis snd_conv)

lemma remits_bind [emit_intros]:
  assumes "remits log P m" "\<And>x. remits log P (f x)"
  shows "remits log P (r_bind m f)"
  unfolding remits_def
proof (intro allI impI)
  fix s c r s' c' assume run: "r_bind m f (s, c) = Some (r, (s', c'))"
  then obtain x t d where m: "m (s, c) = Some (x, (t, d))" by (auto simp: r_bind_def split: option.splits prod.splits)
  with assms(1) obtain ws where ws: "log t = log s @ ws" "list_all P ws" unfolding remits_def by blast
  show "\<exists>ws. log s' = log s @ ws \<and> list_all P ws"
  proof (cases x)
    case (Inl e)
    with run m ws show ?thesis by (auto simp: r_bind_def)
  next
    case (Inr y)
    with run m have "f y (t, d) = Some (r, (s', c'))" by (simp add: r_bind_def)
    with assms(2) [of y] obtain vs where "log s' = log t @ vs" "list_all P vs" by (fastforce simp: remits_def)
    with ws show ?thesis by (intro exI [of _ "ws @ vs"]) simp
  qed
qed

lemma remits_wrap [emit_intros]: "remits log P m \<Longrightarrow> remits log P (r_wrap msg m)"
  unfolding remits_def r_wrap_def by (simp split: option.splits prod.splits sum.splits) blast

section \<open>What the parts of a pass write\<close>

text \<open>The deletes of a pass: node configurations with fewer than two owners.\<close>

definition redundantDelete :: "NodeNetworkConfig call \<Rightarrow> bool" where
  "redundantDelete w = (case w of DeleteCall cfg \<Rightarrow> length (nnc_OwnerReferences cfg) < numOfRefs | _ \<Rightarrow> False)"

text \<open>The deployments of a pass: a node's configuration at a revision.\<close>

definition deployOf :: "string \<Rightarrow> string \<Rightarrow> NodeNetworkConfig call \<Rightarrow> bool" where
  "deployOf n h w = (case w of CreateCall cfg \<Rightarrow> nnc_Name cfg = n \<and> cfgRevision cfg = h
     | UpdateCall cfg \<Rightarrow> nnc_Name cfg = n \<and> cfgRevision cfg = h | DeleteCall _ \<Rightarrow> False)"

lemma logs_quiet:
  assumes "logs_configs log crr"
  shows "quiet_client log (oc_Layer2 (crr_clients crr))" "quiet_client log (oc_Vrf (crr_clients crr))"
    "quiet_client log (oc_MirrorTargets (crr_clients crr))" "quiet_client log (oc_MirrorSelectors (crr_clients crr))"
    "quiet_client log (oc_Revisions (crr_clients crr))" "quiet_client log (oc_Nodes (crr_clients crr))"
    "quiet_client log (oc_Netplan (crr_clients crr))"
  using assms by (simp_all add: logs_configs_def)

lemmas quiet_calls = logs_quiet [THEN quiet_clientD(1)] logs_quiet [THEN quiet_clientD(2)]
  logs_quiet [THEN quiet_clientD(3)] logs_quiet [THEN quiet_clientD(4)] logs_quiet [THEN quiet_clientD(5)]
  logs_quiet [THEN quiet_clientD(6)]

lemma logs_config_calls:
  assumes "logs_configs log crr"
  shows "emits log P (c_List (oc_Configs (crr_clients crr)))" "emits log P (c_Get (oc_Configs (crr_clients crr)) n)"
    "P (CreateCall x) \<Longrightarrow> emits log P (c_Create (oc_Configs (crr_clients crr)) x)"
    "P (UpdateCall x) \<Longrightarrow> emits log P (c_Update (oc_Configs (crr_clients crr)) x)"
    "P (DeleteCall x) \<Longrightarrow> emits log P (c_Delete (oc_Configs (crr_clients crr)) x)"
  using assms by (auto simp: logs_configs_def logging_client_def emits_weaken) (auto simp: emits_def)

lemma listRevisions_emits: "logs_configs log crr \<Longrightarrow> emits log P (listRevisions (crr_clients crr))"
  by (simp add: listRevisions_def emit_intros quiet_calls)

lemma listNodes_emits: "logs_configs log crr \<Longrightarrow> emits log P (listNodes (crr_clients crr))"
  by (simp add: listNodes_def emit_intros quiet_calls)

lemma listConfigs_emits: "logs_configs log crr \<Longrightarrow> emits log P (listConfigs (crr_clients crr))"
  by (simp add: listConfigs_def emit_intros logs_config_calls)

lemma removeRedundantConfigs_emits:
  "logs_configs log crr \<Longrightarrow> emits log redundantDelete (removeRedundantConfigs (crr_clients crr) cfgs)"
  by (induction cfgs) (simp_all add: emit_intros logs_config_calls redundantDelete_def)

lemma emits_state: "(\<And>x. emits log P (f x)) \<Longrightarrow> emits log P (\<lambda>s. f (g s) s)"
  by (simp add: emits_def)

lemma processConfigsForRevision_emits:
  assumes "logs_configs log crr"
  shows "emits log redundantDelete (processConfigsForRevision crr configs revision)"
  unfolding processConfigsForRevision_def
proof (intro emits_bind emits_wrapErr removeRedundantConfigs_emits assms)
  fix cfgs
  let ?f = "\<lambda>cnt. if cnt_invalid cnt > 0 \<and>
          (\<not> rst_IsInvalid (rev_Status revision) \<or> rst_FailedNode (rev_Status revision) \<noteq> cnt_failedNode cnt)
       then io_bind (wrapErr (''failed to invalidate revision '' @ om_Name revision)
              (invalidateRevision (crr_clients crr) revision (cnt_failedNode cnt) (cnt_failedMessage cnt) (cnt_failedAt cnt)))
              (\<lambda>revision. io_return (cnt, revision))
       else io_return (cnt, revision)"
  have "emits log redundantDelete (?f cnt)" for cnt
    using assms by (simp add: emit_intros invalidateRevision_def Let_def quiet_calls)
  then have "emits log redundantDelete
      (\<lambda>s. ?f (getRevisionCounters (crr_Now crr s) (crr_configTimeout crr) (crr_preconfigTimeout crr) cfgs revision) s)"
    by (rule emits_state)
  then show "emits log redundantDelete (\<lambda>s. let cnt = getRevisionCounters (crr_Now crr s) (crr_configTimeout crr)
          (crr_preconfigTimeout crr) cfgs revision in
       if cnt_invalid cnt > 0 \<and>
          (\<not> rst_IsInvalid (rev_Status revision) \<or> rst_FailedNode (rev_Status revision) \<noteq> cnt_failedNode cnt)
       then io_bind (wrapErr (''failed to invalidate revision '' @ om_Name revision)
              (invalidateRevision (crr_clients crr) revision (cnt_failedNode cnt) (cnt_failedMessage cnt) (cnt_failedAt cnt)))
              (\<lambda>revision. io_return (cnt, revision)) s
       else io_return (cnt, revision) s)"
    by (simp add: Let_def if_distrib [of "\<lambda>f. f _"])
qed

lemma processRevisions_emits:
  "logs_configs log crr \<Longrightarrow> emits log redundantDelete (processRevisions crr configs rvs m)"
  by (induction rvs arbitrary: m) (auto intro!: emit_intros processConfigsForRevision_emits)

lemma updateRevisionCounters_emits:
  "logs_configs log crr \<Longrightarrow> emits log P (updateRevisionCounters (crr_clients crr) cur q t m rvs)"
  by (induction rvs) (auto intro!: emit_intros quiet_calls split: option.split)

lemma revisionCleanup_emits: "logs_configs log crr \<Longrightarrow> emits log P (revisionCleanup (crr_clients crr))"
  unfolding revisionCleanup_def
  by (auto intro!: emit_intros listRevisions_emits listConfigs_emits quiet_calls split: list.split)

lemma reconcileMirrorStatus_emits:
  assumes "logs_configs log crr"
  shows "emits log P (reconcileMirrorStatus (crr_clients crr) (crr_lib crr))"
proof -
  have retry: "emits log Q m \<Longrightarrow> emits log Q (sl_RetryOnConflict (crr_lib crr) m)" if "Q = (\<lambda>_. False)" for Q m
    using assms that by (simp add: logs_configs_def)
  have "emits log (\<lambda>_. False) (reconcileMirrorStatus (crr_clients crr) (crr_lib crr))"
    unfolding reconcileMirrorStatus_def updateTargetStatuses_def updateSelectorStatuses_def updateTargetStatus_def
      updateSelectorStatus_def buildMirrorSourceResolver_def Let_def
    using assms
    by (auto intro!: emit_intros quiet_calls listConfigs_emits retry split: prod.split)
  then show ?thesis by (rule emits_weaken)
qed

lemma r_reload_remits:
  assumes "logs_configs log crr"
  shows "remits log P (r_reload crr)"
  unfolding remits_def
proof (intro allI impI)
  fix s c r s' c' assume run: "r_reload crr (s, c) = Some (r, (s', c'))"
  have "emits log P (crr_ReloadConfig crr (cs_vrfConfig c))"
    using assms by (simp add: logs_configs_def emits_weaken)
  moreover have "s' = snd (crr_ReloadConfig crr (cs_vrfConfig c) s)"
    using run by (auto simp: r_reload_def split: prod.splits sum.splits)
  ultimately show "\<exists>ws. log s' = log s @ ws \<and> list_all P ws" by (simp add: emits_def)
qed

lemma r_mirror_remits:
  assumes "logs_configs log crr"
  shows "remits log P (r_mirror crr n rv spec)"
  unfolding remits_def
proof (intro allI impI)
  fix s c r s' c' assume run: "r_mirror crr n rv spec (s, c) = Some (r, (s', c'))"
  have "emits log P (buildNodeMirror (crr_clients crr) n rv spec (cs_mirrorAllocCache c))"
    unfolding buildNodeMirror_def mirrorAllocator_def listReadyNodeNames_def Let_def using assms
    by (auto intro!: emit_intros listNodes_emits listConfigs_emits split: prod.split option.split)
  moreover have "s' = snd (buildNodeMirror (crr_clients crr) n rv spec (cs_mirrorAllocCache c) s)"
    using run by (auto simp: r_mirror_def split: prod.splits sum.splits option.splits)
  ultimately show "\<exists>ws. log s' = log s @ ws \<and> list_all P ws" by (simp add: emits_def)
qed

lemma CreateNodeNetworkConfig_remits:
  "logs_configs log crr \<Longrightarrow> remits log P (CreateNodeNetworkConfig crr node rv)"
  unfolding CreateNodeNetworkConfig_def by (intro emit_intros r_reload_remits r_mirror_remits)

lemma r_bind_Inr:
  "r_bind m f st = Some (Inr y, st'') \<longleftrightarrow> (\<exists>x st'. m st = Some (Inr x, st') \<and> f x st' = Some (Inr y, st''))"
  by (auto simp: r_bind_def split: option.splits prod.splits sum.splits)

lemma CreateNodeNetworkConfig_result:
  "CreateNodeNetworkConfig crr node rv st = Some (Inr cfg, st') \<Longrightarrow>
     nnc_Name cfg = om_Name node \<and> cfgRevision cfg = revHash rv"
  unfolding CreateNodeNetworkConfig_def by (auto simp: r_bind_Inr r_return_def cfgRevision_def)

lemma remits_bind_post:
  assumes "remits log P m" "\<And>x st st'. m st = Some (Inr x, st') \<Longrightarrow> remits log P (f x)"
  shows "remits log P (r_bind m f)"
  unfolding remits_def
proof (intro allI impI)
  fix s c r s' c' assume run: "r_bind m f (s, c) = Some (r, (s', c'))"
  define f' where "f' = (\<lambda>x. if remits log P (f x) then f x else (\<lambda>_. None))"
  have "remits log P (f' x)" for x by (simp add: f'_def remits_def)
  moreover have "r_bind m f' (s, c) = r_bind m f (s, c)"
    using assms(2) by (auto simp: r_bind_def f'_def split: option.split prod.split sum.split)
  ultimately have "remits log P (r_bind m f')" "r_bind m f' (s, c) = Some (r, (s', c'))"
    using remits_bind [OF assms(1), of f'] run by simp_all
  then show "\<exists>ws. log s' = log s @ ws \<and> list_all P ws" unfolding remits_def by blast
qed

lemma r_wrap_Inr: "r_wrap msg m st = Some (Inr x, st') \<longleftrightarrow> m st = Some (Inr x, st')"
  by (auto simp: r_wrap_def split: option.splits prod.splits sum.splits)

lemma deployRetry_emits:
  assumes "logs_configs log crr" "nnc_Name cfg = om_Name node" "cfgRevision cfg = h"
  shows "emits log (deployOf (om_Name node) h) (deployRetry crr cfg cur node k)"
proof (induction k)
  case (Suc k)
  have "emits log (deployOf (om_Name node) h) (deployNodeNetworkConfig crr cfg cur node)"
    unfolding deployNodeNetworkConfig_def Let_def using assms
    by (auto intro!: emit_intros logs_config_calls simp: deployOf_def cfgRevision_def split: option.split)
  with Suc show ?case by (auto intro!: emit_intros)
qed (simp add: emit_intros)

lemma createOrUpdateNetplanConfig_emits:
  "logs_configs log crr \<Longrightarrow> emits log P (createOrUpdateNetplanConfig crr cfg node rv)"
  unfolding createOrUpdateNetplanConfig_def Let_def
  by (auto intro!: emit_intros quiet_calls split: option.split)

lemma deployNodeConfig_remits:
  assumes "logs_configs log crr"
  shows "remits log (deployOf (om_Name node) (revHash rv)) (deployNodeConfig crr node rv)"
proof -
  have np: "remits log P (\<lambda>(s, st). r_io (wrapErr msg (createOrUpdateNetplanConfig crr (cs_vrfConfig st) node rv)) (s, st))"
    for P msg
    using remits_io [OF emits_wrapErr [OF createOrUpdateNetplanConfig_emits [OF assms]], of P msg]
    unfolding remits_def by fastforce
  show ?thesis
    unfolding deployNodeConfig_def
    by (intro emit_intros logs_config_calls assms)
       (auto intro!: emit_intros remits_bind_post deployRetry_emits CreateNodeNetworkConfig_remits np assms
          simp: r_wrap_Inr dest: CreateNodeNetworkConfig_result)
qed

section \<open>The limit of a pass\<close>

definition ongoingAt :: "string \<Rightarrow> NodeNetworkConfig list \<Rightarrow> int" where
  "ongoingAt h configs = int (length (filter inProgress
     (ofRevision h (filter (\<lambda>c. \<not> length (nnc_OwnerReferences c) < numOfRefs) configs))))"

lemma getRevisionCounters_ongoing:
  "cnt_ongoing (getRevisionCounters now ct pt configs rv) = int (length (filter inProgress (ofRevision (revHash rv) configs)))"
proof (induction configs rule: rev_induct)
  case (snoc cfg configs)
  then show ?case
    by (cases "st_ConfigStatus (nnc_Status cfg)")
       (auto simp: getRevisionCounters_def ofRevision_def countConfig_def countOngoing_def inProgress_def Let_def)
qed (simp add: getRevisionCounters_def ofRevision_def zeroCounters_def)

lemma removeRedundantConfigs_result:
  "removeRedundantConfigs r cfgs s = (Inr out, s') \<Longrightarrow>
     out = filter (\<lambda>c. \<not> length (nnc_OwnerReferences c) < numOfRefs) cfgs"
  by (induction cfgs arbitrary: s out) (auto simp: io_return_def split: if_splits elim!: io_bind_InrE)

text \<open>A status update returns the object with the status that was sent.\<close>

definition echoes_status :: "('s, 'q) CRR \<Rightarrow> bool" where
  "echoes_status crr \<longleftrightarrow> (\<forall>x s y s'. c_UpdateStatus (oc_Revisions (crr_clients crr)) x s = (Inr y, s') \<longrightarrow>
     rev_Status y = rev_Status x \<and> revHash y = revHash x)"

lemma echo:
  assumes "echoes_status crr" "c_UpdateStatus (oc_Revisions (crr_clients crr)) (rv\<lparr>rev_Status := st\<rparr>) s = (Inr y, s')"
  shows "rev_Status y = st \<and> revHash y = revHash rv"
  using assms unfolding echoes_status_def by (fastforce simp: revHash_def)

lemma invalidateRevision_result:
  assumes "echoes_status crr" "invalidateRevision (crr_clients crr) rv n m a s = (Inr rv', s')"
  shows "revHash rv' = revHash rv"
  using assms(2) echo [OF assms(1)] by (simp add: invalidateRevision_def api_def Let_def)

lemma processConfigsForRevision_result:
  assumes "echoes_status crr" "processConfigsForRevision crr configs rv s = (Inr (cnt, rv'), s')"
  shows "cnt_ongoing cnt = ongoingAt (revHash rv) configs \<and> revHash rv' = revHash rv"
proof -
  from assms(2) obtain cfgs s1 where
    rm: "removeRedundantConfigs (crr_clients crr) configs s = (Inr cfgs, s1)" and
    cnt: "cnt = getRevisionCounters (crr_Now crr s1) (crr_configTimeout crr) (crr_preconfigTimeout crr) cfgs rv" and
    inv: "rv' = rv \<or> (\<exists>n m a t. invalidateRevision (crr_clients crr) rv n m a t = (Inr rv', s'))"
    unfolding processConfigsForRevision_def
    by (auto simp: Let_def io_return_def wrapErr_def split: if_splits elim!: io_bind_InrE) blast+
  from inv have rv': "revHash rv' = revHash rv" using invalidateRevision_result [OF assms(1)] by blast
  from removeRedundantConfigs_result [OF rm] show ?thesis
    by (simp add: cnt getRevisionCounters_ongoing ongoingAt_def rv')
qed

lemma processRevisions_result:
  assumes "echoes_status crr"
  shows "processRevisions crr configs rvs m s = (Inr (rvs', m'), s') \<Longrightarrow>
    (\<And>h c. gm_get m h = Some c \<Longrightarrow> cnt_ongoing c = ongoingAt h configs) \<Longrightarrow>
    (\<forall>h c. gm_get m' h = Some c \<longrightarrow> cnt_ongoing c = ongoingAt h configs) \<and> length rvs' = length rvs"
proof (induction rvs arbitrary: m s rvs' s')
  case (Cons rv rvs)
  from Cons.prems(1) obtain cnt rv1 s1 rvs1 s2 where
    1: "processConfigsForRevision crr configs rv s = (Inr (cnt, rv1), s1)" and
    2: "processRevisions crr configs rvs (gm_put (revHash rv1) cnt m) s1 = (Inr (rvs1, m'), s2)" and
    3: "rvs' = rv1 # rvs1"
    by (auto simp: wrapErr_def io_return_def elim!: io_bind_InrE)
  have "cnt_ongoing c = ongoingAt h configs" if "gm_get (gm_put (revHash rv1) cnt m) h = Some c" for h c
    using that Cons.prems(2) processConfigsForRevision_result [OF assms 1] by (simp add: gomap_simps split: if_splits)
  with Cons.IH [OF 2] 3 show ?case by simp
qed (simp add: io_return_def)

lemma updateRevisionCounters_result:
  assumes "echoes_status crr" "\<And>h c. gm_get m h = Some c \<Longrightarrow> cnt_ongoing c = ongoingAt h configs"
  shows "updateRevisionCounters (crr_clients crr) cur q t m rvs s = (Inr rvs', s') \<Longrightarrow>
    list_all2 (\<lambda>a b. revHash b = revHash a \<and> rst_Ongoing (rev_Status b) = ongoingAt (revHash a) configs) rvs rvs'"
proof (induction rvs arbitrary: s rvs' s')
  case (Cons rv rvs)
  then obtain c where c: "gm_get m (revHash rv) = Some c" by (auto simp: io_throw_def split: option.splits)
  with Cons.prems obtain x s1 rvs1 s2 where
    x: "c_UpdateStatus (oc_Revisions (crr_clients crr)) (rv\<lparr>rev_Status := (rev_Status rv)
       \<lparr>rst_Queued := (if cur = Some (revHash rv) then q else 0), rst_Ongoing := cnt_ongoing c,
        rst_Ready := cnt_ready c, rst_Total := t\<rparr>\<rparr>) s = (Inr x, s1)" and
    r: "updateRevisionCounters (crr_clients crr) cur q t m rvs s1 = (Inr rvs1, s2)" and eq: "rvs' = x # rvs1"
    by (auto simp: api_def io_return_def elim!: io_bind_InrE)
  have "revHash x = revHash rv \<and> rst_Ongoing (rev_Status x) = ongoingAt (revHash rv) configs"
    using echo [OF assms(1) x] assms(2) [OF c] by simp
  with Cons.IH [OF r] eq show ?case by simp
qed (simp add: io_return_def)

lemma listNodes_result:
  assumes "listNodes r s = (Inr nodes, s')" "(k, n) \<in> set nodes"
  shows "k = om_Name n \<and> nodeReady n"
proof -
  have "\<forall>(k, n) \<in> set (fold (\<lambda>n m. if nodeReady n then gm_put (om_Name n) n m else m) items m). k = om_Name n \<and> nodeReady n"
    if "\<forall>(k, n) \<in> set m. k = om_Name n \<and> nodeReady n" for items and m :: "(string, Node) gomap"
    using that
  proof (induction items arbitrary: m)
    case (Cons i items)
    have "set (gm_put (om_Name i) i m) \<subseteq> insert (om_Name i, i) (set m)"
      by (induction m) auto
    then have "\<forall>(k, n) \<in> set (if nodeReady i then gm_put (om_Name i) i m else m). k = om_Name n \<and> nodeReady n"
      using Cons.prems by auto
    from Cons.IH [OF this] show ?case by simp
  qed simp
  from this [of "[]"] assms show ?thesis
    by (auto simp: listNodes_def api_def io_return_def elim!: io_bind_InrE)
qed

text \<open>What a pass may write: deletions of redundant configurations, and deployments of one revision to
  one node. The node is ready and has, in the list the pass read, no configuration of that revision,
  and fewer than \<open>maxUpdating\<close> configurations of the list are in progress with it.\<close>

definition pass_ok :: "('s, 'q) CRR \<Rightarrow> NodeNetworkConfig call list \<Rightarrow> bool" where
  "pass_ok crr ws \<longleftrightarrow> list_all redundantDelete ws \<or>
     (\<exists>node h configs t t'. nodeReady node \<and> c_List (oc_Configs (crr_clients crr)) t = (Inr configs, t') \<and>
        list_all (\<lambda>w. redundantDelete w \<or> deployOf (om_Name node) h w) ws \<and>
        ongoingAt h configs < crr_maxUpdating crr \<and>
        \<not> list_ex (\<lambda>cfg. nnc_Name cfg = om_Name node \<and> cfgRevision cfg = h) configs)"

lemma pass_ok_prefix: "list_all redundantDelete vs \<Longrightarrow> pass_ok crr ws \<Longrightarrow> pass_ok crr (vs @ ws)"
  unfolding pass_ok_def by (auto simp: list.pred_True elim: list.pred_mono_strong) (metis (mono_tags, lifting) list.pred_mono_strong)

definition okrun :: "('s \<Rightarrow> NodeNetworkConfig call list) \<Rightarrow> ('s, 'q) CRR \<Rightarrow> ('s, 'a) run \<Rightarrow> bool" where
  "okrun log crr m \<longleftrightarrow> (\<forall>s c r s' c'. m (s, c) = Some (r, (s', c')) \<longrightarrow>
     (\<exists>ws. log s' = log s @ ws \<and> pass_ok crr ws))"

lemma okrun_remits: "remits log P m \<Longrightarrow> (\<And>ws. list_all P ws \<Longrightarrow> pass_ok crr ws) \<Longrightarrow> okrun log crr m"
  unfolding okrun_def remits_def by blast

lemma okrun_bind:
  assumes "remits log redundantDelete m" "\<And>x st st'. m st = Some (Inr x, st') \<Longrightarrow> okrun log crr (f x)"
  shows "okrun log crr (r_bind m f)"
  unfolding okrun_def
proof (intro allI impI)
  fix s c r s' c' assume run: "r_bind m f (s, c) = Some (r, (s', c'))"
  then obtain x t d where m: "m (s, c) = Some (x, (t, d))" by (auto simp: r_bind_def split: option.splits prod.splits)
  with assms(1) obtain vs where vs: "log t = log s @ vs" "list_all redundantDelete vs" unfolding remits_def by blast
  show "\<exists>ws. log s' = log s @ ws \<and> pass_ok crr ws"
  proof (cases x)
    case (Inl e)
    with run m vs show ?thesis by (auto simp: r_bind_def pass_ok_def)
  next
    case (Inr y)
    with run m have "f y (t, d) = Some (r, (s', c'))" by (simp add: r_bind_def)
    with assms(2) [of "(s, c)" y "(t, d)"] m Inr obtain ws where "log s' = log t @ ws" "pass_ok crr ws"
      unfolding okrun_def by blast
    with vs show ?thesis by (intro exI [of _ "vs @ ws"]) (simp add: pass_ok_prefix)
  qed
qed

lemma r_io_Inr: "r_io m (s, c) = Some (Inr x, st') \<longleftrightarrow> (\<exists>s'. m s = (Inr x, s') \<and> st' = (s', c))"
  by (auto simp: r_io_def split: prod.splits)

lemma getOutdatedNodes_first:
  assumes "getOutdatedNodes iter nodes configs (Some rv) = node # rest" "\<And>m. set (iter m) = set m"
    "\<forall>(k, n) \<in> set nodes. k = om_Name n \<and> nodeReady n"
  shows "nodeReady node \<and> \<not> list_ex (\<lambda>cfg. nnc_Name cfg = om_Name node \<and> cfgRevision cfg = revHash rv) configs"
proof -
  have "node \<in> set (getOutdatedNodes iter nodes configs (Some rv))" using assms(1) by simp
  then obtain k where "(k, node) \<in> set nodes" and
    "\<not> list_ex (\<lambda>cfg. nnc_Name cfg = k \<and> cfgRevision cfg = revHash rv) configs"
    by (auto simp: getOutdatedNodes_def assms(2))
  with assms(3) show ?thesis by auto
qed

lemma firstValidIndex_less: "firstValidIndex rvs = Some i \<Longrightarrow> i < length rvs"
  by (induction rvs arbitrary: i) (auto split: if_splits)

lemma last_stage:
  assumes logs: "logs_configs log crr" and iter: "\<And>m. set (crr_nodeIter crr m) = set m"
    and nodes: "\<forall>(k, n) \<in> set nodes. k = om_Name n \<and> nodeReady n"
    and configs: "c_List (oc_Configs (crr_clients crr)) t = (Inr configs, t')"
    and i: "firstValidIndex rvs = Some i"
    and rvs': "list_all2 (\<lambda>a b. revHash b = revHash a \<and> rst_Ongoing (rev_Status b) = ongoingAt (revHash a) configs) rvs rvs'"
  shows "okrun log crr (r_bind
      (case getOutdatedNodes (crr_nodeIter crr) nodes configs (getFirstValidRevision rvs) of
         node # _ \<Rightarrow>
           if rst_Ongoing (rev_Status (rvs' ! i)) < crr_maxUpdating crr
           then r_wrap ''error deploying node configurations'' (deployNodeConfig crr node (rvs' ! i)) else r_return ()
       | [] \<Rightarrow> r_return ()) (\<lambda>_.
      r_bind (r_io (wrapErr ''error reconciling mirror status'' (reconcileMirrorStatus (crr_clients crr) (crr_lib crr)))) (\<lambda>_.
      r_io (wrapErr ''error cleaning redundant revisions'' (revisionCleanup (crr_clients crr))))))"
    (is "okrun log crr (r_bind ?deploy (\<lambda>_. ?rest))")
proof -
  have rest: "remits log P ?rest" for P
    by (intro emit_intros reconcileMirrorStatus_emits revisionCleanup_emits logs)
  have at: "revHash (rvs' ! i) = revHash (rvs ! i)" "rst_Ongoing (rev_Status (rvs' ! i)) = ongoingAt (revHash (rvs ! i)) configs"
    using rvs' firstValidIndex_less [OF i] by (auto simp: list_all2_conv_all_nth)
  have first: "getFirstValidRevision rvs = Some (rvs ! i)" by (simp add: getFirstValidRevision_def i)
  show ?thesis
  proof (cases "\<exists>node ns. getOutdatedNodes (crr_nodeIter crr) nodes configs (Some (rvs ! i)) = node # ns \<and>
      rst_Ongoing (rev_Status (rvs' ! i)) < crr_maxUpdating crr")
    case False
    then have "?deploy = r_return ()" by (auto simp: first split: list.split)
    then have "remits log redundantDelete (r_bind ?deploy (\<lambda>_. ?rest))"
      by (simp only:) (intro emit_intros rest)
    then show ?thesis by (rule okrun_remits) (simp add: pass_ok_def)
  next
    case True
    then obtain node ns where n: "getOutdatedNodes (crr_nodeIter crr) nodes configs (Some (rvs ! i)) = node # ns"
      "rst_Ongoing (rev_Status (rvs' ! i)) < crr_maxUpdating crr" by blast
    note node = getOutdatedNodes_first [OF n(1) iter nodes]
    have "remits log (deployOf (om_Name node) (revHash (rvs' ! i))) (r_bind ?deploy (\<lambda>_. ?rest))"
      using n by (simp add: first) (intro emit_intros rest deployNodeConfig_remits logs)
    then show ?thesis
    proof (rule okrun_remits)
      fix ws assume "list_all (deployOf (om_Name node) (revHash (rvs' ! i))) ws"
      then have "list_all (\<lambda>w. redundantDelete w \<or> deployOf (om_Name node) (revHash (rvs ! i)) w) ws"
        by (auto simp: at elim: list.pred_mono_strong)
      with node n(2) at configs show "pass_ok crr ws" unfolding pass_ok_def
        by (intro disjI2 exI [of _ node] exI [of _ "revHash (rvs ! i)"] exI [of _ configs] exI [of _ t] exI [of _ t']) simp
    qed
  qed
qed


section \<open>The in-memory cluster with a log\<close>

definition lift_io :: "('s, 'e, 'a) io \<Rightarrow> ('s \<times> 'l, 'e, 'a) io" where
  "lift_io m = (\<lambda>(s, l). case m s of (r, s') \<Rightarrow> (r, (s', l)))"

definition log_io :: "'l \<Rightarrow> ('s, 'e, 'a) io \<Rightarrow> ('s \<times> 'l list, 'e, 'a) io" where
  "log_io w m = (\<lambda>(s, l). case m s of (r, s') \<Rightarrow> (r, (s', l @ [w])))"

definition lift_client :: "('s, 'o) ResClient \<Rightarrow> ('s \<times> 'l, 'o) ResClient" where
  "lift_client c = \<lparr>c_List = lift_io (c_List c), c_Get = (\<lambda>n. lift_io (c_Get c n)), c_Create = (\<lambda>x. lift_io (c_Create c x)),
     c_Update = (\<lambda>x. lift_io (c_Update c x)), c_UpdateStatus = (\<lambda>x. lift_io (c_UpdateStatus c x)),
     c_Delete = (\<lambda>x. lift_io (c_Delete c x))\<rparr>"

definition log_client :: "('s, 'o) ResClient \<Rightarrow> ('s \<times> 'o call list, 'o) ResClient" where
  "log_client c = (lift_client c)\<lparr>c_Create := (\<lambda>x. log_io (CreateCall x) (c_Create c x)),
     c_Update := (\<lambda>x. log_io (UpdateCall x) (c_Update c x)), c_Delete := (\<lambda>x. log_io (DeleteCall x) (c_Delete c x))\<rparr>"

definition loggedClients :: "(OpStore \<times> NodeNetworkConfig call list) OperatorClients" where
  "loggedClients = \<lparr>oc_Layer2 = lift_client (oc_Layer2 opStoreClients), oc_Vrf = lift_client (oc_Vrf opStoreClients),
     oc_BGP = lift_client (oc_BGP opStoreClients), oc_MirrorTargets = lift_client (oc_MirrorTargets opStoreClients),
     oc_MirrorSelectors = lift_client (oc_MirrorSelectors opStoreClients),
     oc_Revisions = lift_client (oc_Revisions opStoreClients), oc_Nodes = lift_client (oc_Nodes opStoreClients),
     oc_Configs = log_client (oc_Configs opStoreClients), oc_Netplan = lift_client (oc_Netplan opStoreClients)\<rparr>"

definition anyLabels :: "unit Labels" where
  "anyLabels = \<lparr>lb_NewRequirement = (\<lambda>_ _ _. Inr ()), lb_Matches = (\<lambda>_ _. True)\<rparr>"

definition sampleCRR :: "int \<Rightarrow> (OpStore \<times> NodeNetworkConfig call list, unit) CRR" where
  "sampleCRR maxUpdating = \<lparr>crr_clients = loggedClients,
     crr_lib = \<lparr>sl_SetStatusCondition = (\<lambda>cs c. filter (\<lambda>d. cond_Type d \<noteq> cond_Type c) cs @ [c]), sl_RetryOnConflict = (\<lambda>m. m)\<rparr>,
     crr_labels = anyLabels, crr_importMode = ImportModeImport, crr_hbnHostNextHop = '''', crr_importIter = (\<lambda>m. m),
     crr_nodeIter = (\<lambda>m. m), crr_ReloadConfig = io_return, crr_SetOwnerReference = (\<lambda>r refs. Inr (refs @ [r])),
     crr_Now = (\<lambda>s. os_clock (fst s)), crr_configTimeout = 120, crr_preconfigTimeout = 600, crr_maxUpdating = maxUpdating\<rparr>"

definition sampleState :: CRRState where
  "sampleState = \<lparr>cs_vrfConfig = \<lparr>cfg_VRFToVNI = [], cfg_VRFConfig = []\<rparr>,
     cs_mirrorAllocCache = \<lparr>mac_key = '''', mac_alloc = None\<rparr>\<rparr>"

lemma emits_lift_io: "emits snd P (lift_io m)"
  by (simp add: emits_def lift_io_def split: prod.split)

lemma quiet_lift_client: "quiet_client snd (lift_client c)"
  by (simp add: quiet_client_def lift_client_def emits_lift_io)

lemma logging_log_client: "logging_client snd (log_client c)"
  by (simp add: logging_client_def log_client_def lift_client_def emits_lift_io log_io_def split: prod.split)

lemma logs_sampleCRR: "logs_configs snd (sampleCRR k)"
  by (simp add: logs_configs_def sampleCRR_def loggedClients_def quiet_lift_client logging_log_client emit_intros)

lemma echoes_sampleCRR: "echoes_status (sampleCRR k)"
  by (auto simp: echoes_status_def sampleCRR_def loggedClients_def lift_client_def lift_io_def opStoreClients_def
      store_revisions_def store_client_def store_update_def revHash_def Let_def split: prod.splits option.splits if_splits)

definition twoNodes :: "ConfigStatus \<Rightarrow> OpStore" where
  "twoNodes st = emptyStore\<lparr>os_clock := 50, os_Nodes := [sampleNode ''n1'', sampleNode ''n2''],
     os_Revisions := [sampleRevision ''r2'' 2, sampleRevision ''r1'' 1],
     os_Configs := [sampleConfig ''n1'' ''r1'' st 10, sampleConfig ''n2'' ''r1'' st 10]\<rparr>"

definition pass :: "int \<Rightarrow> (OpStore \<times> NodeNetworkConfig call list) \<times> CRRState \<Rightarrow>
    ((OpStore \<times> NodeNetworkConfig call list) \<times> CRRState) option" where
  "pass k st = map_option snd (reconcileDebounced (sampleCRR k) st)"



definition deadlineCRR :: "(OpStore \<times> NodeNetworkConfig call list, unit) CRR" where
  "deadlineCRR = (sampleCRR 1)\<lparr>crr_clients := loggedClients\<lparr>oc_Configs :=
     (oc_Configs loggedClients)\<lparr>c_Create := (\<lambda>x. io_throw DeadlineExceeded)\<rparr>\<rparr>\<rparr>"


section \<open>What the clean-up deletes\<close>

lemma emits_bind_post:
  assumes "emits log P m" "\<And>x s s'. m s = (Inr x, s') \<Longrightarrow> emits log P (f x)"
  shows "emits log P (io_bind m f)"
  unfolding emits_def
proof
  fix s
  obtain r s' where m: "m s = (r, s')" by fastforce
  with assms(1) obtain ws where ws: "log s' = log s @ ws" "list_all P ws" by (metis emits_def snd_conv)
  show "\<exists>ws. log (snd (io_bind m f s)) = log s @ ws \<and> list_all P ws"
  proof (cases r)
    case (Inl e)
    with m ws show ?thesis by (simp add: io_bind_def)
  next
    case (Inr x)
    with assms(2) m obtain vs where "log (snd (f x s')) = log s' @ vs" "list_all P vs" unfolding emits_def by blast
    with m Inr ws show ?thesis by (intro exI [of _ "ws @ vs"]) (simp add: io_bind_def)
  qed
qed

definition supersededDelete :: "'s OperatorClients \<Rightarrow> NetworkConfigRevision call \<Rightarrow> bool" where
  "supersededDelete r w \<longleftrightarrow> (\<exists>rv newest rest configs t t' u u'.
     w = DeleteCall rv \<and> listRevisions r t = (Inr (newest # rest), t') \<and> listConfigs r u = (Inr configs, u') \<and>
     rv \<in> set rest \<and> \<not> revInvalid newest \<and> rst_Ready (rev_Status newest) = rst_Total (rev_Status newest) \<and>
     countReferences rv configs = 0)"

lemma supersededDeleteI:
  "listRevisions r t = (Inr (newest # rest), t') \<Longrightarrow> listConfigs r u = (Inr configs, u') \<Longrightarrow> rv \<in> set rest \<Longrightarrow>
   \<not> revInvalid newest \<Longrightarrow> rst_Ready (rev_Status newest) = rst_Total (rev_Status newest) \<Longrightarrow>
   countReferences rv configs = 0 \<Longrightarrow> supersededDelete r (DeleteCall rv)"
  unfolding supersededDelete_def by blast

lemma emits_each_mem: "(\<And>x. x \<in> set xs \<Longrightarrow> emits log P (f x)) \<Longrightarrow> emits log P (io_each f xs)"
  by (induction xs) (simp_all add: emit_intros)

text \<open>C25. The clean-up never deletes the newest revision, nor a revision that a listed node
  configuration refers to, and it deletes anything only when the newest revision is valid and reported
  ready on all nodes.\<close>

theorem revisionCleanup_safe:
  assumes rev: "logging_client log (oc_Revisions r)" and cfg: "quiet_client log (oc_Configs r)"
  shows "\<exists>ws. log (snd (revisionCleanup r s)) = log s @ ws \<and> list_all (supersededDelete r) ws"
proof -
  have l: "emits log P (listRevisions r)" "emits log P (listConfigs r)" for P
    using rev quiet_clientD [OF cfg] by (simp_all add: listRevisions_def listConfigs_def emit_intros logging_client_def emits_weaken)
  have del: "emits log P (c_Delete (oc_Revisions r) x)" if "P (DeleteCall x)" for P x
    using rev that by (auto simp: logging_client_def emits_def)
  have "emits log (supersededDelete r) (revisionCleanup r)"
    unfolding revisionCleanup_def
  proof (intro emits_bind_post emits_wrapErr l, goal_cases)
    case (1 rvs t t')
    then have rvs: "listRevisions r t = (Inr rvs, t')" by (simp add: wrapErr_def)
    show ?case
    proof (cases rvs)
      case (Cons newest rest)
      have each: "emits log (supersededDelete r) (if \<not> revInvalid newest \<and> rst_Ready (rev_Status newest) = rst_Total (rev_Status newest)
           then io_each (\<lambda>rv. if countReferences rv configs = 0
               then api (''failed to delete revision '' @ om_Name rv) (c_Delete (oc_Revisions r) rv)
               else io_return ()) rest
           else io_return ())" if "listConfigs r u = (Inr configs, u')" for configs u u'
        using rvs that Cons
        by (auto intro!: emits_each_mem emits_api emits_return del supersededDeleteI [OF rvs [unfolded Cons] that])
      have "emits log (supersededDelete r) (io_bind (wrapErr ''failed to list configs'' (listConfigs r)) (\<lambda>configs.
           if \<not> revInvalid newest \<and> rst_Ready (rev_Status newest) = rst_Total (rev_Status newest)
           then io_each (\<lambda>rv. if countReferences rv configs = 0
               then api (''failed to delete revision '' @ om_Name rv) (c_Delete (oc_Revisions r) rv)
               else io_return ()) rest
           else io_return ()))"
        by (rule emits_bind_post, intro emits_wrapErr l, rule each) (simp add: wrapErr_def)
      then show ?thesis by (simp add: Cons emits_return)
    qed (simp add: emit_intros)
  qed
  then show ?thesis by (simp add: emits_def)
qed

definition loggedRevisions :: "(OpStore \<times> NetworkConfigRevision call list) OperatorClients" where
  "loggedRevisions = \<lparr>oc_Layer2 = lift_client (oc_Layer2 opStoreClients), oc_Vrf = lift_client (oc_Vrf opStoreClients),
     oc_BGP = lift_client (oc_BGP opStoreClients), oc_MirrorTargets = lift_client (oc_MirrorTargets opStoreClients),
     oc_MirrorSelectors = lift_client (oc_MirrorSelectors opStoreClients),
     oc_Revisions = log_client (oc_Revisions opStoreClients), oc_Nodes = lift_client (oc_Nodes opStoreClients),
     oc_Configs = lift_client (oc_Configs opStoreClients), oc_Netplan = lift_client (oc_Netplan opStoreClients)\<rparr>"

definition cleanupState :: OpStore where
  "cleanupState = emptyStore\<lparr>os_Revisions := [sampleRevision ''r1'' 1, sampleRevision ''r2'' 2, sampleRevision ''r0'' 0],
     os_Configs := [sampleConfig ''n1'' ''r1'' StatusProvisioned 10]\<rparr>"

theorem revisionCleanup_safe_witness:
  "\<exists>rv. snd (snd (revisionCleanup loggedRevisions (cleanupState, []))) = [DeleteCall rv] \<and> om_Name rv = ''r0'' \<and>
     supersededDelete loggedRevisions (DeleteCall rv)"
proof -
  let ?log = "snd (snd (revisionCleanup loggedRevisions (cleanupState, [])))"
  have "map (\<lambda>w. case w of DeleteCall rv \<Rightarrow> om_Name rv | _ \<Rightarrow> '''') ?log = [''r0'']" by code_simp
  moreover have "list_all (supersededDelete loggedRevisions) ?log"
    using revisionCleanup_safe [of snd loggedRevisions "(cleanupState, [])"]
    by (simp add: loggedRevisions_def logging_log_client quiet_lift_client)
  ultimately obtain w where w: "?log = [w]" "(case w of DeleteCall rv \<Rightarrow> om_Name rv | _ \<Rightarrow> '''') = ''r0''"
    "supersededDelete loggedRevisions w" by (auto simp: map_eq_Cons_conv)
  then show ?thesis by (cases w) auto
qed

end
