(* ===== verification/Build_Common.thy ===== *)
theory Build_Common
  imports Resolver Nnc_Types
begin

text \<open>
  What the builders of the intent pipeline share: \<open>builder.go\<close>, \<open>report.go\<close> and \<open>helpers.go\<close> of
  \<open>pkg/reconciler/intent/builder\<close>. A builder turns the resolved resources into one contribution
  per node. \<open>result\<close> is the map from node names to contributions; the Go code updates the
  contributions through pointers, here \<open>updateContrib\<close> replaces the node's entry. Skipped
  resources are collected in the list of issues that \<open>reportSkip\<close> appends to.

  The functions on a fabric VRF are polymorphic in the record's extension, since some builders
  carry more than the API type (see \<open>Build_Usage\<close>).
\<close>

record NetplanRoute =
  npr_To :: string
  npr_Via :: string

record NetplanNodeIP =
  npi_VLAN :: u16
  npi_MTU :: u16
  npi_Addresses :: "string list"
  npi_Gateways :: "string list"
  npi_Routes :: "NetplanRoute list"
  npi_InterfaceName :: string
  npi_InterfaceRef :: string

definition zeroNetplanNodeIP :: NetplanNodeIP where
  "zeroNetplanNodeIP = \<lparr>npi_VLAN = 0, npi_MTU = 0, npi_Addresses = [], npi_Gateways = [], npi_Routes = [],
     npi_InterfaceName = '''', npi_InterfaceRef = ''''\<rparr>"

record NodeContribution =
  ct_Layer2s :: "(string, Layer2) gomap"
  ct_FabricVRFs :: "(string, FabricVRF) gomap"
  ct_LocalVRFs :: "(string, VRF) gomap"
  ct_ClusterVRF :: "VRF option"
  ct_NetplanNodeIPs :: "(string, NetplanNodeIP) gomap"
  ct_Origins :: "(string, string) gomap"

definition NewNodeContribution :: NodeContribution where
  "NewNodeContribution = \<lparr>ct_Layer2s = [], ct_FabricVRFs = [], ct_LocalVRFs = [], ct_ClusterVRF = None,
     ct_NetplanNodeIPs = [], ct_Origins = []\<rparr>"

definition SetOrigin :: "string \<Rightarrow> string \<Rightarrow> NodeContribution \<Rightarrow> NodeContribution" where
  "SetOrigin sectionKey source c = c\<lparr>ct_Origins := gm_put sectionKey source (ct_Origins c)\<rparr>"

type_synonym contributions = "(string, NodeContribution) gomap"

definition ensureContrib :: "contributions \<Rightarrow> string \<Rightarrow> NodeContribution" where
  "ensureContrib result nodeName =
     (case gm_get result nodeName of Some c \<Rightarrow> c | None \<Rightarrow> NewNodeContribution)"

definition updateContrib :: "string \<Rightarrow> (NodeContribution \<Rightarrow> NodeContribution) \<Rightarrow> contributions \<Rightarrow> contributions" where
  "updateContrib nodeName f result = gm_put nodeName (f (ensureContrib result nodeName)) result"

record BuildIssue =
  bi_Kind :: string
  bi_Namespace :: string
  bi_Name :: string
  bi_Reason :: string
  bi_Message :: string

definition reportSkip ::
  "string \<Rightarrow> 'a ObjectMeta_scheme \<Rightarrow> string \<Rightarrow> string \<Rightarrow> BuildIssue list \<Rightarrow> BuildIssue list" where
  "reportSkip kind x reason message issues = issues @
     [\<lparr>bi_Kind = kind, bi_Namespace = om_Namespace x, bi_Name = om_Name x, bi_Reason = reason, bi_Message = message\<rparr>]"

text \<open>
  \<open>err.Error()\<close>; the API's own errors print what the server answers, of which only the text of
  \<open>OtherError\<close> is modelled. \<open>quoted\<close> is the verb \<open>%q\<close> on printable text without quotes, as names are.
\<close>

definition quoted :: "string \<Rightarrow> string" where
  "quoted s = CHR 0x22 # s @ [CHR 0x22]"

fun errorText :: "GoError \<Rightarrow> string" where
  "errorText (ApiErr e) = (case e of OtherError s \<Rightarrow> s | _ \<Rightarrow> '''')"
| "errorText (ErrorString s) = s"
| "errorText (Wrap s e) = s @ '': '' @ errorText e"
| "errorText (Joined es) = joinWith [CHR 0x0A] (map errorText es)"
| "errorText (SkipReasonError _ e) = errorText e"

text \<open>\<open>skipReason\<close>: the reason of the first tagged error in the chain.\<close>

fun reasonOf :: "GoError \<Rightarrow> string option" where
  "reasonOf (SkipReasonError r _) = Some r"
| "reasonOf (Wrap _ e) = reasonOf e"
| "reasonOf (Joined es) = foldr (\<lambda>e r. case reasonOf e of Some x \<Rightarrow> Some x | None \<Rightarrow> r) es None"
| "reasonOf _ = None"

definition skipReason :: "GoError \<Rightarrow> string" where
  "skipReason e = (case reasonOf e of Some r \<Rightarrow> r | None \<Rightarrow> ''BuildFailed'')"

section \<open>Mirroring names\<close>

definition mirrorProtocolL2GRE :: string where
  "mirrorProtocolL2GRE = ''l2gre''"

definition mirrorGREName :: "Collector \<Rightarrow> string" where
  "mirrorGREName col =
     (let h = take 8 (sha256_hex (om_Name col)) in
      if cols_Protocol (col_Spec col) = mirrorProtocolL2GRE then ''gtap-'' @ h else ''gre-'' @ h)"

definition mirrorGRELayer :: "string \<Rightarrow> GRELayer" where
  "mirrorGRELayer protocol = (if protocol = mirrorProtocolL2GRE then GRELayer2 else GRELayer3)"

definition mirrorGREKey :: "int option \<Rightarrow> u32 option" where
  "mirrorGREKey key = map_option word_of_int key"

section \<open>Fabric VRFs and filters\<close>

definition buildFabricVRF :: "VRFSpec \<Rightarrow> FabricVRF" where
  "buildFabricVRF vrfSpec =
     (let rts = (case vrfs_RouteTarget vrfSpec of Some rt \<Rightarrow> [rt] | None \<Rightarrow> []) in
      VRF.extend (zeroVRF\<lparr>VRFImports := [\<lparr>vi_FromVRF = ''cluster'', vi_Filter = emptyFilter Reject\<rparr>]\<rparr>)
        \<lparr>fv_VNI = (case vrfs_VNI vrfSpec of Some n \<Rightarrow> word_of_int n | None \<Rightarrow> 0),
         EVPNImportRouteTargets = rts, EVPNExportRouteTargets = rts,
         EVPNExportFilter = Some (emptyFilter Reject)\<rparr>)"

definition withCommunities :: "string list \<Rightarrow> Action" where
  "withCommunities comms = \<lparr>act_Type = Accept, act_ModifyRoute = (if comms = [] then None
     else Some \<lparr>mra_AddCommunities = comms, mra_AdditiveCommunities = Some True, mra_RemoveCommunities = [],
                mra_RemoveAllCommunities = None\<rparr>)\<rparr>"

definition hostCommunities :: "AnnouncementPolicy option \<Rightarrow> string list" where
  "hostCommunities ap = (case ap of None \<Rightarrow> []
     | Some p \<Rightarrow> (case aps_HostRoutesCommunities (ap_Spec p) of Some cs \<Rightarrow> cs | None \<Rightarrow> []))"

definition aggregateConfig :: "AnnouncementPolicy option \<Rightarrow> AggregateConfig option" where
  "aggregateConfig ap = (case ap of None \<Rightarrow> None | Some p \<Rightarrow> aps_Aggregate (ap_Spec p))"

definition aggregateCommunities :: "AnnouncementPolicy option \<Rightarrow> string list" where
  "aggregateCommunities ap = (case aggregateConfig ap of Some a \<Rightarrow> agg_Communities a | None \<Rightarrow> [])"

definition aggregateEnabled :: "AnnouncementPolicy option \<Rightarrow> bool" where
  "aggregateEnabled ap = (case aggregateConfig ap of None \<Rightarrow> True
     | Some a \<Rightarrow> (case agg_Enabled a of None \<Rightarrow> True | Some b \<Rightarrow> b))"

definition findMatchingAP ::
  "asSelector \<Rightarrow> (string, string) gomap \<Rightarrow> string \<Rightarrow> ResolvedData \<Rightarrow> (GoError, AnnouncementPolicy option) result" where
  "findMatchingAP asSel usageLabels vrfName data =
     ebind (efold (\<lambda>ap ms.
         case gm_get (d_VRFs data) (aps_VRFRef (ap_Spec ap)) of
           None \<Rightarrow> Inr ms
         | Some rv \<Rightarrow>
           if vrfs_VRF (rv_Spec rv) \<noteq> vrfName then Inr ms
           else if aps_Selector (ap_Spec ap) = None then Inr (ms @ [ap])
           else case asSel (aps_Selector (ap_Spec ap)) of
               Inl err \<Rightarrow> Inl (Wrap (''AnnouncementPolicy '' @ quoted (om_Name ap) @ '' has invalid selector'') err)
             | Inr sel \<Rightarrow> Inr (if sel usageLabels then ms @ [ap] else ms))
       (d_AnnouncementPolicies data) [])
     (\<lambda>ms. case ms of [] \<Rightarrow> Inr None | [ap] \<Rightarrow> Inr (Some ap)
        | _ \<Rightarrow> Inl (ErrorString (''multiple AnnouncementPolicies match: ['' @ joinWith '' '' (map om_Name ms) @ '']'')))"

definition cidrFilterItems :: "string \<Rightarrow> int \<Rightarrow> int \<Rightarrow> AnnouncementPolicy option \<Rightarrow> FilterItem list" where
  "cidrFilterItems cidr maxLen hostLen ap =
     (if ap = None then [prefixItem cidr None (Some maxLen) (plainAction Accept)]
      else [prefixItem cidr (Some maxLen) (Some maxLen) (withCommunities (hostCommunities ap)),
            prefixItem cidr None (Some hostLen)
              (if \<not> aggregateEnabled ap then plainAction Reject else withCommunities (aggregateCommunities ap))])"

definition familyCIDR :: "IPNetwork option \<Rightarrow> string" where
  "familyCIDR fam = (case fam of Some n \<Rightarrow> ipn_CIDR n | None \<Rightarrow> '''')"

definition networkCIDRFilterItems :: "ResolvedNetwork \<Rightarrow> AnnouncementPolicy option \<Rightarrow> FilterItem list" where
  "networkCIDRFilterItems net ap =
     (let v4 = familyCIDR (nws_IPv4 (rn_Spec net)); v6 = familyCIDR (nws_IPv6 (rn_Spec net)) in
      (if v4 = '''' then [] else cidrFilterItems v4 32 31 ap) @
      (if v6 = '''' then [] else cidrFilterItems v6 128 127 ap))"

definition addFilterItems :: "FilterItem list \<Rightarrow> Filter \<Rightarrow> Filter" where
  "addFilterItems is f = f\<lparr>f_Items := f_Items f @ is\<rparr>"

text \<open>\<open>VRFImports[0].Filter.Items = append(...)\<close>, when there is an import.\<close>

definition addImportItems :: "FilterItem list \<Rightarrow> 'a VRF_scheme \<Rightarrow> 'a VRF_scheme" where
  "addImportItems is v = (case VRFImports v of
       [] \<Rightarrow> v
     | vi # vis \<Rightarrow> v\<lparr>VRFImports := vi\<lparr>vi_Filter := addFilterItems is (vi_Filter vi)\<rparr> # vis\<rparr>)"

definition addExportItems :: "FilterItem list \<Rightarrow> 'a FabricVRF_scheme \<Rightarrow> 'a FabricVRF_scheme" where
  "addExportItems is v = v\<lparr>EVPNExportFilter := map_option (addFilterItems is) (EVPNExportFilter v)\<rparr>"

definition ensureExportFilter :: "'a FabricVRF_scheme \<Rightarrow> 'a FabricVRF_scheme" where
  "ensureExportFilter v = (if EVPNExportFilter v = None
     then v\<lparr>EVPNExportFilter := Some (emptyFilter Reject)\<rparr> else v)"

definition addNetworkToFabricVRF ::
  "'a FabricVRF_scheme \<Rightarrow> ResolvedNetwork \<Rightarrow> AnnouncementPolicy option \<Rightarrow> 'a FabricVRF_scheme" where
  "addNetworkToFabricVRF fvrf net ap =
     (let evpnItems = networkCIDRFilterItems net ap in
      if evpnItems = [] then fvrf
      else addImportItems (networkCIDRFilterItems net None)
             (addExportItems evpnItems (ensureExportFilter fvrf)))"

definition ensureCIDR :: "string \<Rightarrow> string \<Rightarrow> string" where
  "ensureCIDR addr sfx = (if CHR ''/'' \<in> set addr then addr else addr @ sfx)"

definition isV6 :: "string \<Rightarrow> bool" where
  "isV6 s = (CHR '':'' \<in> set s)"

definition addressFilterItems :: "string list \<Rightarrow> AnnouncementPolicy option \<Rightarrow> FilterItem list" where
  "addressFilterItems addresses ap = map (\<lambda>addr.
     prefixItem (ensureCIDR addr (if isV6 addr then ''/128'' else ''/32'')) None
       (Some (if isV6 addr then 128 else 32)) (withCommunities (hostCommunities ap))) addresses"

definition matchNodes :: "asSelector \<Rightarrow> Node list \<Rightarrow> LabelSelector option \<Rightarrow> (GoError, Node list) result" where
  "matchNodes asSel nodes selector =
     (if selector = None then Inr nodes
      else case asSel selector of
        Inl err \<Rightarrow> Inl (Wrap ''invalid label selector'' err)
      | Inr sel \<Rightarrow> Inr (filter (\<lambda>n. sel (om_Labels n)) nodes))"

section \<open>Aggregates\<close>

text \<open>\<open>net.CIDRMask\<close>: nil when the length does not fit.\<close>

definition CIDRMask :: "int \<Rightarrow> nat \<Rightarrow> byte list" where
  "CIDRMask ones bits = (if ones < 0 \<or> ones > int bits then [] else cidrMask (nat ones) (bits div 8))"

definition computeAggregatePrefix :: "string \<Rightarrow> int option \<Rightarrow> string" where
  "computeAggregatePrefix cidr overrideLen =
     (case overrideLen of None \<Rightarrow> cidr
      | Some newLen \<Rightarrow>
        (case ParseCIDR cidr of None \<Rightarrow> cidr
         | Some (_, ipNet) \<Rightarrow>
           (let (ones, bits) = MaskSize (net_Mask ipNet); newLen = max newLen (int ones) in
            if newLen = int ones then cidr
            else IPString (IPMask (net_IP ipNet) (CIDRMask newLen bits)) @ ''/'' @ itoa newLen)))"

definition appendUniqueFilterItem :: "FilterItem list \<Rightarrow> FilterItem \<Rightarrow> FilterItem list" where
  "appendUniqueFilterItem items item =
     (if list_ex (\<lambda>e. case (m_Prefix (fi_Matcher e), m_Prefix (fi_Matcher item)) of
          (Some p, Some q) \<Rightarrow> pm_Prefix p = pm_Prefix q | _ \<Rightarrow> False) items
      then items else items @ [item])"

definition appendUniqueStaticRoute :: "StaticRoute list \<Rightarrow> StaticRoute \<Rightarrow> StaticRoute list" where
  "appendUniqueStaticRoute routes route =
     (if list_ex (\<lambda>r. sr_Prefix r = sr_Prefix route) routes then routes else routes @ [route])"

text \<open>One address family of \<open>addAggregateRoutes\<close>.\<close>

definition addAggregateRoute ::
  "Action \<Rightarrow> IPNetwork option \<Rightarrow> int option \<Rightarrow> 'a FabricVRF_scheme \<Rightarrow> 'a FabricVRF_scheme" where
  "addAggregateRoute action fam overrideLen v =
     (if familyCIDR fam = '''' then v
      else let p = computeAggregatePrefix (familyCIDR fam) overrideLen in
        v\<lparr>StaticRoutes := appendUniqueStaticRoute (StaticRoutes v)
            \<lparr>sr_Prefix = p, sr_NextHop = None, sr_BFDProfile = None\<rparr>,
          EVPNExportFilter := map_option (\<lambda>f. f\<lparr>f_Items :=
            appendUniqueFilterItem (f_Items f) (prefixItem p None None action)\<rparr>) (EVPNExportFilter v)\<rparr>)"

definition addAggregateRoutes ::
  "'a FabricVRF_scheme \<Rightarrow> ResolvedNetwork \<Rightarrow> AnnouncementPolicy option \<Rightarrow> 'a FabricVRF_scheme" where
  "addAggregateRoutes v net ap =
     (if \<not> aggregateEnabled ap then v
      else let action = withCommunities (aggregateCommunities ap);
               len = (\<lambda>f. case aggregateConfig ap of Some a \<Rightarrow> f a | None \<Rightarrow> None) in
        addAggregateRoute action (nws_IPv6 (rn_Spec net)) (len agg_PrefixLengthV6)
          (addAggregateRoute action (nws_IPv4 (rn_Spec net)) (len agg_PrefixLengthV4) v))"

section \<open>Destinations\<close>

text \<open>The VRF of a destination that a selector matches and that has a resolved VRF reference.\<close>

definition destVRF :: "ResolvedData \<Rightarrow> (labelSet \<Rightarrow> bool) \<Rightarrow> Destination \<Rightarrow> VRFSpec option" where
  "destVRF data selector rawDest =
     (if \<not> selector (om_Labels rawDest) then None
      else if dsts_VRFRef (dst_Spec rawDest) = None then None
      else case gm_get (d_Destinations data) (om_Name rawDest) of
        None \<Rightarrow> None | Some resolved \<Rightarrow> rdst_VRFSpec resolved)"

definition resolveSelectorVRFs :: "asSelector \<Rightarrow> LabelSelector option \<Rightarrow> ResolvedData \<Rightarrow> (string, VRFSpec) gomap" where
  "resolveSelectorVRFs asSel sel data =
     (if sel = None then []
      else case asSel sel of
        Inl _ \<Rightarrow> []
      | Inr selector \<Rightarrow> fold (\<lambda>rd out. case destVRF data selector rd of
            None \<Rightarrow> out | Some v \<Rightarrow> gm_put (vrfs_VRF v) v out) (d_RawDestinations data) [])"

definition groupDestinationsByVRF ::
  "asSelector \<Rightarrow> LabelSelector option \<Rightarrow> ResolvedData \<Rightarrow> (string, Destination list) gomap" where
  "groupDestinationsByVRF asSel sel data =
     (case asSel sel of
        Inl _ \<Rightarrow> []
      | Inr selector \<Rightarrow> fold (\<lambda>rd grouped. case destVRF data selector rd of
            None \<Rightarrow> grouped
          | Some v \<Rightarrow> gm_put (vrfs_VRF v)
              ((case gm_get grouped (vrfs_VRF v) of Some ds \<Rightarrow> ds | None \<Rightarrow> []) @ [rd]) grouped)
          (d_RawDestinations data) [])"

text \<open>\<open>resolveVRFSpec\<close> of the builders: the VRF of the first destination of a group.\<close>

definition resolveVRFSpec :: "Destination list \<Rightarrow> ResolvedData \<Rightarrow> VRFSpec option" where
  "resolveVRFSpec dests data = (case dests of [] \<Rightarrow> None
     | d # _ \<Rightarrow> (case gm_get (d_Destinations data) (om_Name d) of None \<Rightarrow> None | Some r \<Rightarrow> rdst_VRFSpec r))"

text \<open>
  \<open>mergeRedistribute\<close> is modelled in \<open>Build_Usage\<close>, with the filters it shares; \<open>mergeFilter\<close> has
  no caller.
\<close>

definition mergeFilter :: "Filter option \<Rightarrow> Filter option \<Rightarrow> Filter option" where
  "mergeFilter existing addition =
     (case (existing, addition) of
        (None, _) \<Rightarrow> addition
      | (_, None) \<Rightarrow> existing
      | (Some e, Some a) \<Rightarrow> Some (addFilterItems (f_Items a) e))"

end
