(* ===== verification/Build_L2a.thy ===== *)
theory Build_L2a
  imports Build_Common "HOL-Library.Product_Lexorder"
begin

text \<open>
  \<open>pkg/reconciler/intent/builder/l2a.go\<close>: the builder for Layer-2 attachments. The state of a
  pass is what the Go code updates in place: the contributions, the map \<open>ifOwner\<close> that records
  which attachment owns a netplan slot or a device of a node, and the reported issues.

  Error texts are those of the source up to their first dash.

  What the ownership map is for, that no entry of a node is written by two attachments, is shown in
  \<open>L2a_Admission\<close>.
\<close>

record L2aState =
  ls_result :: contributions
  ls_ifOwner :: "(string, string) gomap"
  ls_issues :: "BuildIssue list"

definition defaultMTU :: u16 where
  "defaultMTU = 1500"

definition reasonInvalidIRBGateway :: string where
  "reasonInvalidIRBGateway = ''InvalidIRBGateway''"

definition isSet :: "string option \<Rightarrow> bool" where
  "isSet s = (case s of Some x \<Rightarrow> x \<noteq> '''' | None \<Rightarrow> False)"

definition orBlank :: "string option \<Rightarrow> string" where
  "orBlank s = (case s of Some x \<Rightarrow> x | None \<Rightarrow> '''')"

section \<open>Layer 2\<close>

definition resolveDestinationVRF ::
  "asSelector \<Rightarrow> Layer2Attachment \<Rightarrow> ResolvedData \<Rightarrow> (GoError, VRFSpec option) result" where
  "resolveDestinationVRF asSel l2a data =
     (if l2as_Destinations (l2a_Spec l2a) = None then Inr None
      else case asSel (l2as_Destinations (l2a_Spec l2a)) of
        Inl err \<Rightarrow> Inl (Wrap ''invalid destination selector'' err)
      | Inr selector \<Rightarrow> Inr (case List.map_filter (\<lambda>rd.
            if selector (om_Labels rd) then
              (case gm_get (d_Destinations data) (om_Name rd) of None \<Rightarrow> None | Some r \<Rightarrow> rdst_VRFSpec r)
            else None) (d_RawDestinations data) of [] \<Rightarrow> None | v # _ \<Rightarrow> Some v))"

definition vlanID :: "ResolvedNetwork \<Rightarrow> int" where
  "vlanID net = (case nws_VLAN (rn_Spec net) of Some v \<Rightarrow> v | None \<Rightarrow> 0)"

definition vniValue :: "ResolvedNetwork \<Rightarrow> int" where
  "vniValue net = (case nws_VNI (rn_Spec net) of Some v \<Rightarrow> v | None \<Rightarrow> 0)"

definition l2aMtu :: "Layer2Attachment \<Rightarrow> u16" where
  "l2aMtu l2a = (case l2as_MTU (l2a_Spec l2a) of Some m \<Rightarrow> word_of_int m | None \<Rightarrow> defaultMTU)"

definition routeTarget :: "ResolvedNetwork \<Rightarrow> VRFSpec option \<Rightarrow> string" where
  "routeTarget net vrfSpec = ''''"

fun ipmathError :: "ipmath_error \<Rightarrow> GoError" where
  "ipmathError (InvalidCIDR c) = Wrap (''invalid CIDR '' @ quoted c) (ErrorString '''')"
| "ipmathError (NoUsableHost c) =
     ErrorString (''cannot derive gateway for CIDR '' @ quoted c @ '': no usable host address in prefix'')"
| "ipmathError (OnlyBroadcast c) =
     ErrorString (''cannot derive gateway for CIDR '' @ quoted c @ '': only the broadcast address is available'')"

definition irbGateway :: "ResolvedNetwork \<Rightarrow> string \<Rightarrow> IPNetwork option \<Rightarrow> (GoError, string list) result" where
  "irbGateway net fam n =
     (case n of None \<Rightarrow> Inr []
      | Some x \<Rightarrow> (case GatewayCIDR (ipn_CIDR x) of
           Inl err \<Rightarrow> Inl (Wrap (''network '' @ quoted (rn_Name net) @ '' '' @ fam @ '' CIDR'') (ipmathError err))
         | Inr gw \<Rightarrow> Inr [gw]))"

definition buildIRB :: "ResolvedNetwork \<Rightarrow> string \<Rightarrow> (GoError, IRB) result" where
  "buildIRB net vrfName =
     ebind (irbGateway net ''IPv4'' (nws_IPv4 (rn_Spec net))) (\<lambda>v4.
     ebind (irbGateway net ''IPv6'' (nws_IPv6 (rn_Spec net))) (\<lambda>v6.
     if v4 @ v6 = [] then Inl (ErrorString (''network '' @ quoted (rn_Name net) @ '' has no IP address pools for IRB''))
     else Inr \<lparr>irb_VRF = vrfName, irb_MACAddress = ''00:00:5e:00:01:01'', irb_IPAddresses = v4 @ v6\<rparr>))"

definition buildLayer2 ::
  "Layer2Attachment \<Rightarrow> ResolvedNetwork \<Rightarrow> VRFSpec option \<Rightarrow> (GoError, Layer2 option) result" where
  "buildLayer2 l2a net vrf =
     (let rt = routeTarget net vrf; vrfName = (case vrf of Some v \<Rightarrow> vrfs_VRF v | None \<Rightarrow> '''') in
      if rt \<noteq> '''' \<and> (case vrf of Some v \<Rightarrow> vrfs_RouteTarget v = Some rt | None \<Rightarrow> False)
      then Inl (ErrorString (''L2 VNI route target '' @ quoted rt @ '' must not equal VRF '' @ quoted vrfName @
        '' route target''))
      else if nws_VNI (rn_Spec net) = None then
        (if \<not> isSet (l2as_InterfaceRef (l2a_Spec l2a))
         then Inl (ErrorString ''network has no VNI (pure L2 mode) but interfaceRef is not set'') else Inr None)
      else if nws_VLAN (rn_Spec net) = None then
        Inl (ErrorString (''network has VNI '' @ itoa (vniValue net) @ '' but no VLAN''))
      else if isSet (l2as_InterfaceRef (l2a_Spec l2a)) then
        Inl (ErrorString ''interfaceRef is set but Network has a VNI (HBN mode)'')
      else
        let layer2 = zeroLayer2\<lparr>l2_VNI := word_of_int (vniValue net), l2_VLAN := word_of_int (vlanID net),
              l2_RouteTarget := rt, l2_MTU := l2aMtu l2a\<rparr> in
        if vrfName \<noteq> '''' \<and> l2as_DisableAnycast (l2a_Spec l2a) \<noteq> Some True then
          (case buildIRB net vrfName of
             Inl err \<Rightarrow> Inl (SkipReasonError reasonInvalidIRBGateway err)
           | Inr irb \<Rightarrow> Inr (Some (layer2\<lparr>l2_IRB := Some irb\<rparr>)))
        else Inr (Some layer2))"

section \<open>Ownership\<close>

definition netplanMapKey :: "int \<Rightarrow> Layer2Attachment \<Rightarrow> string" where
  "netplanMapKey vlan l2a =
     (if vlan \<noteq> 0 then itoa vlan
      else if isSet (l2as_InterfaceRef (l2a_Spec l2a)) then ''eth:'' @ orBlank (l2as_InterfaceRef (l2a_Spec l2a))
      else ''0'')"

definition netplanClaimName :: "ResolvedNetwork \<Rightarrow> Layer2Attachment \<Rightarrow> string" where
  "netplanClaimName net l2a =
     (case nws_VLAN (rn_Spec net) of
        None \<Rightarrow> if isSet (l2as_InterfaceRef (l2a_Spec l2a)) then orBlank (l2as_InterfaceRef (l2a_Spec l2a)) else ''''
      | Some v \<Rightarrow> if isSet (l2as_InterfaceName (l2a_Spec l2a)) then orBlank (l2as_InterfaceName (l2a_Spec l2a))
          else ''vlan.'' @ itoa v)"

record claim =
  clm_key :: string
  clm_what :: string
  clm_node :: string

definition slotKey :: "string \<Rightarrow> string \<Rightarrow> string" where
  "slotKey n mapKey = n @ [CHR 0x00] @ ''slot'' @ [CHR 0x00] @ mapKey"

definition devKey :: "string \<Rightarrow> string \<Rightarrow> string" where
  "devKey n devName = n @ [CHR 0x00] @ ''dev'' @ [CHR 0x00] @ devName"

definition ownershipClaims :: "Node list \<Rightarrow> string \<Rightarrow> string \<Rightarrow> claim list" where
  "ownershipClaims nodes mapKey devName = concat (map (\<lambda>node. let n = om_Name node in
     \<lparr>clm_key = slotKey n mapKey, clm_what = ''netplan slot '' @ mapKey, clm_node = n\<rparr> #
     (if devName = '''' then []
      else [\<lparr>clm_key = devKey n devName, clm_what = ''interface '' @ devName, clm_node = n\<rparr>])) nodes)"

section \<open>Netplan devices\<close>

definition validNextHops :: "NextHopConfig \<Rightarrow> string \<times> string" where
  "validNextHops nh =
     (case nhc_IPv4 nh of Some s \<Rightarrow> (case ParseIP s of Some ip \<Rightarrow> if To4 ip \<noteq> None then s else '''' | None \<Rightarrow> '''') | None \<Rightarrow> '''',
      case nhc_IPv6 nh of Some s \<Rightarrow> (case ParseIP s of Some ip \<Rightarrow> if To4 ip = None then s else '''' | None \<Rightarrow> '''') | None \<Rightarrow> '''')"

definition prefixRoute :: "string \<Rightarrow> string \<Rightarrow> string \<Rightarrow> NetplanRoute option" where
  "prefixRoute pfx v4 v6 =
     (case ParseCIDR pfx of None \<Rightarrow> None
      | Some (_, ipNet) \<Rightarrow>
        let via = (if To4 (net_IP ipNet) = None then v6 else v4) in
        if via = '''' then None else Some \<lparr>npr_To = pfx, npr_Via = via\<rparr>)"

text \<open>The routes of one destination, in the order of its prefixes.\<close>

definition routesOf :: "ResolvedData \<Rightarrow> (labelSet \<Rightarrow> bool) \<Rightarrow> Destination \<Rightarrow> NetplanRoute list" where
  "routesOf data selector dest =
     (if \<not> selector (om_Labels dest) then []
      else case gm_get (d_Destinations data) (om_Name dest) of
        None \<Rightarrow> []
      | Some r \<Rightarrow> (case dsts_NextHop (rdst_Spec r) of
           None \<Rightarrow> []
         | Some nh \<Rightarrow> (let (v4, v6) = validNextHops nh in
             List.map_filter (\<lambda>p. prefixRoute p v4 v6) (dsts_Prefixes (rdst_Spec r)))))"

fun addRoutes :: "NetplanRoute list \<Rightarrow> NetplanRoute list \<Rightarrow> NetplanRoute list" where
  "addRoutes [] seen = seen"
| "addRoutes (r # rs) seen = addRoutes rs (if r \<in> set seen then seen else seen @ [r])"

definition routeKey :: "NetplanRoute \<Rightarrow> string \<times> string" where
  "routeKey r = (npr_To r, npr_Via r)"

definition destinationRoutes ::
  "asSelector \<Rightarrow> Layer2Attachment \<Rightarrow> ResolvedData \<Rightarrow> (GoError, NetplanRoute list) result" where
  "destinationRoutes asSel l2a data =
     (if l2as_Destinations (l2a_Spec l2a) = None then Inr []
      else case asSel (l2as_Destinations (l2a_Spec l2a)) of
        Inl err \<Rightarrow> Inl (Wrap ''invalid destinations selector'' err)
      | Inr selector \<Rightarrow>
          Inr (sort_key routeKey (fold (\<lambda>d. addRoutes (routesOf data selector d)) (d_RawDestinations data) [])))"

definition nodeIPFamily :: "IPNetwork option \<Rightarrow> string list \<Rightarrow> string list \<times> string list" where
  "nodeIPFamily fam ips =
     (case fam of None \<Rightarrow> ([], [])
      | Some n \<Rightarrow>
        let (gw, len) = ParseCIDRParts (ipn_CIDR n) in
        if ips = [] \<or> gw = '''' then ([], []) else (map (\<lambda>ip. ip @ ''/'' @ len) ips, [gw]))"

definition buildNetplanNodeIP :: "Layer2Attachment \<Rightarrow> ResolvedNetwork \<Rightarrow> string \<Rightarrow> (string list \<times> string list) option" where
  "buildNetplanNodeIP l2a nw nodeName =
     (case gm_get (l2ast_NodeAddresses (l2a_Status l2a)) nodeName of
        None \<Rightarrow> None
      | Some alloc \<Rightarrow>
        let (a4, g4) = nodeIPFamily (nws_IPv4 (rn_Spec nw)) (aa_IPv4 alloc);
            (a6, g6) = nodeIPFamily (nws_IPv6 (rn_Spec nw)) (aa_IPv6 alloc) in
        if a4 @ a6 = [] then None else Some (a4 @ a6, g4 @ g6))"

definition netplanDeviceEmpty :: "NetplanNodeIP \<Rightarrow> bool \<Rightarrow> bool \<Rightarrow> bool" where
  "netplanDeviceEmpty dev tagged hasMTUOverride =
     (let hasPayload = (npi_Addresses dev \<noteq> [] \<or> npi_Gateways dev \<noteq> [] \<or> npi_Routes dev \<noteq> []) in
      if \<not> tagged \<and> \<not> hasPayload \<and> \<not> hasMTUOverride then True
      else npi_InterfaceName dev = '''' \<and> npi_InterfaceRef dev = '''' \<and> \<not> hasPayload)"

definition buildNetplanDevice ::
  "Layer2Attachment \<Rightarrow> ResolvedNetwork \<Rightarrow> string \<Rightarrow> NetplanRoute list \<Rightarrow> NetplanNodeIP option" where
  "buildNetplanDevice l2a nw nodeName routes =
     (let sp = l2a_Spec l2a; tagged = (nws_VLAN (rn_Spec nw) \<noteq> None);
          ips = (case l2as_NodeIPs sp of Some c \<Rightarrow> if nip_Enabled c then buildNetplanNodeIP l2a nw nodeName else None
                 | None \<Rightarrow> None);
          dev = \<lparr>npi_VLAN = (case nws_VLAN (rn_Spec nw) of Some v \<Rightarrow> word_of_int v | None \<Rightarrow> 0),
                 npi_MTU = (case l2as_MTU sp of Some m \<Rightarrow> word_of_int m | None \<Rightarrow> if tagged then defaultMTU else 0),
                 npi_Addresses = (case ips of Some (a, _) \<Rightarrow> a | None \<Rightarrow> []),
                 npi_Gateways = (case ips of Some (_, g) \<Rightarrow> g | None \<Rightarrow> []),
                 npi_Routes = routes,
                 npi_InterfaceName = orBlank (l2as_InterfaceName sp), npi_InterfaceRef = orBlank (l2as_InterfaceRef sp)\<rparr> in
      if netplanDeviceEmpty dev tagged (l2as_MTU sp \<noteq> None) then None else Some dev)"

section \<open>Applying an attachment\<close>

definition applyVRFContrib ::
  "ResolvedNetwork \<Rightarrow> VRFSpec \<Rightarrow> AnnouncementPolicy option \<Rightarrow> NodeContribution \<Rightarrow> NodeContribution" where
  "applyVRFContrib net vrfSpec ap contrib =
     (let vrfName = vrfs_VRF vrfSpec;
          fvrf = (case gm_get (ct_FabricVRFs contrib) vrfName of Some f \<Rightarrow> f | None \<Rightarrow> buildFabricVRF vrfSpec) in
      contrib\<lparr>ct_FabricVRFs := gm_put vrfName
        (addAggregateRoutes (addNetworkToFabricVRF fvrf net ap) net ap) (ct_FabricVRFs contrib)\<rparr>)"

text \<open>The mutation phase for one node.\<close>

definition applyL2AToNode ::
  "Layer2Attachment \<Rightarrow> ResolvedNetwork \<Rightarrow> VRFSpec option \<Rightarrow> string \<Rightarrow> Layer2 option \<Rightarrow> AnnouncementPolicy option \<Rightarrow>
   NetplanRoute list \<Rightarrow> string \<Rightarrow> NodeContribution \<Rightarrow> NodeContribution" where
  "applyL2AToNode l2a net vrf mapKey layer2 ap routes nodeName c =
     (let c = (case layer2 of Some l \<Rightarrow> c\<lparr>ct_Layer2s := gm_put mapKey l (ct_Layer2s c)\<rparr> | None \<Rightarrow> c);
          c = (case buildNetplanDevice l2a net nodeName routes of
                 Some dev \<Rightarrow> c\<lparr>ct_NetplanNodeIPs := gm_put mapKey dev (ct_NetplanNodeIPs c)\<rparr> | None \<Rightarrow> c) in
      case vrf of Some v \<Rightarrow> if vrfs_VRF v = '''' then c else applyVRFContrib net v ap c | None \<Rightarrow> c)"

text \<open>The announcement policy, which is looked up only for an attachment with a VRF.\<close>

definition l2aPolicy ::
  "asSelector \<Rightarrow> Layer2Attachment \<Rightarrow> VRFSpec option \<Rightarrow> ResolvedData \<Rightarrow> (GoError, AnnouncementPolicy option) result" where
  "l2aPolicy asSel l2a vrf data =
     (case vrf of Some v \<Rightarrow> if vrfs_VRF v = '''' then Inr None
        else findMatchingAP asSel (om_Labels l2a) (vrfs_VRF v) data | None \<Rightarrow> Inr None)"

definition applyL2AToNodes ::
  "asSelector \<Rightarrow> Layer2Attachment \<Rightarrow> ResolvedNetwork \<Rightarrow> VRFSpec option \<Rightarrow> ResolvedData \<Rightarrow> L2aState \<Rightarrow>
   GoError option \<times> L2aState" where
  "applyL2AToNodes asSel l2a net vrf data st =
     (let mapKey = netplanMapKey (vlanID net) l2a; tag = ''Layer2Attachment '' @ quoted (om_Name l2a) in
      case matchNodes asSel (d_Nodes data) (l2as_NodeSelector (l2a_Spec l2a)) of
        Inl err \<Rightarrow> (Some (Wrap (tag @ '' node selector error'') err), st)
      | Inr nodes \<Rightarrow>
      case buildLayer2 l2a net vrf of
        Inl err \<Rightarrow> (Some (Wrap (tag @ '' config build failed'') err), st)
      | Inr layer2 \<Rightarrow>
      case l2aPolicy asSel l2a vrf data of
        Inl err \<Rightarrow> (Some (Wrap tag err), st)
      | Inr ap \<Rightarrow>
      let claims = ownershipClaims nodes mapKey (netplanClaimName net l2a) in
      case find (\<lambda>c. gm_has (ls_ifOwner st) (clm_key c)) claims of
        Some c \<Rightarrow> (Some (ErrorString (''Layer2Attachments '' @ quoted (orBlank (gm_get (ls_ifOwner st) (clm_key c))) @
            '' and '' @ quoted (om_Name l2a) @ '' both configure '' @ clm_what c @ '' on node '' @ quoted (clm_node c))), st)
      | None \<Rightarrow>
      case destinationRoutes asSel l2a data of
        Inl err \<Rightarrow> (Some (Wrap tag err), st)
      | Inr routes \<Rightarrow>
        (None, st\<lparr>ls_ifOwner := fold (\<lambda>c. gm_put (clm_key c) (om_Name l2a)) claims (ls_ifOwner st),
                  ls_result := fold (\<lambda>n. updateContrib (om_Name n)
                    (applyL2AToNode l2a net vrf mapKey layer2 ap routes (om_Name n))) nodes (ls_result st)\<rparr>))"

text \<open>The body of the loop of \<open>Build\<close>: an attachment that cannot be applied is reported and skipped.\<close>

definition buildL2AStep :: "asSelector \<Rightarrow> ResolvedData \<Rightarrow> Layer2Attachment \<Rightarrow> L2aState \<Rightarrow> L2aState" where
  "buildL2AStep asSel data l2a st =
     (case gm_get (d_Networks data) (l2as_NetworkRef (l2a_Spec l2a)) of
        None \<Rightarrow> st
      | Some net \<Rightarrow>
        let skip = (\<lambda>err st. st\<lparr>ls_issues :=
              reportSkip ''Layer2Attachment'' l2a (skipReason err) (errorText err) (ls_issues st)\<rparr>) in
        case resolveDestinationVRF asSel l2a data of
          Inl err \<Rightarrow> skip err st
        | Inr vrf \<Rightarrow>
          (case applyL2AToNodes asSel l2a net vrf data st of
             (Some err, st') \<Rightarrow> skip err st'
           | (None, st') \<Rightarrow> st'))"

definition buildL2A :: "asSelector \<Rightarrow> ResolvedData \<Rightarrow> BuildIssue list \<Rightarrow> contributions \<times> BuildIssue list" where
  "buildL2A asSel data issues =
     (let st = fold (buildL2AStep asSel data) (d_Layer2Attachments data)
        \<lparr>ls_result = [], ls_ifOwner = [], ls_issues = issues\<rparr> in (ls_result st, ls_issues st))"

end
