(* ===== verification/L2a_Admission.thy ===== *)
theory L2a_Admission
  imports Build_L2a
begin

text \<open>
  The specification that \<open>l2a.go\<close> promises, and that the builder refines it. Two attachments may
  not configure the same netplan slot or the same device of a node; the first one in list order
  gets it and the other is skipped as a whole. \<open>planL2A\<close> is what one attachment asks for, without
  regard to the others; \<open>admit\<close> gives the slots out, first come first served. The lemmas show that
  the builder with its ownership map, its early returns and its in-place updates configures
  exactly the admitted plans, and reports exactly the others.

  The locale \<open>owned_writes\<close> is the argument that ownership makes: when a plan writes only into
  cells it has claimed and claims are disjoint, what a cell holds at the end is what its one owner
  wrote. It is interpreted for the layer-2 segments and for the netplan devices of a node.
\<close>

record l2aPlan =
  lp_l2a :: Layer2Attachment
  lp_net :: ResolvedNetwork
  lp_vrf :: "VRFSpec option"
  lp_nodes :: "Node list"
  lp_layer2 :: "Layer2 option"
  lp_ap :: "AnnouncementPolicy option"
  lp_routes :: "NetplanRoute list"

definition planKey :: "l2aPlan \<Rightarrow> string" where
  "planKey p = netplanMapKey (vlanID (lp_net p)) (lp_l2a p)"

definition planClaims :: "l2aPlan \<Rightarrow> claim list" where
  "planClaims p = ownershipClaims (lp_nodes p) (planKey p) (netplanClaimName (lp_net p) (lp_l2a p))"

definition claimKeys :: "l2aPlan \<Rightarrow> string list" where
  "claimKeys p = map clm_key (planClaims p)"

definition applyPlanToNode :: "l2aPlan \<Rightarrow> string \<Rightarrow> NodeContribution \<Rightarrow> NodeContribution" where
  "applyPlanToNode p =
     applyL2AToNode (lp_l2a p) (lp_net p) (lp_vrf p) (planKey p) (lp_layer2 p) (lp_ap p) (lp_routes p)"

definition applyPlan :: "l2aPlan \<Rightarrow> contributions \<Rightarrow> contributions" where
  "applyPlan p = fold (\<lambda>n. updateContrib (om_Name n) (applyPlanToNode p (om_Name n))) (lp_nodes p)"

definition planL2A :: "asSelector \<Rightarrow> ResolvedData \<Rightarrow> Layer2Attachment \<Rightarrow> (GoError, l2aPlan) result" where
  "planL2A asSel data l2a =
     (case gm_get (d_Networks data) (l2as_NetworkRef (l2a_Spec l2a)) of
        None \<Rightarrow> Inl (ErrorString ''unknown network'')
      | Some net \<Rightarrow>
        ebind (resolveDestinationVRF asSel l2a data) (\<lambda>vrf.
        ebind (matchNodes asSel (d_Nodes data) (l2as_NodeSelector (l2a_Spec l2a))) (\<lambda>nodes.
        ebind (buildLayer2 l2a net vrf) (\<lambda>layer2.
        ebind (l2aPolicy asSel l2a vrf data) (\<lambda>ap.
        ebind (destinationRoutes asSel l2a data) (\<lambda>routes.
        Inr \<lparr>lp_l2a = l2a, lp_net = net, lp_vrf = vrf, lp_nodes = nodes, lp_layer2 = layer2, lp_ap = ap,
             lp_routes = routes\<rparr>))))))"

fun admit :: "(GoError, l2aPlan) result list \<Rightarrow> string set \<Rightarrow> l2aPlan list" where
  "admit [] taken = []"
| "admit (Inl err # ps) taken = admit ps taken"
| "admit (Inr p # ps) taken =
     (if set (claimKeys p) \<inter> taken = {} then p # admit ps (set (claimKeys p) \<union> taken) else admit ps taken)"

definition admitted :: "asSelector \<Rightarrow> ResolvedData \<Rightarrow> l2aPlan list" where
  "admitted asSel data = admit (map (planL2A asSel data) (d_Layer2Attachments data)) {}"

section \<open>Disjoint claims\<close>

lemma admit_disjoint:
  "sorted_wrt (\<lambda>p q. set (claimKeys p) \<inter> set (claimKeys q) = {}) (admit ps taken) \<and>
   (\<forall>p \<in> set (admit ps taken). set (claimKeys p) \<inter> taken = {})"
  by (induction ps taken rule: admit.induct) auto

locale owned_writes =
  fixes claims :: "'p \<Rightarrow> 'k set" and key :: "'c \<Rightarrow> 'k" and covers :: "'p \<Rightarrow> 'c \<Rightarrow> bool"
    and writes :: "'p \<Rightarrow> 'c \<Rightarrow> 'v option" and put :: "'p \<Rightarrow> 's \<Rightarrow> 's" and read :: "'s \<Rightarrow> 'c \<Rightarrow> 'v option"
  assumes covers_claims: "covers p c \<Longrightarrow> key c \<in> claims p"
    and read_put: "read (put p s) c =
      (if covers p c then case writes p c of Some v \<Rightarrow> Some v | None \<Rightarrow> read s c else read s c)"
begin

lemma read_uncovered: "\<forall>p \<in> set ps. \<not> covers p c \<Longrightarrow> read (fold put ps s) c = read s c"
  by (induction ps arbitrary: s) (simp_all add: read_put)

lemma read_owned:
  assumes "sorted_wrt (\<lambda>p q. claims p \<inter> claims q = {}) ps" and "read s c = None"
  shows "read (fold put ps s) c = Option.bind (find (\<lambda>p. covers p c) ps) (\<lambda>p. writes p c)"
  using assms
proof (induction ps arbitrary: s)
  case (Cons p ps)
  show ?case
  proof (cases "covers p c")
    case True
    then have "\<forall>q \<in> set ps. \<not> covers q c"
      using Cons.prems(1) covers_claims by fastforce
    then show ?thesis
      using True Cons.prems(2) by (simp add: read_uncovered read_put split: option.split)
  qed (use Cons in \<open>simp add: read_put\<close>)
qed simp

end

section \<open>Segments and devices\<close>

definition segmentAt :: "contributions \<Rightarrow> string \<times> string \<Rightarrow> Layer2 option" where
  "segmentAt result c = (case gm_get result (fst c) of Some ct \<Rightarrow> gm_get (ct_Layer2s ct) (snd c) | None \<Rightarrow> None)"

definition deviceAt :: "contributions \<Rightarrow> string \<times> string \<Rightarrow> NetplanNodeIP option" where
  "deviceAt result c =
     (case gm_get result (fst c) of Some ct \<Rightarrow> gm_get (ct_NetplanNodeIPs ct) (snd c) | None \<Rightarrow> None)"

definition planCovers :: "l2aPlan \<Rightarrow> string \<times> string \<Rightarrow> bool" where
  "planCovers p c \<longleftrightarrow> fst c \<in> om_Name ` set (lp_nodes p) \<and> snd c = planKey p"

definition planDevice :: "l2aPlan \<Rightarrow> string \<times> string \<Rightarrow> NetplanNodeIP option" where
  "planDevice p c = buildNetplanDevice (lp_l2a p) (lp_net p) (fst c) (lp_routes p)"

lemma applyVRFContrib_simps [simp]:
  "ct_Layer2s (applyVRFContrib net v ap c) = ct_Layer2s c"
  "ct_NetplanNodeIPs (applyVRFContrib net v ap c) = ct_NetplanNodeIPs c"
  by (simp_all add: applyVRFContrib_def Let_def)

lemma ct_Layer2s_apply:
  "ct_Layer2s (applyPlanToNode p n c) =
     (case lp_layer2 p of Some l \<Rightarrow> gm_put (planKey p) l (ct_Layer2s c) | None \<Rightarrow> ct_Layer2s c)"
  by (simp add: applyPlanToNode_def applyL2AToNode_def Let_def split: option.split)

lemma ct_NetplanNodeIPs_apply:
  "ct_NetplanNodeIPs (applyPlanToNode p n c) =
     (case buildNetplanDevice (lp_l2a p) (lp_net p) n (lp_routes p) of
        Some d \<Rightarrow> gm_put (planKey p) d (ct_NetplanNodeIPs c) | None \<Rightarrow> ct_NetplanNodeIPs c)"
  by (simp add: applyPlanToNode_def applyL2AToNode_def Let_def split: option.split)

lemma ensureContrib_segment: "gm_get (ct_Layer2s (ensureContrib r n)) k = segmentAt r (n, k)"
  by (simp add: ensureContrib_def segmentAt_def NewNodeContribution_def split: option.split)

lemma ensureContrib_device: "gm_get (ct_NetplanNodeIPs (ensureContrib r n)) k = deviceAt r (n, k)"
  by (simp add: ensureContrib_def deviceAt_def NewNodeContribution_def split: option.split)

lemma segmentAt_update:
  "segmentAt (updateContrib n (applyPlanToNode p n) r) c =
     (if c = (n, planKey p) then (case lp_layer2 p of Some l \<Rightarrow> Some l | None \<Rightarrow> segmentAt r c) else segmentAt r c)"
  by (cases c) (auto simp: updateContrib_def segmentAt_def ct_Layer2s_apply gomap_simps ensureContrib_segment
      split: option.split)

lemma deviceAt_update:
  "deviceAt (updateContrib n (applyPlanToNode p n) r) c =
     (if c = (n, planKey p) then (case planDevice p c of Some d \<Rightarrow> Some d | None \<Rightarrow> deviceAt r c) else deviceAt r c)"
  by (cases c) (auto simp: updateContrib_def deviceAt_def planDevice_def ct_NetplanNodeIPs_apply gomap_simps
      ensureContrib_device split: option.split)

lemma planCovers_claims: "planCovers p c \<Longrightarrow> slotKey (fst c) (snd c) \<in> set (claimKeys p)"
  by (force simp: planCovers_def claimKeys_def planClaims_def ownershipClaims_def Let_def)

lemma segmentAt_fold:
  "segmentAt (fold (\<lambda>n. updateContrib (om_Name n) (applyPlanToNode p (om_Name n))) ns r) c =
     (if fst c \<in> om_Name ` set ns \<and> snd c = planKey p
      then case lp_layer2 p of Some l \<Rightarrow> Some l | None \<Rightarrow> segmentAt r c else segmentAt r c)"
  by (induction ns arbitrary: r) (auto simp: segmentAt_update prod_eq_iff split: option.split)

lemma deviceAt_fold:
  "deviceAt (fold (\<lambda>n. updateContrib (om_Name n) (applyPlanToNode p (om_Name n))) ns r) c =
     (if fst c \<in> om_Name ` set ns \<and> snd c = planKey p
      then case planDevice p c of Some d \<Rightarrow> Some d | None \<Rightarrow> deviceAt r c else deviceAt r c)"
  by (induction ns arbitrary: r) (auto simp: deviceAt_update prod_eq_iff split: option.split)

interpretation seg: owned_writes "\<lambda>p. set (claimKeys p)" "\<lambda>c. slotKey (fst c) (snd c)" planCovers
  "\<lambda>p c. lp_layer2 p" applyPlan segmentAt
  by unfold_locales (rule planCovers_claims, assumption, simp add: applyPlan_def segmentAt_fold planCovers_def)

interpretation dev: owned_writes "\<lambda>p. set (claimKeys p)" "\<lambda>c. slotKey (fst c) (snd c)" planCovers
  planDevice applyPlan deviceAt
  by unfold_locales (rule planCovers_claims, assumption, simp add: applyPlan_def deviceAt_fold planCovers_def)

section \<open>The builder refines the specification\<close>

text \<open>
  The step of the builder: a plan is applied when no claim of it is taken, which is recorded in
  \<open>ifOwner\<close>; in every other case of a known network one issue is reported and nothing else changes.
\<close>

definition knownNetwork :: "ResolvedData \<Rightarrow> Layer2Attachment \<Rightarrow> bool" where
  "knownNetwork data l2a \<longleftrightarrow> gm_has (d_Networks data) (l2as_NetworkRef (l2a_Spec l2a))"

definition skipped :: "Layer2Attachment \<Rightarrow> L2aState \<Rightarrow> L2aState \<Rightarrow> bool" where
  "skipped l2a st st' \<longleftrightarrow> (\<exists>i. bi_Kind i = ''Layer2Attachment'' \<and> bi_Name i = om_Name l2a \<and>
     bi_Namespace i = om_Namespace l2a \<and> st' = st\<lparr>ls_issues := ls_issues st @ [i]\<rparr>)"

definition taken :: "L2aState \<Rightarrow> string set" where
  "taken st = {k. gm_has (ls_ifOwner st) k}"

lemma skippedI: "skipped l2a st (st\<lparr>ls_issues := reportSkip ''Layer2Attachment'' l2a r m (ls_issues st)\<rparr>)"
  unfolding skipped_def reportSkip_def
  by (rule exI [where x = "\<lparr>bi_Kind = ''Layer2Attachment'', bi_Namespace = om_Namespace l2a,
        bi_Name = om_Name l2a, bi_Reason = r, bi_Message = m\<rparr>"]) simp

lemma find_None_claims:
  "find (\<lambda>c. gm_has m (clm_key c)) cs = None \<longleftrightarrow> set (map clm_key cs) \<inter> {k. gm_has m k} = {}"
  by (auto simp: find_None_iff)

lemma gm_has_fold_put: "gm_has (fold (\<lambda>c. gm_put (clm_key c) v) cs m) k \<longleftrightarrow> k \<in> clm_key ` set cs \<or> gm_has m k"
  by (induction cs arbitrary: m) (auto simp: gm_has_def gomap_simps)

lemma step_admitted:
  assumes "planL2A asSel data l2a = Inr p" and "set (claimKeys p) \<inter> taken st = {}"
  shows "\<exists>st'. buildL2AStep asSel data l2a st = st' \<and> ls_result st' = applyPlan p (ls_result st) \<and>
    ls_issues st' = ls_issues st \<and> taken st' = set (claimKeys p) \<union> taken st"
proof -
  have nc: "find (\<lambda>c. gm_has (ls_ifOwner st) (clm_key c)) (planClaims p) = None"
    using assms(2) by (simp add: find_None_claims claimKeys_def taken_def)
  then show ?thesis
    using assms(1)
    by (auto simp: planL2A_def buildL2AStep_def applyL2AToNodes_def ebind_eq_Inr planClaims_def planKey_def
        applyPlan_def applyPlanToNode_def claimKeys_def taken_def gm_has_fold_put Let_def
        split: option.splits)
qed

lemma step_error:
  assumes "planL2A asSel data l2a = Inl err"
  shows "if knownNetwork data l2a then skipped l2a st (buildL2AStep asSel data l2a st)
         else buildL2AStep asSel data l2a st = st"
  using assms
  by (auto simp: planL2A_def buildL2AStep_def applyL2AToNodes_def ebind_def Let_def skippedI knownNetwork_def gm_has_def
      split: option.splits sum.splits if_splits)

lemma step_conflict:
  assumes p: "planL2A asSel data l2a = Inr p" and "set (claimKeys p) \<inter> taken st \<noteq> {}"
  shows "knownNetwork data l2a \<and> skipped l2a st (buildL2AStep asSel data l2a st)"
proof -
  obtain c where "find (\<lambda>c. gm_has (ls_ifOwner st) (clm_key c)) (planClaims p) = Some c"
    using assms(2) find_None_claims [of "ls_ifOwner st" "planClaims p"]
    by (auto simp: claimKeys_def taken_def)
  with p show ?thesis
    by (auto simp: planL2A_def buildL2AStep_def applyL2AToNodes_def ebind_eq_Inr planClaims_def planKey_def Let_def
        skippedI knownNetwork_def gm_has_def split: option.splits)
qed

lemma planL2A_known: "planL2A asSel data l2a = Inr p \<Longrightarrow> lp_l2a p = l2a \<and> knownNetwork data l2a"
  by (auto simp: planL2A_def knownNetwork_def gm_has_def ebind_eq_Inr split: option.splits)

text \<open>The attachments that the specification turns away.\<close>

fun rejected :: "asSelector \<Rightarrow> ResolvedData \<Rightarrow> Layer2Attachment list \<Rightarrow> string set \<Rightarrow> Layer2Attachment list" where
  "rejected asSel data [] t = []"
| "rejected asSel data (a # as) t =
     (case planL2A asSel data a of
        Inl err \<Rightarrow> (if knownNetwork data a then [a] else []) @ rejected asSel data as t
      | Inr p \<Rightarrow> if set (claimKeys p) \<inter> t = {} then rejected asSel data as (set (claimKeys p) \<union> t)
          else a # rejected asSel data as t)"

definition issueFor :: "Layer2Attachment \<Rightarrow> BuildIssue \<Rightarrow> bool" where
  "issueFor a i \<longleftrightarrow> bi_Kind i = ''Layer2Attachment'' \<and> bi_Name i = om_Name a \<and> bi_Namespace i = om_Namespace a"

lemma skippedD:
  "skipped a st st' \<Longrightarrow> ls_result st' = ls_result st \<and> taken st' = taken st \<and>
     (\<exists>i. issueFor a i \<and> ls_issues st' = ls_issues st @ [i])"
  by (auto simp: skipped_def taken_def issueFor_def)

lemma fold_step:
  "ls_result (fold (buildL2AStep asSel data) as st) =
     fold applyPlan (admit (map (planL2A asSel data) as) (taken st)) (ls_result st) \<and>
   (\<exists>is. ls_issues (fold (buildL2AStep asSel data) as st) = ls_issues st @ is \<and>
         list_all2 issueFor (rejected asSel data as (taken st)) is)"
proof (induction as arbitrary: st)
  case (Cons a as)
  let ?st = "buildL2AStep asSel data a st"
  show ?case
  proof (cases "planL2A asSel data a")
    case (Inl err)
    show ?thesis
    proof (cases "knownNetwork data a")
      case True
      then have "skipped a st ?st" using step_error [OF Inl, of st] by simp
      from skippedD [OF this] obtain i where
        "ls_result ?st = ls_result st" "taken ?st = taken st" "issueFor a i" "ls_issues ?st = ls_issues st @ [i]"
        by blast
      with Inl True Cons.IH [of ?st] show ?thesis by (auto simp: list_all2_Cons1)
    qed (use Inl step_error [OF Inl, of st] Cons.IH [of st] in simp)
  next
    case (Inr p)
    show ?thesis
    proof (cases "set (claimKeys p) \<inter> taken st = {}")
      case True
      with step_admitted [OF Inr] Inr Cons.IH [of ?st] show ?thesis by auto
    next
      case False
      from skippedD [OF conjunct2 [OF step_conflict [OF Inr False]]] obtain i where
        "ls_result ?st = ls_result st" "taken ?st = taken st" "issueFor a i" "ls_issues ?st = ls_issues st @ [i]"
        by blast
      with Inr False Cons.IH [of ?st] show ?thesis by (auto simp: list_all2_Cons1)
    qed
  qed
qed simp

lemma buildL2A_admitted: "fst (buildL2A asSel data issues) = fold applyPlan (admitted asSel data) []"
  using fold_step [of asSel data "d_Layer2Attachments data" "\<lparr>ls_result = [], ls_ifOwner = [], ls_issues = issues\<rparr>"]
  by (simp add: buildL2A_def admitted_def Let_def taken_def gm_has_def)

lemma admit_rejected_partition:
  "mset (map lp_l2a (admit (map (planL2A asSel data) as) t)) + mset (rejected asSel data as t) =
     filter_mset (knownNetwork data) (mset as)"
proof (induction as arbitrary: t)
  case (Cons a as)
  show ?case
  proof (cases "planL2A asSel data a")
    case (Inr p)
    with planL2A_known [OF Inr] Cons.IH show ?thesis by simp
  qed (use Cons.IH in simp)
qed simp

text \<open>
  C2. Refinement of the ownership specification. The builder hands the netplan slots and the
  devices of the nodes out first come first served: for every node and every key, the segment
  and the device that the builder configures are those of the first admitted attachment that
  covers the slot, whole and never overwritten by a later attachment, and no two admitted
  attachments share a claim.
\<close>

theorem buildL2A_refines:
  "segmentAt (fst (buildL2A asSel data issues)) (n, k) =
     Option.bind (find (\<lambda>p. planCovers p (n, k)) (admitted asSel data)) lp_layer2 \<and>
   deviceAt (fst (buildL2A asSel data issues)) (n, k) =
     Option.bind (find (\<lambda>p. planCovers p (n, k)) (admitted asSel data)) (\<lambda>p. planDevice p (n, k)) \<and>
   sorted_wrt (\<lambda>p q. set (claimKeys p) \<inter> set (claimKeys q) = {}) (admitted asSel data)"
proof -
  have dis: "sorted_wrt (\<lambda>p q. set (claimKeys p) \<inter> set (claimKeys q) = {}) (admitted asSel data)"
    using admit_disjoint unfolding admitted_def by blast
  have none: "segmentAt [] (n, k) = None" "deviceAt [] (n, k) = None"
    by (simp_all add: segmentAt_def deviceAt_def)
  show ?thesis
    unfolding buildL2A_admitted
    using dis seg.read_owned [OF dis none(1)] dev.read_owned [OF dis none(2)] by blast
qed

text \<open>
  C9. No attachment disappears silently. Every attachment whose network is known is either
  admitted or rejected, as often as it is listed, and the builder appends exactly one issue for
  each rejected one, in list order and with its kind, namespace and name; the issues that were
  there before stay.
\<close>

theorem buildL2A_reports:
  "mset (map lp_l2a (admitted asSel data)) + mset (rejected asSel data (d_Layer2Attachments data) {}) =
     filter_mset (knownNetwork data) (mset (d_Layer2Attachments data)) \<and>
   (\<exists>is. snd (buildL2A asSel data issues) = issues @ is \<and>
         list_all2 issueFor (rejected asSel data (d_Layer2Attachments data) {}) is)"
  using admit_rejected_partition [of asSel data "d_Layer2Attachments data" "{}"]
    fold_step [of asSel data "d_Layer2Attachments data" "\<lparr>ls_result = [], ls_ifOwner = [], ls_issues = issues\<rparr>"]
  by (simp add: buildL2A_def admitted_def Let_def taken_def gm_has_def)

end
