(* ===== verification/Intent_Status.thy ===== *)
theory Intent_Status
  imports L2a_Admission Kube_Client
begin

text \<open>
  \<open>pkg/reconciler/intent/status/status.go\<close>: the conditions of the intent resources after a pass.
  A function per kind says what is written into an object's status; a loop per kind writes it, with
  \<open>statusUpdateWithRetry\<close>, which fetches the object again after a conflict.

  Parameters: \<open>meta.SetStatusCondition\<close> of apimachinery (\<open>setCond\<close>) and the API (\<open>StatusClient\<close>: get
  the object with the key of the given one, update its status). \<open>finds_condition\<close> is what the
  documentation of \<open>SetStatusCondition\<close> says: afterwards the condition of that type has the given
  status, reason, message and generation, and the conditions of other types are as before. Error
  texts leave out the names they print.
\<close>

type_synonym setCondition = "Condition list \<Rightarrow> Condition \<Rightarrow> Condition list"
type_synonym condValue = "string \<times> string \<times> string"

definition findCondition :: "string \<Rightarrow> Condition list \<Rightarrow> Condition option" where
  "findCondition t cs = find (\<lambda>c. cond_Type c = t) cs"

definition finds_condition :: "setCondition \<Rightarrow> bool" where
  "finds_condition setCond \<longleftrightarrow> (\<forall>cs c t. if t = cond_Type c
     then (\<exists>d. findCondition t (setCond cs c) = Some d \<and> cond_Status d = cond_Status c \<and> cond_Reason d = cond_Reason c \<and>
            cond_Message d = cond_Message c \<and> cond_ObservedGeneration d = cond_ObservedGeneration c)
     else findCondition t (setCond cs c) = findCondition t cs)"

record ('s, 'o) StatusClient =
  sc_Get :: "'o \<Rightarrow> ('s, ApiError, 'o) io"
  sc_Update :: "'o \<Rightarrow> ('s, ApiError, 'o) io"

text \<open>\<open>n\<close> is the number of attempts that may follow.\<close>

fun statusAttempts :: "('s, 'o) StatusClient \<Rightarrow> ('o \<Rightarrow> 'o) \<Rightarrow> nat \<Rightarrow> 'o \<Rightarrow> ('s, GoError, unit) io" where
  "statusAttempts c applyStatus n obj =
     io_catch (sc_Update c (applyStatus obj))
       (\<lambda>err. if err \<noteq> ConflictErr then io_throw (Wrap ''updating status'' (ApiErr err))
         else case n of
             0 \<Rightarrow> io_throw (ErrorString ''status update conflict'')
           | Suc n \<Rightarrow> io_catch (sc_Get c (applyStatus obj)) (\<lambda>err. io_throw (Wrap ''re-fetching for status update'' (ApiErr err)))
               (statusAttempts c applyStatus n))
       (\<lambda>_. io_return ())"

definition statusUpdateWithRetry :: "('s, 'o) StatusClient \<Rightarrow> ('o \<Rightarrow> 'o) \<Rightarrow> 'o \<Rightarrow> ('s, GoError, unit) io" where
  "statusUpdateWithRetry c applyStatus obj = statusAttempts c applyStatus 2 obj"

section \<open>Build issues\<close>

definition IssueKey :: "string \<Rightarrow> string \<Rightarrow> string \<Rightarrow> string" where
  "IssueKey kind namespace name = kind @ ''/'' @ namespace @ ''/'' @ name"

text \<open>The map of \<open>ReconcileDebounced\<close> from keys to reason and message; a later issue replaces an earlier one.\<close>

definition issuesMap :: "BuildIssue list \<Rightarrow> (string, string \<times> string) gomap" where
  "issuesMap issues = fold (\<lambda>i. gm_put (IssueKey (bi_Kind i) (bi_Namespace i) (bi_Name i)) (bi_Reason i, bi_Message i)) issues []"

definition applyBuildIssue :: "(string, string \<times> string) gomap \<Rightarrow> string \<Rightarrow> 'a ObjectMeta_scheme \<Rightarrow> condValue \<Rightarrow> condValue" where
  "applyBuildIssue issues kind x cond =
     (case gm_get issues (IssueKey kind (om_Namespace x) (om_Name x)) of
        Some (reason, message) \<Rightarrow> (''False'', reason, message)
      | None \<Rightarrow> cond)"

section \<open>References\<close>

definition reasonAllResolved :: string where
  "reasonAllResolved = ''AllResolved''"

definition allResolved :: condValue where
  "allResolved = (''True'', reasonAllResolved, ''All references resolved'')"

definition checkNetworkRef :: "string \<Rightarrow> ResolvedData \<Rightarrow> condValue" where
  "checkNetworkRef networkRef resolved =
     (if gm_has (d_Networks resolved) networkRef then allResolved
      else (''False'', ''NetworkNotFound'', ''referenced Network '' @ quoted networkRef @ '' not found''))"

definition checkVRFRef :: "string option \<Rightarrow> ResolvedData \<Rightarrow> condValue" where
  "checkVRFRef vrfRef resolved =
     (case vrfRef of None \<Rightarrow> allResolved
      | Some v \<Rightarrow> if gm_has (d_VRFs resolved) v then allResolved
          else (''False'', ''VRFNotFound'', ''referenced VRF '' @ quoted v @ '' not found''))"

definition checkCollectorRef :: "string \<Rightarrow> ResolvedData \<Rightarrow> condValue" where
  "checkCollectorRef name resolved =
     (if name \<in> om_Name ` set (d_Collectors resolved) then allResolved
      else (''False'', ''CollectorNotFound'', ''referenced Collector '' @ quoted name @ '' not found''))"

definition layer2AttachmentExists :: "string \<Rightarrow> ResolvedData \<Rightarrow> bool" where
  "layer2AttachmentExists name resolved = list_ex (\<lambda>l. om_Name l = name) (d_Layer2Attachments resolved)"

definition inboundExists :: "string \<Rightarrow> ResolvedData \<Rightarrow> bool" where
  "inboundExists name resolved = list_ex (\<lambda>i. om_Name i = name) (d_Inbounds resolved)"

definition checkBGPPeeringRefs :: "NcBGPPeering \<Rightarrow> ResolvedData \<Rightarrow> condValue" where
  "checkBGPPeeringRefs bp resolved =
     (let ref = bps_Ref (bp_Spec bp); mode = bps_Mode (bp_Spec bp) in
      if mode = BGPPeeringModeListenRange then
        (case bpr_AttachmentRef ref of
           None \<Rightarrow> (''False'', ''AttachmentRefMissing'', ''listenRange mode requires attachmentRef'')
         | Some a \<Rightarrow>
           if \<not> layer2AttachmentExists a resolved then
             (''False'', ''AttachmentNotFound'', ''referenced Layer2Attachment '' @ quoted a @ '' not found'')
           else if bpr_NetworkRefs ref = [] then
             (''False'', ''NetworkRefsMissing'', ''listenRange mode requires at least one networkRef'')
           else case find (\<lambda>r. \<not> gm_has (d_Networks resolved) r) (bpr_NetworkRefs ref) of
               Some r \<Rightarrow> (''False'', ''NetworkNotFound'', ''referenced Network '' @ quoted r @ '' not found'')
             | None \<Rightarrow> allResolved)
      else if mode = BGPPeeringModeLoopbackPeer then
        (if bpr_InboundRefs ref = [] then
           (''False'', ''InboundRefsMissing'', ''loopbackPeer mode requires at least one inboundRef'')
         else case find (\<lambda>r. \<not> inboundExists r resolved) (bpr_InboundRefs ref) of
             Some r \<Rightarrow> (''False'', ''InboundNotFound'', ''referenced Inbound '' @ quoted r @ '' not found'')
           | None \<Rightarrow> allResolved)
      else (''False'', ''UnknownMode'', ''unknown BGPPeering mode '' @ quoted mode))"

text \<open>Ready follows Resolved, unless a builder skipped the resource.\<close>

definition readyFrom :: "string \<Rightarrow> condValue \<Rightarrow> condValue" where
  "readyFrom msg cond = (case cond of (st, reason, m) \<Rightarrow> (st, reason, if st = ''True'' then msg else m))"

text \<open>\<open>setCondition\<close> for Resolved, then for Ready.\<close>

definition setConditions :: "setCondition \<Rightarrow> int \<Rightarrow> condValue \<Rightarrow> condValue \<Rightarrow> Condition list \<Rightarrow> Condition list" where
  "setConditions setCond gen resolved ready conds =
     (let cond = (\<lambda>t (st, reason, msg). \<lparr>cond_Type = t, cond_Status = st, cond_Reason = reason, cond_Message = msg,
        cond_ObservedGeneration = gen, cond_LastTransitionTime = 0\<rparr>) in
      setCond (setCond conds (cond ''Resolved'' resolved)) (cond ''Ready'' ready))"

definition effectiveInterfaceName :: "Layer2Attachment \<Rightarrow> ResolvedData \<Rightarrow> string" where
  "effectiveInterfaceName l2a resolved =
     (let sp = l2a_Spec l2a in
      case gm_get (d_Networks resolved) (l2as_NetworkRef sp) of
        Some net \<Rightarrow> (case nws_VLAN (rn_Spec net) of
            None \<Rightarrow> orBlank (l2as_InterfaceRef sp)
          | Some v \<Rightarrow> if isSet (l2as_InterfaceName sp) then orBlank (l2as_InterfaceName sp) else ''vlan.'' @ itoa v)
      | None \<Rightarrow> orBlank (l2as_InterfaceName sp))"

text \<open>The AS number the nodes of the peering agree on; nil when none reports one or two differ.\<close>

fun agreedASN :: "(string, int) gomap \<Rightarrow> string list \<Rightarrow> int \<Rightarrow> int option" where
  "agreedASN nodeASNs [] asn = (if asn = 0 then None else Some asn)"
| "agreedASN nodeASNs (n # ns) asn =
     (case gm_get nodeASNs n of
        None \<Rightarrow> agreedASN nodeASNs ns asn
      | Some v \<Rightarrow> if v = 0 then agreedASN nodeASNs ns asn
          else if asn = 0 then agreedASN nodeASNs ns v
          else if v \<noteq> asn then None else agreedASN nodeASNs ns asn)"

definition bgpPeeringASNumber :: "asSelector \<Rightarrow> NcBGPPeering \<Rightarrow> ResolvedData \<Rightarrow> (string, int) gomap \<Rightarrow> int option" where
  "bgpPeeringASNumber asSel bp resolved nodeASNs =
     (if nodeASNs = [] then None else agreedASN nodeASNs (BGPPeeringNodes asSel resolved bp) 0)"

section \<open>The status of each kind\<close>

type_synonym issueMap = "(string, string \<times> string) gomap"

definition readyWith :: "issueMap \<Rightarrow> string \<Rightarrow> 'a ObjectMeta_scheme \<Rightarrow> condValue \<Rightarrow> condValue" where
  "readyWith issues kind x cond = applyBuildIssue issues kind x (readyFrom (kind @ '' is ready'') cond)"

definition vrfStatus :: "setCondition \<Rightarrow> NcVRF \<Rightarrow> NcVRF" where
  "vrfStatus setCond v = v\<lparr>ncvrf_Status := (ncvrf_Status v)\<lparr>
     ncs_Conditions := setConditions setCond (om_Generation v)
       (''True'', reasonAllResolved, ''VRF has no external references to resolve'') (''True'', ''Ready'', ''VRF is ready'')
       (ncs_Conditions (ncvrf_Status v)),
     ncs_ObservedGeneration := om_Generation v\<rparr>\<rparr>"

definition networkStatus :: "setCondition \<Rightarrow> Network \<Rightarrow> Network" where
  "networkStatus setCond n = n\<lparr>nw_Status := (nw_Status n)\<lparr>
     ncs_Conditions := setConditions setCond (om_Generation n)
       (''True'', reasonAllResolved, ''Network has no external references to resolve'') (''True'', ''Ready'', ''Network is ready'')
       (ncs_Conditions (nw_Status n)),
     ncs_ObservedGeneration := om_Generation n\<rparr>\<rparr>"

text \<open>The first argument is the resource as it was fetched, the second the object that is written.\<close>

definition destinationStatus :: "setCondition \<Rightarrow> ResolvedData \<Rightarrow> Destination \<Rightarrow> Destination \<Rightarrow> Destination" where
  "destinationStatus setCond resolved dest d =
     (let cond = checkVRFRef (dsts_VRFRef (dst_Spec dest)) resolved in
      d\<lparr>dst_Status := (dst_Status d)\<lparr>
        ncs_Conditions := setConditions setCond (om_Generation d) cond (readyFrom ''Destination is ready'' cond)
          (ncs_Conditions (dst_Status d)),
        ncs_ObservedGeneration := om_Generation d\<rparr>\<rparr>)"

definition inboundStatus :: "setCondition \<Rightarrow> asSelector \<Rightarrow> ResolvedData \<Rightarrow> issueMap \<Rightarrow> Inbound \<Rightarrow> Inbound \<Rightarrow> Inbound" where
  "inboundStatus setCond asSel resolved issues inb x =
     (let cond = checkNetworkRef (inbs_NetworkRef (inb_Spec inb)) resolved in
      x\<lparr>inb_Status := (inb_Status x)\<lparr>
        inbst_Conditions := setConditions setCond (om_Generation x) cond (readyWith issues ''Inbound'' inb cond)
          (inbst_Conditions (inb_Status x)),
        inbst_VRFs := SelectorVRFRefs asSel resolved (inbs_Destinations (inb_Spec inb)),
        inbst_ObservedGeneration := om_Generation x\<rparr>\<rparr>)"

definition outboundStatus :: "setCondition \<Rightarrow> asSelector \<Rightarrow> ResolvedData \<Rightarrow> issueMap \<Rightarrow> Outbound \<Rightarrow> Outbound \<Rightarrow> Outbound" where
  "outboundStatus setCond asSel resolved issues outb x =
     (let cond = checkNetworkRef (outbs_NetworkRef (outb_Spec outb)) resolved in
      x\<lparr>outb_Status := (outb_Status x)\<lparr>
        outbst_Conditions := setConditions setCond (om_Generation x) cond (readyWith issues ''Outbound'' outb cond)
          (outbst_Conditions (outb_Status x)),
        outbst_VRFs := SelectorVRFRefs asSel resolved (outbs_Destinations (outb_Spec outb)),
        outbst_ObservedGeneration := om_Generation x\<rparr>\<rparr>)"

definition layer2AttachmentStatus ::
  "setCondition \<Rightarrow> asSelector \<Rightarrow> ResolvedData \<Rightarrow> issueMap \<Rightarrow> Layer2Attachment \<Rightarrow> Layer2Attachment \<Rightarrow> Layer2Attachment" where
  "layer2AttachmentStatus setCond asSel resolved issues l2a x =
     (let cond = checkNetworkRef (l2as_NetworkRef (l2a_Spec l2a)) resolved;
          (v4, v6) = NetworkCIDRs resolved (l2as_NetworkRef (l2a_Spec l2a)) in
      x\<lparr>l2a_Status := (l2a_Status x)\<lparr>
        l2ast_Conditions := setConditions setCond (om_Generation x) cond (readyWith issues ''Layer2Attachment'' l2a cond)
          (l2ast_Conditions (l2a_Status x)),
        l2ast_InterfaceName := effectiveInterfaceName l2a resolved,
        l2ast_NetworkIPv4 := v4, l2ast_NetworkIPv6 := v6,
        l2ast_VRFs := SelectorVRFRefs asSel resolved (l2as_Destinations (l2a_Spec l2a)),
        l2ast_ObservedGeneration := om_Generation x\<rparr>\<rparr>)"

definition podNetworkStatus ::
  "setCondition \<Rightarrow> asSelector \<Rightarrow> ResolvedData \<Rightarrow> issueMap \<Rightarrow> PodNetwork \<Rightarrow> PodNetwork \<Rightarrow> PodNetwork" where
  "podNetworkStatus setCond asSel resolved issues pn x =
     (let cond = checkNetworkRef (pns_NetworkRef (pn_Spec pn)) resolved;
          (v4, v6) = NetworkCIDRs resolved (pns_NetworkRef (pn_Spec pn)) in
      x\<lparr>pn_Status := (pn_Status x)\<lparr>
        pnst_Conditions := setConditions setCond (om_Generation x) cond (readyWith issues ''PodNetwork'' pn cond)
          (pnst_Conditions (pn_Status x)),
        pnst_NetworkIPv4 := v4, pnst_NetworkIPv6 := v6,
        pnst_VRFs := SelectorVRFRefs asSel resolved (pns_Destinations (pn_Spec pn)),
        pnst_ObservedGeneration := om_Generation x\<rparr>\<rparr>)"

definition collectorStatus :: "setCondition \<Rightarrow> issueMap \<Rightarrow> Collector \<Rightarrow> Collector \<Rightarrow> Collector" where
  "collectorStatus setCond issues col x =
     x\<lparr>col_Status := (col_Status x)\<lparr>
        colst_Conditions := setConditions setCond (om_Generation x)
          (''True'', reasonAllResolved, ''Collector references resolved'')
          (applyBuildIssue issues ''Collector'' col (''True'', ''Ready'', ''Collector is ready''))
          (colst_Conditions (col_Status x)),
        colst_ObservedGeneration := om_Generation x\<rparr>\<rparr>"

definition trafficMirrorStatus ::
  "setCondition \<Rightarrow> ResolvedData \<Rightarrow> issueMap \<Rightarrow> TrafficMirror \<Rightarrow> TrafficMirror \<Rightarrow> TrafficMirror" where
  "trafficMirrorStatus setCond resolved issues tm x =
     (let cond = checkCollectorRef (tmis_Collector (tmi_Spec tm)) resolved in
      x\<lparr>tmi_Status := (tmi_Status x)\<lparr>
        tmist_Conditions := setConditions setCond (om_Generation x) cond (readyWith issues ''TrafficMirror'' tm cond)
          (tmist_Conditions (tmi_Status x)),
        tmist_ObservedGeneration := om_Generation x\<rparr>\<rparr>)"

definition nodeAttachmentStatus ::
  "setCondition \<Rightarrow> asSelector \<Rightarrow> ResolvedData \<Rightarrow> issueMap \<Rightarrow> NodeAttachment \<Rightarrow> NodeAttachment \<Rightarrow> NodeAttachment" where
  "nodeAttachmentStatus setCond asSel resolved issues na x =
     (let cond = checkVRFRef (Some (nas_VRFRef (na_Spec na))) resolved in
      x\<lparr>na_Status := (na_Status x)\<lparr>
        nast_Conditions := setConditions setCond (om_Generation x) cond (readyWith issues ''NodeAttachment'' na cond)
          (nast_Conditions (na_Status x)),
        nast_VRFs := SelectorVRFRefs asSel resolved (nas_Destinations (na_Spec na)),
        nast_ObservedGeneration := om_Generation x\<rparr>\<rparr>)"

definition bgpPeeringStatus ::
  "setCondition \<Rightarrow> asSelector \<Rightarrow> ResolvedData \<Rightarrow> issueMap \<Rightarrow> (string, int) gomap \<Rightarrow> NcBGPPeering \<Rightarrow> NcBGPPeering \<Rightarrow> NcBGPPeering" where
  "bgpPeeringStatus setCond asSel resolved issues nodeASNs bp x =
     (let cond = checkBGPPeeringRefs bp resolved in
      x\<lparr>bp_Status := (bp_Status x)\<lparr>
        bpst_Conditions := setConditions setCond (om_Generation x) cond (readyWith issues ''BGPPeering'' bp cond)
          (bpst_Conditions (bp_Status x)),
        bpst_WorkloadASNumber := bps_WorkloadAS (bp_Spec x),
        bpst_ASNumber := bgpPeeringASNumber asSel bp resolved nodeASNs,
        bpst_VRFs := BGPPeeringVRFRefs asSel resolved bp, bpst_LocalIPs := BGPPeeringLocalIPs resolved bp,
        bpst_ObservedGeneration := om_Generation x\<rparr>\<rparr>)"

section \<open>The pass\<close>

record 's Updater =
  up_setCond :: setCondition
  up_asSel :: asSelector
  up_VRFs :: "('s, NcVRF) StatusClient"
  up_Networks :: "('s, Network) StatusClient"
  up_Destinations :: "('s, Destination) StatusClient"
  up_Inbounds :: "('s, Inbound) StatusClient"
  up_Outbounds :: "('s, Outbound) StatusClient"
  up_Layer2Attachments :: "('s, Layer2Attachment) StatusClient"
  up_PodNetworks :: "('s, PodNetwork) StatusClient"
  up_Collectors :: "('s, Collector) StatusClient"
  up_TrafficMirrors :: "('s, TrafficMirror) StatusClient"
  up_NodeAttachments :: "('s, NodeAttachment) StatusClient"
  up_BGPPeerings :: "('s, NcBGPPeering) StatusClient"

text \<open>The loop of \<open>update...Conditions\<close>: the first object whose status cannot be written ends the pass.\<close>

definition updateAll :: "string \<Rightarrow> ('s, 'o) StatusClient \<Rightarrow> ('o \<Rightarrow> 'o \<Rightarrow> 'o) \<Rightarrow> 'o list \<Rightarrow> ('s, GoError, unit) io" where
  "updateAll kind c f xs = wrapErr (kind @ '' conditions'')
     (io_each (\<lambda>x. wrapErr (''updating '' @ kind @ '' status'') (statusUpdateWithRetry c (f x) x)) xs)"

definition UpdateConditions ::
  "'s Updater \<Rightarrow> FetchedResources \<Rightarrow> ResolvedData \<Rightarrow> issueMap \<Rightarrow> (string, int) gomap \<Rightarrow> ('s, GoError, unit) io" where
  "UpdateConditions u fetched resolved issues nodeASNs =
     (let setCond = up_setCond u; asSel = up_asSel u in
      io_bind (updateAll ''VRF'' (up_VRFs u) (\<lambda>_. vrfStatus setCond) (fr_VRFs fetched)) (\<lambda>_.
      io_bind (updateAll ''network'' (up_Networks u) (\<lambda>_. networkStatus setCond) (fr_Networks fetched)) (\<lambda>_.
      io_bind (updateAll ''destination'' (up_Destinations u) (destinationStatus setCond resolved) (fr_Destinations fetched)) (\<lambda>_.
      io_bind (updateAll ''inbound'' (up_Inbounds u) (inboundStatus setCond asSel resolved issues) (fr_Inbounds fetched)) (\<lambda>_.
      io_bind (updateAll ''outbound'' (up_Outbounds u) (outboundStatus setCond asSel resolved issues) (fr_Outbounds fetched)) (\<lambda>_.
      io_bind (updateAll ''layer2Attachment'' (up_Layer2Attachments u)
        (layer2AttachmentStatus setCond asSel resolved issues) (fr_Layer2Attachments fetched)) (\<lambda>_.
      io_bind (updateAll ''podNetwork'' (up_PodNetworks u) (podNetworkStatus setCond asSel resolved issues) (fr_PodNetworks fetched)) (\<lambda>_.
      io_bind (updateAll ''collector'' (up_Collectors u) (collectorStatus setCond issues) (fr_Collectors fetched)) (\<lambda>_.
      io_bind (updateAll ''trafficMirror'' (up_TrafficMirrors u)
        (trafficMirrorStatus setCond resolved issues) (fr_TrafficMirrors fetched)) (\<lambda>_.
      io_bind (updateAll ''nodeAttachment'' (up_NodeAttachments u)
        (nodeAttachmentStatus setCond asSel resolved issues) (fr_NodeAttachments fetched)) (\<lambda>_.
      updateAll ''bgpPeering'' (up_BGPPeerings u)
        (bgpPeeringStatus setCond asSel resolved issues nodeASNs) (fr_BGPPeerings fetched))))))))))))"

end
