(* ===== verification/Intent_Samples.thy ===== *)
theory Intent_Samples
  imports Build_Common
begin

text \<open>
  A small cluster for the witnesses of the intent pipeline: two nodes, two VRFs with a destination
  each, three networks, and a label selector that compares \<open>matchLabels\<close>.
\<close>

definition exMeta :: "string \<Rightarrow> (string, string) gomap \<Rightarrow> ObjectMeta" where
  "exMeta n labels = \<lparr>om_Name = n, om_Namespace = ''ns'', om_UID = n, om_Labels = labels, om_Annotations = [],
     om_Generation = 1, om_CreationTimestamp = 0, om_DeletionTimestamp = None, om_Finalizers = []\<rparr>"

definition exNode :: "string \<Rightarrow> Node" where
  "exNode n = ObjectMeta.extend (exMeta n []) \<lparr>node_Conditions = [(''Ready'', ''True'')],
     node_Addresses = [(''InternalIP'', ''192.168.0.1'')]\<rparr>"

definition exSelector :: "string \<Rightarrow> LabelSelector option" where
  "exSelector k = Some \<lparr>ls_MatchLabels = [(k, ''y'')], ls_MatchExpressions = []\<rparr>"

definition matchLabels :: asSelector where
  "matchLabels sel = (case sel of None \<Rightarrow> Inr (\<lambda>_. False)
     | Some s \<Rightarrow> Inr (\<lambda>labels. list_all (\<lambda>(k, v). gm_get labels k = Some v) (ls_MatchLabels s)))"

lemma nil_matches_nothing_matchLabels: "nil_matches_nothing matchLabels"
  by (simp add: nil_matches_nothing_def matchLabels_def)

definition exVRF :: "string \<Rightarrow> VRFSpec" where
  "exVRF n = \<lparr>vrfs_VRF = n, vrfs_VNI = Some 7, vrfs_RouteTarget = Some ''65000:7''\<rparr>"

definition exDestSpec :: "string \<Rightarrow> string list \<Rightarrow> DestinationSpec" where
  "exDestSpec v ps = \<lparr>dsts_VRFRef = Some v, dsts_Prefixes = ps, dsts_NextHop = None, dsts_Ports = []\<rparr>"

definition exStatus :: NcStatus where
  "exStatus = \<lparr>ncs_ObservedGeneration = 0, ncs_ReferenceCount = 0, ncs_Conditions = []\<rparr>"

definition exDest :: "string \<Rightarrow> (string, string) gomap \<Rightarrow> string \<Rightarrow> string list \<Rightarrow> Destination" where
  "exDest n labels v ps =
     ObjectMeta.extend (exMeta n labels) \<lparr>dst_Spec = exDestSpec v ps, dst_Status = exStatus\<rparr>"

definition exNetwork :: "string \<Rightarrow> string \<Rightarrow> int option \<Rightarrow> ResolvedNetwork" where
  "exNetwork n cidr vlan = \<lparr>rn_Name = n, rn_Spec = \<lparr>nws_IPv4 = Some \<lparr>ipn_CIDR = cidr, ipn_PrefixLength = None\<rparr>,
     nws_IPv6 = None, nws_VLAN = vlan, nws_VNI = vlan\<rparr>\<rparr>"

definition exData :: ResolvedData where
  "exData =
     \<lparr>d_Nodes = [exNode ''w1'', exNode ''w2''],
      d_VRFs = [(''va'', \<lparr>rv_Name = ''va'', rv_Spec = exVRF ''a''\<rparr>), (''vb'', \<lparr>rv_Name = ''vb'', rv_Spec = exVRF ''b''\<rparr>)],
      d_Networks = [(''n1'', exNetwork ''n1'' ''10.0.1.0/24'' (Some 11)), (''n2'', exNetwork ''n2'' ''10.0.2.0/24'' (Some 12))],
      d_Destinations =
        [(''da'', \<lparr>rdst_Name = ''da'', rdst_Spec = exDestSpec ''va'' [''172.16.0.0/24''], rdst_VRFSpec = Some (exVRF ''a'')\<rparr>),
         (''db'', \<lparr>rdst_Name = ''db'', rdst_Spec = exDestSpec ''vb'' [''172.17.0.0/24''], rdst_VRFSpec = Some (exVRF ''b'')\<rparr>)],
      d_RawDestinations = [exDest ''da'' [(''a'', ''y''), (''all'', ''y'')] ''va'' [''172.16.0.0/24''],
        exDest ''db'' [(''b'', ''y''), (''all'', ''y'')] ''vb'' [''172.17.0.0/24'']],
      d_Layer2Attachments = [], d_Inbounds = [], d_Outbounds = [], d_PodNetworks = [], d_BGPPeerings = [],
      d_Collectors = [], d_TrafficMirrors = [], d_AnnouncementPolicies = [], d_NodeAttachments = [],
      d_BGPPasswords = []\<rparr>"

definition exInbound :: "string \<Rightarrow> string \<Rightarrow> string \<Rightarrow> string list \<Rightarrow> Inbound" where
  "exInbound n nw k v4 = ObjectMeta.extend (exMeta n [])
     \<lparr>inb_Spec = \<lparr>inbs_NetworkRef = nw, inbs_Destinations = exSelector k, inbs_Count = None,
        inbs_Addresses = Some \<lparr>aa_IPv4 = v4, aa_IPv6 = []\<rparr>, inbs_PoolName = None,
        inbs_TenantLoadBalancerClass = None, inbs_AdvertisementType = ''bgp''\<rparr>,
      inb_Status = \<lparr>inbst_ObservedGeneration = 0, inbst_Addresses = None, inbst_PoolName = None, inbst_VRFs = [],
        inbst_Conditions = []\<rparr>\<rparr>"

definition exL2A :: "string \<Rightarrow> string \<Rightarrow> Layer2Attachment" where
  "exL2A n nw = ObjectMeta.extend (exMeta n [])
     \<lparr>l2a_Spec = \<lparr>l2as_NetworkRef = nw, l2as_Destinations = None, l2as_NodeSelector = None, l2as_InterfaceRef = None,
        l2as_InterfaceName = None, l2as_MTU = None, l2as_DisableAnycast = None, l2as_DisableNeighborSuppression = None,
        l2as_DisableSegmentation = None, l2as_SRIOV = None, l2as_NodeIPs = None\<rparr>,
      l2a_Status = \<lparr>l2ast_ObservedGeneration = 0, l2ast_InterfaceName = '''', l2ast_NetworkIPv4 = '''', l2ast_NetworkIPv6 = '''',
        l2ast_VRFs = [], l2ast_SRIOVVlanID = None, l2ast_Anycast = None, l2ast_NodeAddresses = [], l2ast_Conditions = []\<rparr>\<rparr>"

definition exCollector :: Collector where
  "exCollector = ObjectMeta.extend (exMeta ''col'' [])
     \<lparr>col_Spec = \<lparr>cols_Address = ''10.9.9.9'', cols_Protocol = ''l3gre'', cols_Key = None,
        cols_MirrorVRF = \<lparr>mvr_Name = ''va'', mvr_Loopback = \<lparr>lbc_Name = ''lo.mir'', lbc_Subnet = ''10.8.0.0/24''\<rparr>\<rparr>\<rparr>,
      col_Status = \<lparr>colst_ObservedGeneration = 0, colst_GREInterface = None, colst_ReferenceCount = 0, colst_ActiveNodes = 0,
        colst_NodeAddresses = [(''w1'', ''10.8.0.1''), (''w2'', ''10.8.0.2'')], colst_Conditions = []\<rparr>\<rparr>"

definition exMirror :: TrafficMirror where
  "exMirror = ObjectMeta.extend (exMeta ''tap'' [])
     \<lparr>tmi_Spec = \<lparr>tmis_Source = \<lparr>ms_Kind = ''Inbound'', ms_Name = ''one''\<rparr>, tmis_Collector = ''col'', tmis_Direction = ''ingress'',
        tmis_TrafficMatch = None\<rparr>,
      tmi_Status = \<lparr>tmist_ObservedGeneration = 0, tmist_ActiveNodes = 0, tmist_Conditions = []\<rparr>\<rparr>"

end
