(* ===== verification/Build_Usage.thy ===== *)
theory Build_Usage
  imports Intent_Samples
begin

text \<open>
  \<open>inbound.go\<close>, \<open>outbound.go\<close> and \<open>podnetwork.go\<close> of \<open>pkg/reconciler/intent/builder\<close>, with
  \<open>mergeRedistribute\<close> of \<open>helpers.go\<close>.

  The redistribution filters are the one place where the builders share mutable data: the
  \<open>Redistribute\<close> an Inbound or PodNetwork builds once is stored, by pointer, in the fabric VRFs
  of every node, and \<open>mergeRedistribute\<close> later appends to the filter behind the pointer. So the
  filters live in a heap here: \<open>RedistPtr\<close> is a \<open>Redistribute\<close> struct with the addresses of its
  two filters (the struct itself is never written to after it is built, so it is a value), and
  \<open>BFabricVRF\<close> is a fabric VRF whose redistribution is such a struct. \<open>derefContrib\<close> reads the
  filters when the builder is done; nothing writes to them afterwards. Every other slice and
  pointer the builders append to belongs to one node, so those are plain values.

  The order in which a \<open>range\<close> loop visits a map is the parameter \<open>iter\<close>.
\<close>

record RedistPtr =
  rp_Connected :: "nat option"
  rp_Static :: "nat option"

record BFabricVRF = FabricVRF +
  bf_Redistribute :: "RedistPtr option"

record FilterHeap =
  fh_cells :: "(nat, Filter) gomap"
  fh_next :: nat

record UsageState =
  us_result :: "(string, (string, BFabricVRF) gomap) gomap"
  us_heap :: FilterHeap
  us_issues :: "BuildIssue list"

type_synonym groupIter = "(string, Destination list) gomap \<Rightarrow> (string, Destination list) gomap"

definition newFilter :: "Filter \<Rightarrow> FilterHeap \<Rightarrow> nat \<times> FilterHeap" where
  "newFilter f h = (fh_next h, h\<lparr>fh_cells := gm_put (fh_next h) f (fh_cells h), fh_next := Suc (fh_next h)\<rparr>)"

definition readFilter :: "FilterHeap \<Rightarrow> nat \<Rightarrow> Filter" where
  "readFilter h a = (case gm_get (fh_cells h) a of Some f \<Rightarrow> f | None \<Rightarrow> emptyFilter Reject)"

text \<open>\<open>p.Items = append(p.Items, q.Items...)\<close> through the pointers \<open>p\<close> and \<open>q\<close>.\<close>

definition appendItems :: "nat \<Rightarrow> nat \<Rightarrow> FilterHeap \<Rightarrow> FilterHeap" where
  "appendItems p q h = h\<lparr>fh_cells := gm_put p (addFilterItems (f_Items (readFilter h q)) (readFilter h p)) (fh_cells h)\<rparr>"

definition mergeField :: "nat option \<Rightarrow> nat option \<Rightarrow> FilterHeap \<Rightarrow> nat option \<times> FilterHeap" where
  "mergeField merged addition h =
     (case addition of
        None \<Rightarrow> (merged, h)
      | Some a \<Rightarrow> (case merged of None \<Rightarrow> (Some a, h) | Some m \<Rightarrow> (Some m, appendItems m a h)))"

definition mergeRedistribute ::
  "RedistPtr option \<Rightarrow> RedistPtr option \<Rightarrow> FilterHeap \<Rightarrow> RedistPtr option \<times> FilterHeap" where
  "mergeRedistribute existing addition h =
     (case (existing, addition) of
        (None, _) \<Rightarrow> (addition, h)
      | (_, None) \<Rightarrow> (existing, h)
      | (Some e, Some a) \<Rightarrow>
        (let (c, h) = mergeField (rp_Connected e) (rp_Connected a) h;
             (st, h) = mergeField (rp_Static e) (rp_Static a) h in
         (Some \<lparr>rp_Connected = c, rp_Static = st\<rparr>, h)))"

definition redistItems :: "ResolvedNetwork \<Rightarrow> FilterItem list" where
  "redistItems net =
     (case nws_IPv4 (rn_Spec net) of Some n \<Rightarrow> [prefixItem (ipn_CIDR n) None None (plainAction Accept)] | None \<Rightarrow> []) @
     (case nws_IPv6 (rn_Spec net) of Some n \<Rightarrow> [prefixItem (ipn_CIDR n) None None (plainAction Accept)] | None \<Rightarrow> [])"

definition buildRedistribute :: "ResolvedNetwork \<Rightarrow> FilterHeap \<Rightarrow> RedistPtr option \<times> FilterHeap" where
  "buildRedistribute net h =
     (if redistItems net = [] then (None, h)
      else let (a, h) = newFilter \<lparr>f_Items = redistItems net, f_DefaultAction = plainAction Reject\<rparr> h in
        (Some \<lparr>rp_Connected = Some a, rp_Static = None\<rparr>, h))"

section \<open>The nodes' fabric VRFs\<close>

definition bfabric :: "FabricVRF \<Rightarrow> BFabricVRF" where
  "bfabric v = FabricVRF.extend v \<lparr>bf_Redistribute = None\<rparr>"

definition nodeVRFs :: "UsageState \<Rightarrow> string \<Rightarrow> (string, BFabricVRF) gomap" where
  "nodeVRFs st nodeName = (case gm_get (us_result st) nodeName of Some m \<Rightarrow> m | None \<Rightarrow> [])"

definition ensureVRF :: "(string, BFabricVRF) gomap \<Rightarrow> VRFSpec \<Rightarrow> string \<Rightarrow> BFabricVRF" where
  "ensureVRF m vrfSpec vrfName = (case gm_get m vrfName of Some f \<Rightarrow> f | None \<Rightarrow> bfabric (buildFabricVRF vrfSpec))"

definition derefRedistribute :: "FilterHeap \<Rightarrow> RedistPtr \<Rightarrow> Redistribute" where
  "derefRedistribute h r = \<lparr>rd_Connected = map_option (readFilter h) (rp_Connected r),
     rd_Static = map_option (readFilter h) (rp_Static r)\<rparr>"

definition derefVRF :: "FilterHeap \<Rightarrow> BFabricVRF \<Rightarrow> FabricVRF" where
  "derefVRF h v = (FabricVRF.truncate v)\<lparr>Redistribute := map_option (derefRedistribute h) (bf_Redistribute v)\<rparr>"

definition derefContrib :: "UsageState \<Rightarrow> contributions" where
  "derefContrib st = map (\<lambda>(n, m).
     (n, NewNodeContribution\<lparr>ct_FabricVRFs := map (\<lambda>(k, v). (k, derefVRF (us_heap st) v)) m\<rparr>)) (us_result st)"

definition initUsage :: "BuildIssue list \<Rightarrow> UsageState" where
  "initUsage issues = \<lparr>us_result = [], us_heap = \<lparr>fh_cells = [], fh_next = 0\<rparr>, us_issues = issues\<rparr>"

definition skipUsage :: "string \<Rightarrow> 'a ObjectMeta_scheme \<Rightarrow> string \<Rightarrow> string \<Rightarrow> UsageState \<Rightarrow> UsageState" where
  "skipUsage kind x reason message st = st\<lparr>us_issues := reportSkip kind x reason message (us_issues st)\<rparr>"

text \<open>\<open>fvrf.Redistribute = mergeRedistribute(fvrf.Redistribute, redistribute)\<close>, when there is one.\<close>

definition setRedistribute :: "RedistPtr option \<Rightarrow> BFabricVRF \<Rightarrow> FilterHeap \<Rightarrow> BFabricVRF \<times> FilterHeap" where
  "setRedistribute redistribute fvrf h =
     (if redistribute = None then (fvrf, h)
      else let (r, h) = mergeRedistribute (bf_Redistribute fvrf) redistribute h in (fvrf\<lparr>bf_Redistribute := r\<rparr>, h))"

text \<open>The loop over the nodes: a fabric VRF of each node is extended by \<open>f\<close> and its redistribution merged.\<close>

definition applyToNode ::
  "string \<Rightarrow> VRFSpec \<Rightarrow> RedistPtr option \<Rightarrow> (BFabricVRF \<Rightarrow> BFabricVRF) \<Rightarrow> Node \<Rightarrow> UsageState \<Rightarrow> UsageState" where
  "applyToNode vrfName vrfSpec redistribute f node st =
     (let m = nodeVRFs st (om_Name node);
          (fvrf, h) = setRedistribute redistribute (ensureVRF m vrfSpec vrfName) (us_heap st) in
      st\<lparr>us_result := gm_put (om_Name node) (gm_put vrfName (f fvrf) m) (us_result st), us_heap := h\<rparr>)"

definition allocatedAddresses :: "AddressAllocation option \<Rightarrow> AddressAllocation option \<Rightarrow> string list" where
  "allocatedAddresses status spec =
     (case (case status of Some a \<Rightarrow> Some a | None \<Rightarrow> spec) of
        None \<Rightarrow> [] | Some a \<Rightarrow> aa_IPv4 a @ aa_IPv6 a)"

definition addUsageItems ::
  "string list \<Rightarrow> ResolvedNetwork \<Rightarrow> AnnouncementPolicy option \<Rightarrow> 'a FabricVRF_scheme \<Rightarrow> 'a FabricVRF_scheme" where
  "addUsageItems addresses net ap fvrf =
     addAggregateRoutes
       (addImportItems (addressFilterItems addresses None) (addExportItems (addressFilterItems addresses ap) fvrf)) net ap"

section \<open>Inbound\<close>

definition applyInboundToNodes ::
  "string \<Rightarrow> VRFSpec \<Rightarrow> string list \<Rightarrow> RedistPtr option \<Rightarrow> ResolvedNetwork \<Rightarrow> ResolvedData \<Rightarrow> AnnouncementPolicy option \<Rightarrow>
   UsageState \<Rightarrow> UsageState" where
  "applyInboundToNodes vrfName vrfSpec addresses redistribute net data ap st =
     fold (applyToNode vrfName vrfSpec redistribute (addUsageItems addresses net ap)) (d_Nodes data) st"

text \<open>The policies of the matched VRFs, resolved before anything is changed.\<close>

definition resolveAPs ::
  "asSelector \<Rightarrow> (string, string) gomap \<Rightarrow> ResolvedData \<Rightarrow> (string, Destination list) gomap \<Rightarrow>
   (GoError, (string, AnnouncementPolicy option) gomap) result" where
  "resolveAPs asSel usageLabels data grouped =
     emap (\<lambda>(vrfName, _). ebind (findMatchingAP asSel usageLabels vrfName data) (\<lambda>ap. Inr (vrfName, ap))) grouped"

definition applyInboundVRF ::
  "string list \<Rightarrow> RedistPtr option \<Rightarrow> ResolvedNetwork \<Rightarrow> ResolvedData \<Rightarrow> (string, AnnouncementPolicy option) gomap \<Rightarrow>
   string \<times> Destination list \<Rightarrow> UsageState \<Rightarrow> UsageState" where
  "applyInboundVRF addresses redistribute net data aps = (\<lambda>(vrfName, dests) st.
     case resolveVRFSpec dests data of
       None \<Rightarrow> st
     | Some vrfSpec \<Rightarrow> applyInboundToNodes vrfName vrfSpec addresses redistribute net data
         (Option.bind (gm_get aps vrfName) (\<lambda>ap. ap)) st)"

definition buildInboundStep :: "asSelector \<Rightarrow> groupIter \<Rightarrow> ResolvedData \<Rightarrow> Inbound \<Rightarrow> UsageState \<Rightarrow> UsageState" where
  "buildInboundStep asSel iter data ib st =
     (let sp = inb_Spec ib in
      case gm_get (d_Networks data) (inbs_NetworkRef sp) of
        None \<Rightarrow> skipUsage ''Inbound'' ib ''NetworkNotFound''
          (''referenced Network '' @ quoted (inbs_NetworkRef sp) @ '' not found'') st
      | Some net \<Rightarrow>
        if inbs_Destinations sp = None then st
        else let grouped = groupDestinationsByVRF asSel (inbs_Destinations sp) data in
        if grouped = [] then st
        else case resolveAPs asSel (om_Labels ib) data (iter grouped) of
          Inl err \<Rightarrow> skipUsage ''Inbound'' ib ''AmbiguousAnnouncementPolicy'' (errorText err) st
        | Inr aps \<Rightarrow>
          let addresses = allocatedAddresses (inbst_Addresses (inb_Status ib)) (inbs_Addresses sp);
              (redistribute, h) = buildRedistribute net (us_heap st) in
          fold (applyInboundVRF addresses redistribute net data aps) (iter grouped) (st\<lparr>us_heap := h\<rparr>))"

definition buildInbound ::
  "asSelector \<Rightarrow> groupIter \<Rightarrow> ResolvedData \<Rightarrow> BuildIssue list \<Rightarrow> contributions \<times> BuildIssue list" where
  "buildInbound asSel iter data issues =
     (let st = fold (buildInboundStep asSel iter data) (d_Inbounds data) (initUsage issues) in
      (derefContrib st, us_issues st))"

section \<open>Outbound\<close>

record outboundVRFContrib =
  oc_vrfName :: string
  oc_vrfSpec :: VRFSpec
  oc_ap :: "AnnouncementPolicy option"

definition outboundContribs ::
  "asSelector \<Rightarrow> Outbound \<Rightarrow> ResolvedData \<Rightarrow> (string, Destination list) gomap \<Rightarrow>
   (GoError, outboundVRFContrib list) result" where
  "outboundContribs asSel ob data grouped =
     efold (\<lambda>(vrfName, dests) cs.
       case findMatchingAP asSel (om_Labels ob) vrfName data of
         Inl err \<Rightarrow> Inl (Wrap (''outbound '' @ quoted (om_Name ob)) err)
       | Inr ap \<Rightarrow> (case resolveVRFSpec dests data of
            None \<Rightarrow> Inr cs
          | Some v \<Rightarrow> Inr (cs @ [\<lparr>oc_vrfName = vrfName, oc_vrfSpec = v, oc_ap = ap\<rparr>]))) grouped []"

definition applyOutboundVRF ::
  "string list \<Rightarrow> ResolvedNetwork \<Rightarrow> outboundVRFContrib \<Rightarrow> NodeContribution \<Rightarrow> NodeContribution" where
  "applyOutboundVRF addresses net c contrib =
     (let fvrf = (case gm_get (ct_FabricVRFs contrib) (oc_vrfName c) of
            Some f \<Rightarrow> f | None \<Rightarrow> buildFabricVRF (oc_vrfSpec c)) in
      contrib\<lparr>ct_FabricVRFs := gm_put (oc_vrfName c) (addUsageItems addresses net (oc_ap c) fvrf) (ct_FabricVRFs contrib)\<rparr>)"

definition applyOutbound ::
  "asSelector \<Rightarrow> groupIter \<Rightarrow> Outbound \<Rightarrow> ResolvedNetwork \<Rightarrow> ResolvedData \<Rightarrow> contributions \<Rightarrow>
   (GoError, contributions) result" where
  "applyOutbound asSel iter ob net data result =
     (let grouped = groupDestinationsByVRF asSel (outbs_Destinations (outb_Spec ob)) data in
      if grouped = [] then Inr result
      else let addresses = allocatedAddresses (outbst_Addresses (outb_Status ob)) (outbs_Addresses (outb_Spec ob)) in
        ebind (outboundContribs asSel ob data (iter grouped)) (\<lambda>cs.
        Inr (fold (\<lambda>c. fold (\<lambda>node. updateContrib (om_Name node) (applyOutboundVRF addresses net c)) (d_Nodes data)) cs result)))"

definition buildOutboundStep ::
  "asSelector \<Rightarrow> groupIter \<Rightarrow> ResolvedData \<Rightarrow> Outbound \<Rightarrow> contributions \<times> BuildIssue list \<Rightarrow> contributions \<times> BuildIssue list" where
  "buildOutboundStep asSel iter data ob = (\<lambda>(result, issues).
     case gm_get (d_Networks data) (outbs_NetworkRef (outb_Spec ob)) of
       None \<Rightarrow> (result, issues)
     | Some net \<Rightarrow>
       if outbs_Destinations (outb_Spec ob) = None then (result, issues)
       else case applyOutbound asSel iter ob net data result of
           Inl err \<Rightarrow> (result, reportSkip ''Outbound'' ob ''AmbiguousAnnouncementPolicy'' (errorText err) issues)
         | Inr result' \<Rightarrow> (result', issues))"

definition buildOutbound ::
  "asSelector \<Rightarrow> groupIter \<Rightarrow> ResolvedData \<Rightarrow> BuildIssue list \<Rightarrow> contributions \<times> BuildIssue list" where
  "buildOutbound asSel iter data issues = fold (buildOutboundStep asSel iter data) (d_Outbounds data) ([], issues)"

section \<open>Pod networks\<close>

definition podDestinationVRF :: "asSelector \<Rightarrow> PodNetwork \<Rightarrow> ResolvedData \<Rightarrow> (GoError, VRFSpec option) result" where
  "podDestinationVRF asSel pn data =
     (if pns_Destinations (pn_Spec pn) = None then Inr None
      else case asSel (pns_Destinations (pn_Spec pn)) of
        Inl err \<Rightarrow> Inl (Wrap ''invalid destination selector'' err)
      | Inr selector \<Rightarrow> Inr (case List.map_filter (\<lambda>rd.
            if selector (om_Labels rd) then
              (case gm_get (d_Destinations data) (om_Name rd) of None \<Rightarrow> None
               | Some r \<Rightarrow> if dsts_VRFRef (rdst_Spec r) = None then None else rdst_VRFSpec r)
            else None) (d_RawDestinations data) of [] \<Rightarrow> None | v # _ \<Rightarrow> Some v))"

definition buildPodNetworkStep :: "asSelector \<Rightarrow> ResolvedData \<Rightarrow> PodNetwork \<Rightarrow> UsageState \<Rightarrow> UsageState" where
  "buildPodNetworkStep asSel data pn st =
     (case gm_get (d_Networks data) (pns_NetworkRef (pn_Spec pn)) of
        None \<Rightarrow> skipUsage ''PodNetwork'' pn ''NetworkNotFound''
          (''referenced Network '' @ quoted (pns_NetworkRef (pn_Spec pn)) @ '' not found'') st
      | Some net \<Rightarrow>
        case podDestinationVRF asSel pn data of
          Inl err \<Rightarrow> skipUsage ''PodNetwork'' pn ''DestinationResolutionFailed'' (errorText err) st
        | Inr None \<Rightarrow> st
        | Inr (Some vrfSpec) \<Rightarrow>
          if vrfs_VRF vrfSpec = '''' then st
          else case findMatchingAP asSel (om_Labels pn) (vrfs_VRF vrfSpec) data of
              Inl err \<Rightarrow> skipUsage ''PodNetwork'' pn ''AmbiguousAnnouncementPolicy'' (errorText err) st
            | Inr ap \<Rightarrow>
              let (redistribute, h) = buildRedistribute net (us_heap st) in
              fold (applyToNode (vrfs_VRF vrfSpec) vrfSpec redistribute (\<lambda>fvrf. addAggregateRoutes fvrf net ap))
                (d_Nodes data) (st\<lparr>us_heap := h\<rparr>))"

definition buildPodNetwork ::
  "asSelector \<Rightarrow> ResolvedData \<Rightarrow> BuildIssue list \<Rightarrow> contributions \<times> BuildIssue list" where
  "buildPodNetwork asSel data issues =
     (let st = fold (buildPodNetworkStep asSel data) (d_PodNetworks data) (initUsage issues) in
      (derefContrib st, us_issues st))"

section \<open>What sharing the filters does\<close>

definition redistAt :: "UsageState \<Rightarrow> string \<Rightarrow> string \<Rightarrow> RedistPtr option" where
  "redistAt st n v = (case gm_get (nodeVRFs st n) v of Some f \<Rightarrow> bf_Redistribute f | None \<Rightarrow> None)"

definition connectedItems :: "UsageState \<Rightarrow> nat \<Rightarrow> FilterItem list" where
  "connectedItems st a = f_Items (readFilter (us_heap st) a)"

definition toFilter :: "nat \<Rightarrow> RedistPtr" where
  "toFilter a = \<lparr>rp_Connected = Some a, rp_Static = None\<rparr>"

lemma bf_Redistribute_usage [simp]: "bf_Redistribute (addUsageItems as net ap f) = bf_Redistribute f"
  by (simp add: addUsageItems_def addAggregateRoutes_def addAggregateRoute_def addImportItems_def addExportItems_def
      Let_def split: list.split)

lemma bf_Redistribute_ensure:
  "bf_Redistribute (ensureVRF (nodeVRFs st n) spec v) = redistAt st n v"
  by (simp add: ensureVRF_def redistAt_def bfabric_def FabricVRF.extend_def split: option.split)

lemma redistAt_put:
  "redistAt (st\<lparr>us_result := gm_put n (gm_put v f (nodeVRFs st n)) (us_result st), us_heap := h\<rparr>) n' v' =
     (if n' = n \<and> v' = v then bf_Redistribute f else redistAt st n' v')"
  "redistAt (st\<lparr>us_result := gm_put n (gm_put v f (nodeVRFs st n)) (us_result st)\<rparr>) n' v' =
     (if n' = n \<and> v' = v then bf_Redistribute f else redistAt st n' v')"
  by (simp_all add: redistAt_def nodeVRFs_def gomap_simps split: option.split)

text \<open>A node that has no redistribution in the VRF gets the pointer.\<close>

lemma applyToNode_first:
  assumes "redistAt st (om_Name node) v = None" and "\<And>f. bf_Redistribute (g f) = bf_Redistribute f"
  shows "us_heap (applyToNode v spec (Some r) g node st) = us_heap st \<and>
    redistAt (applyToNode v spec (Some r) g node st) n' v' =
      (if n' = om_Name node \<and> v' = v then Some r else redistAt st n' v')"
  using assms
  by (simp add: applyToNode_def setRedistribute_def mergeRedistribute_def bf_Redistribute_ensure redistAt_put Let_def)

lemma fold_applyToNode_first:
  assumes "\<And>f. bf_Redistribute (g f) = bf_Redistribute f"
    and "distinct (map om_Name nodes)" and "\<forall>n \<in> set nodes. redistAt st (om_Name n) v = None"
  shows "us_heap (fold (applyToNode v spec (Some r) g) nodes st) = us_heap st \<and>
    (\<forall>n' v'. redistAt (fold (applyToNode v spec (Some r) g) nodes st) n' v' =
      (if n' \<in> om_Name ` set nodes \<and> v' = v then Some r else redistAt st n' v'))"
  using assms(2,3)
proof (induction nodes arbitrary: st)
  case (Cons n ns)
  let ?st = "applyToNode v spec (Some r) g n st"
  have step: "us_heap ?st = us_heap st"
    "redistAt ?st n' v' = (if n' = om_Name n \<and> v' = v then Some r else redistAt st n' v')" for n' v'
    using applyToNode_first [of st n v g spec r n' v'] assms(1) Cons.prems(2) by auto
  have "\<forall>n' \<in> set ns. redistAt ?st (om_Name n') v = None"
    using Cons.prems by (auto simp: step) (metis image_eqI)
  with Cons.IH [of ?st] Cons.prems(1) show ?case by (auto simp: step)
qed simp

text \<open>
  A node that has one keeps its own pointer, and the items are appended to the filter behind it.
\<close>

lemma applyToNode_again:
  assumes "redistAt st (om_Name node) v = Some (toFilter a)" and "a \<noteq> b"
    and "\<And>f. bf_Redistribute (g f) = bf_Redistribute f"
  shows "connectedItems (applyToNode v spec (Some (toFilter b)) g node st) c =
      (if c = a then connectedItems st a @ connectedItems st b else connectedItems st c) \<and>
    redistAt (applyToNode v spec (Some (toFilter b)) g node st) n' v' = redistAt st n' v'"
  using assms
  by (auto simp: applyToNode_def setRedistribute_def mergeRedistribute_def bf_Redistribute_ensure redistAt_put Let_def
      toFilter_def mergeField_def appendItems_def connectedItems_def readFilter_def gomap_simps addFilterItems_def)

lemma fold_applyToNode_again:
  assumes "\<And>f. bf_Redistribute (g f) = bf_Redistribute f" and "a \<noteq> b"
    and "\<forall>n \<in> set nodes. redistAt st (om_Name n) v = Some (toFilter a)"
  shows "connectedItems (fold (applyToNode v spec (Some (toFilter b)) g) nodes st) a =
      connectedItems st a @ concat (replicate (length nodes) (connectedItems st b)) \<and>
    redistAt (fold (applyToNode v spec (Some (toFilter b)) g) nodes st) n' v' = redistAt st n' v'"
  using assms(3)
proof (induction nodes arbitrary: st)
  case (Cons n ns)
  let ?st = "applyToNode v spec (Some (toFilter b)) g n st"
  have "connectedItems ?st a = connectedItems st a @ connectedItems st b"
    "connectedItems ?st b = connectedItems st b" "redistAt ?st n' v' = redistAt st n' v'" for n' v'
    using applyToNode_again [of st n v a b g spec a n' v'] applyToNode_again [of st n v a b g spec b n' v']
      assms(1,2) Cons.prems by simp_all
  with Cons.IH [of ?st] Cons.prems show ?case by simp
qed simp

lemma buildRedistribute_fresh:
  assumes "redistItems net \<noteq> []"
  shows "buildRedistribute net (us_heap st) = (Some (toFilter (fh_next (us_heap st))),
      us_heap st\<lparr>fh_cells := gm_put (fh_next (us_heap st)) \<lparr>f_Items = redistItems net, f_DefaultAction = plainAction Reject\<rparr>
         (fh_cells (us_heap st)), fh_next := Suc (fh_next (us_heap st))\<rparr>)"
  using assms by (simp add: buildRedistribute_def newFilter_def toFilter_def)

text \<open>What a pass over an Inbound does, once its network, VRFs and policies are resolved.\<close>

lemma buildInboundStep_resolved:
  assumes "gm_get (d_Networks data) (inbs_NetworkRef (inb_Spec ib)) = Some net" and "redistItems net \<noteq> []"
    and "inbs_Destinations (inb_Spec ib) \<noteq> None"
    and "groupDestinationsByVRF asSel (inbs_Destinations (inb_Spec ib)) data = grouped" and "grouped \<noteq> []"
    and "resolveAPs asSel (om_Labels ib) data (iter grouped) = Inr aps"
  shows "buildInboundStep asSel iter data ib st =
    fold (applyInboundVRF (allocatedAddresses (inbst_Addresses (inb_Status ib)) (inbs_Addresses (inb_Spec ib)))
        (Some (toFilter (fh_next (us_heap st)))) net data aps) (iter grouped)
      (st\<lparr>us_heap := snd (buildRedistribute net (us_heap st))\<rparr>)"
  using assms by (auto simp: buildInboundStep_def Let_def buildRedistribute_fresh)

lemma applyInboundVRF_resolved:
  "resolveVRFSpec ds data = Some spec \<Longrightarrow>
   applyInboundVRF as r net data aps (v, ds) st =
     fold (applyToNode v spec r (addUsageItems as net (Option.bind (gm_get aps v) (\<lambda>ap. ap)))) (d_Nodes data) st"
  by (simp add: applyInboundVRF_def applyInboundToNodes_def)

definition resolvedInbound ::
  "asSelector \<Rightarrow> groupIter \<Rightarrow> ResolvedData \<Rightarrow> Inbound \<Rightarrow> ResolvedNetwork \<Rightarrow> string list \<Rightarrow> bool" where
  "resolvedInbound asSel iter data ib net vs \<longleftrightarrow>
     gm_get (d_Networks data) (inbs_NetworkRef (inb_Spec ib)) = Some net \<and> redistItems net \<noteq> [] \<and>
     inbs_Destinations (inb_Spec ib) \<noteq> None \<and>
     (let grouped = groupDestinationsByVRF asSel (inbs_Destinations (inb_Spec ib)) data in
      map fst (iter grouped) = vs \<and> grouped \<noteq> [] \<and>
      list_all (\<lambda>(v, ds). resolveVRFSpec ds data \<noteq> None) (iter grouped) \<and>
      (\<exists>aps. resolveAPs asSel (om_Labels ib) data (iter grouped) = Inr aps))"

lemma fold_inbound_first:
  assumes "distinct (map om_Name (d_Nodes data))" and "distinct (map fst gs)"
    and "list_all (\<lambda>(v, ds). resolveVRFSpec ds data \<noteq> None) gs"
    and "\<forall>n v. v \<in> fst ` set gs \<longrightarrow> redistAt st n v = None"
  shows "us_heap (fold (applyInboundVRF as (Some r) net data aps) gs st) = us_heap st \<and>
    (\<forall>n v. redistAt (fold (applyInboundVRF as (Some r) net data aps) gs st) n v =
      (if n \<in> om_Name ` set (d_Nodes data) \<and> v \<in> fst ` set gs then Some r else redistAt st n v))"
  using assms(2-)
proof (induction gs arbitrary: st)
  case (Cons g gs)
  obtain v ds where g: "g = (v, ds)" by (cases g)
  obtain spec where spec: "resolveVRFSpec ds data = Some spec" using Cons.prems g by auto
  let ?st = "applyInboundVRF as (Some r) net data aps (v, ds) st"
  have "us_heap ?st = us_heap st \<and> (\<forall>n' v'. redistAt ?st n' v' =
      (if n' \<in> om_Name ` set (d_Nodes data) \<and> v' = v then Some r else redistAt st n' v'))"
    unfolding applyInboundVRF_resolved [OF spec]
    using Cons.prems(3) g by (intro fold_applyToNode_first assms(1) bf_Redistribute_usage) auto
  then have step: "us_heap ?st = us_heap st" "redistAt ?st n' v' =
      (if n' \<in> om_Name ` set (d_Nodes data) \<and> v' = v then Some r else redistAt st n' v')" for n' v'
    by auto
  have "\<forall>n v'. v' \<in> fst ` set gs \<longrightarrow> redistAt ?st n v' = None"
    using Cons.prems unfolding g by (auto simp: step)
  with Cons.IH [of ?st] Cons.prems show ?case unfolding g by (auto simp: step)
qed simp

definition redistributed :: "contributions \<Rightarrow> string \<Rightarrow> string \<Rightarrow> FilterItem list option" where
  "redistributed result n v =
     Option.bind (gm_get result n) (\<lambda>c. Option.bind (gm_get (ct_FabricVRFs c) v) (\<lambda>f.
     Option.bind (Redistribute f) (\<lambda>r. map_option f_Items (rd_Connected r))))"

lemma redistributed_deref:
  assumes "redistAt st n v = Some (toFilter a)"
  shows "redistributed (derefContrib st) n v = Some (connectedItems st a)"
proof -
  obtain m f where "gm_get (us_result st) n = Some m" "gm_get m v = Some f" "bf_Redistribute f = Some (toFilter a)"
    using assms by (auto simp: redistAt_def nodeVRFs_def split: option.splits)
  then show ?thesis
    by (simp add: redistributed_def derefContrib_def map_of_map connectedItems_def derefVRF_def derefRedistribute_def
        toFilter_def)
qed

lemma inbound_first:
  fixes issues :: "BuildIssue list"
  assumes "resolvedInbound asSel iter data ib net vs" and "distinct vs" and "distinct (map om_Name (d_Nodes data))"
  defines "st \<equiv> buildInboundStep asSel iter data ib (initUsage issues)"
  shows "fh_next (us_heap st) = 1 \<and> connectedItems st 0 = redistItems net \<and>
    (\<forall>n \<in> om_Name ` set (d_Nodes data). \<forall>v \<in> set vs. redistAt st n v = Some (toFilter 0))"
proof -
  let ?gs = "iter (groupDestinationsByVRF asSel (inbs_Destinations (inb_Spec ib)) data)"
  let ?s = "(initUsage issues)\<lparr>us_heap := snd (buildRedistribute net (us_heap (initUsage issues)))\<rparr>"
  obtain aps where r: "gm_get (d_Networks data) (inbs_NetworkRef (inb_Spec ib)) = Some net" "redistItems net \<noteq> []"
    "inbs_Destinations (inb_Spec ib) \<noteq> None" "map fst ?gs = vs"
    "groupDestinationsByVRF asSel (inbs_Destinations (inb_Spec ib)) data \<noteq> []"
    "list_all (\<lambda>(v, ds). resolveVRFSpec ds data \<noteq> None) ?gs"
    "resolveAPs asSel (om_Labels ib) data ?gs = Inr aps"
    using assms(1) by (auto simp: resolvedInbound_def Let_def)
  let ?as = "allocatedAddresses (inbst_Addresses (inb_Status ib)) (inbs_Addresses (inb_Spec ib))"
  have start: "redistAt ?s n v = None" for n v
    by (simp add: redistAt_def nodeVRFs_def initUsage_def)
  have gs: "distinct (map fst ?gs)" "set vs = fst ` set ?gs" using r(4) assms(2) by (auto simp flip: set_map)
  have st: "st = fold (applyInboundVRF ?as (Some (toFilter 0)) net data aps) ?gs ?s"
    unfolding st_def buildInboundStep_resolved [OF r(1,2,3) refl r(5), of iter aps, OF r(7)]
    by (simp add: initUsage_def)
  have "us_heap st = us_heap ?s \<and> (\<forall>n v. redistAt st n v =
      (if n \<in> om_Name ` set (d_Nodes data) \<and> v \<in> fst ` set ?gs then Some (toFilter 0) else redistAt ?s n v))"
    unfolding st by (rule fold_inbound_first) (use assms(3) gs(1) r(6) start in auto)
  then show ?thesis
    unfolding gs(2)
    by (simp add: connectedItems_def readFilter_def buildRedistribute_fresh [OF r(2)] gomap_simps)
      (simp add: initUsage_def)
qed

text \<open>
  C39. The filter behind a shared pointer. Let one Inbound cover the VRFs \<open>vs\<close> and a second one
  only the VRF \<open>a\<close> among them. On every node, the filter that decides which connected routes
  are redistributed into any VRF \<open>b\<close> of \<open>vs\<close>, also one the second Inbound does not select,
  contains the network of the second Inbound, and contains it once per node of the cluster.
\<close>

theorem inbound_redistribution_shared:
  assumes "d_Inbounds data = [ib1, ib2]" and "distinct (map om_Name (d_Nodes data))"
    and "resolvedInbound asSel iter data ib1 net1 vs" and "distinct vs"
    and "resolvedInbound asSel iter data ib2 net2 [a]" and "a \<in> set vs" and "b \<in> set vs"
    and "n \<in> om_Name ` set (d_Nodes data)"
  shows "redistributed (fst (buildInbound asSel iter data issues)) n b =
    Some (redistItems net1 @ concat (replicate (length (d_Nodes data)) (redistItems net2)))"
proof -
  let ?st = "buildInboundStep asSel iter data ib1 (initUsage issues)"
  let ?g = "groupDestinationsByVRF asSel (inbs_Destinations (inb_Spec ib2)) data"
  have one: "fh_next (us_heap ?st) = 1" "connectedItems ?st 0 = redistItems net1"
    "\<forall>n \<in> om_Name ` set (d_Nodes data). \<forall>v \<in> set vs. redistAt ?st n v = Some (toFilter 0)"
    using inbound_first [OF assms(3,4,2)] by auto
  obtain aps ds spec where r: "gm_get (d_Networks data) (inbs_NetworkRef (inb_Spec ib2)) = Some net2"
    "redistItems net2 \<noteq> []" "inbs_Destinations (inb_Spec ib2) \<noteq> None" "iter ?g = [(a, ds)]" "?g \<noteq> []"
    "resolveVRFSpec ds data = Some spec" "resolveAPs asSel (om_Labels ib2) data (iter ?g) = Inr aps"
    using assms(5) by (auto simp: resolvedInbound_def Let_def map_eq_Cons_conv)
  let ?s = "?st\<lparr>us_heap := snd (buildRedistribute net2 (us_heap ?st))\<rparr>"
  let ?t = "buildInboundStep asSel iter data ib2 ?st"
  have s: "connectedItems ?s 0 = redistItems net1" "connectedItems ?s 1 = redistItems net2"
    using one(1,2) by (simp_all add: buildRedistribute_fresh [OF r(2)] connectedItems_def readFilter_def gomap_simps)
  have at: "redistAt ?s n' v' = redistAt ?st n' v'" for n' v'
    by (simp add: redistAt_def nodeVRFs_def)
  have "connectedItems ?t 0 = connectedItems ?s 0 @ concat (replicate (length (d_Nodes data)) (connectedItems ?s 1)) \<and>
      redistAt ?t n b = redistAt ?s n b"
    unfolding buildInboundStep_resolved [OF r(1,2,3) refl r(5), of iter aps, OF r(7)] r(4) one(1)
      fold_simps applyInboundVRF_resolved [OF r(6)]
    by (rule fold_applyToNode_again) (use one(3) assms(6) at in auto)
  then have t: "connectedItems ?t 0 = redistItems net1 @ concat (replicate (length (d_Nodes data)) (redistItems net2))"
    and "redistAt ?t n b = Some (toFilter 0)"
    using one(3) assms(7,8) by (auto simp: s [unfolded One_nat_def] at)
  from redistributed_deref [OF this(2)] t show ?thesis
    by (simp add: buildInbound_def assms(1) Let_def)
qed

definition exShared :: ResolvedData where
  "exShared = exData\<lparr>d_Inbounds := [exInbound ''both'' ''n1'' ''all'' [''10.0.1.5''], exInbound ''one'' ''n2'' ''a'' [''10.0.2.5'']]\<rparr>"

lemma exShared_resolved:
  "resolvedInbound matchLabels (\<lambda>g. g) exShared (exInbound ''both'' ''n1'' ''all'' [''10.0.1.5'']) (exNetwork ''n1'' ''10.0.1.0/24'' (Some 11))
     [''a'', ''b'']"
  "resolvedInbound matchLabels (\<lambda>g. g) exShared (exInbound ''one'' ''n2'' ''a'' [''10.0.2.5'']) (exNetwork ''n2'' ''10.0.2.0/24'' (Some 12))
     [''a'']"
  by (auto simp: resolvedInbound_def exShared_def exInbound_def exData_def exSelector_def groupDestinationsByVRF_def
      matchLabels_def exDest_def exMeta_def destVRF_def exDestSpec_def exVRF_def ObjectMeta.extend_def resolveAPs_def
      resolveVRFSpec_def redistItems_def exNetwork_def findMatchingAP_def Let_def)

theorem inbound_redistribution_shared_witness:
  "redistributed (fst (buildInbound matchLabels (\<lambda>g. g) exShared [])) ''w1'' ''b'' =
     Some (map (\<lambda>p. prefixItem p None None (plainAction Accept)) [''10.0.1.0/24'', ''10.0.2.0/24'', ''10.0.2.0/24''])"
  using inbound_redistribution_shared [OF _ _ exShared_resolved(1) _ exShared_resolved(2), of "''b''" "''w1''" "[]"]
  by (simp add: exShared_def exData_def exNode_def exMeta_def ObjectMeta.extend_def redistItems_def exNetwork_def)

end
