(* ===== verification/Build_Peering.thy ===== *)
theory Build_Peering
  imports Build_Common
begin

text \<open>
  The builders of \<open>pkg/reconciler/intent/builder\<close> for BGP peerings, collectors, traffic mirrors and
  node attachments. Each is a loop over its resources that extends the nodes' contributions;
  skipped resources are reported.
\<close>

section \<open>BGP peerings\<close>

definition objectKey :: "'a ObjectMeta_scheme \<Rightarrow> string" where
  "objectKey x = om_Namespace x @ ''/'' @ om_Name x"

definition zeroPeer :: BGPPeer where
  "zeroPeer = \<lparr>bp_Address = None, bp_ListenRange = None, bp_RemoteASN = 0, bp_IPv4 = None, bp_IPv6 = None,
     bp_BFDProfile = None, bp_Multihop = None, bp_HoldTime = None, bp_KeepaliveTime = None, bp_Password = None\<rparr>"

definition buildBasePeer :: "NcBGPPeering \<Rightarrow> ResolvedData \<Rightarrow> BGPPeer" where
  "buildBasePeer bp data =
     (let sp = bp_Spec bp in
      zeroPeer\<lparr>bp_RemoteASN := (case bps_WorkloadAS sp of Some a \<Rightarrow> word_of_int a | None \<Rightarrow> 0),
        bp_HoldTime := bps_HoldTime sp, bp_KeepaliveTime := bps_KeepaliveTime sp,
        bp_BFDProfile := (if bps_EnableBFD sp = Some True
          then map_option (\<lambda>i. \<lparr>bfd_MinInterval = word_of_int i\<rparr>) (bps_BFDProfileMinInterval sp) else None),
        bp_Password := (if bps_AuthSecretRef sp = None then None
          else case gm_get (d_BGPPasswords data) (objectKey bp) of
            Some pw \<Rightarrow> if pw = '''' then None else Some pw | None \<Rightarrow> None)\<rparr>)"

definition maxPrefixes :: "NcBGPPeering \<Rightarrow> u32 option" where
  "maxPrefixes bp = map_option word_of_int (bps_MaximumPrefixes (bp_Spec bp))"

definition buildPeerAF :: "NcBGPPeering \<Rightarrow> string list \<Rightarrow> bool \<Rightarrow> AddressFamily" where
  "buildPeerAF bp pfxs isIPv4 =
     \<lparr>af_ExportFilter = Some (emptyFilter Accept),
      af_ImportFilter = Some (addFilterItems
        (map (\<lambda>p. prefixItem p None (Some (if isIPv4 then 32 else 128)) (plainAction Accept)) pfxs) (emptyFilter Reject)),
      af_MaxPrefixes = maxPrefixes bp\<rparr>"

definition buildListenRangePeers ::
  "NcBGPPeering \<Rightarrow> ResolvedNetwork \<Rightarrow> string list \<Rightarrow> string list \<Rightarrow> ResolvedData \<Rightarrow> BGPPeer list" where
  "buildListenRangePeers bp net allowIPv4 allowIPv6 data =
     (case nws_IPv4 (rn_Spec net) of None \<Rightarrow> []
      | Some n \<Rightarrow> [(buildBasePeer bp data)\<lparr>bp_ListenRange := Some (ipn_CIDR n), bp_IPv4 := Some (buildPeerAF bp allowIPv4 True)\<rparr>]) @
     (case nws_IPv6 (rn_Spec net) of None \<Rightarrow> []
      | Some n \<Rightarrow> [(buildBasePeer bp data)\<lparr>bp_ListenRange := Some (ipn_CIDR n), bp_IPv6 := Some (buildPeerAF bp allowIPv6 False)\<rparr>])"

definition resolveNetworkCIDRs :: "NcBGPPeering \<Rightarrow> ResolvedData \<Rightarrow> string list \<times> string list" where
  "resolveNetworkCIDRs bp data =
     (let nets = List.map_filter (gm_get (d_Networks data)) (bpr_NetworkRefs (bps_Ref (bp_Spec bp))) in
      (filter (\<lambda>c. c \<noteq> '''') (map (\<lambda>n. familyCIDR (nws_IPv4 (rn_Spec n))) nets),
       filter (\<lambda>c. c \<noteq> '''') (map (\<lambda>n. familyCIDR (nws_IPv6 (rn_Spec n))) nets)))"

definition evpnExportItems :: "string list \<Rightarrow> string list \<Rightarrow> string list option \<Rightarrow> FilterItem list" where
  "evpnExportItems ipv4 ipv6 export =
     (let action = withCommunities (case export of Some cs \<Rightarrow> cs | None \<Rightarrow> []) in
      map (\<lambda>p. prefixItem p None (Some 32) action) ipv4 @ map (\<lambda>p. prefixItem p None (Some 128) action) ipv6)"

definition applyListenRange ::
  "(string, VRFSpec) gomap \<Rightarrow> BGPPeer list \<Rightarrow> FilterItem list \<Rightarrow> NodeContribution \<Rightarrow> NodeContribution" where
  "applyListenRange vrfs peers items contrib =
     fold (\<lambda>vrfName contrib.
       let fvrf = (case gm_get (ct_FabricVRFs contrib) vrfName of Some f \<Rightarrow> f
                   | None \<Rightarrow> buildFabricVRF (the (gm_get vrfs vrfName)));
           fvrf = fvrf\<lparr>BGPPeers := BGPPeers fvrf @ peers\<rparr> in
       contrib\<lparr>ct_FabricVRFs := gm_put vrfName (addExportItems items (ensureExportFilter fvrf)) (ct_FabricVRFs contrib)\<rparr>)
     (sort (gm_keys vrfs)) contrib"

definition buildListenRange ::
  "asSelector \<Rightarrow> NcBGPPeering \<Rightarrow> ResolvedData \<Rightarrow> contributions \<Rightarrow> (GoError, contributions) result" where
  "buildListenRange asSel bp data result =
     (case bpr_AttachmentRef (bps_Ref (bp_Spec bp)) of
        None \<Rightarrow> Inl (ErrorString ''listenRange mode requires attachmentRef'')
      | Some a \<Rightarrow>
      case find (\<lambda>l. om_Name l = a) (d_Layer2Attachments data) of
        None \<Rightarrow> Inl (ErrorString (''attachmentRef '' @ quoted a @ '' not found''))
      | Some l2a \<Rightarrow>
      case gm_get (d_Networks data) (l2as_NetworkRef (l2a_Spec l2a)) of
        None \<Rightarrow> Inl (ErrorString (''Layer2Attachment '' @ quoted (om_Name l2a) @ '' references unknown Network '' @
          quoted (l2as_NetworkRef (l2a_Spec l2a))))
      | Some net \<Rightarrow>
        let vrfs = resolveSelectorVRFs asSel (l2as_Destinations (l2a_Spec l2a)) data in
        if vrfs = [] then Inl (ErrorString (''Layer2Attachment '' @ quoted (om_Name l2a) @ '' has no VRF for IRB''))
        else let (v4, v6) = resolveNetworkCIDRs bp data;
                 peers = buildListenRangePeers bp net v4 v6 data;
                 items = evpnExportItems v4 v6 (bps_ExportCommunities (bp_Spec bp)) in
          Inr (fold (\<lambda>node. updateContrib (om_Name node) (applyListenRange vrfs peers items)) (d_Nodes data) result))"

definition buildAddressFamilies :: "NcBGPPeering \<Rightarrow> AddressFamily option \<times> AddressFamily option" where
  "buildAddressFamilies bp =
     (let af = \<lparr>af_ExportFilter = Some (emptyFilter Accept), af_ImportFilter = Some (emptyFilter Reject),
                af_MaxPrefixes = maxPrefixes bp\<rparr>;
          fams = bps_AddressFamilies (bp_Spec bp) in
      if fams = [] then (Some af, Some af)
      else (if ''ipv4Unicast'' \<in> set fams then Some af else None,
            if ''ipv6Unicast'' \<in> set fams then Some af else None))"

definition buildLoopbackPeer :: "NcBGPPeering \<Rightarrow> ResolvedData \<Rightarrow> contributions \<Rightarrow> contributions" where
  "buildLoopbackPeer bp data result =
     (let (v4, v6) = buildAddressFamilies bp; peer = (buildBasePeer bp data)\<lparr>bp_IPv4 := v4, bp_IPv6 := v6\<rparr> in
      fold (\<lambda>node. updateContrib (om_Name node) (\<lambda>c.
        let cv = (case ct_ClusterVRF c of Some v \<Rightarrow> v | None \<Rightarrow> zeroVRF) in
        c\<lparr>ct_ClusterVRF := Some (cv\<lparr>BGPPeers := BGPPeers cv @ [peer]\<rparr>)\<rparr>)) (d_Nodes data) result)"

definition buildBGPPeeringStep ::
  "asSelector \<Rightarrow> ResolvedData \<Rightarrow> NcBGPPeering \<Rightarrow> contributions \<times> BuildIssue list \<Rightarrow> contributions \<times> BuildIssue list" where
  "buildBGPPeeringStep asSel data bp = (\<lambda>(result, issues).
     if bps_Mode (bp_Spec bp) = BGPPeeringModeListenRange then
       (case buildListenRange asSel bp data result of
          Inl err \<Rightarrow> (result, reportSkip ''BGPPeering'' bp ''ListenRangeUnresolved'' (errorText err) issues)
        | Inr result' \<Rightarrow> (result', issues))
     else if bps_Mode (bp_Spec bp) = BGPPeeringModeLoopbackPeer then (buildLoopbackPeer bp data result, issues)
     else (result, reportSkip ''BGPPeering'' bp ''UnknownMode''
       (''unknown BGPPeering mode '' @ quoted (bps_Mode (bp_Spec bp))) issues))"

definition buildBGPPeering ::
  "asSelector \<Rightarrow> ResolvedData \<Rightarrow> BuildIssue list \<Rightarrow> contributions \<times> BuildIssue list" where
  "buildBGPPeering asSel data issues = fold (buildBGPPeeringStep asSel data) (d_BGPPeerings data) ([], issues)"

section \<open>Collectors\<close>

definition applyCollector :: "Collector \<Rightarrow> VRFSpec \<Rightarrow> string \<Rightarrow> NodeContribution \<Rightarrow> NodeContribution" where
  "applyCollector col vrfSpec addr contrib =
     (let backboneVRF = vrfs_VRF vrfSpec; loopbackName = lbc_Name (mvr_Loopback (cols_MirrorVRF (col_Spec col)));
          fvrf = (case gm_get (ct_FabricVRFs contrib) backboneVRF of Some f \<Rightarrow> f | None \<Rightarrow> buildFabricVRF vrfSpec);
          fvrf = fvrf\<lparr>Loopbacks := gm_put loopbackName \<lparr>lb_IPAddresses = [addr]\<rparr> (Loopbacks fvrf),
            GREs := gm_put (mirrorGREName col)
              \<lparr>gre_DestinationAddress = cols_Address (col_Spec col), gre_SourceAddress = addr,
               gre_SourceInterface = loopbackName, gre_Layer = mirrorGRELayer (cols_Protocol (col_Spec col)),
               gre_EncapsulationKey = mirrorGREKey (cols_Key (col_Spec col))\<rparr> (GREs fvrf)\<rparr> in
      contrib\<lparr>ct_FabricVRFs := gm_put backboneVRF fvrf (ct_FabricVRFs contrib)\<rparr>)"

definition buildCollectorStep ::
  "ResolvedData \<Rightarrow> Collector \<Rightarrow> contributions \<times> BuildIssue list \<Rightarrow> contributions \<times> BuildIssue list" where
  "buildCollectorStep data col = (\<lambda>(result, issues).
     let vrfName = mvr_Name (cols_MirrorVRF (col_Spec col)) in
     case gm_get (d_VRFs data) vrfName of
       None \<Rightarrow> (result, reportSkip ''Collector'' col ''VRFNotFound'' (''referenced VRF '' @ quoted vrfName @ '' not found'') issues)
     | Some rv \<Rightarrow>
       (fold (\<lambda>node result. case gm_get (colst_NodeAddresses (col_Status col)) (om_Name node) of
            None \<Rightarrow> result
          | Some addr \<Rightarrow> if addr = '''' then result else updateContrib (om_Name node) (applyCollector col (rv_Spec rv) addr) result)
          (d_Nodes data) result, issues))"

definition buildCollector :: "ResolvedData \<Rightarrow> BuildIssue list \<Rightarrow> contributions \<times> BuildIssue list" where
  "buildCollector data issues = fold (buildCollectorStep data) (d_Collectors data) ([], issues)"

section \<open>Traffic mirrors\<close>

definition validMirrorSourceKind :: "string \<Rightarrow> bool" where
  "validMirrorSourceKind kind = (kind \<in> set [''Layer2Attachment'', ''Inbound'', ''Outbound''])"

definition mirrorDirections :: "string \<Rightarrow> MirrorDirection list" where
  "mirrorDirections direction =
     (if direction = ''ingress'' then [MirrorDirectionIngress]
      else if direction = ''egress'' then [MirrorDirectionEgress]
      else [MirrorDirectionIngress, MirrorDirectionEgress])"

definition resolveCollector :: "string \<Rightarrow> ResolvedData \<Rightarrow> (GoError, Collector) result" where
  "resolveCollector name data =
     (case find (\<lambda>c. om_Name c = name) (d_Collectors data) of
        Some c \<Rightarrow> Inr c | None \<Rightarrow> Inl (ErrorString (''collector '' @ quoted name @ '' not found'')))"

definition emptyMatch :: TrafficMatch where
  "emptyMatch = \<lparr>tm_SrcPrefix = None, tm_DstPrefix = None, tm_SrcPort = None, tm_DstPort = None, tm_Protocol = None\<rparr>"

definition convertTrafficMatch :: "NcTrafficMatch \<Rightarrow> TrafficMatch" where
  "convertTrafficMatch tm = \<lparr>tm_SrcPrefix = nctm_SrcPrefix tm, tm_DstPrefix = nctm_DstPrefix tm,
     tm_SrcPort = map_option word_of_int (nctm_SrcPort tm), tm_DstPort = map_option word_of_int (nctm_DstPort tm),
     tm_Protocol = nctm_Protocol tm\<rparr>"

definition addToLayer2 ::
  "string \<Rightarrow> MirrorACL \<Rightarrow> ResolvedData \<Rightarrow> contributions \<Rightarrow> (GoError, contributions) result" where
  "addToLayer2 l2aName acl data result =
     (case find (\<lambda>l. om_Name l = l2aName) (d_Layer2Attachments data) of
        None \<Rightarrow> Inl (ErrorString (''Layer2Attachment '' @ quoted l2aName @ '' not found''))
      | Some l2a \<Rightarrow>
      case gm_get (d_Networks data) (l2as_NetworkRef (l2a_Spec l2a)) of
        None \<Rightarrow> Inl (ErrorString (''Layer2Attachment '' @ quoted (om_Name l2a) @ '' references unknown Network '' @
          quoted (l2as_NetworkRef (l2a_Spec l2a))))
      | Some net \<Rightarrow>
      case (nws_VNI (rn_Spec net), nws_VLAN (rn_Spec net)) of
        (Some _, Some vlan) \<Rightarrow> Inr (fold (\<lambda>node. updateContrib (om_Name node) (\<lambda>c.
            let l = (case gm_get (ct_Layer2s c) (itoa vlan) of Some l \<Rightarrow> l | None \<Rightarrow> zeroLayer2) in
            c\<lparr>ct_Layer2s := gm_put (itoa vlan) (l\<lparr>l2_MirrorACLs := l2_MirrorACLs l @ [acl]\<rparr>) (ct_Layer2s c)\<rparr>))
          (d_Nodes data) result)
      | _ \<Rightarrow> Inl (ErrorString (''Layer2Attachment '' @ quoted (om_Name l2a) @ '' references Network '' @
          quoted (l2as_NetworkRef (l2a_Spec l2a)) @ '' that is not a valid HBN L2 segment (needs both VNI and VLAN); '' @
          ''traffic mirroring is only supported on HBN segments'')))"

definition applyMirrorACLToVRFs ::
  "(string, VRFSpec) gomap \<Rightarrow> MirrorACL \<Rightarrow> ResolvedData \<Rightarrow> contributions \<Rightarrow> contributions" where
  "applyMirrorACLToVRFs vrfs acl data result =
     fold (\<lambda>node. updateContrib (om_Name node) (\<lambda>contrib.
       fold (\<lambda>vrfName contrib.
         let fvrf = (case gm_get (ct_FabricVRFs contrib) vrfName of Some f \<Rightarrow> f
                     | None \<Rightarrow> buildFabricVRF (the (gm_get vrfs vrfName))) in
         contrib\<lparr>ct_FabricVRFs := gm_put vrfName (fvrf\<lparr>MirrorACLs := MirrorACLs fvrf @ [acl]\<rparr>) (ct_FabricVRFs contrib)\<rparr>)
       (sort (gm_keys vrfs)) contrib)) (d_Nodes data) result"

text \<open>\<open>addToInboundVRF\<close> and \<open>addToOutboundVRF\<close>: the VRFs of the source's destinations.\<close>

definition addToVRFs ::
  "asSelector \<Rightarrow> string \<Rightarrow> string \<Rightarrow> LabelSelector option option \<Rightarrow> MirrorACL \<Rightarrow> ResolvedData \<Rightarrow> contributions \<Rightarrow>
   (GoError, contributions) result" where
  "addToVRFs asSel kind name dests acl data result =
     (case dests of
        None \<Rightarrow> Inl (ErrorString (kind @ '' '' @ quoted name @ '' not found''))
      | Some sel \<Rightarrow>
        let vrfs = resolveSelectorVRFs asSel sel data in
        if vrfs = [] then Inl (ErrorString (kind @ '' '' @ quoted name @ '' has no VRF''))
        else Inr (applyMirrorACLToVRFs vrfs acl data result))"

definition attachToSource ::
  "asSelector \<Rightarrow> TrafficMirror \<Rightarrow> MirrorACL \<Rightarrow> ResolvedData \<Rightarrow> contributions \<Rightarrow> (GoError, contributions) result" where
  "attachToSource asSel tm acl data result =
     (let src = tmis_Source (tmi_Spec tm); n = ms_Name src in
      if ms_Kind src = ''Layer2Attachment'' then addToLayer2 n acl data result
      else if ms_Kind src = ''Inbound'' then
        addToVRFs asSel ''inbound'' n (map_option (\<lambda>i. inbs_Destinations (inb_Spec i)) (find (\<lambda>i. om_Name i = n) (d_Inbounds data)))
          acl data result
      else if ms_Kind src = ''Outbound'' then
        addToVRFs asSel ''outbound'' n (map_option (\<lambda>i. outbs_Destinations (outb_Spec i)) (find (\<lambda>i. om_Name i = n) (d_Outbounds data)))
          acl data result
      else Inl (ErrorString (''unknown source kind '' @ quoted (ms_Kind src))))"

text \<open>The loop over the directions; an error ends it and leaves what was attached before.\<close>

fun attachDirections ::
  "asSelector \<Rightarrow> TrafficMirror \<Rightarrow> TrafficMatch \<Rightarrow> string \<Rightarrow> ResolvedData \<Rightarrow> MirrorDirection list \<Rightarrow> contributions \<Rightarrow>
   GoError option \<times> contributions" where
  "attachDirections asSel tm match greName data [] result = (None, result)"
| "attachDirections asSel tm match greName data (d # ds) result =
     (case attachToSource asSel tm \<lparr>acl_TrafficMatch = match, acl_MirrorDestination = greName, acl_Direction = d\<rparr> data result of
        Inl err \<Rightarrow> (Some err, result)
      | Inr result' \<Rightarrow> attachDirections asSel tm match greName data ds result')"

definition buildMirrorStep ::
  "asSelector \<Rightarrow> ResolvedData \<Rightarrow> TrafficMirror \<Rightarrow> contributions \<times> BuildIssue list \<Rightarrow> contributions \<times> BuildIssue list" where
  "buildMirrorStep asSel data tm = (\<lambda>(result, issues).
     case resolveCollector (tmis_Collector (tmi_Spec tm)) data of
       Inl err \<Rightarrow> (result, reportSkip ''TrafficMirror'' tm ''CollectorResolutionFailed'' (errorText err) issues)
     | Inr col \<Rightarrow>
       let kind = ms_Kind (tmis_Source (tmi_Spec tm)) in
       if \<not> validMirrorSourceKind kind
       then (result, reportSkip ''TrafficMirror'' tm ''UnknownSourceKind'' (''unknown source kind '' @ quoted kind) issues)
       else let match = (case tmis_TrafficMatch (tmi_Spec tm) of Some m \<Rightarrow> convertTrafficMatch m | None \<Rightarrow> emptyMatch) in
         case attachDirections asSel tm match (mirrorGREName col) data (mirrorDirections (tmis_Direction (tmi_Spec tm))) result of
           (None, result') \<Rightarrow> (result', issues)
         | (Some err, result') \<Rightarrow> (result', reportSkip ''TrafficMirror'' tm ''SourceResolutionFailed'' (errorText err) issues))"

definition buildMirror ::
  "asSelector \<Rightarrow> ResolvedData \<Rightarrow> BuildIssue list \<Rightarrow> contributions \<times> BuildIssue list" where
  "buildMirror asSel data issues = fold (buildMirrorStep asSel data) (d_TrafficMirrors data) ([], issues)"

section \<open>Node attachments\<close>

definition collectNodeIPs :: "Node \<Rightarrow> string list" where
  "collectNodeIPs node = map (\<lambda>(_, a). a @ (if isV6 a then ''/128'' else ''/32''))
     (filter (\<lambda>(t, a). t = ''InternalIP'' \<and> a \<noteq> '''') (node_Addresses node))"

definition prefixFilterItems :: "string list \<Rightarrow> FilterItem list" where
  "prefixFilterItems pfxs = map (\<lambda>p. prefixItem p None (Some (if isV6 p then 128 else 32)) (plainAction Accept)) pfxs"

fun appendVRFImport :: "VRFImport list \<Rightarrow> string \<Rightarrow> FilterItem list \<Rightarrow> VRFImport list" where
  "appendVRFImport [] fromVRF items = [\<lparr>vi_FromVRF = fromVRF, vi_Filter = addFilterItems items (emptyFilter Reject)\<rparr>]"
| "appendVRFImport (vi # vis) fromVRF items =
     (if vi_FromVRF vi = fromVRF then vi\<lparr>vi_Filter := addFilterItems items (vi_Filter vi)\<rparr> # vis
      else vi # appendVRFImport vis fromVRF items)"

definition applyAttachment :: "string \<Rightarrow> VRFSpec \<Rightarrow> FilterItem list \<Rightarrow> string list \<Rightarrow> NodeContribution \<Rightarrow> NodeContribution" where
  "applyAttachment vrfName vrfSpec destItems nodeIPs contrib =
     (let fvrf = (case gm_get (ct_FabricVRFs contrib) vrfName of Some f \<Rightarrow> f | None \<Rightarrow> buildFabricVRF vrfSpec);
          items = addressFilterItems nodeIPs None;
          contrib = contrib\<lparr>ct_FabricVRFs := gm_put vrfName (addImportItems items (addExportItems items fvrf)) (ct_FabricVRFs contrib)\<rparr>;
          cv = (case ct_ClusterVRF contrib of Some v \<Rightarrow> v | None \<Rightarrow> zeroVRF) in
      if destItems = [] then contrib
      else contrib\<lparr>ct_ClusterVRF := Some (cv\<lparr>VRFImports := appendVRFImport (VRFImports cv) vrfName destItems\<rparr>)\<rparr>)"

definition applyAttachmentToNodes :: "string \<Rightarrow> VRFSpec \<Rightarrow> string list \<Rightarrow> Node list \<Rightarrow> contributions \<Rightarrow> contributions" where
  "applyAttachmentToNodes vrfName vrfSpec destPrefixes nodes result =
     fold (\<lambda>node result. let ips = collectNodeIPs node in
       if ips = [] then result
       else updateContrib (om_Name node) (applyAttachment vrfName vrfSpec (prefixFilterItems destPrefixes) ips) result) nodes result"

definition buildNodeAttachmentStep ::
  "asSelector \<Rightarrow> ((string, Destination list) gomap \<Rightarrow> (string, Destination list) gomap) \<Rightarrow> ResolvedData \<Rightarrow> NodeAttachment \<Rightarrow>
   contributions \<times> BuildIssue list \<Rightarrow> contributions \<times> BuildIssue list" where
  "buildNodeAttachmentStep asSel iter data na = (\<lambda>(result, issues).
     let grouped = groupDestinationsByVRF asSel (nas_Destinations (na_Spec na)) data in
     if grouped = [] then (result, issues)
     else case matchNodes asSel (d_Nodes data) (nas_NodeSelector (na_Spec na)) of
         Inl err \<Rightarrow> (result, reportSkip ''NodeAttachment'' na ''InvalidNodeSelector'' (errorText err) issues)
       | Inr nodes \<Rightarrow>
         if nodes = [] then (result, issues)
         else (fold (\<lambda>(vrfName, dests) result. case resolveVRFSpec dests data of
               None \<Rightarrow> result
             | Some vrfSpec \<Rightarrow> applyAttachmentToNodes vrfName vrfSpec (concat (map (\<lambda>d. dsts_Prefixes (dst_Spec d)) dests)) nodes result)
             (iter grouped) result, issues))"

definition buildNodeAttachment ::
  "asSelector \<Rightarrow> ((string, Destination list) gomap \<Rightarrow> (string, Destination list) gomap) \<Rightarrow> ResolvedData \<Rightarrow>
   BuildIssue list \<Rightarrow> contributions \<times> BuildIssue list" where
  "buildNodeAttachment asSel iter data issues =
     fold (buildNodeAttachmentStep asSel iter data) (d_NodeAttachments data) ([], issues)"

end
