(* ===== verification/Build_Sbr.thy ===== *)
theory Build_Sbr
  imports Intent_Samples Vrf_Name
begin

text \<open>
  \<open>pkg/reconciler/intent/builder/sbr.go\<close>: source-based routing. Consumers that select the same
  destinations share a group, and a group becomes an intermediate local VRF whose static routes
  lead to the fabric VRFs of the destinations; policy routes of the cluster VRF send a consumer's
  traffic into it. \<open>groups\<close> is the Go map from keys to groups; the groups are updated through
  pointers there and replaced here.
\<close>

record sbrGroup =
  sg_key :: string
  sg_vrfRoutes :: "(string, string list) gomap"
  sg_sourcePrefixes :: "string list"

type_synonym sbrGroups = "(string, sbrGroup) gomap"

fun appendUnique :: "string list \<Rightarrow> string list \<Rightarrow> string list" where
  "appendUnique existing [] = existing"
| "appendUnique existing (s # ss) = appendUnique (if s \<in> set existing then existing else existing @ [s]) ss"

definition collectAddressAllocation :: "AddressAllocation option \<Rightarrow> AddressAllocation option \<Rightarrow> string list" where
  "collectAddressAllocation spec status =
     (case (case spec of Some a \<Rightarrow> Some a | None \<Rightarrow> status) of
        None \<Rightarrow> []
      | Some a \<Rightarrow> map (\<lambda>ip. ensureCIDR ip ''/32'') (aa_IPv4 a) @ map (\<lambda>ip. ensureCIDR ip ''/128'') (aa_IPv6 a))"

definition collectInboundSources :: "Inbound \<Rightarrow> string list" where
  "collectInboundSources inb = collectAddressAllocation (inbs_Addresses (inb_Spec inb)) (inbst_Addresses (inb_Status inb))"

definition collectOutboundSources :: "Outbound \<Rightarrow> string list" where
  "collectOutboundSources outb = collectAddressAllocation (outbs_Addresses (outb_Spec outb)) (outbst_Addresses (outb_Status outb))"

definition collectPodNetworkSources :: "PodNetwork \<Rightarrow> networks \<Rightarrow> string list" where
  "collectPodNetworkSources pnet nets =
     (case gm_get nets (pns_NetworkRef (pn_Spec pnet)) of
        None \<Rightarrow> []
      | Some net \<Rightarrow>
        (case nws_IPv4 (rn_Spec net) of Some n \<Rightarrow> [ipn_CIDR n] | None \<Rightarrow> []) @
        (case nws_IPv6 (rn_Spec net) of Some n \<Rightarrow> [ipn_CIDR n] | None \<Rightarrow> []))"

definition destinationSetKey :: "asSelector \<Rightarrow> LabelSelector option \<Rightarrow> ResolvedData \<Rightarrow> string" where
  "destinationSetKey asSel sel data =
     (case asSel sel of
        Inl _ \<Rightarrow> ''''
      | Inr selector \<Rightarrow>
          joinWith ''+'' (sort (map om_Name (filter (\<lambda>d. selector (om_Labels d)) (d_RawDestinations data)))))"

definition addVrfRoutes :: "string \<times> Destination list \<Rightarrow> (string, string list) gomap \<Rightarrow> (string, string list) gomap" where
  "addVrfRoutes = (\<lambda>(vrfName, dests) routes. fold (\<lambda>d routes.
     gm_put vrfName (appendUnique (case gm_get routes vrfName of Some ps \<Rightarrow> ps | None \<Rightarrow> [])
       (dsts_Prefixes (dst_Spec d))) routes) dests routes)"

definition addConsumerToGroups ::
  "asSelector \<Rightarrow> LabelSelector option \<Rightarrow> string list \<Rightarrow> ResolvedData \<Rightarrow> sbrGroups \<Rightarrow> sbrGroups" where
  "addConsumerToGroups asSel destSelector sources data groups =
     (if destSelector = None then groups
      else let grouped = groupDestinationsByVRF asSel destSelector data in
        if grouped = [] then groups
        else let key = (if length grouped = 1 then fst (hd grouped) else destinationSetKey asSel destSelector data);
                 grp = (case gm_get groups key of Some g \<Rightarrow> g
                          | None \<Rightarrow> \<lparr>sg_key = key, sg_vrfRoutes = [], sg_sourcePrefixes = []\<rparr>) in
          gm_put key (grp\<lparr>sg_sourcePrefixes := appendUnique (sg_sourcePrefixes grp) sources,
                            sg_vrfRoutes := fold addVrfRoutes grouped (sg_vrfRoutes grp)\<rparr>) groups)"

definition addConsumer ::
  "asSelector \<Rightarrow> ResolvedData \<Rightarrow> LabelSelector option \<times> string list \<Rightarrow> sbrGroups \<Rightarrow> sbrGroups" where
  "addConsumer asSel data = (\<lambda>(sel, sources) groups.
     if sources = [] then groups else addConsumerToGroups asSel sel sources data groups)"

text \<open>The consumers in the order of the three scans of \<open>Build\<close>: selector and source prefixes.\<close>

definition consumers :: "ResolvedData \<Rightarrow> (LabelSelector option \<times> string list) list" where
  "consumers data =
     map (\<lambda>i. (inbs_Destinations (inb_Spec i), collectInboundSources i)) (d_Inbounds data) @
     map (\<lambda>o'. (outbs_Destinations (outb_Spec o'), collectOutboundSources o')) (d_Outbounds data) @
     map (\<lambda>p. (pns_Destinations (pn_Spec p), collectPodNetworkSources p (d_Networks data))) (d_PodNetworks data)"

definition sbrGroupsOf :: "asSelector \<Rightarrow> ResolvedData \<Rightarrow> sbrGroups" where
  "sbrGroupsOf asSel data = fold (addConsumer asSel data) (consumers data) []"

definition intermediateVRFName :: "sbrGroup \<Rightarrow> string" where
  "intermediateVRFName grp = SBRName (sg_key grp)"

definition vrfRoute :: "string \<Rightarrow> string \<Rightarrow> StaticRoute" where
  "vrfRoute vrfName p = \<lparr>sr_Prefix = p, sr_NextHop = Some \<lparr>nh_Address = None, nh_Vrf = Some vrfName\<rparr>, sr_BFDProfile = None\<rparr>"

definition buildComboVRF :: "sbrGroup \<Rightarrow> VRF" where
  "buildComboVRF grp = zeroVRF\<lparr>
     VRFImports := [\<lparr>vi_FromVRF = ''cluster'', vi_Filter = emptyFilter Accept\<rparr>],
     StaticRoutes := concat (map (\<lambda>vrfName. map (vrfRoute vrfName)
         (sort (case gm_get (sg_vrfRoutes grp) vrfName of Some ps \<Rightarrow> ps | None \<Rightarrow> [])))
       (sort (gm_keys (sg_vrfRoutes grp))))\<rparr>"

fun deduplicateVRFImports :: "string list \<Rightarrow> VRFImport list \<Rightarrow> VRFImport list" where
  "deduplicateVRFImports seen [] = []"
| "deduplicateVRFImports seen (imp # imps) =
     (if vi_FromVRF imp \<in> set seen then deduplicateVRFImports seen imps
      else imp # deduplicateVRFImports (vi_FromVRF imp # seen) imps)"

definition sortedGroups :: "sbrGroups \<Rightarrow> sbrGroup list" where
  "sortedGroups groups = List.map_filter (gm_get groups) (sort (gm_keys groups))"

definition sourceRoute :: "string \<Rightarrow> string \<Rightarrow> PolicyRoute" where
  "sourceRoute intermediate src =
     \<lparr>pr_TrafficMatch = \<lparr>tm_SrcPrefix = Some src, tm_DstPrefix = None, tm_SrcPort = None, tm_DstPort = None, tm_Protocol = None\<rparr>,
      pr_NextHop = \<lparr>nh_Address = None, nh_Vrf = Some intermediate\<rparr>\<rparr>"

text \<open>The body of the loop over the groups, for one node.\<close>

definition addGroup :: "sbrGroup \<Rightarrow> NodeContribution \<Rightarrow> NodeContribution" where
  "addGroup grp contrib =
     (let name = intermediateVRFName grp; localVRF = buildComboVRF grp;
          merged = (case gm_get (ct_LocalVRFs contrib) name of
              None \<Rightarrow> localVRF
            | Some e \<Rightarrow> e\<lparr>StaticRoutes := StaticRoutes e @ StaticRoutes localVRF,
                VRFImports := deduplicateVRFImports [] (VRFImports e @ VRFImports localVRF)\<rparr>);
          cv = (case ct_ClusterVRF contrib of Some v \<Rightarrow> v | None \<Rightarrow> zeroVRF) in
      contrib\<lparr>ct_LocalVRFs := gm_put name merged (ct_LocalVRFs contrib),
        ct_ClusterVRF := Some (cv\<lparr>PolicyRoutes := PolicyRoutes cv @
          map (sourceRoute name) (sort (sg_sourcePrefixes grp))\<rparr>)\<rparr>)"

definition buildSBR :: "asSelector \<Rightarrow> ResolvedData \<Rightarrow> contributions" where
  "buildSBR asSel data =
     (let groups = sbrGroupsOf asSel data in
      if groups = [] then []
      else fold (\<lambda>node result.
        let contrib = fold addGroup (sortedGroups groups) NewNodeContribution in
        if ct_LocalVRFs contrib \<noteq> [] \<or> ct_ClusterVRF contrib \<noteq> None then gm_put (om_Name node) contrib result else result)
        (d_Nodes data) [])"

section \<open>Groups\<close>

lemma set_appendUnique [simp]: "set (appendUnique xs ys) = set xs \<union> set ys"
  by (induction xs ys rule: appendUnique.induct) auto

definition groupRoutes :: "sbrGroup \<Rightarrow> string \<Rightarrow> string list" where
  "groupRoutes g v = (case gm_get (sg_vrfRoutes g) v of Some ps \<Rightarrow> ps | None \<Rightarrow> [])"

definition routesIn :: "(string, string list) gomap \<Rightarrow> (string \<times> string) set" where
  "routesIn m = {(v, p). \<exists>ps. gm_get m v = Some ps \<and> p \<in> set ps}"

lemma routesIn_Nil [simp]: "routesIn [] = {}"
  by (simp add: routesIn_def)

lemma routesIn_add:
  "routesIn (gm_put v (appendUnique (case gm_get m v of Some ps \<Rightarrow> ps | None \<Rightarrow> []) ps) m) = routesIn m \<union> {v} \<times> set ps"
  by (auto simp: routesIn_def gomap_simps split: option.splits if_splits)

lemma routesIn_addVrfRoutes:
  "routesIn (addVrfRoutes (v, ds) m) = routesIn m \<union> {(v, p) | d p. d \<in> set ds \<and> p \<in> set (dsts_Prefixes (dst_Spec d))}"
proof -
  have "routesIn (fold (\<lambda>d routes. gm_put v (appendUnique (case gm_get routes v of Some ps \<Rightarrow> ps | None \<Rightarrow> [])
       (dsts_Prefixes (dst_Spec d))) routes) ds m) = routesIn m \<union> {(v, p) | d p. d \<in> set ds \<and> p \<in> set (dsts_Prefixes (dst_Spec d))}"
    by (induction ds arbitrary: m) (auto simp: routesIn_add)
  then show ?thesis by (simp add: addVrfRoutes_def)
qed

lemma routesIn_fold:
  "routesIn (fold addVrfRoutes grouped m) =
     routesIn m \<union> {(v, p) | v ds d p. (v, ds) \<in> set grouped \<and> d \<in> set ds \<and> p \<in> set (dsts_Prefixes (dst_Spec d))}"
proof (induction grouped arbitrary: m)
  case (Cons g gs)
  obtain v ds where "g = (v, ds)" by (cases g)
  with Cons show ?case by (auto simp: routesIn_addVrfRoutes)
qed simp

text \<open>What the destinations of a selector are, VRF by VRF.\<close>

lemma groupDestinations_mem:
  assumes "asSel sel = Inr f"
  shows "gm_wf (groupDestinationsByVRF asSel sel data) \<and>
    ((\<exists>ds. (v, ds) \<in> set (groupDestinationsByVRF asSel sel data) \<and> d \<in> set ds) \<longleftrightarrow>
     d \<in> set (d_RawDestinations data) \<and> (\<exists>spec. destVRF data f d = Some spec \<and> vrfs_VRF spec = v))"
proof -
  let ?step = "\<lambda>rd grouped. case destVRF data f rd of None \<Rightarrow> grouped
      | Some v \<Rightarrow> gm_put (vrfs_VRF v) ((case gm_get grouped (vrfs_VRF v) of Some ds \<Rightarrow> ds | None \<Rightarrow> []) @ [rd]) grouped"
  have "gm_wf acc \<Longrightarrow> gm_wf (fold ?step rds acc) \<and>
      ((\<exists>ds. gm_get (fold ?step rds acc) v = Some ds \<and> d \<in> set ds) \<longleftrightarrow>
       (\<exists>ds. gm_get acc v = Some ds \<and> d \<in> set ds) \<or> d \<in> set rds \<and> (\<exists>spec. destVRF data f d = Some spec \<and> vrfs_VRF spec = v))"
    for rds acc
  proof (induction rds arbitrary: acc)
    case (Cons rd rds)
    then have "gm_wf (?step rd acc)" by (simp add: gomap_wf split: option.split)
    from Cons.IH [OF this] show ?case by (auto simp: gomap_simps split: option.splits if_splits)
  qed simp
  from this [of "[]" "d_RawDestinations data"] show ?thesis
    using assms by (auto simp: groupDestinationsByVRF_def gomap_wf gm_get_mem)
qed

section \<open>The specification of source-based routing\<close>

text \<open>
  The routes a selector asks for: a destination VRF and a prefix for every selected destination
  with a resolved VRF.
\<close>

definition selectedRoutes :: "asSelector \<Rightarrow> ResolvedData \<Rightarrow> LabelSelector option \<Rightarrow> (string \<times> string) set" where
  "selectedRoutes asSel data sel = {(v, p). \<exists>f d spec. asSel sel = Inr f \<and> d \<in> set (d_RawDestinations data) \<and>
     destVRF data f d = Some spec \<and> vrfs_VRF spec = v \<and> p \<in> set (dsts_Prefixes (dst_Spec d))}"

text \<open>The group a consumer belongs to, if any.\<close>

definition consumerKey :: "asSelector \<Rightarrow> ResolvedData \<Rightarrow> LabelSelector option \<times> string list \<Rightarrow> string option" where
  "consumerKey asSel data c =
     (let grouped = groupDestinationsByVRF asSel (fst c) data in
      if snd c = [] \<or> fst c = None \<or> grouped = [] then None
      else Some (if length grouped = 1 then fst (hd grouped) else destinationSetKey asSel (fst c) data))"

definition groupSources :: "asSelector \<Rightarrow> ResolvedData \<Rightarrow> string \<Rightarrow> string set" where
  "groupSources asSel data k = (\<Union>c \<in> {c \<in> set (consumers data). consumerKey asSel data c = Some k}. set (snd c))"

definition groupTargets :: "asSelector \<Rightarrow> ResolvedData \<Rightarrow> string \<Rightarrow> (string \<times> string) set" where
  "groupTargets asSel data k =
     (\<Union>c \<in> {c \<in> set (consumers data). consumerKey asSel data c = Some k}. selectedRoutes asSel data (fst c))"

definition sourcesAt :: "sbrGroups \<Rightarrow> string \<Rightarrow> string set" where
  "sourcesAt groups k = (case gm_get groups k of Some g \<Rightarrow> set (sg_sourcePrefixes g) | None \<Rightarrow> {})"

definition targetsAt :: "sbrGroups \<Rightarrow> string \<Rightarrow> (string \<times> string) set" where
  "targetsAt groups k = (case gm_get groups k of Some g \<Rightarrow> routesIn (sg_vrfRoutes g) | None \<Rightarrow> {})"

definition groups_ok :: "sbrGroups \<Rightarrow> bool" where
  "groups_ok groups \<longleftrightarrow> gm_wf groups \<and> (\<forall>k g. gm_get groups k = Some g \<longrightarrow> sg_key g = k)"

lemma targets_grouped:
  "{(v, p) | v ds d p. (v, ds) \<in> set (groupDestinationsByVRF asSel sel data) \<and> d \<in> set ds \<and>
      p \<in> set (dsts_Prefixes (dst_Spec d))} = selectedRoutes asSel data sel"
proof (cases "asSel sel")
  case (Inl e)
  then show ?thesis by (simp add: groupDestinationsByVRF_def selectedRoutes_def)
next
  case (Inr f)
  then show ?thesis
    using groupDestinations_mem [of asSel sel f data, OF Inr] by (fastforce simp: selectedRoutes_def)
qed

lemma routesIn_grouped:
  "routesIn (fold addVrfRoutes (groupDestinationsByVRF asSel sel data) m) = routesIn m \<union> selectedRoutes asSel data sel"
  by (simp only: routesIn_fold targets_grouped)

lemma addConsumer_groups:
  assumes "groups_ok groups"
  shows "groups_ok (addConsumer asSel data c groups)"
    and "sourcesAt (addConsumer asSel data c groups) k =
      sourcesAt groups k \<union> (if consumerKey asSel data c = Some k then set (snd c) else {})"
    and "targetsAt (addConsumer asSel data c groups) k =
      targetsAt groups k \<union> (if consumerKey asSel data c = Some k then selectedRoutes asSel data (fst c) else {})"
    and "gm_get (addConsumer asSel data c groups) k = None \<longleftrightarrow>
      gm_get groups k = None \<and> consumerKey asSel data c \<noteq> Some k"
proof -
  obtain sel sources where c: "c = (sel, sources)" by (cases c)
  let ?g = "groupDestinationsByVRF asSel sel data"
  show "groups_ok (addConsumer asSel data c groups)"
    using assms by (auto simp: groups_ok_def addConsumer_def addConsumerToGroups_def c Let_def gomap_wf gomap_simps
        split: option.splits if_splits)
  show "sourcesAt (addConsumer asSel data c groups) k =
      sourcesAt groups k \<union> (if consumerKey asSel data c = Some k then set (snd c) else {})"
    by (auto simp: sourcesAt_def addConsumer_def addConsumerToGroups_def consumerKey_def c Let_def gomap_simps
        split: option.splits)
  show "gm_get (addConsumer asSel data c groups) k = None \<longleftrightarrow>
      gm_get groups k = None \<and> consumerKey asSel data c \<noteq> Some k"
    by (auto simp: addConsumer_def addConsumerToGroups_def consumerKey_def c Let_def gomap_simps)
  show "targetsAt (addConsumer asSel data c groups) k =
      targetsAt groups k \<union> (if consumerKey asSel data c = Some k then selectedRoutes asSel data (fst c) else {})"
    by (auto simp: targetsAt_def addConsumer_def addConsumerToGroups_def consumerKey_def c Let_def gomap_simps
        routesIn_grouped split: option.splits)
qed

lemma fold_addConsumer:
  assumes "groups_ok groups"
  shows "groups_ok (fold (addConsumer asSel data) cs groups) \<and>
    sourcesAt (fold (addConsumer asSel data) cs groups) k =
      sourcesAt groups k \<union> (\<Union>c \<in> {c \<in> set cs. consumerKey asSel data c = Some k}. set (snd c)) \<and>
    targetsAt (fold (addConsumer asSel data) cs groups) k =
      targetsAt groups k \<union> (\<Union>c \<in> {c \<in> set cs. consumerKey asSel data c = Some k}. selectedRoutes asSel data (fst c)) \<and>
    (gm_get (fold (addConsumer asSel data) cs groups) k = None \<longleftrightarrow>
      gm_get groups k = None \<and> (\<forall>c \<in> set cs. consumerKey asSel data c \<noteq> Some k))"
  using assms
proof (induction cs arbitrary: groups)
  case (Cons c cs)
  note a = addConsumer_groups [OF Cons.prems, of asSel data c]
  from Cons.IH [OF a(1)] show ?case by (auto simp: a)
qed simp

lemma sbrGroupsOf_spec:
  "groups_ok (sbrGroupsOf asSel data) \<and> sourcesAt (sbrGroupsOf asSel data) k = groupSources asSel data k \<and>
   targetsAt (sbrGroupsOf asSel data) k = groupTargets asSel data k \<and>
   (gm_get (sbrGroupsOf asSel data) k = None \<longleftrightarrow> (\<forall>c \<in> set (consumers data). consumerKey asSel data c \<noteq> Some k))"
  using fold_addConsumer [of "[]" asSel data "consumers data" k]
  by (simp add: sbrGroupsOf_def groups_ok_def sourcesAt_def targetsAt_def groupSources_def groupTargets_def gomap_wf)

section \<open>The node's configuration\<close>

definition policyRoutes :: "NodeContribution \<Rightarrow> PolicyRoute list" where
  "policyRoutes c = (case ct_ClusterVRF c of Some v \<Rightarrow> PolicyRoutes v | None \<Rightarrow> [])"

definition localRoutes :: "NodeContribution \<Rightarrow> string \<Rightarrow> StaticRoute set" where
  "localRoutes c name = (case gm_get (ct_LocalVRFs c) name of Some v \<Rightarrow> set (StaticRoutes v) | None \<Rightarrow> {})"

lemma StaticRoutes_combo:
  "set (StaticRoutes (buildComboVRF g)) = (\<lambda>(v, p). vrfRoute v p) ` routesIn (sg_vrfRoutes g)"
proof -
  have "set (StaticRoutes (buildComboVRF g)) =
      (\<Union>v \<in> dom (gm_get (sg_vrfRoutes g)). vrfRoute v ` set (the (gm_get (sg_vrfRoutes g) v)))"
    by (auto simp: buildComboVRF_def dom_map_of_conv_image_fst [symmetric] split: option.splits)
  also have "\<dots> = (\<lambda>(v, p). vrfRoute v p) ` routesIn (sg_vrfRoutes g)"
    by (force simp: routesIn_def)
  finally show ?thesis .
qed

lemma addGroup_routes:
  "set (policyRoutes (addGroup g c)) = set (policyRoutes c) \<union> sourceRoute (SBRName (sg_key g)) ` set (sg_sourcePrefixes g)"
  "localRoutes (addGroup g c) name = localRoutes c name \<union>
     (if name = SBRName (sg_key g) then (\<lambda>(v, p). vrfRoute v p) ` routesIn (sg_vrfRoutes g) else {})"
  "gm_get (ct_LocalVRFs (addGroup g c)) name = None \<longleftrightarrow> gm_get (ct_LocalVRFs c) name = None \<and> name \<noteq> SBRName (sg_key g)"
  by (auto simp: addGroup_def policyRoutes_def localRoutes_def intermediateVRFName_def Let_def gomap_simps zeroVRF_def
      StaticRoutes_combo split: option.splits)

lemma fold_addGroup:
  "set (policyRoutes (fold addGroup gs c)) =
     set (policyRoutes c) \<union> (\<Union>g \<in> set gs. sourceRoute (SBRName (sg_key g)) ` set (sg_sourcePrefixes g)) \<and>
   localRoutes (fold addGroup gs c) name =
     localRoutes c name \<union> (\<Union>g \<in> {g \<in> set gs. SBRName (sg_key g) = name}. (\<lambda>(v, p). vrfRoute v p) ` routesIn (sg_vrfRoutes g)) \<and>
   (gm_get (ct_LocalVRFs (fold addGroup gs c)) name = None \<longleftrightarrow>
     gm_get (ct_LocalVRFs c) name = None \<and> name \<notin> (\<lambda>g. SBRName (sg_key g)) ` set gs)"
  by (induction gs arbitrary: c) (auto simp: addGroup_routes)

lemma set_map_filter: "set (List.map_filter f xs) = {y. \<exists>x \<in> set xs. f x = Some y}"
  by (induction xs) (auto simp: map_filter_simps split: option.splits)

lemma sortedGroups_mem:
  assumes "groups_ok groups"
  shows "g \<in> set (sortedGroups groups) \<longleftrightarrow> gm_get groups (sg_key g) = Some g"
proof -
  have "g \<in> set (sortedGroups groups) \<longleftrightarrow> (\<exists>k. gm_get groups k = Some g)"
    by (auto simp: sortedGroups_def set_map_filter) (metis fst_conv map_of_SomeD)
  then show ?thesis using assms by (auto simp: groups_ok_def)
qed

lemma fold_addGroup_cluster: "gs \<noteq> [] \<Longrightarrow> ct_ClusterVRF (fold addGroup gs c) \<noteq> None"
  by (induction gs rule: rev_induct) (simp_all add: addGroup_def Let_def)

definition nodeContrib :: "contributions \<Rightarrow> string \<Rightarrow> NodeContribution" where
  "nodeContrib result n = ensureContrib result n"

lemma gm_get_fold_put_const:
  "gm_get (fold (\<lambda>x. gm_put (f x) v) xs m) k = (if k \<in> f ` set xs then Some v else gm_get m k)"
  by (induction xs arbitrary: m) (auto simp: gomap_simps)

lemma nodeContrib_SBR:
  assumes "n \<in> om_Name ` set (d_Nodes data)"
  shows "nodeContrib (buildSBR asSel data) n = fold addGroup (sortedGroups (sbrGroupsOf asSel data)) NewNodeContribution"
proof (cases "sortedGroups (sbrGroupsOf asSel data) = []")
  case True
  moreover have "fold (\<lambda>node result. result) nodes r = r" for nodes :: "Node list" and r :: contributions
    by (induction nodes) simp_all
  ultimately have "buildSBR asSel data = []"
    by (simp add: buildSBR_def Let_def NewNodeContribution_def)
  with True show ?thesis by (simp add: nodeContrib_def ensureContrib_def)
next
  case False
  then have "sbrGroupsOf asSel data \<noteq> []" by (auto simp: sortedGroups_def)
  with assms fold_addGroup_cluster [OF False] show ?thesis
    by (simp add: nodeContrib_def ensureContrib_def buildSBR_def Let_def gm_get_fold_put_const)
qed

lemma sortedGroups_iff:
  assumes "groups_ok gs"
  shows "(\<exists>g \<in> set (sortedGroups gs). P (sg_key g) g) \<longleftrightarrow> (\<exists>k g. gm_get gs k = Some g \<and> P k g)"
  using assms sortedGroups_mem [OF assms] unfolding groups_ok_def by blast

lemma NewNodeContribution_routes:
  "policyRoutes NewNodeContribution = []" "localRoutes NewNodeContribution name = {}"
  by (simp_all add: policyRoutes_def localRoutes_def NewNodeContribution_def)

lemma sbr_policy:
  assumes "groups_ok gs"
  shows "set (policyRoutes (fold addGroup (sortedGroups gs) NewNodeContribution)) =
    {sourceRoute (SBRName k) src | k src. src \<in> sourcesAt gs k}"
proof -
  have "x \<in> set (policyRoutes (fold addGroup (sortedGroups gs) NewNodeContribution)) \<longleftrightarrow>
      (\<exists>k g. gm_get gs k = Some g \<and> x \<in> sourceRoute (SBRName k) ` set (sg_sourcePrefixes g))" for x
    by (simp add: fold_addGroup NewNodeContribution_routes
        flip: sortedGroups_iff [OF assms])
  then show ?thesis by (fastforce simp: sourcesAt_def split: option.splits)
qed

lemma sbr_local:
  assumes "groups_ok gs"
  shows "localRoutes (fold addGroup (sortedGroups gs) NewNodeContribution) name =
    {vrfRoute fv p | k fv p. SBRName k = name \<and> (fv, p) \<in> targetsAt gs k}"
proof -
  have "x \<in> localRoutes (fold addGroup (sortedGroups gs) NewNodeContribution) name \<longleftrightarrow>
      (\<exists>k g. gm_get gs k = Some g \<and> SBRName k = name \<and> x \<in> (\<lambda>(v, p). vrfRoute v p) ` routesIn (sg_vrfRoutes g))" for x
    by (simp add: fold_addGroup NewNodeContribution_routes
        flip: sortedGroups_iff [OF assms]) blast
  then show ?thesis by (fastforce simp: targetsAt_def split: option.splits)
qed

lemma sbr_absent:
  assumes "groups_ok gs"
  shows "gm_get (ct_LocalVRFs (fold addGroup (sortedGroups gs) NewNodeContribution)) name = None \<longleftrightarrow>
    (\<forall>k. gm_get gs k \<noteq> None \<longrightarrow> SBRName k \<noteq> name)"
  using sortedGroups_iff [OF assms, of "\<lambda>k g. SBRName k = name"]
  by (auto simp: fold_addGroup NewNodeContribution_def)

lemma groupSources_nonempty:
  "groupSources asSel data k \<noteq> {} \<longleftrightarrow> gm_get (sbrGroupsOf asSel data) k \<noteq> None"
proof -
  have "consumerKey asSel data c = Some k \<Longrightarrow> snd c \<noteq> []" for c
    by (auto simp: consumerKey_def Let_def split: if_splits)
  then show ?thesis using sbrGroupsOf_spec [of asSel data k] by (auto simp: groupSources_def)
qed

text \<open>
  C4. Source-based routing routes what was asked for, and nothing else. On every node, the policy
  routes are exactly: for each group of consumers and each source address of it, from that source
  into the group's intermediate VRF. An intermediate VRF exists exactly when a group has its name,
  and its static routes are exactly those to the prefixes of the destinations that the consumers
  of the group select, each through the fabric VRF of its destination.
\<close>

theorem buildSBR_exact:
  assumes "n \<in> om_Name ` set (d_Nodes data)"
  shows "set (policyRoutes (nodeContrib (buildSBR asSel data) n)) =
      {sourceRoute (SBRName k) src | k src. src \<in> groupSources asSel data k} \<and>
    (case gm_get (ct_LocalVRFs (nodeContrib (buildSBR asSel data) n)) name of
       None \<Rightarrow> \<forall>k. groupSources asSel data k \<noteq> {} \<longrightarrow> SBRName k \<noteq> name
     | Some v \<Rightarrow> (\<exists>k. groupSources asSel data k \<noteq> {} \<and> SBRName k = name) \<and>
         set (StaticRoutes v) = {vrfRoute fv p | k fv p. SBRName k = name \<and> (fv, p) \<in> groupTargets asSel data k})"
proof -
  let ?gs = "sbrGroupsOf asSel data"
  have ok: "groups_ok ?gs" and src: "sourcesAt ?gs k = groupSources asSel data k"
    and tgt: "targetsAt ?gs k = groupTargets asSel data k" for k
    using sbrGroupsOf_spec by blast+
  show ?thesis
    unfolding nodeContrib_SBR [OF assms]
    using sbr_policy [OF ok] sbr_local [OF ok, of name] sbr_absent [OF ok, of name]
    by (auto simp: src tgt groupSources_nonempty localRoutes_def split: option.splits)
qed

definition exRouted :: ResolvedData where
  "exRouted = exData\<lparr>d_Inbounds := [exInbound ''both'' ''n1'' ''all'' [''10.0.1.5'']]\<rparr>"

lemmas ex_simps = exData_def exInbound_def exMeta_def ObjectMeta.extend_def exSelector_def matchLabels_def exDest_def
  exDestSpec_def exVRF_def exNetwork_def exNode_def

lemma exRouted_key:
  "consumers exRouted = [(exSelector ''all'', [''10.0.1.5/32''])]"
  "consumerKey matchLabels exRouted (exSelector ''all'', [''10.0.1.5/32'']) = Some ''da+db''"
  by (simp_all add: exRouted_def ex_simps consumers_def consumerKey_def groupDestinationsByVRF_def destVRF_def
      collectInboundSources_def collectAddressAllocation_def ensureCIDR_def Let_def destinationSetKey_def)

lemma exRouted_groups:
  "''10.0.1.5/32'' \<in> groupSources matchLabels exRouted ''da+db''"
  "(''b'', ''172.17.0.0/24'') \<in> groupTargets matchLabels exRouted ''da+db''"
proof -
  let ?d = "exDest ''db'' [(''b'', ''y''), (''all'', ''y'')] ''vb'' [''172.17.0.0/24'']"
  show "''10.0.1.5/32'' \<in> groupSources matchLabels exRouted ''da+db''"
    by (simp add: groupSources_def exRouted_key)
  have "?d \<in> set (d_RawDestinations exRouted)" "''172.17.0.0/24'' \<in> set (dsts_Prefixes (dst_Spec ?d))"
    "destVRF exRouted (\<lambda>labels. list_all (\<lambda>(k, v). gm_get labels k = Some v) [(''all'', ''y'')]) ?d = Some (exVRF ''b'')"
    by (simp_all add: exRouted_def ex_simps destVRF_def)
  then show "(''b'', ''172.17.0.0/24'') \<in> groupTargets matchLabels exRouted ''da+db''"
    unfolding groupTargets_def exRouted_key selectedRoutes_def
    by (auto simp: exRouted_key(2) [unfolded exSelector_def] matchLabels_def exSelector_def exVRF_def intro!: exI [of _ ?d])
qed

theorem buildSBR_exact_witness:
  "sourceRoute (SBRName ''da+db'') ''10.0.1.5/32'' \<in> set (policyRoutes (nodeContrib (buildSBR matchLabels exRouted) ''w1'')) \<and>
   (\<exists>v. gm_get (ct_LocalVRFs (nodeContrib (buildSBR matchLabels exRouted) ''w1'')) (SBRName ''da+db'') = Some v \<and>
        vrfRoute ''b'' ''172.17.0.0/24'' \<in> set (StaticRoutes v))"
proof -
  have "''w1'' \<in> om_Name ` set (d_Nodes exRouted)"
    by (simp add: exRouted_def exData_def exNode_def exMeta_def ObjectMeta.extend_def)
  from buildSBR_exact [OF this, of matchLabels "SBRName ''da+db''"] exRouted_groups show ?thesis
    by (auto split: option.splits)
qed

end
