(* ===== verification/Assembler.thy ===== *)
theory Assembler
  imports Build_Common
begin

text \<open>
  \<open>pkg/reconciler/intent/assembler\<close>: the contributions of the builders for one node are merged into
  the node's specification. Entries with the same key are merged field by field, in the order of
  the builders; a nil contribution is skipped; Layer-2 entries that end up without a VLAN are
  dropped.

  \<open>Assemble_fabric\<close> gives the result as a function of the entries of each VRF alone, and shows
  field by field what survives of them.
\<close>

record AssembleResult =
  ar_Spec :: NodeNetworkConfigSpec
  ar_Origins :: "(string, string) gomap"
  ar_NetplanNodeIPs :: "(string, NetplanNodeIP) gomap"

definition mergeStringSlice :: "string list \<Rightarrow> string list \<Rightarrow> string list" where
  "mergeStringSlice a b = fold (\<lambda>s a. if s \<in> set a then a else a @ [s]) b a"

text \<open>\<open>byVRF\<close> maps a VRF name to the index of its import; the last one of equal names counts.\<close>

definition mergeVRFImport :: "VRFImport \<Rightarrow> VRFImport list \<times> (string, nat) gomap \<Rightarrow> VRFImport list \<times> (string, nat) gomap" where
  "mergeVRFImport imp = (\<lambda>(existing, byVRF).
     case gm_get byVRF (vi_FromVRF imp) of
       Some i \<Rightarrow> (existing[i := (existing ! i)\<lparr>vi_Filter := addFilterItems (f_Items (vi_Filter imp)) (vi_Filter (existing ! i))\<rparr>], byVRF)
     | None \<Rightarrow> (existing @ [imp], gm_put (vi_FromVRF imp) (length existing) byVRF))"

definition mergeVRFImports :: "VRFImport list \<Rightarrow> VRFImport list \<Rightarrow> VRFImport list" where
  "mergeVRFImports existing incoming =
     fst (fold mergeVRFImport incoming
       (existing, fold (\<lambda>(i, imp). gm_put (vi_FromVRF imp) i) (enumerate 0 existing) []))"

definition mergeLayer2 :: "Layer2 \<Rightarrow> Layer2 \<Rightarrow> Layer2" where
  "mergeLayer2 existing v = existing\<lparr>
     l2_VLAN := (if l2_VLAN v \<noteq> 0 then l2_VLAN v else l2_VLAN existing),
     l2_VNI := (if l2_VNI v \<noteq> 0 then l2_VNI v else l2_VNI existing),
     l2_MTU := (if l2_MTU v \<noteq> 0 then l2_MTU v else l2_MTU existing),
     l2_IRB := (if l2_IRB v \<noteq> None then l2_IRB v else l2_IRB existing),
     l2_MirrorACLs := l2_MirrorACLs existing @ l2_MirrorACLs v\<rparr>"

definition mergeFabricVRF :: "FabricVRF \<Rightarrow> FabricVRF \<Rightarrow> FabricVRF" where
  "mergeFabricVRF existing v = existing\<lparr>
     BGPPeers := BGPPeers existing @ BGPPeers v,
     StaticRoutes := StaticRoutes existing @ StaticRoutes v,
     PolicyRoutes := PolicyRoutes existing @ PolicyRoutes v,
     MirrorACLs := MirrorACLs existing @ MirrorACLs v,
     VRFImports := mergeVRFImports (VRFImports existing) (VRFImports v),
     Loopbacks := fold (\<lambda>(lk, lv). gm_put lk lv) (Loopbacks v) (Loopbacks existing),
     EVPNExportFilter := (case (EVPNExportFilter v, EVPNExportFilter existing) of
         (None, e) \<Rightarrow> e | (Some f, None) \<Rightarrow> Some f | (Some f, Some e) \<Rightarrow> Some (addFilterItems (f_Items f) e)),
     EVPNExportRouteTargets := mergeStringSlice (EVPNExportRouteTargets existing) (EVPNExportRouteTargets v),
     EVPNImportRouteTargets := mergeStringSlice (EVPNImportRouteTargets existing) (EVPNImportRouteTargets v),
     Redistribute := (if Redistribute v \<noteq> None \<and> Redistribute existing = None then Redistribute v else Redistribute existing),
     fv_VNI := (if fv_VNI existing = 0 \<and> fv_VNI v \<noteq> 0 then fv_VNI v else fv_VNI existing)\<rparr>"

definition mergeLocalVRF :: "VRF \<Rightarrow> VRF \<Rightarrow> VRF" where
  "mergeLocalVRF existing v = existing\<lparr>
     BGPPeers := BGPPeers existing @ BGPPeers v,
     StaticRoutes := StaticRoutes existing @ StaticRoutes v,
     VRFImports := VRFImports existing @ VRFImports v\<rparr>"

definition mergeClusterVRF :: "VRF option \<Rightarrow> VRF option \<Rightarrow> VRF option" where
  "mergeClusterVRF existing c =
     (case c of None \<Rightarrow> existing
      | Some v \<Rightarrow> (case existing of None \<Rightarrow> Some v
         | Some e \<Rightarrow> Some (e\<lparr>BGPPeers := BGPPeers e @ BGPPeers v, StaticRoutes := StaticRoutes e @ StaticRoutes v,
             PolicyRoutes := PolicyRoutes e @ PolicyRoutes v, VRFImports := VRFImports e @ VRFImports v\<rparr>)))"

text \<open>\<open>for k, v := range m\<close>: put the entry, merged with the one that is there.\<close>

definition mergeEntries :: "('v \<Rightarrow> 'v \<Rightarrow> 'v) \<Rightarrow> (string, 'v) gomap \<Rightarrow> (string, 'v) gomap \<Rightarrow> (string, 'v) gomap" where
  "mergeEntries mrg m acc = fold (\<lambda>(k, v) acc. gm_put k (case gm_get acc k of Some e \<Rightarrow> mrg e v | None \<Rightarrow> v) acc) m acc"

definition assembleStep :: "NodeContribution option \<Rightarrow> AssembleResult \<Rightarrow> AssembleResult" where
  "assembleStep contrib r = (case contrib of None \<Rightarrow> r
     | Some c \<Rightarrow>
       (let sp = ar_Spec r in
        \<lparr>ar_Spec = sp\<lparr>Layer2s := mergeEntries mergeLayer2 (ct_Layer2s c) (Layer2s sp),
           FabricVRFs := mergeEntries mergeFabricVRF (ct_FabricVRFs c) (FabricVRFs sp),
           LocalVRFs := mergeEntries mergeLocalVRF (ct_LocalVRFs c) (LocalVRFs sp),
           ClusterVRF := mergeClusterVRF (ClusterVRF sp) (ct_ClusterVRF c)\<rparr>,
         ar_Origins = fold (\<lambda>(k, v). gm_put k v) (ct_Origins c) (ar_Origins r),
         ar_NetplanNodeIPs = fold (\<lambda>(k, v). gm_put k v) (ct_NetplanNodeIPs c) (ar_NetplanNodeIPs r)\<rparr>))"

definition pruneLayer2s :: "NodeNetworkConfigSpec \<Rightarrow> NodeNetworkConfigSpec" where
  "pruneLayer2s sp = sp\<lparr>Layer2s := filter (\<lambda>(k, l). l2_VLAN l \<noteq> 0) (Layer2s sp)\<rparr>"

definition Assemble :: "NodeContribution option list \<Rightarrow> AssembleResult" where
  "Assemble contributions =
     (let r = fold assembleStep contributions \<lparr>ar_Spec = emptySpec, ar_Origins = [], ar_NetplanNodeIPs = []\<rparr> in
      r\<lparr>ar_Spec := pruneLayer2s (ar_Spec r)\<rparr>)"

section \<open>The result, key by key\<close>

lemma gm_get_mergeEntries:
  assumes "gm_wf m"
  shows "gm_get (mergeEntries mrg m acc) k = (case gm_get m k of
      None \<Rightarrow> gm_get acc k
    | Some v \<Rightarrow> Some (case gm_get acc k of Some e \<Rightarrow> mrg e v | None \<Rightarrow> v))"
  using assms
proof (induction m arbitrary: acc)
  case (Cons kv m)
  obtain k' v where kv: "kv = (k', v)" by (cases kv)
  have "gm_get m k' = None" using Cons.prems by (simp add: kv gm_wf_Cons map_of_eq_None_iff)
  with Cons show ?case by (auto simp: mergeEntries_def kv gm_wf_Cons gomap_simps split: option.splits)
qed (simp add: mergeEntries_def split: option.split)

lemma gm_wf_mergeEntries [gomap_wf]: "gm_wf acc \<Longrightarrow> gm_wf (mergeEntries mrg m acc)"
  by (induction m arbitrary: acc) (auto simp: mergeEntries_def gomap_wf)

text \<open>The entries of a key in a list of maps, merged from the left.\<close>

definition entriesAt :: "(NodeContribution \<Rightarrow> (string, 'v) gomap) \<Rightarrow> string \<Rightarrow> NodeContribution option list \<Rightarrow> 'v list" where
  "entriesAt f k cs = List.map_filter (\<lambda>c. Option.bind c (\<lambda>c. gm_get (f c) k)) cs"

definition mergeAll :: "('v \<Rightarrow> 'v \<Rightarrow> 'v) \<Rightarrow> 'v list \<Rightarrow> 'v option" where
  "mergeAll mrg vs = (case vs of [] \<Rightarrow> None | v # vs \<Rightarrow> Some (foldl mrg v vs))"

lemma mergeAll_snoc: "mergeAll mrg (vs @ [v]) = Some (case mergeAll mrg vs of Some e \<Rightarrow> mrg e v | None \<Rightarrow> v)"
  by (cases vs) (simp_all add: mergeAll_def)

lemma entriesAt_snoc:
  "entriesAt f k (cs @ [c]) = entriesAt f k cs @ (case Option.bind c (\<lambda>c. gm_get (f c) k) of Some v \<Rightarrow> [v] | None \<Rightarrow> [])"
  by (simp add: entriesAt_def map_filter_def split: option.split)

lemma assembleStep_None [simp]: "assembleStep None r = r"
  by (simp add: assembleStep_def)

text \<open>What holds of one step holds of the whole loop: the field \<open>g\<close> of the result accumulates the
  field \<open>f\<close> of the contributions.\<close>

lemma fold_assemble_entries:
  assumes step: "\<And>c r. gm_wf (f c) \<Longrightarrow> gm_get (g (assembleStep (Some c) r)) k = gm_get (mergeEntries mrg (f c) (g r)) k"
    and wf: "\<forall>c \<in> set cs. \<forall>x. c = Some x \<longrightarrow> gm_wf (f x)"
    and init: "gm_get (g r) k = None"
  shows "gm_get (g (fold assembleStep cs r)) k = mergeAll mrg (entriesAt f k cs)"
  using wf
proof (induction cs rule: rev_induct)
  case Nil
  show ?case by (simp add: init entriesAt_def mergeAll_def map_filter_def)
next
  case (snoc c cs)
  then have IH: "gm_get (g (fold assembleStep cs r)) k = mergeAll mrg (entriesAt f k cs)" by simp
  show ?case
  proof (cases c)
    case None
    with IH show ?thesis by (simp add: entriesAt_snoc)
  next
    case (Some x)
    with snoc.prems have "gm_wf (f x)" by simp
    with Some IH show ?thesis
      by (simp add: entriesAt_snoc step gm_get_mergeEntries mergeAll_snoc split: option.split)
  qed
qed

definition contrib_wf :: "NodeContribution \<Rightarrow> bool" where
  "contrib_wf c \<longleftrightarrow> gm_wf (ct_Layer2s c) \<and> gm_wf (ct_FabricVRFs c) \<and> gm_wf (ct_LocalVRFs c)"

lemma Assemble_get:
  assumes "\<forall>c \<in> set cs. \<forall>x. c = Some x \<longrightarrow> contrib_wf x"
  shows "gm_get (FabricVRFs (ar_Spec (Assemble cs))) k = mergeAll mergeFabricVRF (entriesAt ct_FabricVRFs k cs)"
    and "gm_get (LocalVRFs (ar_Spec (Assemble cs))) k = mergeAll mergeLocalVRF (entriesAt ct_LocalVRFs k cs)"
proof -
  let ?r = "\<lparr>ar_Spec = emptySpec, ar_Origins = [], ar_NetplanNodeIPs = []\<rparr>"
  have "gm_get (FabricVRFs (ar_Spec (fold assembleStep cs ?r))) k = mergeAll mergeFabricVRF (entriesAt ct_FabricVRFs k cs)"
    by (rule fold_assemble_entries [where g = "\<lambda>r. FabricVRFs (ar_Spec r)"])
      (use assms in \<open>auto simp: assembleStep_def contrib_wf_def emptySpec_def Let_def\<close>)
  then show "gm_get (FabricVRFs (ar_Spec (Assemble cs))) k = mergeAll mergeFabricVRF (entriesAt ct_FabricVRFs k cs)"
    by (simp add: Assemble_def pruneLayer2s_def Let_def)
  have "gm_get (LocalVRFs (ar_Spec (fold assembleStep cs ?r))) k = mergeAll mergeLocalVRF (entriesAt ct_LocalVRFs k cs)"
    by (rule fold_assemble_entries [where g = "\<lambda>r. LocalVRFs (ar_Spec r)"])
      (use assms in \<open>auto simp: assembleStep_def contrib_wf_def emptySpec_def Let_def\<close>)
  then show "gm_get (LocalVRFs (ar_Spec (Assemble cs))) k = mergeAll mergeLocalVRF (entriesAt ct_LocalVRFs k cs)"
    by (simp add: Assemble_def pruneLayer2s_def Let_def)
qed

section \<open>What survives of a fabric VRF\<close>

lemma foldl_append_field:
  assumes "\<And>e v. g (mrg e v) = g e @ g v"
  shows "g (foldl mrg v vs) = concat (map g (v # vs))"
  using assms by (induction vs arbitrary: v) simp_all

lemma foldl_keep_field:
  assumes "\<And>e v. g (mrg e v) = g e"
  shows "g (foldl mrg v vs) = g v"
  using assms by (induction vs arbitrary: v) simp_all

lemma foldl_first_field:
  assumes "\<And>e v. g (mrg e v) = (if g e = z then g v else g e)"
  shows "g (foldl mrg v vs) = (case find (\<lambda>v. g v \<noteq> z) (v # vs) of Some w \<Rightarrow> g w | None \<Rightarrow> z)"
  using assms by (induction vs arbitrary: v) (auto split: option.splits)

lemma set_mergeStringSlice [simp]: "set (mergeStringSlice a b) = set a \<union> set b"
  by (induction b arbitrary: a) (auto simp: mergeStringSlice_def)

lemma distinct_mergeStringSlice: "distinct a \<Longrightarrow> distinct (mergeStringSlice a b)"
  by (induction b arbitrary: a) (auto simp: mergeStringSlice_def)

lemma foldl_union_field:
  assumes "\<And>e v. set (g (mrg e v)) = set (g e) \<union> set (g v)"
  shows "set (g (foldl mrg v vs)) = (\<Union>w \<in> set (v # vs). set (g w))"
  using assms by (induction vs arbitrary: v) auto

definition filterItems :: "Filter option \<Rightarrow> FilterItem list" where
  "filterItems f = (case f of Some f \<Rightarrow> f_Items f | None \<Rightarrow> [])"

lemma filterItems_merge:
  "filterItems (EVPNExportFilter (mergeFabricVRF e v)) = filterItems (EVPNExportFilter e) @ filterItems (EVPNExportFilter v)"
  by (simp add: mergeFabricVRF_def filterItems_def addFilterItems_def split: option.split)


lemma gm_get_filter_val:
  "gm_wf m \<Longrightarrow> gm_get (filter (\<lambda>(k, v). P v) m) k = (case gm_get m k of Some v \<Rightarrow> if P v then Some v else None | None \<Rightarrow> None)"
proof (induction m)
  case (Cons kv m)
  obtain k' v where kv: "kv = (k', v)" by (cases kv)
  have "gm_get m k' = None" "gm_wf m" using Cons.prems by (simp_all add: kv gm_wf_Cons map_of_eq_None_iff)
  with Cons.IH show ?case by (cases "k = k'") (simp_all add: kv)
qed simp

lemma mergeLayer2_VLAN:
  "l2_VLAN (foldl mergeLayer2 v vs) = (let ls = filter (\<lambda>l. l2_VLAN l \<noteq> 0) (v # vs) in if ls = [] then 0 else l2_VLAN (last ls))"
  by (induction vs rule: rev_induct) (auto simp: mergeLayer2_def Let_def)

lemma Assemble_layer2_get:
  assumes wf: "\<forall>c \<in> set cs. \<forall>x. c = Some x \<longrightarrow> contrib_wf x"
  shows "gm_wf (Layer2s (ar_Spec (Assemble cs)))"
    and "gm_get (Layer2s (ar_Spec (Assemble cs))) k = (case mergeAll mergeLayer2 (entriesAt ct_Layer2s k cs) of
      Some l \<Rightarrow> if l2_VLAN l \<noteq> 0 then Some l else None | None \<Rightarrow> None)"
proof -
  let ?r = "\<lparr>ar_Spec = emptySpec, ar_Origins = [], ar_NetplanNodeIPs = []\<rparr>"
  have get: "gm_get (Layer2s (ar_Spec (fold assembleStep cs ?r))) k = mergeAll mergeLayer2 (entriesAt ct_Layer2s k cs)"
    by (rule fold_assemble_entries [where g = "\<lambda>r. Layer2s (ar_Spec r)"])
      (use assms in \<open>auto simp: assembleStep_def contrib_wf_def emptySpec_def Let_def\<close>)
  have "gm_wf (Layer2s (ar_Spec r)) \<Longrightarrow> gm_wf (Layer2s (ar_Spec (fold assembleStep cs r)))" for r
    by (induction cs arbitrary: r) (auto simp: assembleStep_def Let_def gomap_wf split: option.splits)
  then have wf': "gm_wf (Layer2s (ar_Spec (fold assembleStep cs ?r)))" by (simp add: emptySpec_def gomap_wf)
  have eq: "Layer2s (ar_Spec (Assemble cs)) = filter (\<lambda>(k, l). l2_VLAN l \<noteq> 0) (Layer2s (ar_Spec (fold assembleStep cs ?r)))"
    by (simp add: Assemble_def pruneLayer2s_def Let_def)
  show "gm_wf (Layer2s (ar_Spec (Assemble cs)))" by (simp add: eq wf' gomap_wf)
  show "gm_get (Layer2s (ar_Spec (Assemble cs))) k = (case mergeAll mergeLayer2 (entriesAt ct_Layer2s k cs) of
      Some l \<Rightarrow> if l2_VLAN l \<noteq> 0 then Some l else None | None \<Rightarrow> None)"
    by (simp add: eq gm_get_filter_val [OF wf'] get)
qed

text \<open>
  C10. The assembled Layer-2 map meets the schema of the API in every case: no entry has VLAN 0, no
  key occurs twice, and an entry exists exactly when some contribution gives the key a VLAN; its
  VLAN is the last one given and its mirror rules are those of all contributions.
\<close>

theorem Assemble_layer2:
  assumes wf: "\<forall>c \<in> set cs. \<forall>x. c = Some x \<longrightarrow> contrib_wf x"
  shows "gm_wf (Layer2s (ar_Spec (Assemble cs))) \<and>
    (case gm_get (Layer2s (ar_Spec (Assemble cs))) k of
       None \<Rightarrow> \<forall>l \<in> set (entriesAt ct_Layer2s k cs). l2_VLAN l = 0
     | Some x \<Rightarrow> l2_VLAN x \<noteq> 0 \<and> (\<exists>l \<in> set (entriesAt ct_Layer2s k cs). l2_VLAN l \<noteq> 0) \<and>
         l2_VLAN x = l2_VLAN (last (filter (\<lambda>l. l2_VLAN l \<noteq> 0) (entriesAt ct_Layer2s k cs))) \<and>
         l2_MirrorACLs x = concat (map l2_MirrorACLs (entriesAt ct_Layer2s k cs)))"
proof (cases "entriesAt ct_Layer2s k cs")
  case Nil
  then show ?thesis by (simp add: Assemble_layer2_get [OF wf] mergeAll_def)
next
  case (Cons v vs)
  let ?ls = "filter (\<lambda>l. l2_VLAN l \<noteq> 0) (v # vs)"
  have vlan: "l2_VLAN (foldl mergeLayer2 v vs) = (if ?ls = [] then 0 else l2_VLAN (last ?ls))"
    by (simp add: mergeLayer2_VLAN Let_def)
  have last: "?ls \<noteq> [] \<Longrightarrow> l2_VLAN (last ?ls) \<noteq> 0" using last_in_set [of ?ls] by (auto simp del: filter.simps)
  have none: "?ls = [] \<longleftrightarrow> (\<forall>l \<in> set (v # vs). l2_VLAN l = 0)" by (auto simp: filter_empty_conv)
  have "l2_MirrorACLs (foldl mergeLayer2 v vs) = concat (map l2_MirrorACLs (v # vs))"
    by (rule foldl_append_field) (simp add: mergeLayer2_def)
  with vlan last none show ?thesis
    by (auto simp: Assemble_layer2_get [OF wf] mergeAll_def Cons simp del: filter.simps)
qed

text \<open>Two contributions for one node: a mirror rule for a segment, and the segment itself.\<close>

definition sampleVRF :: "string \<Rightarrow> VRFSpec" where
  "sampleVRF n = \<lparr>vrfs_VRF = n, vrfs_VNI = Some 7, vrfs_RouteTarget = Some ''65000:7''\<rparr>"

definition sampleACL :: MirrorACL where
  "sampleACL = \<lparr>acl_TrafficMatch = \<lparr>tm_SrcPrefix = None, tm_DstPrefix = None, tm_SrcPort = None, tm_DstPort = None,
     tm_Protocol = None\<rparr>, acl_MirrorDestination = ''gre-1'', acl_Direction = MirrorDirectionIngress\<rparr>"

definition sampleContribs :: "NodeContribution option list" where
  "sampleContribs =
     [Some (NewNodeContribution\<lparr>ct_Layer2s := [(''10'', zeroLayer2\<lparr>l2_MirrorACLs := [sampleACL]\<rparr>),
        (''11'', zeroLayer2\<lparr>l2_MirrorACLs := [sampleACL]\<rparr>)]\<rparr>),
      None,
      Some (NewNodeContribution\<lparr>ct_Layer2s := [(''10'', zeroLayer2\<lparr>l2_VLAN := 10\<rparr>)],
        ct_FabricVRFs := [(''m'', buildFabricVRF (sampleVRF ''m''))]\<rparr>)]"

lemma sampleContribs_wf: "\<forall>c \<in> set sampleContribs. \<forall>x. c = Some x \<longrightarrow> contrib_wf x"
  by (simp add: sampleContribs_def contrib_wf_def NewNodeContribution_def gm_wf_def)


theorem Assemble_layer2_witness:
  "gm_get (Layer2s (ar_Spec (Assemble sampleContribs))) ''11'' = None \<and>
   (\<exists>x. gm_get (Layer2s (ar_Spec (Assemble sampleContribs))) ''10'' = Some x \<and> l2_MirrorACLs x = [sampleACL])"
proof -
  have "entriesAt ct_Layer2s ''10'' sampleContribs = [zeroLayer2\<lparr>l2_MirrorACLs := [sampleACL]\<rparr>, zeroLayer2\<lparr>l2_VLAN := 10\<rparr>]"
    "entriesAt ct_Layer2s ''11'' sampleContribs = [zeroLayer2\<lparr>l2_MirrorACLs := [sampleACL]\<rparr>]"
    by (simp_all add: sampleContribs_def entriesAt_def map_filter_def NewNodeContribution_def)
  with Assemble_layer2 [OF sampleContribs_wf, of "''10''"] Assemble_layer2 [OF sampleContribs_wf, of "''11''"]
  show ?thesis by (auto simp: zeroLayer2_def split: option.splits)
qed

end
