(* ===== verification/Nnc_Json.thy ===== *)
theory Nnc_Json
  imports Nnc_Types Go_Json Go_Sha256
begin

text \<open>
  The JSON text of a node specification, which the intent reconciler hashes into the revision:
  \<open>json.Marshal\<close> driven by the tags of \<open>api/v1alpha1/nodenetworkconfig_types.go\<close>, a function per
  struct, fields in the order of the struct. Three slices have no \<open>omitempty\<close>: the pipeline leaves
  them nil or puts elements in, so the empty list stands for nil and is written \<open>null\<close>.

  \<open>durationString\<close> is \<open>time.Duration.String\<close>, the text of a \<open>metav1.Duration\<close>; a duration is in
  nanoseconds.
\<close>

definition stripZeros :: "string \<Rightarrow> string" where
  "stripZeros s = rev (dropWhile (\<lambda>c. c = CHR ''0'') (rev s))"

definition padZeros :: "nat \<Rightarrow> string \<Rightarrow> string" where
  "padZeros n s = replicate (n - length s) (CHR ''0'') @ s"

text \<open>\<open>fmtFrac\<close>: the fraction of \<open>v / 10 ^ prec\<close>, without trailing zeros.\<close>

definition fmtFrac :: "nat \<Rightarrow> nat \<Rightarrow> string" where
  "fmtFrac v prec = (let f = v mod 10 ^ prec in if f = 0 then '''' else ''.'' @ stripZeros (padZeros prec (utoa f)))"

definition durationString :: "int \<Rightarrow> string" where
  "durationString d =
     (let u = nat \<bar>d\<bar>;
          unit = (\<lambda>prec name. utoa (u div 10 ^ prec) @ fmtFrac u prec @ name);
          body =
            (if u = 0 then ''0s''
             else if u < 1000 then unit 0 ''ns''
             else if u < 1000000 then unit 3 [CHR 0xC2, CHR 0xB5, CHR ''s'']
             else if u < 1000000000 then unit 6 ''ms''
             else let sec = u div 1000000000; m = sec div 60; h = m div 60;
                      s = utoa (sec mod 60) @ fmtFrac u 9 @ ''s'' in
               if m = 0 then s
               else if h = 0 then utoa m @ ''m'' @ s
               else utoa h @ ''h'' @ utoa (m mod 60) @ ''m'' @ s) in
      if d < 0 then CHR ''-'' # body else body)"

section \<open>The structs\<close>

definition jarr :: "('a \<Rightarrow> json) \<Rightarrow> 'a list \<Rightarrow> json" where
  "jarr f xs = JArr (map f xs)"

definition jlist :: "string \<Rightarrow> ('a \<Rightarrow> json) \<Rightarrow> 'a list \<Rightarrow> (string \<times> json) list" where
  "jlist k f xs = jomit k (xs = []) (jarr f xs)"

definition jdict :: "string \<Rightarrow> ('a \<Rightarrow> json) \<Rightarrow> (string, 'a) gomap \<Rightarrow> (string \<times> json) list" where
  "jdict k f m = jomit k (m = []) (jmap (map (\<lambda>(n, x). (n, f x)) m))"

definition jnilable :: "string list \<Rightarrow> json" where
  "jnilable xs = (if xs = [] then JNull else jstrs xs)"

definition jword :: "'a::len word \<Rightarrow> json" where
  "jword w = JInt (uint w)"

definition encodeActionType :: "ActionType \<Rightarrow> json" where
  "encodeActionType t = JStr (case t of Accept \<Rightarrow> ''accept'' | Reject \<Rightarrow> ''reject'' | NextAction \<Rightarrow> ''next'')"

definition encodeModifyRoute :: "ModifyRouteAction \<Rightarrow> json" where
  "encodeModifyRoute m = JObj (jlist ''addCommunities'' JStr (mra_AddCommunities m) @
     jopt ''additiveCommunities'' JBool (mra_AdditiveCommunities m) @
     jlist ''removeCommunities'' JStr (mra_RemoveCommunities m) @
     jopt ''removeAllCommunities'' JBool (mra_RemoveAllCommunities m))"

definition encodeAction :: "Action \<Rightarrow> json" where
  "encodeAction a = JObj ([(''type'', encodeActionType (act_Type a))] @
     jopt ''modifyRoute'' encodeModifyRoute (act_ModifyRoute a))"

definition encodePrefixMatcher :: "PrefixMatcher \<Rightarrow> json" where
  "encodePrefixMatcher p = JObj ([(''prefix'', JStr (pm_Prefix p))] @ jopt ''ge'' JInt (pm_Ge p) @ jopt ''le'' JInt (pm_Le p))"

definition encodeCommunityMatcher :: "BGPCommunityMatcher \<Rightarrow> json" where
  "encodeCommunityMatcher c = JObj [(''community'', JStr (bcm_Community c)), (''exactMatch'', JBool (bcm_ExactMatch c))]"

definition encodeMatcher :: "Matcher \<Rightarrow> json" where
  "encodeMatcher m = JObj (jopt ''prefix'' encodePrefixMatcher (m_Prefix m) @
     jopt ''bgpCommunity'' encodeCommunityMatcher (m_BGPCommunity m))"

definition encodeFilterItem :: "FilterItem \<Rightarrow> json" where
  "encodeFilterItem i = JObj [(''matcher'', encodeMatcher (fi_Matcher i)), (''action'', encodeAction (fi_Action i))]"

definition encodeFilter :: "Filter \<Rightarrow> json" where
  "encodeFilter f = JObj (jlist ''items'' encodeFilterItem (f_Items f) @ [(''defaultAction'', encodeAction (f_DefaultAction f))])"

definition encodeAddressFamily :: "AddressFamily \<Rightarrow> json" where
  "encodeAddressFamily a = JObj (jopt ''exportFilter'' encodeFilter (af_ExportFilter a) @
     jopt ''importFilter'' encodeFilter (af_ImportFilter a) @ jopt ''maxPrefixes'' jword (af_MaxPrefixes a))"

definition encodeBFDProfile :: "BFDProfile \<Rightarrow> json" where
  "encodeBFDProfile b = JObj [(''minInterval'', jword (bfd_MinInterval b))]"

definition jduration :: "int \<Rightarrow> json" where
  "jduration d = JStr (durationString d)"

definition encodeBGPPeer :: "BGPPeer \<Rightarrow> json" where
  "encodeBGPPeer p = JObj (jopt ''address'' JStr (bp_Address p) @ jopt ''listenRange'' JStr (bp_ListenRange p) @
     [(''remoteAsn'', jword (bp_RemoteASN p))] @
     jopt ''ipv4'' encodeAddressFamily (bp_IPv4 p) @ jopt ''ipv6'' encodeAddressFamily (bp_IPv6 p) @
     jopt ''bfdProfile'' encodeBFDProfile (bp_BFDProfile p) @ jopt ''multihop'' jword (bp_Multihop p) @
     jopt ''holdTime'' jduration (bp_HoldTime p) @ jopt ''keepaliveTime'' jduration (bp_KeepaliveTime p) @
     jopt ''password'' JStr (bp_Password p))"

definition encodeVRFImport :: "VRFImport \<Rightarrow> json" where
  "encodeVRFImport i = JObj [(''fromVrf'', JStr (vi_FromVRF i)), (''filter'', encodeFilter (vi_Filter i))]"

definition encodeNextHop :: "NextHop \<Rightarrow> json" where
  "encodeNextHop h = JObj (jopt ''address'' JStr (nh_Address h) @ jopt ''vrf'' JStr (nh_Vrf h))"

definition encodeStaticRoute :: "StaticRoute \<Rightarrow> json" where
  "encodeStaticRoute r = JObj ([(''prefix'', JStr (sr_Prefix r))] @ jopt ''nextHop'' encodeNextHop (sr_NextHop r) @
     jopt ''bfdProfile'' encodeBFDProfile (sr_BFDProfile r))"

definition encodeTrafficMatch :: "TrafficMatch \<Rightarrow> json" where
  "encodeTrafficMatch t = JObj (jopt ''srcPrefix'' JStr (tm_SrcPrefix t) @ jopt ''dstPrefix'' JStr (tm_DstPrefix t) @
     jopt ''srcPort'' jword (tm_SrcPort t) @ jopt ''dstPort'' jword (tm_DstPort t) @ jopt ''protocol'' JStr (tm_Protocol t))"

definition encodePolicyRoute :: "PolicyRoute \<Rightarrow> json" where
  "encodePolicyRoute r = JObj [(''trafficMatch'', encodeTrafficMatch (pr_TrafficMatch r)), (''nextHop'', encodeNextHop (pr_NextHop r))]"

definition encodeMirrorACL :: "MirrorACL \<Rightarrow> json" where
  "encodeMirrorACL a = JObj [(''trafficMatch'', encodeTrafficMatch (acl_TrafficMatch a)),
     (''mirrorDestination'', JStr (acl_MirrorDestination a)),
     (''direction'', JStr (case acl_Direction a of MirrorDirectionIngress \<Rightarrow> ''ingress'' | MirrorDirectionEgress \<Rightarrow> ''egress''))]"

definition encodeRedistribute :: "Redistribute \<Rightarrow> json" where
  "encodeRedistribute r = JObj (jopt ''connected'' encodeFilter (rd_Connected r) @ jopt ''static'' encodeFilter (rd_Static r))"

definition encodeGRE :: "GRE \<Rightarrow> json" where
  "encodeGRE g = JObj ([(''destinationAddress'', JStr (gre_DestinationAddress g)), (''sourceAddress'', JStr (gre_SourceAddress g))] @
     jomit ''sourceInterface'' (gre_SourceInterface g = '''') (JStr (gre_SourceInterface g)) @
     [(''layer'', JStr (case gre_Layer g of GRELayer2 \<Rightarrow> ''layer2'' | GRELayer3 \<Rightarrow> ''layer3''))] @
     jopt ''encapsulationKey'' jword (gre_EncapsulationKey g))"

definition encodeLoopback :: "Loopback \<Rightarrow> json" where
  "encodeLoopback l = JObj [(''ipAddresses'', jnilable (lb_IPAddresses l))]"

text \<open>The fields of a VRF, which \<open>FabricVRF\<close> inlines before its own.\<close>

definition fieldsVRF :: "'a VRF_scheme \<Rightarrow> (string \<times> json) list" where
  "fieldsVRF v = jdict ''loopbacks'' encodeLoopback (Loopbacks v) @ jlist ''bgpPeers'' encodeBGPPeer (BGPPeers v) @
     jlist ''vrfImports'' encodeVRFImport (VRFImports v) @ jlist ''staticRoutes'' encodeStaticRoute (StaticRoutes v) @
     jlist ''policyRoutes'' encodePolicyRoute (PolicyRoutes v) @ jlist ''mirrorAcls'' encodeMirrorACL (MirrorACLs v) @
     jopt ''redistribute'' encodeRedistribute (Redistribute v) @ jdict ''gres'' encodeGRE (GREs v)"

definition encodeVRF :: "VRF \<Rightarrow> json" where
  "encodeVRF v = JObj (fieldsVRF v)"

definition encodeFabricVRF :: "FabricVRF \<Rightarrow> json" where
  "encodeFabricVRF v = JObj (fieldsVRF v @ [(''vni'', jword (fv_VNI v)),
     (''evpnImportRouteTargets'', jnilable (EVPNImportRouteTargets v)),
     (''evpnExportRouteTargets'', jnilable (EVPNExportRouteTargets v)),
     (''evpnExportFilter'', case EVPNExportFilter v of None \<Rightarrow> JNull | Some f \<Rightarrow> encodeFilter f)])"

definition encodeIRB :: "IRB \<Rightarrow> json" where
  "encodeIRB i = JObj [(''vrf'', JStr (irb_VRF i)), (''macAddress'', JStr (irb_MACAddress i)),
     (''ipAddresses'', jnilable (irb_IPAddresses i))]"

definition encodeLayer2 :: "Layer2 \<Rightarrow> json" where
  "encodeLayer2 l = JObj ([(''vni'', jword (l2_VNI l)), (''vlan'', jword (l2_VLAN l)), (''routeTarget'', JStr (l2_RouteTarget l)),
     (''mtu'', jword (l2_MTU l))] @ jopt ''irb'' encodeIRB (l2_IRB l) @ jlist ''mirrorAcls'' encodeMirrorACL (l2_MirrorACLs l) @
     jomit ''disableSegmentation'' (\<not> l2_DisableSegmentation l) (JBool (l2_DisableSegmentation l)))"

definition encodeSpec :: "NodeNetworkConfigSpec \<Rightarrow> json" where
  "encodeSpec sp = JObj ([(''revision'', JStr (nns_Revision sp))] @ jdict ''layer2s'' encodeLayer2 (Layer2s sp) @
     jopt ''clusterVRF'' encodeVRF (ClusterVRF sp) @ jdict ''fabricVRFs'' encodeFabricVRF (FabricVRFs sp) @
     jdict ''localVRFs'' encodeVRF (LocalVRFs sp))"

section \<open>The revision\<close>

definition computeRevision :: "NodeNetworkConfigSpec \<Rightarrow> string" where
  "computeRevision sp = sha256_hex (jprint (encodeSpec (sp\<lparr>nns_Revision := ''''\<rparr>)))"

end
