(* ===== verification/Intent_Pipeline.thy ===== *)
theory Intent_Pipeline
  imports L2a_Admission Build_Usage Build_Peering Build_Sbr Assembler Nnc_Json Nnc_Names Revision_Types
begin

text \<open>
  The pass of \<open>pkg/reconciler/intent/reconciler.go\<close> from the resolved resources to the
  configuration of the nodes: the builders in the order of \<open>NewReconciler\<close>, the assembler, the
  reduction of the VRF names, the revision, and the netplan state of the node. No builder returns
  an error, so the branch that skips a pass for a failed builder is not taken;
  \<open>AnnouncementBuilder\<close> contributes nothing.

  A netplan device is the JSON text of a Go map, whose keys \<open>json.Marshal\<close> sorts.
\<close>

definition buildAnnouncement :: "ResolvedData \<Rightarrow> BuildIssue list \<Rightarrow> contributions \<times> BuildIssue list" where
  "buildAnnouncement data issues = ([], issues)"

text \<open>The loop over the builders: every builder reports into the same list of issues.\<close>

definition builders ::
  "asSelector \<Rightarrow> groupIter \<Rightarrow> ResolvedData \<Rightarrow> (BuildIssue list \<Rightarrow> contributions \<times> BuildIssue list) list" where
  "builders asSel iter data =
     [buildL2A asSel data, buildInbound asSel iter data, buildOutbound asSel iter data, buildPodNetwork asSel data,
      buildBGPPeering asSel data, buildCollector data, buildMirror asSel data, buildAnnouncement data,
      buildNodeAttachment asSel iter data, (\<lambda>issues. (buildSBR asSel data, issues))]"

fun runBuilders ::
  "(BuildIssue list \<Rightarrow> contributions \<times> BuildIssue list) list \<Rightarrow> BuildIssue list \<Rightarrow> contributions list \<times> BuildIssue list" where
  "runBuilders [] issues = ([], issues)"
| "runBuilders (b # bs) issues =
     (let (r, issues) = b issues; (rs, issues) = runBuilders bs issues in (r # rs, issues))"

text \<open>\<open>contributions[nodeName]\<close>: what the builders contribute to a node, in their order.\<close>

definition nodeContributions :: "contributions list \<Rightarrow> string \<Rightarrow> NodeContribution option list" where
  "nodeContributions rs n = map Some (List.map_filter (\<lambda>r. gm_get r n) rs)"

text \<open>The part of the loop of \<open>applyNodeConfigs\<close> before the API is called.\<close>

definition nodeConfig :: "NodeContribution option list \<Rightarrow> (names_error, AssembleResult) result" where
  "nodeConfig cs =
     (let result = Assemble cs in
      case ReduceSpec (ar_Spec result) of
        (_, Some err) \<Rightarrow> Inl err
      | (sp, None) \<Rightarrow> Inr (result\<lparr>ar_Spec := sp\<lparr>nns_Revision := computeRevision sp\<rparr>\<rparr>))"

section \<open>Netplan\<close>

definition hbnTrunk :: string where
  "hbnTrunk = ''hbn''"

definition NewEmptyState :: NetworkState where
  "NewEmptyState = \<lparr>ns_Version = 2, ns_Ethernets = [], ns_Modems = [], ns_Wifis = [], ns_Bridges = [], ns_Bonds = [],
     ns_Tunnels = [], ns_VLans = [], ns_VRFs = [], ns_Dummies = []\<rparr>"

definition layer2Entry :: "NodeNetworkConfigSpec \<Rightarrow> string \<Rightarrow> Layer2" where
  "layer2Entry sp key = (case gm_get (Layer2s sp) key of Some l \<Rightarrow> l | None \<Rightarrow> zeroLayer2)"

definition sortedNetplanKeys :: "NodeNetworkConfigSpec \<Rightarrow> (string, NetplanNodeIP) gomap \<Rightarrow> string list" where
  "sortedNetplanKeys sp nodeIPs =
     sort (gm_keys nodeIPs @ filter (\<lambda>k. \<not> gm_has nodeIPs k) (gm_keys (Layer2s sp)))"

definition netplanDeviceParams :: "Layer2 \<Rightarrow> NetplanNodeIP \<Rightarrow> bool \<Rightarrow> u16 \<times> u16 \<times> string" where
  "netplanDeviceParams l2 nip hasNip =
     (let (vid, mtu) = (if l2_VLAN l2 = 0 \<and> hasNip then (npi_VLAN nip, npi_MTU nip) else (l2_VLAN l2, l2_MTU l2));
          link = (if hasNip \<and> npi_InterfaceRef nip \<noteq> '''' then npi_InterfaceRef nip else hbnTrunk) in
      (vid, mtu, link))"

definition buildNetplanRoutes :: "NetplanNodeIP \<Rightarrow> json list" where
  "buildNetplanRoutes nip =
     map (\<lambda>gw. jmap [(''to'', JStr ''default''), (''via'', JStr gw)]) (npi_Gateways nip) @
     map (\<lambda>r. jmap [(''to'', JStr (npr_To r)), (''via'', JStr (npr_Via r))]) (npi_Routes nip)"

definition addressesAndRoutes :: "NetplanNodeIP \<Rightarrow> (string, json) gomap" where
  "addressesAndRoutes nip =
     (if npi_Addresses nip = [] then [] else [(''addresses'', jstrs (npi_Addresses nip))]) @
     (if npi_Gateways nip = [] \<and> npi_Routes nip = [] then [] else [(''routes'', JArr (buildNetplanRoutes nip))])"

definition buildNativeEthernetDevice :: "NetplanNodeIP \<Rightarrow> u16 \<Rightarrow> json" where
  "buildNativeEthernetDevice nip mtu =
     jmap ([(''link-local'', JArr []), (''critical'', JBool True)] @
       (if mtu = 0 then [] else [(''mtu'', jword mtu)]) @ addressesAndRoutes nip)"

definition buildVLANDevice :: "u16 \<Rightarrow> u16 \<Rightarrow> string \<Rightarrow> NetplanNodeIP \<Rightarrow> json" where
  "buildVLANDevice vid mtu link nip =
     jmap ([(''id'', jword vid), (''link'', JStr link), (''mtu'', jword mtu), (''critical'', JBool True),
            (''link-local'', JArr [])] @ addressesAndRoutes nip)"

text \<open>The body of the loop of \<open>buildNetplanState\<close>; \<open>nodeIPs[k]\<close> is the zero value for a missing key.\<close>

definition addNetplanDevice ::
  "NodeNetworkConfigSpec \<Rightarrow> (string, NetplanNodeIP) gomap \<Rightarrow> string \<Rightarrow> NetworkState \<Rightarrow> NetworkState" where
  "addNetplanDevice sp nodeIPs k state =
     (let nip = (case gm_get nodeIPs k of Some n \<Rightarrow> n | None \<Rightarrow> zeroNetplanNodeIP); hasNip = gm_has nodeIPs k;
          (vid, mtu, link) = netplanDeviceParams (layer2Entry sp k) nip hasNip in
      if hasNip \<and> vid = 0 \<and> npi_InterfaceRef nip \<noteq> '''' then
        state\<lparr>ns_Ethernets := gm_put link (jprint (buildNativeEthernetDevice nip mtu)) (ns_Ethernets state)\<rparr>
      else if vid = 0 then state
      else let ifName = (if hasNip \<and> npi_InterfaceName nip \<noteq> '''' then npi_InterfaceName nip
                         else ''vlan.'' @ utoa (unat vid)) in
        state\<lparr>ns_VLans := gm_put ifName (jprint (buildVLANDevice vid mtu link nip)) (ns_VLans state)\<rparr>)"

definition buildNetplanState :: "NodeNetworkConfigSpec \<Rightarrow> (string, NetplanNodeIP) gomap \<Rightarrow> NetworkState" where
  "buildNetplanState sp nodeIPs = fold (addNetplanDevice sp nodeIPs) (sortedNetplanKeys sp nodeIPs) NewEmptyState"

end
