(* ===== verification/Intent_Invariants.thy ===== *)
theory Intent_Invariants
  imports Intent_Pipeline
begin

text \<open>
  What every builder's contributions satisfy: their maps have no key twice, and only the Collector
  builder puts GRE tunnels into a fabric VRF. The locale \<open>contribution_invariant\<close> carries an
  invariant of single contributions through the loops of a builder.
\<close>

locale contribution_invariant =
  fixes P :: "NodeContribution \<Rightarrow> bool"
  assumes new: "P NewNodeContribution"
begin

definition all_nodes :: "contributions \<Rightarrow> bool" where
  "all_nodes r \<longleftrightarrow> (\<forall>n c. gm_get r n = Some c \<longrightarrow> P c)"

lemma all_nodes_Nil [simp]: "all_nodes []"
  by (simp add: all_nodes_def)

lemma all_nodes_ensure: "all_nodes r \<Longrightarrow> P (ensureContrib r n)"
  by (auto simp: all_nodes_def ensureContrib_def new split: option.split)

lemma all_nodes_update: "all_nodes r \<Longrightarrow> (\<And>c. P c \<Longrightarrow> P (f c)) \<Longrightarrow> all_nodes (updateContrib n f r)"
  using all_nodes_ensure [of r n] by (auto simp: all_nodes_def updateContrib_def gomap_simps)

lemma all_nodes_put: "all_nodes r \<Longrightarrow> P c \<Longrightarrow> all_nodes (gm_put n c r)"
  by (auto simp: all_nodes_def gomap_simps)

lemma all_nodes_fold: "all_nodes r \<Longrightarrow> (\<And>x r. all_nodes r \<Longrightarrow> all_nodes (f x r)) \<Longrightarrow> all_nodes (fold f xs r)"
  by (induction xs arbitrary: r) auto

lemma all_nodes_fold_fst:
  "all_nodes (fst s) \<Longrightarrow> (\<And>x s. all_nodes (fst s) \<Longrightarrow> all_nodes (fst (f x s))) \<Longrightarrow> all_nodes (fst (fold f xs s))"
  by (induction xs arbitrary: s) auto

lemmas all_nodes_intros = all_nodes_update all_nodes_put all_nodes_fold all_nodes_fold_fst

end

definition noGREs :: "NodeContribution \<Rightarrow> bool" where
  "noGREs c \<longleftrightarrow> contrib_wf c \<and> (\<forall>v f. gm_get (ct_FabricVRFs c) v = Some f \<longrightarrow> GREs f = [])"

lemma contrib_wf_new: "contrib_wf NewNodeContribution"
  by (simp add: contrib_wf_def NewNodeContribution_def gomap_wf)

lemma noGREs_new: "noGREs NewNodeContribution"
  by (simp add: noGREs_def contrib_wf_new) (simp add: NewNodeContribution_def)

interpretation wfc: contribution_invariant contrib_wf
  by unfold_locales (rule contrib_wf_new)

interpretation ngc: contribution_invariant noGREs
  by unfold_locales (rule noGREs_new)

lemma ngc_wfc: "ngc.all_nodes r \<Longrightarrow> wfc.all_nodes r"
  by (auto simp: ngc.all_nodes_def wfc.all_nodes_def noGREs_def)

section \<open>Fabric VRFs\<close>

text \<open>A contribution whose fabric VRF is created or extended, and nothing else of the kind.\<close>

lemma noGREs_fabric:
  "noGREs c \<Longrightarrow> GREs f = [] \<Longrightarrow> noGREs (c\<lparr>ct_FabricVRFs := gm_put v f (ct_FabricVRFs c)\<rparr>)"
  by (auto simp: noGREs_def contrib_wf_def gomap_simps gomap_wf split: if_splits)

lemma GREs_build [simp]: "GREs (buildFabricVRF v) = []"
  by (simp add: buildFabricVRF_def VRF.extend_def zeroVRF_def Let_def)

lemma GREs_ensure: "noGREs c \<Longrightarrow> GREs (case gm_get (ct_FabricVRFs c) v of Some f \<Rightarrow> f | None \<Rightarrow> buildFabricVRF spec) = []"
  by (auto simp: noGREs_def split: option.split)

lemma GREs_helpers [simp]:
  "GREs (addImportItems xs f) = GREs f" "GREs (addExportItems xs f) = GREs f" "GREs (ensureExportFilter f) = GREs f"
  "GREs (addAggregateRoutes f net ap) = GREs f" "GREs (addNetworkToFabricVRF f net ap) = GREs f"
  "GREs (addUsageItems as net ap f) = GREs f"
proof -
  show [simp]: "GREs (addImportItems xs f) = GREs f" "GREs (addExportItems xs f) = GREs f"
    "GREs (ensureExportFilter f) = GREs f" for xs and f :: "'b FabricVRF_scheme"
    by (simp_all add: addImportItems_def addExportItems_def ensureExportFilter_def split: list.split)
  show "GREs (addAggregateRoutes f net ap) = GREs f" "GREs (addNetworkToFabricVRF f net ap) = GREs f"
    "GREs (addUsageItems as net ap f) = GREs f"
    by (simp_all add: addAggregateRoutes_def addAggregateRoute_def addNetworkToFabricVRF_def addUsageItems_def Let_def)
qed

lemma noGREs_layer2: "noGREs c \<Longrightarrow> noGREs (c\<lparr>ct_Layer2s := gm_put k l (ct_Layer2s c)\<rparr>)"
  by (simp add: noGREs_def contrib_wf_def gomap_wf)

lemma noGREs_other:
  "noGREs c \<Longrightarrow> noGREs (c\<lparr>ct_NetplanNodeIPs := x\<rparr>)" "noGREs c \<Longrightarrow> noGREs (c\<lparr>ct_ClusterVRF := y\<rparr>)"
  by (simp_all add: noGREs_def contrib_wf_def)

section \<open>The builders\<close>

lemma noGREs_applyVRF: "noGREs c \<Longrightarrow> noGREs (applyVRFContrib net v ap c)"
  by (simp add: applyVRFContrib_def Let_def noGREs_fabric GREs_ensure)

lemma noGREs_L2A: "ngc.all_nodes (fst (buildL2A asSel data issues))"
proof -
  have "noGREs c \<Longrightarrow> noGREs (applyPlanToNode p n c)" for p n c
    by (simp add: applyPlanToNode_def applyL2AToNode_def Let_def noGREs_applyVRF noGREs_layer2 noGREs_other split: option.split)
  then show ?thesis
    unfolding buildL2A_admitted applyPlan_def by (intro ngc.all_nodes_intros ngc.all_nodes_Nil) auto
qed

lemma noGREs_applyOutbound: "noGREs c \<Longrightarrow> noGREs (applyOutboundVRF as net oc c)"
  by (simp add: applyOutboundVRF_def Let_def noGREs_fabric GREs_ensure)

lemma noGREs_Outbound: "ngc.all_nodes (fst (buildOutbound asSel iter data issues))"
proof -
  have "ngc.all_nodes r \<Longrightarrow> applyOutbound asSel iter ob net data r = Inr r' \<Longrightarrow> ngc.all_nodes r'" for ob net r r'
    by (auto simp: applyOutbound_def Let_def ebind_eq_Inr split: if_splits
        intro!: ngc.all_nodes_fold ngc.all_nodes_update noGREs_applyOutbound)
  then show ?thesis
    unfolding buildOutbound_def
    by (intro ngc.all_nodes_fold_fst) (auto simp: buildOutboundStep_def split: option.split sum.split)
qed

lemma noGREs_BGPPeering: "ngc.all_nodes (fst (buildBGPPeering asSel data issues))"
proof -
  have fold: "noGREs c \<Longrightarrow> (\<And>x c. noGREs c \<Longrightarrow> noGREs (f x c)) \<Longrightarrow> noGREs (fold f xs c)" for f and xs :: "string list" and c
    by (induction xs arbitrary: c) auto
  have "noGREs c \<Longrightarrow> noGREs (applyListenRange vrfs peers items c)" for vrfs peers items c
    unfolding applyListenRange_def by (rule fold) (auto simp: Let_def intro!: noGREs_fabric simp: GREs_ensure)
  then have "ngc.all_nodes r \<Longrightarrow> buildListenRange asSel bp data r = Inr r' \<Longrightarrow> ngc.all_nodes r'" for bp r r'
    by (auto simp: buildListenRange_def Let_def split: option.splits if_splits prod.splits
        intro!: ngc.all_nodes_fold ngc.all_nodes_update)
  moreover have "ngc.all_nodes r \<Longrightarrow> ngc.all_nodes (buildLoopbackPeer bp data r)" for bp r
    by (auto simp: buildLoopbackPeer_def Let_def split: prod.split
        intro!: ngc.all_nodes_fold ngc.all_nodes_update noGREs_other)
  ultimately show ?thesis
    unfolding buildBGPPeering_def
    by (intro ngc.all_nodes_fold_fst) (auto simp: buildBGPPeeringStep_def split: sum.split)
qed

section \<open>The builders with shared filters\<close>

definition usage_ok :: "UsageState \<Rightarrow> bool" where
  "usage_ok st \<longleftrightarrow> (\<forall>n m. gm_get (us_result st) n = Some m \<longrightarrow> gm_wf m \<and> (\<forall>k f. gm_get m k = Some f \<longrightarrow> GREs f = []))"

lemma usage_ok_init: "usage_ok (initUsage issues)"
  by (simp add: usage_ok_def initUsage_def)

lemma usage_ok_other [simp]: "usage_ok (st\<lparr>us_heap := h\<rparr>) = usage_ok st" "usage_ok (skipUsage k x r m st) = usage_ok st"
  by (simp_all add: usage_ok_def skipUsage_def)

lemma usage_ok_apply:
  assumes "usage_ok st" and "\<And>f :: BFabricVRF. GREs (g f) = GREs f"
  shows "usage_ok (applyToNode v spec r g node st)"
proof -
  have m: "gm_wf (nodeVRFs st n)" "gm_get (nodeVRFs st n) k = Some f \<Longrightarrow> GREs f = []" for n k f
    using assms(1) by (auto simp: usage_ok_def nodeVRFs_def gomap_wf split: option.splits)
  have "GREs (ensureVRF (nodeVRFs st n) spec v) = []" for n
    using m(2) [of n v] by (auto simp: ensureVRF_def bfabric_def FabricVRF.extend_def split: option.split)
  then have "GREs (fst (setRedistribute r (ensureVRF (nodeVRFs st n) spec v) h)) = []" for n h
    by (simp add: setRedistribute_def split: prod.split)
  then show ?thesis
    using assms m by (auto simp: applyToNode_def usage_ok_def Let_def gomap_simps gomap_wf split: prod.splits if_splits)
      (metis fst_conv)+
qed

lemma usage_ok_fold:
  "usage_ok st \<Longrightarrow> (\<And>x st. usage_ok st \<Longrightarrow> usage_ok (f x st)) \<Longrightarrow> usage_ok (fold f xs st)"
  by (induction xs arbitrary: st) auto

lemma noGREs_deref: "usage_ok st \<Longrightarrow> ngc.all_nodes (derefContrib st)"
  by (auto simp: ngc.all_nodes_def derefContrib_def map_of_map usage_ok_def noGREs_def contrib_wf_def NewNodeContribution_def
      gomap_wf derefVRF_def FabricVRF.truncate_def gm_wf_def split_beta comp_def)

lemma noGREs_Inbound: "ngc.all_nodes (fst (buildInbound asSel iter data issues))"
proof -
  have "usage_ok st \<Longrightarrow> usage_ok (applyInboundVRF as r net data aps g st)" for as r net aps g st
    by (auto simp: applyInboundVRF_def applyInboundToNodes_def split: prod.split option.split
        intro!: usage_ok_fold usage_ok_apply)
  then have "usage_ok st \<Longrightarrow> usage_ok (buildInboundStep asSel iter data ib st)" for ib st
    by (auto simp: buildInboundStep_def Let_def split: option.split sum.split prod.split intro!: usage_ok_fold)
  then show ?thesis
    by (auto simp: buildInbound_def Let_def intro!: noGREs_deref usage_ok_fold usage_ok_init)
qed

lemma noGREs_PodNetwork: "ngc.all_nodes (fst (buildPodNetwork asSel data issues))"
proof -
  have "usage_ok st \<Longrightarrow> usage_ok (buildPodNetworkStep asSel data pn st)" for pn st
    by (auto simp: buildPodNetworkStep_def Let_def split: option.split sum.split prod.split
        intro!: usage_ok_fold usage_ok_apply)
  then show ?thesis
    by (auto simp: buildPodNetwork_def Let_def intro!: noGREs_deref usage_ok_fold usage_ok_init)
qed

section \<open>The other builders\<close>

lemma contrib_wf_fields [simp]:
  "contrib_wf (c\<lparr>ct_FabricVRFs := m\<rparr>) \<longleftrightarrow> gm_wf (ct_Layer2s c) \<and> gm_wf m \<and> gm_wf (ct_LocalVRFs c)"
  "contrib_wf (c\<lparr>ct_Layer2s := l\<rparr>) \<longleftrightarrow> gm_wf l \<and> gm_wf (ct_FabricVRFs c) \<and> gm_wf (ct_LocalVRFs c)"
  "contrib_wf (c\<lparr>ct_ClusterVRF := x\<rparr>) \<longleftrightarrow> contrib_wf c"
  "contrib_wf (c\<lparr>ct_LocalVRFs := y, ct_ClusterVRF := x\<rparr>) \<longleftrightarrow> gm_wf (ct_Layer2s c) \<and> gm_wf (ct_FabricVRFs c) \<and> gm_wf y"
  by (simp_all add: contrib_wf_def)

lemma contrib_wfD: "contrib_wf c \<Longrightarrow> gm_wf (ct_Layer2s c)" "contrib_wf c \<Longrightarrow> gm_wf (ct_FabricVRFs c)"
  "contrib_wf c \<Longrightarrow> gm_wf (ct_LocalVRFs c)"
  by (simp_all add: contrib_wf_def)

lemma wf_Collector: "wfc.all_nodes (fst (buildCollector data issues))"
proof -
  have "contrib_wf c \<Longrightarrow> contrib_wf (applyCollector col spec addr c)" for col spec addr c
    by (simp add: applyCollector_def Let_def contrib_wfD gomap_wf)
  then show ?thesis
    unfolding buildCollector_def
    by (intro wfc.all_nodes_fold_fst)
      (auto simp: buildCollectorStep_def Let_def split: option.split intro!: wfc.all_nodes_fold wfc.all_nodes_update)
qed

lemma wf_addToLayer2: "wfc.all_nodes r \<Longrightarrow> addToLayer2 n acl data r = Inr r' \<Longrightarrow> wfc.all_nodes r'"
  by (auto simp: addToLayer2_def Let_def contrib_wfD gomap_wf split: option.splits
      intro!: wfc.all_nodes_fold wfc.all_nodes_update)

lemma wf_applyMirrorACL: "wfc.all_nodes r \<Longrightarrow> wfc.all_nodes (applyMirrorACLToVRFs vrfs acl data r)"
proof -
  have "contrib_wf c \<Longrightarrow> (\<And>x c. contrib_wf c \<Longrightarrow> contrib_wf (f x c)) \<Longrightarrow> contrib_wf (fold f xs c)" for f and xs :: "string list" and c
    by (induction xs arbitrary: c) auto
  then show "wfc.all_nodes r \<Longrightarrow> ?thesis"
    unfolding applyMirrorACLToVRFs_def Let_def
    by (intro wfc.all_nodes_fold wfc.all_nodes_update) (simp_all add: contrib_wfD gomap_wf)
qed

lemma wf_attachToSource: "wfc.all_nodes r \<Longrightarrow> attachToSource asSel tm acl data r = Inr r' \<Longrightarrow> wfc.all_nodes r'"
  by (auto simp: attachToSource_def addToVRFs_def Let_def wf_applyMirrorACL split: if_splits option.splits
      dest: wf_addToLayer2)

lemma wf_attachDirections: "wfc.all_nodes r \<Longrightarrow> wfc.all_nodes (snd (attachDirections asSel tm match gre data ds r))"
proof (induction ds arbitrary: r)
  case (Cons d ds)
  then show ?case by (auto split: sum.split dest: wf_attachToSource)
qed simp

lemma wf_Mirror: "wfc.all_nodes (fst (buildMirror asSel data issues))"
proof -
  have "wfc.all_nodes (fst s) \<Longrightarrow> wfc.all_nodes (fst (buildMirrorStep asSel data tm s))" for tm s
  proof -
    assume ok: "wfc.all_nodes (fst s)"
    obtain r is' where s: "s = (r, is')" by (cases s)
    show ?thesis
      using ok wf_attachDirections [of r]
      by (auto simp: buildMirrorStep_def s Let_def split: sum.split prod.split option.split) (metis snd_conv)+
  qed
  then show ?thesis unfolding buildMirror_def by (intro wfc.all_nodes_fold_fst) simp_all
qed

lemma wf_applyAttachment: "contrib_wf c \<Longrightarrow> contrib_wf (applyAttachment v spec xs ips c)"
  by (simp add: applyAttachment_def Let_def contrib_wf_def gomap_wf)

lemma wf_applyAttachmentToNodes: "wfc.all_nodes r \<Longrightarrow> wfc.all_nodes (applyAttachmentToNodes v spec ps nodes r)"
  unfolding applyAttachmentToNodes_def Let_def
  by (rule wfc.all_nodes_fold) (simp_all add: wfc.all_nodes_update wf_applyAttachment)

lemma wf_NodeAttachment: "wfc.all_nodes (fst (buildNodeAttachment asSel iter data issues))"
proof -
  have loop: "wfc.all_nodes r \<Longrightarrow> wfc.all_nodes (fold (\<lambda>(v, ds) r. case resolveVRFSpec ds data of None \<Rightarrow> r
      | Some spec \<Rightarrow> applyAttachmentToNodes v spec (concat (map (\<lambda>d. dsts_Prefixes (dst_Spec d)) ds)) nodes r) gs r)" for gs nodes r
    by (rule wfc.all_nodes_fold) (auto simp: wf_applyAttachmentToNodes split: option.split)
  have "wfc.all_nodes r \<Longrightarrow> wfc.all_nodes (fst (buildNodeAttachmentStep asSel iter data na (r, is')))" for na r is'
    by (simp add: buildNodeAttachmentStep_def Let_def loop split: sum.split)
  then show ?thesis
    unfolding buildNodeAttachment_def by (intro wfc.all_nodes_fold_fst) (auto simp: split_paired_all)
qed

lemma wf_SBR: "wfc.all_nodes (buildSBR asSel data)"
proof -
  have "contrib_wf c \<Longrightarrow> contrib_wf (addGroup g c)" for g c
    by (simp add: addGroup_def Let_def contrib_wf_def gomap_wf)
  then have "contrib_wf c \<Longrightarrow> contrib_wf (fold addGroup gs c)" for gs c
    by (induction gs arbitrary: c) auto
  then show ?thesis
    by (auto simp: buildSBR_def Let_def contrib_wf_new intro!: wfc.all_nodes_fold wfc.all_nodes_put)
qed

section \<open>The pipeline\<close>

definition pipeline :: "asSelector \<Rightarrow> groupIter \<Rightarrow> ResolvedData \<Rightarrow> contributions list" where
  "pipeline asSel iter data = fst (runBuilders (builders asSel iter data) [])"

lemma runBuilders_mem:
  "r \<in> set (take k (fst (runBuilders bs issues))) \<Longrightarrow> \<exists>b \<in> set (take k bs). \<exists>i. r = fst (b i)"
proof (induction bs arbitrary: issues k)
  case (Cons b bs)
  then show ?case by (cases k) (auto simp: Let_def split_beta)
qed simp

lemma length_runBuilders [simp]: "length (fst (runBuilders bs issues)) = length bs"
  by (induction bs arbitrary: issues) (auto simp: Let_def split_beta)

lemma pipeline_mem:
  "r \<in> set (take k (pipeline asSel iter data)) \<Longrightarrow> \<exists>b \<in> set (take k (builders asSel iter data)). \<exists>i. r = fst (b i)"
  unfolding pipeline_def by (rule runBuilders_mem)

lemmas noGREs_builders = noGREs_L2A noGREs_Inbound noGREs_Outbound noGREs_PodNetwork noGREs_BGPPeering

lemma length_pipeline: "length (pipeline asSel iter data) = 10"
  by (simp add: pipeline_def builders_def del: runBuilders.simps)

lemma pipeline_wf:
  assumes "r \<in> set (pipeline asSel iter data)"
  shows "wfc.all_nodes r"
proof -
  have "r \<in> set (take 10 (pipeline asSel iter data))" using assms by (simp add: length_pipeline)
  from pipeline_mem [OF this] show ?thesis
    by (auto simp: builders_def buildAnnouncement_def wf_Collector wf_Mirror wf_NodeAttachment wf_SBR ngc_wfc
        noGREs_builders)
qed

lemma nodeContributions_wf: "\<forall>c \<in> set (nodeContributions (pipeline asSel iter data) n). \<forall>x. c = Some x \<longrightarrow> contrib_wf x"
  using pipeline_wf [of _ asSel iter data] by (auto simp: nodeContributions_def set_map_filter wfc.all_nodes_def)

lemma pipeline_noGREs: "r \<in> set (take 5 (pipeline asSel iter data)) \<Longrightarrow> ngc.all_nodes r"
  using pipeline_mem [of r 5 asSel iter data] by (auto simp: builders_def noGREs_builders)

definition vrfEntry :: "string \<Rightarrow> string \<Rightarrow> contributions \<Rightarrow> FabricVRF option" where
  "vrfEntry n v r = Option.bind (gm_get r n) (\<lambda>c. gm_get (ct_FabricVRFs c) v)"

lemma entriesAt_nodeContributions:
  "entriesAt ct_FabricVRFs v (nodeContributions rs n) = List.map_filter (vrfEntry n v) rs"
  by (induction rs) (auto simp: entriesAt_def nodeContributions_def vrfEntry_def map_filter_simps split: option.split)

lemma map_filter_append: "List.map_filter f (xs @ ys) = List.map_filter f xs @ List.map_filter f ys"
  by (simp add: map_filter_def)

text \<open>
  C38. A mirror without its tunnel. If one of the first five builders, those for layer-2
  attachments, inbound, outbound, pod networks and BGP peerings, contributes to a fabric VRF of a
  node, then the node's configuration has no GRE tunnel in that VRF, whatever Collectors use it
  as their mirror VRF. The mirror rules of all builders are there, those that name such a tunnel
  as their destination included.
\<close>

theorem mirror_tunnel_lost:
  assumes "r \<in> set (take 5 (pipeline asSel iter data))" and "vrfEntry n v r \<noteq> None"
  shows "\<exists>x. gm_get (FabricVRFs (ar_Spec (Assemble (nodeContributions (pipeline asSel iter data) n)))) v = Some x \<and>
    GREs x = [] \<and>
    MirrorACLs x = concat (map MirrorACLs (List.map_filter (vrfEntry n v) (pipeline asSel iter data)))"
proof -
  let ?rs = "pipeline asSel iter data"
  have "f \<in> set (List.map_filter (vrfEntry n v) (take 5 ?rs)) \<Longrightarrow> GREs f = []" for f
    using pipeline_noGREs by (fastforce simp: set_map_filter vrfEntry_def ngc.all_nodes_def noGREs_def bind_eq_Some_conv)
  moreover obtain f where "f \<in> set (List.map_filter (vrfEntry n v) (take 5 ?rs))"
    using assms by (auto simp: set_map_filter)
  ultimately obtain e es where es: "List.map_filter (vrfEntry n v) ?rs = e # es" "GREs e = []"
    using map_filter_append [of "vrfEntry n v" "take 5 ?rs" "drop 5 ?rs"]
    by (cases "List.map_filter (vrfEntry n v) (take 5 ?rs)") auto
  let ?x = "foldl mergeFabricVRF e es"
  have "gm_get (FabricVRFs (ar_Spec (Assemble (nodeContributions ?rs n)))) v = Some ?x"
    by (simp add: Assemble_get [OF nodeContributions_wf] entriesAt_nodeContributions es(1) mergeAll_def)
  moreover have "GREs ?x = GREs e" by (rule foldl_keep_field) (simp add: mergeFabricVRF_def)
  moreover have "MirrorACLs ?x = concat (map MirrorACLs (e # es))"
    by (rule foldl_append_field) (simp add: mergeFabricVRF_def)
  ultimately show ?thesis using es by simp
qed

definition exMirrored :: ResolvedData where
  "exMirrored = exData\<lparr>d_Inbounds := [exInbound ''one'' ''n1'' ''a'' [''10.0.1.5'']], d_Collectors := [exCollector],
     d_TrafficMirrors := [exMirror]\<rparr>"

lemma exMirrored_idle:
  "buildL2A matchLabels exMirrored [] = ([], [])" "buildOutbound matchLabels iter exMirrored [] = ([], [])"
  "buildPodNetwork matchLabels exMirrored [] = ([], [])" "buildBGPPeering matchLabels exMirrored [] = ([], [])"
  by (simp_all add: buildL2A_def buildOutbound_def buildPodNetwork_def buildBGPPeering_def exMirrored_def exData_def
      derefContrib_def initUsage_def Let_def)

lemma exMirrored_inbound:
  "vrfEntry ''w1'' ''a'' (fst (buildInbound matchLabels (\<lambda>g. g) exMirrored [])) \<noteq> None"
  "snd (buildInbound matchLabels (\<lambda>g. g) exMirrored []) = []"
proof -
  have "\<not> Option.is_none (vrfEntry ''w1'' ''a'' (fst (buildInbound matchLabels (\<lambda>g. g) exMirrored [])))"
    by code_simp
  then show "vrfEntry ''w1'' ''a'' (fst (buildInbound matchLabels (\<lambda>g. g) exMirrored [])) \<noteq> None"
    by (simp add: Option.is_none_def)
  show "snd (buildInbound matchLabels (\<lambda>g. g) exMirrored []) = []" by code_simp
qed

lemma exMirrored_mirror:
  "snd (buildCollector exMirrored []) = []"
  "\<exists>f. vrfEntry ''w1'' ''a'' (fst (buildMirror matchLabels exMirrored [])) = Some f \<and>
     map acl_MirrorDestination (MirrorACLs f) = [mirrorGREName exCollector]"
  by (simp_all add: buildCollector_def buildCollectorStep_def buildMirror_def buildMirrorStep_def exMirrored_def ex_simps
      exMirror_def resolveCollector_def validMirrorSourceKind_def mirrorDirections_def attachToSource_def addToVRFs_def
      resolveSelectorVRFs_def destVRF_def applyMirrorACLToVRFs_def vrfEntry_def updateContrib_def ensureContrib_def
      NewNodeContribution_def buildFabricVRF_def VRF.extend_def zeroVRF_def exCollector_def gomap_simps Let_def)

lemma exMirrored_pipeline:
  "\<exists>c rs. pipeline matchLabels (\<lambda>g. g) exMirrored =
     [[], fst (buildInbound matchLabels (\<lambda>g. g) exMirrored []), [], [], [], c, fst (buildMirror matchLabels exMirrored [])] @ rs"
  unfolding pipeline_def builders_def runBuilders.simps
  by (simp add: exMirrored_idle exMirrored_inbound(2) exMirrored_mirror(1) Let_def split_beta)

theorem mirror_tunnel_lost_witness:
  "\<exists>x. gm_get (FabricVRFs (ar_Spec (Assemble (nodeContributions (pipeline matchLabels (\<lambda>g. g) exMirrored) ''w1'')))) ''a'' = Some x \<and>
     GREs x = [] \<and> mirrorGREName exCollector \<in> acl_MirrorDestination ` set (MirrorACLs x)"
proof -
  let ?ib = "fst (buildInbound matchLabels (\<lambda>g. g) exMirrored [])" and ?m = "fst (buildMirror matchLabels exMirrored [])"
  obtain c rs where rs: "pipeline matchLabels (\<lambda>g. g) exMirrored = [[], ?ib, [], [], [], c, ?m] @ rs"
    using exMirrored_pipeline by blast
  then have "?ib \<in> set (take 5 (pipeline matchLabels (\<lambda>g. g) exMirrored))" by simp
  from mirror_tunnel_lost [OF this exMirrored_inbound(1)] obtain x where
    x: "gm_get (FabricVRFs (ar_Spec (Assemble (nodeContributions (pipeline matchLabels (\<lambda>g. g) exMirrored) ''w1'')))) ''a'' = Some x"
      "GREs x = []"
      "MirrorACLs x = concat (map MirrorACLs (List.map_filter (vrfEntry ''w1'' ''a'') (pipeline matchLabels (\<lambda>g. g) exMirrored)))"
    by blast
  obtain f where "vrfEntry ''w1'' ''a'' ?m = Some f" "map acl_MirrorDestination (MirrorACLs f) = [mirrorGREName exCollector]"
    using exMirrored_mirror(2) by (elim exE conjE)
  then have "mirrorGREName exCollector \<in> acl_MirrorDestination ` set (MirrorACLs f)"
    "f \<in> set (List.map_filter (vrfEntry ''w1'' ''a'') (pipeline matchLabels (\<lambda>g. g) exMirrored))"
    by (auto simp: set_map_filter rs simp del: map_filter_simps simp flip: set_map)
  with x show ?thesis by auto
qed

end
