(* ===== verification/Intent_Ready.thy ===== *)
theory Intent_Ready
  imports Intent_Status Intent_Invariants
begin

text \<open>
  What the Ready condition of a layer-2 attachment is worth: the builders, the report they share
  and the status updater together.
\<close>

section \<open>The report only grows\<close>

definition grows :: "(BuildIssue list \<Rightarrow> 'a \<times> BuildIssue list) \<Rightarrow> bool" where
  "grows b \<longleftrightarrow> (\<forall>issues. set issues \<subseteq> set (snd (b issues)))"

lemma set_reportSkip: "set (reportSkip k x r m issues) = insert
    \<lparr>bi_Kind = k, bi_Namespace = om_Namespace x, bi_Name = om_Name x, bi_Reason = r, bi_Message = m\<rparr> (set issues)"
  by (simp add: reportSkip_def)

lemma fold_grows: "(\<And>x s. set (g s) \<subseteq> set (g (f x s))) \<Longrightarrow> set (g s) \<subseteq> set (g (fold f xs s))"
  by (induction xs arbitrary: s) (auto, blast)

lemma us_issues_apply [simp]: "us_issues (applyToNode v spec r g n st) = us_issues st"
  by (simp add: applyToNode_def Let_def split: prod.split)

lemma us_issues_fold: "(\<And>x st. us_issues (f x st) = us_issues st) \<Longrightarrow> us_issues (fold f xs st) = us_issues st"
  by (induction xs arbitrary: st) simp_all

lemma us_issues_inbound: "us_issues (applyInboundVRF as r net data aps g st) = us_issues st"
  by (simp add: applyInboundVRF_def applyInboundToNodes_def us_issues_fold split: prod.split option.split)

lemma grows_L2A: "grows (buildL2A asSel data)"
proof -
  have "\<exists>is'. ls_issues (fold (buildL2AStep asSel data) as st) = ls_issues st @ is'" for as st
    using fold_step [of asSel data as st] by blast
  then show ?thesis by (auto simp: grows_def buildL2A_def Let_def) (metis L2aState.select_convs(3) Un_iff set_append)
qed

lemma grows_Inbound: "grows (buildInbound asSel iter data)"
proof -
  have "set (us_issues st) \<subseteq> set (us_issues (buildInboundStep asSel iter data ib st))" for ib st
    by (auto simp: buildInboundStep_def Let_def skipUsage_def set_reportSkip us_issues_fold us_issues_inbound
        split: option.split sum.split prod.split)
  from fold_grows [where g = us_issues, OF this] show ?thesis
    by (fastforce simp: grows_def buildInbound_def Let_def initUsage_def)
qed

lemma grows_PodNetwork: "grows (buildPodNetwork asSel data)"
proof -
  have "set (us_issues st) \<subseteq> set (us_issues (buildPodNetworkStep asSel data pn st))" for pn st
    by (auto simp: buildPodNetworkStep_def Let_def skipUsage_def set_reportSkip us_issues_fold
        split: option.split sum.split prod.split)
  from fold_grows [where g = us_issues, OF this] show ?thesis
    by (fastforce simp: grows_def buildPodNetwork_def Let_def initUsage_def)
qed

lemma grows_fold:
  assumes "\<And>x r issues. set issues \<subseteq> set (snd (step x (r, issues)))"
  shows "grows (\<lambda>issues. fold step xs (r, issues))"
proof -
  have "set (snd s) \<subseteq> set (snd (fold step xs s))" for s
    by (rule fold_grows [where g = snd]) (use assms in \<open>auto simp: split_paired_all\<close>)
  then show ?thesis by (fastforce simp: grows_def)
qed

lemma grows_builders: "b \<in> set (builders asSel iter data) \<Longrightarrow> grows b"
proof -
  have "grows (buildOutbound asSel iter data)" "grows (buildBGPPeering asSel data)" "grows (buildCollector data)"
    "grows (buildMirror asSel data)" "grows (buildNodeAttachment asSel iter data)"
    unfolding buildOutbound_def [abs_def] buildBGPPeering_def [abs_def] buildCollector_def [abs_def] buildMirror_def [abs_def]
      buildNodeAttachment_def [abs_def]
    by (rule grows_fold; auto simp: buildOutboundStep_def buildBGPPeeringStep_def buildCollectorStep_def buildMirrorStep_def
        buildNodeAttachmentStep_def Let_def set_reportSkip split: option.split sum.split prod.split)+
  moreover have "grows (buildAnnouncement data)" "grows (\<lambda>issues. (buildSBR asSel data, issues))"
    by (simp_all add: grows_def buildAnnouncement_def)
  ultimately show "b \<in> set (builders asSel iter data) \<Longrightarrow> grows b"
    using grows_L2A grows_Inbound grows_PodNetwork by (auto simp: builders_def)
qed

lemma runBuilders_grows:
  "(\<And>b. b \<in> set bs \<Longrightarrow> grows b) \<Longrightarrow> set issues \<subseteq> set (snd (runBuilders bs issues))"
proof (induction bs arbitrary: issues)
  case (Cons b bs)
  from Cons.prems have "set issues \<subseteq> set (snd (b issues))" by (simp add: grows_def)
  also have "\<dots> \<subseteq> set (snd (runBuilders bs (snd (b issues))))" using Cons by simp
  finally show ?case by (simp add: Let_def split_beta)
qed simp

section \<open>Readiness\<close>

definition passIssues :: "asSelector \<Rightarrow> groupIter \<Rightarrow> ResolvedData \<Rightarrow> BuildIssue list" where
  "passIssues asSel iter data = snd (runBuilders (builders asSel iter data) [])"

lemma passIssues_L2A: "set (snd (buildL2A asSel data [])) \<subseteq> set (passIssues asSel iter data)"
proof -
  let ?bs = "tl (builders asSel iter data)"
  have "passIssues asSel iter data = snd (runBuilders ?bs (snd (buildL2A asSel data [])))"
    by (simp add: passIssues_def builders_def Let_def split_beta)
  moreover have "set (snd (buildL2A asSel data [])) \<subseteq> set (snd (runBuilders ?bs (snd (buildL2A asSel data []))))"
    by (rule runBuilders_grows) (rule grows_builders, auto simp: builders_def)
  ultimately show ?thesis by simp
qed

lemma issuesMap_has:
  assumes "i \<in> set issues"
  shows "gm_get (issuesMap issues) (IssueKey (bi_Kind i) (bi_Namespace i) (bi_Name i)) \<noteq> None"
proof -
  let ?k = "\<lambda>i. IssueKey (bi_Kind i) (bi_Namespace i) (bi_Name i)"
  let ?m = "\<lambda>xs m. fold (\<lambda>i. gm_put (?k i) (bi_Reason i, bi_Message i)) xs m"
  have keep: "gm_get m k \<noteq> None \<Longrightarrow> gm_get (?m xs m) k \<noteq> None" for xs m k
    by (induction xs arbitrary: m) (auto simp: gomap_simps)
  have "i \<in> set xs \<Longrightarrow> gm_get (?m xs m) (?k i) \<noteq> None" for xs m
  proof (induction xs arbitrary: m)
    case (Cons x xs)
    show ?case
    proof (cases "i = x")
      case True
      then show ?thesis using keep [of "gm_put (?k x) (bi_Reason x, bi_Message x) m" "?k x" xs] by (simp add: gomap_simps)
    qed (use Cons in simp)
  qed simp
  then show ?thesis using assms by (simp add: issuesMap_def)
qed

lemma ready_set:
  assumes "finds_condition setCond"
  shows "\<exists>d. findCondition ''Ready'' (setConditions setCond gen resolved ready conds) = Some d \<and> cond_Status d = fst ready"
proof -
  obtain st reason msg where ready: "ready = (st, reason, msg)" by (cases ready)
  let ?c = "\<lparr>cond_Type = ''Ready'', cond_Status = st, cond_Reason = reason, cond_Message = msg,
      cond_ObservedGeneration = gen, cond_LastTransitionTime = 0\<rparr>"
  have "\<exists>d. findCondition ''Ready'' (setCond cs ?c) = Some d \<and> cond_Status d = st" for cs
    using assms [unfolded finds_condition_def, rule_format, of "''Ready''" ?c cs] by auto
  then show ?thesis by (simp add: setConditions_def ready Let_def)
qed

lemma admitted_or_rejected:
  assumes "a \<in> set (d_Layer2Attachments data)" and "knownNetwork data a"
  shows "a \<in> lp_l2a ` set (admitted asSel data) \<or> a \<in> set (rejected asSel data (d_Layer2Attachments data) {})"
proof -
  have "a \<in># filter_mset (knownNetwork data) (mset (d_Layer2Attachments data))" using assms by simp
  then show ?thesis
    unfolding admit_rejected_partition [symmetric, of data "d_Layer2Attachments data" asSel "{}"] admitted_def
    by auto
qed

lemma rejected_issue:
  assumes "a \<in> set (rejected asSel data (d_Layer2Attachments data) {})"
  shows "\<exists>i \<in> set (snd (buildL2A asSel data [])). issueFor a i"
proof -
  have "list_all2 issueFor (rejected asSel data (d_Layer2Attachments data) {}) (snd (buildL2A asSel data []))"
    using fold_step [of asSel data "d_Layer2Attachments data" "\<lparr>ls_result = [], ls_ifOwner = [], ls_issues = []\<rparr>"]
    by (simp add: buildL2A_def Let_def taken_def gm_has_def)
  then show ?thesis using assms by (metis in_set_conv_nth list_all2_conv_all_nth)
qed


definition replaceCondition :: setCondition where
  "replaceCondition cs c = filter (\<lambda>d. cond_Type d \<noteq> cond_Type c) cs @ [c]"

lemma finds_replaceCondition: "finds_condition replaceCondition"
proof -
  have f: "find (\<lambda>d. cond_Type d = t) (filter (\<lambda>d. cond_Type d \<noteq> cond_Type c) cs @ [c]) =
      (if t = cond_Type c then Some c else find (\<lambda>d. cond_Type d = t) cs)" for cs c t
    by (induction cs) auto
  show ?thesis by (simp add: finds_condition_def findCondition_def replaceCondition_def f)
qed

definition exContested :: ResolvedData where
  "exContested = exData\<lparr>d_Layer2Attachments := [exL2A ''first'' ''n1'', exL2A ''second'' ''n1'']\<rparr>"


end
