(* ===== verification/Subnet_Allocator.thy ===== *)
theory Subnet_Allocator
  imports Ipam
begin

text \<open>
  \<open>pkg/reconciler/intent/ipam/subnet_allocator.go\<close>: the address of every node in a Collector's
  loopback subnet. The existing map is a Go map, so \<open>AllocateSubnet\<close> takes it in some iteration
  order; the theorems show that the order does not matter. The cursor loop need not end on a
  subnet of prefix length 0 and is a partial function.
\<close>

record SubnetAllocateResult =
  sar_Updated :: "(string, string) gomap"
  sar_Removed :: "string list"
  sar_Unallocated :: "string list"

text \<open>The loop that looks for the next free address.\<close>

partial_function (option) nextFree ::
  "IPNet \<Rightarrow> net_IP option \<Rightarrow> string list \<Rightarrow> net_IP \<Rightarrow> net_IP option" where
  [code]: "nextFree ipNet bcast used cursor =
     (if Contains ipNet cursor then
        (if ipHits cursor bcast then Some cursor
         else if IPString cursor \<in> set used then nextFree ipNet bcast used (nextAddr cursor)
         else Some cursor)
      else Some cursor)"

text \<open>The loop over the sorted nodes: the map so far, the texts in use, the cursor and the nodes that
  got no address.\<close>

fun allocNodes ::
  "IPNet \<Rightarrow> net_IP option \<Rightarrow> string list \<Rightarrow> (string, string) gomap \<Rightarrow> string list \<Rightarrow> net_IP \<Rightarrow> string list \<Rightarrow>
   ((string, string) gomap \<times> string list) option" where
  "allocNodes ipNet bcast [] upd used cursor unalloc = Some (upd, unalloc)"
| "allocNodes ipNet bcast (node # nodes) upd used cursor unalloc =
     (if gm_has upd node then allocNodes ipNet bcast nodes upd used cursor unalloc
      else case nextFree ipNet bcast used cursor of
          None \<Rightarrow> None
        | Some cursor \<Rightarrow>
          if \<not> Contains ipNet cursor \<or> ipHits cursor bcast
          then allocNodes ipNet bcast nodes upd used cursor (unalloc @ [node])
          else let addr = IPString cursor in
            allocNodes ipNet bcast nodes (gm_put node addr upd) (addr # used) (nextAddr cursor) unalloc)"

definition AllocateSubnet ::
  "string \<Rightarrow> string list \<Rightarrow> (string, string) gomap \<Rightarrow> (ipam_error, SubnetAllocateResult) result option" where
  "AllocateSubnet cidr nodeNames existing =
     (case ParseCIDR cidr of
        None \<Rightarrow> Some (Inl (ParsingCIDR cidr))
      | Some (_, ipNet) \<Rightarrow>
        let removed = map fst (filter (\<lambda>(node, addr). node \<notin> set nodeNames) existing);
            kept = filter (\<lambda>(node, addr). node \<in> set nodeNames) existing;
            used = map snd kept
        in case allocNodes ipNet (broadcastAddr ipNet) (sort nodeNames) kept used (nextAddr (net_IP ipNet)) [] of
            None \<Rightarrow> None
          | Some (upd, unalloc) \<Rightarrow>
            Some (Inr \<lparr>sar_Updated = upd, sar_Removed = sort removed, sar_Unallocated = sort unalloc\<rparr>))"

section \<open>The scan\<close>

lemma nextFree_simp:
  "nextFree n b used c = (if Contains n c \<and> \<not> ipHits c b \<and> IPString c \<in> set used
     then nextFree n b used (nextAddr c) else Some c)"
  by (subst nextFree.simps) simp

lemma nextFree_returns:
  assumes "net_proper n" and "ip_ok c"
  shows "\<exists>d. nextFree n b used c = Some d \<and> ip_ok d \<and>
    (Contains n d \<longrightarrow> Contains n c \<and> av c \<le> av d \<and> (ipHits d b \<or> IPString d \<notin> set used))"
  using assms
proof (rule ipam.cursor_induct)
  fix c assume c: "ip_ok c"
    and IH: "Contains n c \<Longrightarrow> \<exists>d. nextFree n b used (nextAddr c) = Some d \<and> ip_ok d \<and>
      (Contains n d \<longrightarrow> Contains n (nextAddr c) \<and> av (nextAddr c) \<le> av d \<and> (ipHits d b \<or> IPString d \<notin> set used))"
  have "Contains n c \<Longrightarrow> Contains n (nextAddr c) \<Longrightarrow> av c < av (nextAddr c)"
    using ipam.nxt_contained [OF assms(1) c] by simp
  then show "\<exists>d. nextFree n b used c = Some d \<and> ip_ok d \<and>
      (Contains n d \<longrightarrow> Contains n c \<and> av c \<le> av d \<and> (ipHits d b \<or> IPString d \<notin> set used))"
    using c IH by (subst nextFree_simp) fastforce
qed

text \<open>What a run of the node loop guarantees: it returns, keeps the entries it starts with, gives every
  node an entry or lists it as unallocated, and the addresses it adds are new, pairwise different
  addresses of the subnet.\<close>

definition added_ok :: "IPNet \<Rightarrow> net_IP option \<Rightarrow> net_IP \<Rightarrow> string list \<Rightarrow> (string \<times> string) list \<Rightarrow> bool" where
  "added_ok n b c used new \<longleftrightarrow> distinct (map snd new) \<and> set (map snd new) \<inter> set used = {} \<and>
     list_all (\<lambda>(node, a). \<exists>ip. ip_ok ip \<and> a = IPString ip \<and> Contains n ip \<and> \<not> ipHits ip b \<and>
       Contains n c \<and> av c \<le> av ip) new"

lemma gm_put_fresh: "\<not> gm_has m k \<Longrightarrow> gm_put k v m = m @ [(k, v)]"
  by (induction m) (auto simp: gm_has_def split: if_splits)

lemma gm_has_append: "gm_has (m @ m') k \<longleftrightarrow> gm_has m k \<or> gm_has m' k"
  by (auto simp: gm_has_iff)

text \<open>Once the subnet is exhausted every further node stays without an address.\<close>

lemma allocNodes_exhausted:
  "\<not> Contains n d \<or> ipHits d b \<Longrightarrow>
   allocNodes n b nodes upd used d unalloc = Some (upd, unalloc @ filter (\<lambda>x. \<not> gm_has upd x) nodes)"
  by (induction nodes arbitrary: unalloc) (auto simp: nextFree_simp [of n b used d])

lemma added_ok_Cons:
  assumes "net_proper n" and "ip_ok d" and "Contains n d" and "\<not> ipHits d b" and "Contains n c" and "av c \<le> av d"
    and "IPString d \<notin> set used" and "added_ok n b (nextAddr d) (IPString d # used) new"
  shows "added_ok n b c used ((x, IPString d) # new)"
proof -
  let ?P = "\<lambda>c (node, a). \<exists>ip. ip_ok ip \<and> a = IPString ip \<and> Contains n ip \<and> \<not> ipHits ip b \<and>
       Contains n c \<and> av c \<le> av ip"
  have up: "av (nextAddr d) = av d + 1" if "Contains n (nextAddr d)"
    using ipam.nxt_contained [OF assms(1-3) that] .
  have "?P c p" if P: "?P (nextAddr d) p" for p :: "string \<times> string"
  proof -
    obtain y a where p: "p = (y, a)" by force
    obtain ip where "ip_ok ip" "a = IPString ip" "Contains n ip" "\<not> ipHits ip b"
      "Contains n (nextAddr d)" "av (nextAddr d) \<le> av ip"
      using P unfolding p by auto
    with up assms(5,6) show ?thesis unfolding p by force
  qed
  moreover have "list_all (?P (nextAddr d)) new" using assms(8) by (simp add: added_ok_def)
  ultimately have "list_all (?P c) new" by (auto simp: list_all_iff)
  moreover have "?P c (x, IPString d)" using assms by auto
  ultimately show ?thesis using assms(7,8) by (auto simp: added_ok_def)
qed

lemma allocNodes_spec:
  "net_proper n \<Longrightarrow> ip_ok c \<Longrightarrow>
   \<exists>new un. allocNodes n b nodes upd used c unalloc = Some (upd @ new, unalloc @ un) \<and>
    added_ok n b c used new \<and> distinct (map fst new) \<and>
    set (map fst new) \<union> set un = {x \<in> set nodes. \<not> gm_has upd x} \<and> set (map fst new) \<inter> set un = {}"
proof (induction nodes arbitrary: upd used c)
  case Nil
  then show ?case by (simp add: added_ok_def)
next
  case (Cons x nodes)
  show ?case
  proof (cases "gm_has upd x")
    case True
    then show ?thesis using Cons.IH [OF Cons.prems, of upd used] by auto
  next
    case False
    obtain d where d: "nextFree n b used c = Some d" "ip_ok d"
      "Contains n d \<longrightarrow> Contains n c \<and> av c \<le> av d \<and> (ipHits d b \<or> IPString d \<notin> set used)"
      using nextFree_returns [OF Cons.prems] by blast
    show ?thesis
    proof (cases "Contains n d \<and> \<not> ipHits d b")
      case no: False
      let ?un = "x # filter (\<lambda>x. \<not> gm_has upd x) nodes"
      have "allocNodes n b (x # nodes) upd used c unalloc = Some (upd @ [], unalloc @ ?un)"
        using False no d(1) allocNodes_exhausted [of n d b nodes upd used "unalloc @ [x]"] by auto
      then show ?thesis
        using False by (intro exI [of _ "[]"] exI [of _ ?un]) (auto simp: added_ok_def simp del: allocNodes.simps)
    next
      case ok: True
      let ?a = "IPString d"
      obtain new un where IH: "allocNodes n b nodes (upd @ [(x, ?a)]) (?a # used) (nextAddr d) unalloc =
          Some ((upd @ [(x, ?a)]) @ new, unalloc @ un)" "added_ok n b (nextAddr d) (?a # used) new" "distinct (map fst new)"
        "set (map fst new) \<union> set un = {y \<in> set nodes. \<not> gm_has (upd @ [(x, ?a)]) y}"
        "set (map fst new) \<inter> set un = {}"
        using Cons.IH [OF Cons.prems(1), of "nextAddr d" "upd @ [(x, ?a)]" "?a # used"] d(2) by auto
      have "allocNodes n b (x # nodes) upd used c unalloc = Some (upd @ ((x, ?a) # new), unalloc @ un)"
        using False d(1) ok IH(1) by (simp add: gm_put_fresh Let_def)
      moreover have "added_ok n b c used ((x, ?a) # new)"
        using Cons.prems(1) d ok IH(2) by (intro added_ok_Cons) auto
      moreover have "x \<notin> set (map fst new) \<union> set un" unfolding IH(4) by (simp add: gm_has_append gm_has_iff)
      ultimately show ?thesis
        using IH(3-5) False
        by (intro exI [of _ "(x, ?a) # new"] exI [of _ un])
           (auto simp: gm_has_append gm_has_iff simp del: allocNodes.simps)
    qed
  qed
qed

lemma Contains_own: "net_proper n \<Longrightarrow> Contains n (net_IP n)"
  by (auto simp: net_proper_def Contains_canon networkNumberAndMask_def canon_def split: option.splits if_splits)

section \<open>Correctness\<close>

lemma in_set_map_snd: "(x, a) \<in> set m \<Longrightarrow> a \<in> set (map snd m)"
  by force

lemma distinct_snd_unique: "distinct (map snd m) \<Longrightarrow> (x, a) \<in> set m \<Longrightarrow> (y, a) \<in> set m \<Longrightarrow> x = y"
  by (induction m) (auto dest: in_set_map_snd)


lemma nextFree_cong:
  assumes "set used = set used'" and "net_proper n" and "ip_ok c"
  shows "nextFree n b used c = nextFree n b used' c"
  using assms(2,3)
proof (rule ipam.cursor_induct)
  fix c assume "Contains n c \<Longrightarrow> nextFree n b used (nextAddr c) = nextFree n b used' (nextAddr c)"
  then show "nextFree n b used c = nextFree n b used' c"
    using assms(1) nextFree_simp [of n b used c] nextFree_simp [of n b used' c] by auto
qed

text \<open>The node loop sees the map it starts from only through its keys, and the texts in use as a set.\<close>

lemma allocNodes_cong:
  assumes "net_proper n"
  shows "ip_ok c \<Longrightarrow> gm_has upd = gm_has upd' \<Longrightarrow> set used = set used' \<Longrightarrow>
    \<exists>new un. allocNodes n b nodes upd used c u = Some (upd @ new, un) \<and> allocNodes n b nodes upd' used' c u = Some (upd' @ new, un)"
proof (induction nodes arbitrary: upd upd' used used' c u)
  case (Cons x nodes)
  obtain d where d: "nextFree n b used c = Some d" "nextFree n b used' c = Some d" "ip_ok d"
    using nextFree_returns [OF assms Cons.prems(1), of b used] nextFree_cong [OF Cons.prems(3) assms Cons.prems(1), of b] by auto
  show ?case
  proof (cases "gm_has upd' x \<or> \<not> Contains n d \<or> ipHits d b")
    case True
    then show ?thesis using Cons.IH [OF _ Cons.prems(2,3)] Cons.prems d by auto
  next
    case False
    let ?a = "IPString d"
    have "gm_has (upd @ [(x, ?a)]) = gm_has (upd' @ [(x, ?a)])"
      using Cons.prems(2) by (simp add: gm_has_append fun_eq_iff)
    then obtain new un where
      "allocNodes n b nodes (upd @ [(x, ?a)]) (?a # used) (nextAddr d) u = Some ((upd @ [(x, ?a)]) @ new, un)"
      "allocNodes n b nodes (upd' @ [(x, ?a)]) (?a # used') (nextAddr d) u = Some ((upd' @ [(x, ?a)]) @ new, un)"
      using Cons.IH [of "nextAddr d" "upd @ [(x, ?a)]" "upd' @ [(x, ?a)]" "?a # used" "?a # used'" u] Cons.prems(3) d(3) by auto
    then show ?thesis using False Cons.prems(2) d by (auto simp: gm_put_fresh Let_def)
  qed
qed simp

text \<open>C14. The allocation is deterministic: it depends on the node names as a multiset and on the
  existing map as a map, not on the order in which either is visited.\<close>

theorem AllocateSubnet_deterministic:
  assumes "ParseCIDR cidr = Some (ip0, n)" and "net_proper n" and "gm_wf existing"
    and "mset existing = mset existing'" and "mset nodes = mset nodes'"
  shows "\<exists>r r'. AllocateSubnet cidr nodes existing = Some (Inr r) \<and>
    AllocateSubnet cidr nodes' existing' = Some (Inr r') \<and>
    gm_get (sar_Updated r) = gm_get (sar_Updated r') \<and> sar_Removed r = sar_Removed r' \<and>
    sar_Unallocated r = sar_Unallocated r'"
proof -
  let ?k = "filter (\<lambda>(node, addr). node \<in> set nodes) existing"
  let ?k' = "filter (\<lambda>(node, addr). node \<in> set nodes) existing'"
  have nodes: "set nodes' = set nodes" "sort nodes' = sort nodes"
    using mset_eq_setD [OF assms(5)] sort_mset_cong [OF assms(5)] by simp_all
  have ms: "mset ?k' = mset ?k" "mset (map fst (filter (\<lambda>(node, addr). node \<notin> set nodes) existing')) =
      mset (map fst (filter (\<lambda>(node, addr). node \<notin> set nodes) existing))"
    using assms(4) by (simp_all add: mset_filter mset_map)
  have wf: "gm_wf ?k" using assms(3) by (auto simp: gm_wf_def distinct_map_filter)
  have get: "gm_get ?k = gm_get ?k'" using gm_get_perm [OF wf] ms(1) by simp
  have has: "gm_has ?k = gm_has ?k'" using get by (simp add: gm_has_def fun_eq_iff)
  have ok: "ip_ok (nextAddr (net_IP n))" using ip_ok_ParseCIDR [OF assms(1)] by simp
  have used: "set (map snd ?k) = set (map snd ?k')" by (rule set_map_mset_cong [OF ms(1) [symmetric]])
  obtain new un where "allocNodes n (broadcastAddr n) (sort nodes) ?k (map snd ?k) (nextAddr (net_IP n)) [] = Some (?k @ new, un)"
    "allocNodes n (broadcastAddr n) (sort nodes) ?k' (map snd ?k') (nextAddr (net_IP n)) [] = Some (?k' @ new, un)"
    using allocNodes_cong [OF assms(2) ok has used, of "broadcastAddr n" "sort nodes" "[]"] by blast
  moreover have "sort (map fst (filter (\<lambda>(node, addr). node \<notin> set nodes) existing')) =
      sort (map fst (filter (\<lambda>(node, addr). node \<notin> set nodes) existing))"
    by (rule sort_mset_cong [OF ms(2)])
  ultimately show ?thesis
    using assms(1) get by (simp add: AllocateSubnet_def nodes Let_def)
qed


text \<open>A subnet with one address left for three nodes, one of them already served.\<close>

lemma sampleSubnet: "ParseCIDR ''10.0.0.0/30'' = Some (the (ParseCIDR ''10.0.0.0/30'')) \<and>
    net_proper (snd (the (ParseCIDR ''10.0.0.0/30'')))"
  by code_simp

lemma sampleSubnet_parse: "ParseCIDR ''10.0.0.0/30'' =
    Some (fst (the (ParseCIDR ''10.0.0.0/30'')), snd (the (ParseCIDR ''10.0.0.0/30'')))"
  using sampleSubnet by simp


theorem AllocateSubnet_deterministic_witness:
  "\<exists>r r'. AllocateSubnet ''10.0.0.0/30'' [''n2'', ''n1''] [(''n1'', ''10.0.0.1''), (''old'', ''10.0.0.2'')] = Some (Inr r) \<and>
    AllocateSubnet ''10.0.0.0/30'' [''n1'', ''n2''] [(''old'', ''10.0.0.2''), (''n1'', ''10.0.0.1'')] = Some (Inr r') \<and>
    gm_get (sar_Updated r) = gm_get (sar_Updated r')"
proof -
  have wf: "gm_wf [(''n1'', ''10.0.0.1''), (''old'', ''10.0.0.2'')]" by code_simp
  show ?thesis
    using AllocateSubnet_deterministic [OF sampleSubnet_parse conjunct2 [OF sampleSubnet] wf,
        of "[(''old'', ''10.0.0.2''), (''n1'', ''10.0.0.1'')]" "[''n2'', ''n1'']" "[''n1'', ''n2'']"]
    by auto
qed

end
