(* ===== verification/Intent_Apply.thy ===== *)
theory Intent_Apply
  imports Intent_Pipeline Subnet_Allocator Kube_Client
begin

text \<open>
  The part of \<open>pkg/reconciler/intent/reconciler.go\<close> that writes to the API: creating and updating the
  configurations of the nodes and deleting what belongs to nodes that are gone. (Fetching is in
  \<open>Intent_Fetch\<close>, the addresses of the Collectors are in \<open>Collector_Addresses\<close>.) Error texts leave
  out the names they print.

  \<open>IR\<close> holds the clients and, as parameters, what the reconciler takes from elsewhere:
  \<open>SetOwnerReference\<close> of controller-runtime, label selectors, the iteration order of maps, and
  \<open>ir_wait\<close>, the pause between two attempts, which fails when the context ends first. Errors of
  one node are logged and do not stop the others; logging is not modelled.

  The context's deadline shows as an error of a client call.
\<close>

record 's IR =
  ir_Configs :: "('s, NodeNetworkConfig) ResClient"
  ir_Netplan :: "('s, NodeNetplanConfig) ResClient"
  ir_Collectors :: "('s, Collector) ResClient"
  ir_SetOwnerReference :: "OwnerReference \<Rightarrow> OwnerReference list \<Rightarrow> (GoError, OwnerReference list) result"
  ir_wait :: "('s, GoError, unit) io"
  ir_now :: "'s \<Rightarrow> gotime"

definition intentManagedLabel :: string where
  "intentManagedLabel = ''network-connector.sylvaproject.org/managed-by''"

definition intentLabelValue :: string where
  "intentLabelValue = ''intent''"

definition originsAnnotation :: string where
  "originsAnnotation = ''network-connector.sylvaproject.org/origins''"

definition setIntentManagedLabel :: "NodeNetworkConfig \<Rightarrow> NodeNetworkConfig" where
  "setIntentManagedLabel nnc = nnc\<lparr>nnc_Labels := gm_put intentManagedLabel intentLabelValue (nnc_Labels nnc)\<rparr>"

definition hasIntentManagedLabel :: "NodeNetworkConfig \<Rightarrow> bool" where
  "hasIntentManagedLabel nnc \<longleftrightarrow> gm_get (nnc_Labels nnc) intentManagedLabel = Some intentLabelValue"

definition setOriginsAnnotation :: "(string, string) gomap \<Rightarrow> NodeNetworkConfig \<Rightarrow> NodeNetworkConfig" where
  "setOriginsAnnotation origins nnc =
     (if origins = [] then nnc
      else nnc\<lparr>nnc_Annotations := gm_put originsAnnotation (jprint (jmap (map (\<lambda>(k, v). (k, JStr v)) origins))) (nnc_Annotations nnc)\<rparr>)"

definition nodeOwner :: "Node \<Rightarrow> OwnerReference" where
  "nodeOwner node = \<lparr>or_Kind = ''Node'', or_Name = om_Name node, or_UID = om_UID node\<rparr>"

text \<open>An error of \<open>SetOwnerReference\<close> is logged and leaves the references as they are.\<close>

definition stripLegacyOwnerRefs :: "'s IR \<Rightarrow> Node \<Rightarrow> NodeNetworkConfig \<Rightarrow> NodeNetworkConfig" where
  "stripLegacyOwnerRefs ir node nnc =
     (let filtered = filter (\<lambda>r. or_UID r = om_UID node) (nnc_OwnerReferences nnc) in
      nnc\<lparr>nnc_OwnerReferences := (case ir_SetOwnerReference ir (nodeOwner node) filtered of
        Inl _ \<Rightarrow> filtered | Inr refs \<Rightarrow> refs)\<rparr>)"

section \<open>Node configurations\<close>

text \<open>What \<open>tryApplyNNC\<close> stores for a node that has a configuration, and for one that has none.\<close>

definition updatedNNC ::
  "'s IR \<Rightarrow> Node \<Rightarrow> NodeNetworkConfigSpec \<Rightarrow> (string, string) gomap \<Rightarrow> NodeNetworkConfig \<Rightarrow> NodeNetworkConfig" where
  "updatedNNC ir node sp origins existing =
     setOriginsAnnotation origins ((setIntentManagedLabel (stripLegacyOwnerRefs ir node existing))\<lparr>nnc_Spec := sp\<rparr>)"

definition newNNC :: "Node \<Rightarrow> NodeNetworkConfigSpec \<Rightarrow> (string, string) gomap \<Rightarrow> NodeNetworkConfig" where
  "newNNC node sp origins = setOriginsAnnotation origins (setIntentManagedLabel ((NewEmptyConfig (om_Name node))\<lparr>nnc_Spec := sp\<rparr>))"

definition tryApplyNNC ::
  "'s IR \<Rightarrow> Node \<Rightarrow> NodeNetworkConfigSpec \<Rightarrow> (string, string) gomap \<Rightarrow> ('s, GoError, unit) io" where
  "tryApplyNNC ir node sp origins =
     io_catch (c_Get (ir_Configs ir) (om_Name node))
       (\<lambda>err. if err \<noteq> NotFound then io_throw (Wrap ''error getting NodeNetworkConfig'' (ApiErr err))
         else io_bind (wrapErr ''error setting owner reference for NNC''
                 (io_lift (ir_SetOwnerReference ir (nodeOwner node) []))) (\<lambda>refs.
           api ''error creating NodeNetworkConfig''
             (c_Create (ir_Configs ir) ((newNNC node sp origins)\<lparr>nnc_OwnerReferences := refs\<rparr>))))
       (\<lambda>existing.
         if nns_Revision (nnc_Spec existing) = nns_Revision sp \<and> hasIntentManagedLabel existing then io_return ()
         else if st_ConfigStatus (nnc_Status existing) = StatusProvisioning then io_return ()
         else io_bind (api ''error updating NodeNetworkConfig''
             (c_Update (ir_Configs ir) (updatedNNC ir node sp origins existing))) (\<lambda>_. io_return ()))"

definition maxRetries :: nat where
  "maxRetries = 5"

text \<open>The loop over the attempts; the wait follows every conflict, the last one included.\<close>

fun applyAttempts ::
  "'s IR \<Rightarrow> Node \<Rightarrow> NodeNetworkConfigSpec \<Rightarrow> (string, string) gomap \<Rightarrow> nat \<Rightarrow> ('s, GoError, unit) io" where
  "applyAttempts ir node sp origins 0 = io_throw (ErrorString ''NNC update failed due to conflicts'')"
| "applyAttempts ir node sp origins (Suc n) =
     io_catch (tryApplyNNC ir node sp origins)
       (\<lambda>err. if \<not> errorsIs ConflictErr err then io_throw err
         else io_bind (wrapErr ''context done while retrying NNC update'' (ir_wait ir))
           (\<lambda>_. applyAttempts ir node sp origins n))
       io_return"

definition applyNNC ::
  "'s IR \<Rightarrow> Node \<Rightarrow> NodeNetworkConfigSpec \<Rightarrow> (string, string) gomap \<Rightarrow> ('s, GoError, unit) io" where
  "applyNNC ir node sp origins = applyAttempts ir node sp origins maxRetries"

section \<open>Netplan configurations\<close>

text \<open>\<open>maps.AreEqual\<close> and \<open>NetworkState.Equals\<close>, which compares five of the ten fields.\<close>

definition AreEqual :: "(string, 'v) gomap \<Rightarrow> (string, 'v) gomap \<Rightarrow> bool" where
  "AreEqual m1 m2 \<longleftrightarrow> length m1 = length m2 \<and> list_all (\<lambda>(k, v). gm_get m2 k = Some v) m1"

definition stateEquals :: "NetworkState \<Rightarrow> NetworkState \<Rightarrow> bool" where
  "stateEquals s t \<longleftrightarrow> ns_Version s = ns_Version t \<and> AreEqual (ns_Ethernets s) (ns_Ethernets t) \<and>
     AreEqual (ns_VLans s) (ns_VLans t) \<and> AreEqual (ns_Bonds s) (ns_Bonds t) \<and> AreEqual (ns_Bridges s) (ns_Bridges t)"

definition setIntentManagedNetplanLabel :: "NodeNetplanConfig \<Rightarrow> NodeNetplanConfig" where
  "setIntentManagedNetplanLabel npc = npc\<lparr>npc_Labels := gm_put intentManagedLabel intentLabelValue (npc_Labels npc)\<rparr>"

definition hasIntentManagedNetplanLabel :: "NodeNetplanConfig \<Rightarrow> bool" where
  "hasIntentManagedNetplanLabel npc \<longleftrightarrow> gm_get (npc_Labels npc) intentManagedLabel = Some intentLabelValue"

definition applyNetplanConfig :: "'s IR \<Rightarrow> Node \<Rightarrow> NetworkState \<Rightarrow> ('s, GoError, unit) io" where
  "applyNetplanConfig ir node state =
     io_catch (c_Get (ir_Netplan ir) (om_Name node))
       (\<lambda>err. if err \<noteq> NotFound then io_throw (Wrap ''error getting NodeNetplanConfig'' (ApiErr err))
         else io_bind (wrapErr ''error setting owner reference for NodeNetplanConfig''
                 (io_lift (ir_SetOwnerReference ir (nodeOwner node) []))) (\<lambda>refs.
           api ''error creating NodeNetplanConfig''
             (c_Create (ir_Netplan ir) (setIntentManagedNetplanLabel
                \<lparr>npc_Name = om_Name node, npc_Labels = [], npc_OwnerReferences = refs, npc_DesiredState = state\<rparr>))))
       (\<lambda>existing.
         if stateEquals (npc_DesiredState existing) state \<and> hasIntentManagedNetplanLabel existing then io_return ()
         else io_bind (api ''error updating NodeNetplanConfig''
             (c_Update (ir_Netplan ir) ((setIntentManagedNetplanLabel existing)\<lparr>npc_DesiredState := state\<rparr>)))
           (\<lambda>_. io_return ()))"

section \<open>A pass over the nodes\<close>

text \<open>Whatever fails for a node is logged, and the loop goes on to the next one.\<close>

definition logged :: "('s, 'e, 'a) io \<Rightarrow> ('s, 'f, unit) io" where
  "logged m = io_catch m (\<lambda>_. io_return ()) (\<lambda>_. io_return ())"

definition applyNodeConfig :: "'s IR \<Rightarrow> contributions list \<Rightarrow> Node \<Rightarrow> ('s, GoError, unit) io" where
  "applyNodeConfig ir rs node =
     (case nodeConfig (nodeContributions rs (om_Name node)) of
        Inl _ \<Rightarrow> io_return ()
      | Inr r \<Rightarrow>
        io_bind (applyNNC ir node (ar_Spec r) (ar_Origins r)) (\<lambda>_.
        applyNetplanConfig ir node (buildNetplanState (ar_Spec r) (ar_NetplanNodeIPs r))))"

definition applyNodeConfigs :: "'s IR \<Rightarrow> contributions list \<Rightarrow> Node list \<Rightarrow> ('s, GoError, unit) io" where
  "applyNodeConfigs ir rs nodes = io_each (\<lambda>n. logged (applyNodeConfig ir rs n)) nodes"

section \<open>Nodes that are gone\<close>

definition cleanupOrphanedNNCs :: "'s IR \<Rightarrow> Node list \<Rightarrow> ('s, GoError, unit) io" where
  "cleanupOrphanedNNCs ir nodes =
     io_bind (api ''error listing NodeNetworkConfigs'' (c_List (ir_Configs ir))) (\<lambda>nncs.
     io_each (\<lambda>nnc. if nnc_Name nnc \<in> om_Name ` set nodes \<or> \<not> hasIntentManagedLabel nnc then io_return ()
       else logged (c_Delete (ir_Configs ir) nnc)) nncs)"

definition cleanupOrphanedNetplanConfigs :: "'s IR \<Rightarrow> Node list \<Rightarrow> ('s, GoError, unit) io" where
  "cleanupOrphanedNetplanConfigs ir nodes =
     io_bind (api ''error listing NodeNetplanConfigs'' (c_List (ir_Netplan ir))) (\<lambda>npcs.
     io_each (\<lambda>npc. if npc_Name npc \<in> om_Name ` set nodes \<or> \<not> hasIntentManagedNetplanLabel npc then io_return ()
       else logged (c_Delete (ir_Netplan ir) npc)) npcs)"

text \<open>The AS numbers the agents report, by node; nil when the list fails.\<close>

definition nodeLocalASNs :: "'s IR \<Rightarrow> ('s, GoError, (string, int) gomap) io" where
  "nodeLocalASNs ir = io_catch (c_List (ir_Configs ir)) (\<lambda>_. io_return [])
     (\<lambda>nncs. io_return (fold (\<lambda>c asns. if st_ASNumber (nnc_Status c) = 0 then asns
        else gm_put (nnc_Name c) (st_ASNumber (nnc_Status c)) asns) nncs []))"

end
