(* ===== verification/Intent_Converge.thy ===== *)
theory Intent_Converge
  imports Intent_Apply Intent_Samples
begin

text \<open>
  What a pass of the intent reconciler leaves in the cluster. \<open>config_server\<close> states what the API
  promises about NodeNetworkConfigs; inside it the loop over the nodes is shown to leave, for every
  node, exactly the configuration \<open>settledNNC\<close> describes and to touch no other.
\<close>

section \<open>A server that does what it is told\<close>

text \<open>
  What the API documents for this client: reads and creations as in \<open>serves\<close>, an update stores the
  object except for its status, which has its own endpoint, and no call for another kind touches the
  configurations. \<open>SetOwnerReference\<close> finds the kind of the object in the scheme.
\<close>

definition keepStatus :: "NodeNetworkConfig \<Rightarrow> NodeNetworkConfig \<Rightarrow> NodeNetworkConfig" where
  "keepStatus old x = x\<lparr>nnc_Status := nnc_Status old\<rparr>"

definition updatesConfigs :: "('s \<Rightarrow> NodeNetworkConfig list) \<Rightarrow> ('s, NodeNetworkConfig) ResClient \<Rightarrow> bool" where
  "updatesConfigs objs c \<longleftrightarrow> (\<forall>x s old. find_named nnc_Name (nnc_Name x) (objs s) = Some old \<longrightarrow>
     (\<exists>s'. c_Update c x s = (Inr (keepStatus old x), s') \<and>
        objs s' = replace_named nnc_Name (nnc_Name x) (\<lambda>_. keepStatus old x) (objs s)))"

definition leaves :: "('s \<Rightarrow> 'a) \<Rightarrow> ('s, 'o) ResClient \<Rightarrow> bool" where
  "leaves objs c \<longleftrightarrow> (\<forall>n x s. objs (snd (c_Get c n s)) = objs s \<and> objs (snd (c_Create c x s)) = objs s \<and>
     objs (snd (c_Update c x s)) = objs s)"

lemma hasLabel_updatedNNC [simp]: "hasIntentManagedLabel (updatedNNC ir node sp og c)"
  by (simp add: updatedNNC_def setOriginsAnnotation_def setIntentManagedLabel_def stripLegacyOwnerRefs_def
      hasIntentManagedLabel_def gomap_simps Let_def)

lemma hasLabel_newNNC [simp]: "hasIntentManagedLabel ((newNNC node sp og)\<lparr>nnc_OwnerReferences := refs\<rparr>)"
  by (simp add: newNNC_def setOriginsAnnotation_def setIntentManagedLabel_def hasIntentManagedLabel_def gomap_simps)

lemma spec_newNNC [simp]: "nnc_Spec (newNNC node sp og) = sp"
  by (simp add: newNNC_def setOriginsAnnotation_def setIntentManagedLabel_def)

lemma spec_updatedNNC [simp]: "nnc_Spec (updatedNNC ir node sp og c) = sp"
  by (simp add: updatedNNC_def setOriginsAnnotation_def)

lemma name_newNNC [simp]: "nnc_Name (newNNC node sp og) = om_Name node"
  by (simp add: newNNC_def setOriginsAnnotation_def setIntentManagedLabel_def NewEmptyConfig_def)

lemma name_updatedNNC [simp]: "nnc_Name (updatedNNC ir node sp og c) = nnc_Name c"
  by (simp add: updatedNNC_def setOriginsAnnotation_def setIntentManagedLabel_def stripLegacyOwnerRefs_def Let_def)

lemma status_updatedNNC [simp]: "nnc_Status (updatedNNC ir node sp og c) = nnc_Status c"
  by (simp add: updatedNNC_def setOriginsAnnotation_def setIntentManagedLabel_def stripLegacyOwnerRefs_def Let_def)

locale config_server =
  fixes ir :: "'s IR" and objs :: "'s \<Rightarrow> NodeNetworkConfig list"
  assumes configs: "serves objs nnc_Name (\<lambda>x y. y = x) (ir_Configs ir)"
    and updates: "updatesConfigs objs (ir_Configs ir)"
    and netplan: "leaves objs (ir_Netplan ir)"
    and owner: "\<exists>rs. ir_SetOwnerReference ir w refs = Inr rs"
begin

definition ownerRefs :: "Node \<Rightarrow> OwnerReference list" where
  "ownerRefs node = (case ir_SetOwnerReference ir (nodeOwner node) [] of Inr rs \<Rightarrow> rs | Inl _ \<Rightarrow> [])"

text \<open>The configuration a node ends with, given the one it had.\<close>

definition settledNNC :: "Node \<Rightarrow> AssembleResult \<Rightarrow> NodeNetworkConfig option \<Rightarrow> NodeNetworkConfig" where
  "settledNNC node r old = (case old of
     None \<Rightarrow> (newNNC node (ar_Spec r) (ar_Origins r))\<lparr>nnc_OwnerReferences := ownerRefs node\<rparr>
   | Some c \<Rightarrow>
     if nns_Revision (nnc_Spec c) = nns_Revision (ar_Spec r) \<and> hasIntentManagedLabel c \<or>
        st_ConfigStatus (nnc_Status c) = StatusProvisioning then c
     else updatedNNC ir node (ar_Spec r) (ar_Origins r) c)"

definition lookup :: "string \<Rightarrow> 's \<Rightarrow> NodeNetworkConfig option" where
  "lookup m s = find_named nnc_Name m (objs s)"

lemma get_config: "c_Get (ir_Configs ir) n s = (case lookup n s of None \<Rightarrow> Inl NotFound | Some x \<Rightarrow> Inr x, s)"
  using configs by (simp add: serves_def lookup_def)

lemma create_config:
  assumes "lookup (nnc_Name x) s = None"
  shows "\<exists>s'. c_Create (ir_Configs ir) x s = (Inr (), s') \<and>
    (\<forall>m. lookup m s' = (if m = nnc_Name x then Some x else lookup m s))"
proof -
  have new: "nnc_Name x \<notin> nnc_Name ` set (objs s)" using assms by (simp add: lookup_def find_named_None)
  with configs obtain s' where "c_Create (ir_Configs ir) x s = (Inr (), s')" "objs s' = objs s @ [x]"
    unfolding serves_def by blast
  then show ?thesis using find_append_new [OF refl new] by (simp add: lookup_def)
qed

lemma update_config:
  assumes "lookup (nnc_Name x) s = Some old" and "nnc_Status x = nnc_Status old"
  shows "\<exists>s' y. c_Update (ir_Configs ir) x s = (Inr y, s') \<and>
    (\<forall>m. lookup m s' = (if m = nnc_Name x then Some x else lookup m s))"
proof -
  have x: "keepStatus old x = x" using assms(2) by (simp add: keepStatus_def)
  obtain s' where s': "c_Update (ir_Configs ir) x s = (Inr (keepStatus old x), s')"
    "objs s' = replace_named nnc_Name (nnc_Name x) (\<lambda>_. keepStatus old x) (objs s)"
    using updates assms(1) unfolding updatesConfigs_def lookup_def by blast
  have "nnc_Name x \<in> nnc_Name ` set (objs s)" using assms(1) find_named_name by (force simp: lookup_def)
  then show ?thesis using s' find_replace [of nnc_Name x] by (simp add: x lookup_def)
qed

lemma try_settles:
  "\<exists>s'. tryApplyNNC ir node (ar_Spec r) (ar_Origins r) s = (Inr (), s') \<and>
    (\<forall>m. lookup m s' = (if m = om_Name node then Some (settledNNC node r (lookup m s)) else lookup m s))"
proof (cases "lookup (om_Name node) s")
  case None
  let ?x = "(newNNC node (ar_Spec r) (ar_Origins r))\<lparr>nnc_OwnerReferences := ownerRefs node\<rparr>"
  obtain rs where rs: "ir_SetOwnerReference ir (nodeOwner node) [] = Inr rs" using owner by blast
  then have "ownerRefs node = rs" by (simp add: ownerRefs_def)
  moreover obtain s' where "c_Create (ir_Configs ir) ?x s = (Inr (), s')"
    "\<forall>m. lookup m s' = (if m = om_Name node then Some ?x else lookup m s)"
    using create_config [of ?x s] None by auto
  ultimately show ?thesis using None rs
    by (simp add: tryApplyNNC_def get_config api_simps settledNNC_def)
next
  case (Some c)
  let ?x = "updatedNNC ir node (ar_Spec r) (ar_Origins r) c"
  have name: "nnc_Name c = om_Name node" using Some find_named_Some unfolding lookup_def by metis
  obtain s' y where "c_Update (ir_Configs ir) ?x s = (Inr y, s')"
    "\<forall>m. lookup m s' = (if m = om_Name node then Some ?x else lookup m s)"
    using update_config [of ?x s c] Some name by auto
  with Some show ?thesis by (auto simp: tryApplyNNC_def get_config api_simps settledNNC_def)
qed

lemma applyNNC_settles:
  "\<exists>s'. applyNNC ir node (ar_Spec r) (ar_Origins r) s = (Inr (), s') \<and>
    (\<forall>m. lookup m s' = (if m = om_Name node then Some (settledNNC node r (lookup m s)) else lookup m s))"
proof -
  have first: "maxRetries = Suc (maxRetries - 1)" by (simp add: maxRetries_def)
  have "tryApplyNNC ir node sp og s = (Inr (), s') \<Longrightarrow> applyNNC ir node sp og s = (Inr (), s')" for sp og s'
    unfolding applyNNC_def by (subst first) (simp add: io_simps)
  with try_settles [of node r s] show ?thesis by blast
qed

lemma netplan_leaves: "lookup m (snd (applyNetplanConfig ir node st s)) = lookup m s"
proof -
  have l: "objs (snd (c_Get (ir_Netplan ir) n t)) = objs t" "objs (snd (c_Create (ir_Netplan ir) x t)) = objs t"
    "objs (snd (c_Update (ir_Netplan ir) x t)) = objs t" for n x t
    using netplan by (auto simp: leaves_def)
  show ?thesis
    by (auto simp: applyNetplanConfig_def io_catch_def io_bind_def io_wrap_def api_def wrapErr_def io_return_def
        io_throw_def io_lift_def lookup_def split: sum.splits prod.splits)
      (metis l snd_conv)+
qed

text \<open>A node whose configuration cannot be computed keeps what it has.\<close>

definition target :: "contributions list \<Rightarrow> Node \<Rightarrow> NodeNetworkConfig option \<Rightarrow> NodeNetworkConfig option" where
  "target rs node old = (case nodeConfig (nodeContributions rs (om_Name node)) of
     Inl _ \<Rightarrow> old | Inr r \<Rightarrow> Some (settledNNC node r old))"

lemma node_settles:
  "\<exists>s'. (logged (applyNodeConfig ir rs node) s :: (GoError, unit) result \<times> 's) = (Inr (), s') \<and>
    (\<forall>m. lookup m s' = (if m = om_Name node then target rs node (lookup m s) else lookup m s))"
proof (cases "nodeConfig (nodeContributions rs (om_Name node))")
  case (Inr r)
  obtain t where t: "applyNNC ir node (ar_Spec r) (ar_Origins r) s = (Inr (), t)"
    "\<forall>m. lookup m t = (if m = om_Name node then Some (settledNNC node r (lookup m s)) else lookup m s)"
    using applyNNC_settles by blast
  let ?run = "applyNetplanConfig ir node (buildNetplanState (ar_Spec r) (ar_NetplanNodeIPs r)) t"
  have "(logged (applyNodeConfig ir rs node) s :: (GoError, unit) result \<times> 's) = (Inr (), snd ?run)"
    using Inr t(1) by (cases ?run; cases "fst ?run") (auto simp: logged_def applyNodeConfig_def io_simps)
  moreover have "\<forall>m. lookup m (snd ?run) = (if m = om_Name node then target rs node (lookup m s) else lookup m s)"
    using Inr t(2) by (simp add: target_def netplan_leaves)
  ultimately show ?thesis by blast
qed (simp add: logged_def applyNodeConfig_def io_simps target_def)

lemma nodes_settle:
  "distinct (map om_Name nodes) \<Longrightarrow> \<exists>s'. applyNodeConfigs ir rs nodes s = (Inr (), s') \<and>
    (\<forall>m. lookup m s' = (case find (\<lambda>n. om_Name n = m) nodes of
       None \<Rightarrow> lookup m s | Some n \<Rightarrow> target rs n (lookup m s)))"
proof (induction nodes arbitrary: s)
  case (Cons n nodes)
  obtain t where t: "(logged (applyNodeConfig ir rs n) s :: (GoError, unit) result \<times> 's) = (Inr (), t)"
    "\<And>m. lookup m t = (if m = om_Name n then target rs n (lookup m s) else lookup m s)"
    using node_settles by blast
  have "distinct (map om_Name nodes)" using Cons.prems by simp
  from Cons.IH [OF this, of t] obtain s' where s': "applyNodeConfigs ir rs nodes t = (Inr (), s')"
    "\<And>m. lookup m s' = (case find (\<lambda>n. om_Name n = m) nodes of None \<Rightarrow> lookup m t | Some n \<Rightarrow> target rs n (lookup m t))"
    by blast
  have "om_Name n \<notin> om_Name ` set nodes" using Cons.prems by simp
  then have none: "find (\<lambda>x. om_Name x = om_Name n) nodes = None" unfolding find_None_iff by (metis imageI)
  have "lookup m s' = (case find (\<lambda>n. om_Name n = m) (n # nodes) of
      None \<Rightarrow> lookup m s | Some n \<Rightarrow> target rs n (lookup m s))" for m
  proof (cases "om_Name n = m")
    case True
    with none s'(2) [of m] t(2) [of m] show ?thesis by simp
  next
    case False
    then have "lookup m t = lookup m s" using t(2) [of m] by simp
    with False s'(2) [of m] show ?thesis by (simp only: find.simps if_False)
  qed
  moreover have "applyNodeConfigs ir rs (n # nodes) s = (Inr (), s')"
    using t(1) s'(1) by (simp add: applyNodeConfigs_def io_simps)
  ultimately show ?case by blast
qed (simp add: applyNodeConfigs_def io_simps)

section \<open>Nodes that are gone\<close>

definition orphan :: "Node list \<Rightarrow> NodeNetworkConfig \<Rightarrow> bool" where
  "orphan nodes c \<longleftrightarrow> nnc_Name c \<notin> om_Name ` set nodes \<and> hasIntentManagedLabel c"

lemma delete_config: "objs (snd (c_Delete (ir_Configs ir) c s)) = filter (\<lambda>y. nnc_Name y \<noteq> nnc_Name c) (objs s)"
proof (cases "nnc_Name c \<in> nnc_Name ` set (objs s)")
  case True
  with configs show ?thesis unfolding serves_def by (metis snd_conv)
next
  case False
  then have "filter (\<lambda>y. nnc_Name y \<noteq> nnc_Name c) (objs s) = objs s" by (intro filter_True) (metis imageI)
  with False configs show ?thesis unfolding serves_def by (metis snd_conv)
qed

lemma delete_orphans:
  "\<exists>s'. io_each (\<lambda>c. if nnc_Name c \<in> om_Name ` set nodes \<or> \<not> hasIntentManagedLabel c then io_return ()
       else logged (c_Delete (ir_Configs ir) c)) cs s = (Inr () :: (GoError, unit) result, s') \<and>
     objs s' = filter (\<lambda>y. nnc_Name y \<notin> nnc_Name ` {c \<in> set cs. orphan nodes c}) (objs s)"
proof (induction cs arbitrary: s)
  case (Cons c cs)
  show ?case
  proof (cases "orphan nodes c")
    case True
    let ?t = "snd (c_Delete (ir_Configs ir) c s)"
    have "(logged (c_Delete (ir_Configs ir) c) s :: (GoError, unit) result \<times> 's) = (Inr (), ?t)"
      by (cases "c_Delete (ir_Configs ir) c s"; cases "fst (c_Delete (ir_Configs ir) c s)") (auto simp: logged_def io_simps)
    moreover have "{x \<in> set (c # cs). orphan nodes x} = insert c {x \<in> set cs. orphan nodes x}" using True by auto
    moreover have "\<not> (nnc_Name c \<in> om_Name ` set nodes \<or> \<not> hasIntentManagedLabel c)" using True by (simp add: orphan_def)
    ultimately show ?thesis using Cons.IH [of ?t] by (auto simp: io_simps delete_config intro!: filter_cong)
  next
    case False
    then have "{x \<in> set (c # cs). orphan nodes x} = {x \<in> set cs. orphan nodes x}"
      and "nnc_Name c \<in> om_Name ` set nodes \<or> \<not> hasIntentManagedLabel c" by (auto simp: orphan_def)
    then show ?thesis using Cons.IH [of s] by (simp add: io_simps)
  qed
qed (simp add: io_simps)

lemma cleanup_settles:
  assumes "distinct (map nnc_Name (objs s))"
  shows "\<exists>s'. cleanupOrphanedNNCs ir nodes s = (Inr (), s') \<and> objs s' = filter (\<lambda>c. \<not> orphan nodes c) (objs s)"
proof -
  obtain xs where xs: "mset xs = mset (objs s)" "c_List (ir_Configs ir) s = (Inr xs, s)"
    using configs unfolding serves_def by blast
  then have set: "set xs = set (objs s)" by (metis set_mset_mset)
  have "inj_on nnc_Name (set (objs s))" using assms by (simp add: distinct_map)
  then have "y \<in> set (objs s) \<Longrightarrow> nnc_Name y \<notin> nnc_Name ` {c \<in> set xs. orphan nodes c} \<longleftrightarrow> \<not> orphan nodes y" for y
    unfolding set by (auto dest: inj_onD)
  then have "filter (\<lambda>y. nnc_Name y \<notin> nnc_Name ` {c \<in> set xs. orphan nodes c}) (objs s) = filter (\<lambda>c. \<not> orphan nodes c) (objs s)"
    by (intro filter_cong) auto
  with delete_orphans [of nodes xs s] xs(2) show ?thesis by (auto simp: cleanupOrphanedNNCs_def api_simps)
qed

lemma lookup_after_cleanup:
  assumes "objs s' = filter (\<lambda>c. \<not> orphan nodes c) (objs s)" and "distinct (map nnc_Name (objs s))"
  shows "lookup m s' = (case lookup m s of None \<Rightarrow> None | Some c \<Rightarrow> if orphan nodes c then None else Some c)"
proof -
  have "distinct (map nnc_Name xs) \<Longrightarrow> find_named nnc_Name m (filter (\<lambda>c. \<not> orphan nodes c) xs) =
      (case find_named nnc_Name m xs of None \<Rightarrow> None | Some c \<Rightarrow> if orphan nodes c then None else Some c)" for xs
  proof (induction xs)
    case (Cons x xs)
    then have "nnc_Name x \<notin> nnc_Name ` set xs" by simp
    then have "find_named nnc_Name (nnc_Name x) xs = None" by (simp add: find_named_None)
    with Cons show ?case by (cases "nnc_Name x = m") (auto simp: find_named_def split: if_splits)
  qed (simp add: find_named_def)
  with assms show ?thesis by (simp add: lookup_def)
qed

end

section \<open>A cluster in memory\<close>

type_synonym ConfigStore = "NodeNetworkConfig list \<times> NodeNetplanConfig list"

definition storeIR :: "ConfigStore IR" where
  "storeIR = \<lparr>
     ir_Configs = store_client fst (\<lambda>xs s. (xs, snd s)) nnc_Name (\<lambda>_ x. x) keepStatus (\<lambda>old x. old\<lparr>nnc_Status := nnc_Status x\<rparr>),
     ir_Netplan = store_client snd (\<lambda>xs s. (fst s, xs)) npc_Name (\<lambda>_ x. x) (\<lambda>_ x. x) (\<lambda>_ x. x),
     ir_Collectors = store_client (\<lambda>_. []) (\<lambda>_ s. s) om_Name (\<lambda>_ x. x) (\<lambda>_ x. x) (\<lambda>_ x. x), ir_SetOwnerReference = (\<lambda>w refs. Inr (if w \<in> set refs then refs else refs @ [w])),
     ir_wait = io_return (), ir_now = (\<lambda>_. 0)\<rparr>"

interpretation stored: config_server storeIR fst
proof unfold_locales
  show "serves fst nnc_Name (\<lambda>x y. y = x) (ir_Configs storeIR)"
    unfolding storeIR_def by (simp add: serves_store_client)
  show "updatesConfigs fst (ir_Configs storeIR)"
    by (simp add: updatesConfigs_def storeIR_def store_client_def store_update_def)
  show "leaves fst (ir_Netplan storeIR)"
    by (simp add: leaves_def storeIR_def store_client_def store_update_def split: option.splits)
qed (simp add: storeIR_def)

definition exConfig :: "string \<Rightarrow> ConfigStatus \<Rightarrow> NodeNetworkConfig" where
  "exConfig n cs = (NewEmptyConfig n)\<lparr>nnc_Status := emptyStatus\<lparr>st_ConfigStatus := cs\<rparr>\<rparr>"

lemma idle_nodeConfig: "\<exists>r. nodeConfig (nodeContributions [] n) = Inr r"
  by (simp add: nodeConfig_def nodeContributions_def Assemble_def ReduceSpec_def pruneLayer2s_def emptySpec_def
      reduceKeys_def Let_def)

end
