(* ===== verification/Collector_Addresses.thy ===== *)
theory Collector_Addresses
  imports Intent_Apply Intent_Samples
begin

text \<open>
  The loopback addresses of the Collectors (\<open>reconcileCollectorAddresses\<close> and its helpers in
  \<open>pkg/reconciler/intent/reconciler.go\<close>): the subnet allocation of \<open>Subnet_Allocator\<close>, the
  \<open>AddressesAllocated\<close> condition, and the status write, whose errors are logged.

  \<open>None\<close> stands for an allocation that does not return, which \<open>Subnet_Allocator\<close> rules out for a
  subnet with a positive prefix length.
\<close>

fun upsertCondition :: "Condition list \<Rightarrow> Condition \<Rightarrow> Condition list" where
  "upsertCondition [] c = [c]"
| "upsertCondition (x # xs) c =
     (if cond_Type x = cond_Type c
      then (if cond_Status x = cond_Status c then c\<lparr>cond_LastTransitionTime := cond_LastTransitionTime x\<rparr> else c) # xs
      else x # upsertCondition xs c)"

definition mapsEqual :: "(string, string) gomap \<Rightarrow> (string, string) gomap \<Rightarrow> bool" where
  "mapsEqual a b \<longleftrightarrow> length a = length b \<and> list_all (\<lambda>(k, v). gm_get b k = Some v) a"

definition CollectorConditionAddressesAllocated :: string where
  "CollectorConditionAddressesAllocated = ''AddressesAllocated''"

definition newCollectorCondition :: "gotime \<Rightarrow> int \<Rightarrow> string \<Rightarrow> string \<Rightarrow> string \<Rightarrow> Condition" where
  "newCollectorCondition now generation condStatus reason message =
     \<lparr>cond_Type = CollectorConditionAddressesAllocated, cond_Status = condStatus, cond_Reason = reason, cond_Message = message,
      cond_ObservedGeneration = generation, cond_LastTransitionTime = now\<rparr>"

definition setCollectorCondition :: "Condition \<Rightarrow> Collector \<Rightarrow> Collector" where
  "setCollectorCondition c col = col\<lparr>col_Status := (col_Status col)\<lparr>colst_Conditions :=
     upsertCondition (colst_Conditions (col_Status col)) c\<rparr>\<rparr>"

definition subnetErrorText :: "string \<Rightarrow> string" where
  "subnetErrorText cidr = ''parsing subnet CIDR '' @ quoted cidr @ '': invalid CIDR address: '' @ cidr"

definition allocationCondition :: "gotime \<Rightarrow> Collector \<Rightarrow> string list \<Rightarrow> SubnetAllocateResult \<Rightarrow> Condition" where
  "allocationCondition now col nodeNames res =
     (let subnet = lbc_Subnet (mvr_Loopback (cols_MirrorVRF (col_Spec col))) in
      if sar_Unallocated res \<noteq> []
      then newCollectorCondition now (om_Generation col) ''False'' ''SubnetExhausted''
        (''subnet '' @ subnet @ '' exhausted: '' @ itoa (int (length (sar_Unallocated res))) @ '' node(s) unallocated: ['' @
         joinWith '' '' (sar_Unallocated res) @ '']'')
      else newCollectorCondition now (om_Generation col) ''True'' ''AllAllocated''
        (''allocated '' @ itoa (int (length (sar_Updated res))) @ ''/'' @ itoa (int (length nodeNames)) @
         '' node addresses from '' @ subnet))"

text \<open>The Collector after its turn, and whether its status is written.\<close>

definition collectorTurn :: "gotime \<Rightarrow> string list \<Rightarrow> Collector \<Rightarrow> (Collector \<times> bool) option" where
  "collectorTurn now nodeNames col =
     (let subnet = lbc_Subnet (mvr_Loopback (cols_MirrorVRF (col_Spec col)));
          addrs = colst_NodeAddresses (col_Status col) in
      if subnet = '''' then Some (col, False)
      else case AllocateSubnet subnet nodeNames addrs of
        None \<Rightarrow> None
      | Some (Inl _) \<Rightarrow> Some (setCollectorCondition
          (newCollectorCondition now (om_Generation col) ''False'' ''InvalidSubnet'' (subnetErrorText subnet)) col, True)
      | Some (Inr res) \<Rightarrow>
        if mapsEqual addrs (sar_Updated res) then Some (col, False)
        else Some (setCollectorCondition (allocationCondition now col nodeNames res)
          (col\<lparr>col_Status := (col_Status col)\<lparr>colst_NodeAddresses := sar_Updated res\<rparr>\<rparr>), True))"

fun reconcileCollectorAddresses :: "'s IR \<Rightarrow> string list \<Rightarrow> Collector list \<Rightarrow> 's \<Rightarrow> (Collector list \<times> 's) option" where
  "reconcileCollectorAddresses ir nodeNames [] s = Some ([], s)"
| "reconcileCollectorAddresses ir nodeNames (col # cols) s =
     (case collectorTurn (ir_now ir s) nodeNames col of
        None \<Rightarrow> None
      | Some (col', changed) \<Rightarrow>
        let s' = (if changed then snd (c_UpdateStatus (ir_Collectors ir) col' s) else s) in
        map_option (\<lambda>(cols', t). (col' # cols', t)) (reconcileCollectorAddresses ir nodeNames cols s'))"

lemma mapsEqual_refl: "gm_wf m \<Longrightarrow> mapsEqual m m"
  by (auto simp: mapsEqual_def list_all_iff gm_wf_def)

text \<open>When none of the new nodes gets an address, the allocation leaves the map as it was.\<close>

lemma AllocateSubnet_full:
  assumes parse: "ParseCIDR subnet = Some (ip, n)" and net: "net_proper n" and known: "set (gm_keys addrs) \<subseteq> set nodes"
    and res: "AllocateSubnet subnet nodes addrs = Some (Inr r)" and full: "set nodes - set (gm_keys addrs) \<subseteq> set (sar_Unallocated r)"
  shows "sar_Updated r = addrs"
proof -
  let ?kept = "filter (\<lambda>(node, addr). node \<in> set nodes) addrs" and ?c = "nextAddr (net_IP n)"
  have kept: "?kept = addrs" using known by (auto simp: filter_id_conv)
  have "ip_ok ?c" using ip_ok_ParseCIDR [OF parse] by simp
  from allocNodes_spec [OF net this, of "broadcastAddr n" "sort nodes" addrs "map snd addrs" "[]"]
  obtain new un where run: "allocNodes n (broadcastAddr n) (sort nodes) addrs (map snd addrs) ?c [] = Some (addrs @ new, un)"
    and keys: "set (map fst new) \<union> set un = {x \<in> set nodes. \<not> gm_has addrs x}" "set (map fst new) \<inter> set un = {}"
    by auto
  have r: "sar_Updated r = addrs @ new" "set (sar_Unallocated r) = set un"
    using res parse run by (auto simp: AllocateSubnet_def kept Let_def)
  have "set (map fst new) \<subseteq> set nodes - set (gm_keys addrs)" using keys(1) by (auto simp: gm_has_iff)
  also have "\<dots> \<subseteq> set un" using full r(2) by simp
  finally have "set (map fst new) = {}" using keys(2) by (metis inf.absorb1)
  then show ?thesis using r(1) by simp
qed

text \<open>
  C40. A subnet that runs full is not reported. When nodes have joined and no address is left for any of them, the
  allocation is what it was, so the Collector's turn changes nothing and writes nothing: the
  \<open>AddressesAllocated\<close> condition goes on saying what it said, although these nodes have no address and are
  left out by the Collector builder. Only a pass that also changes the map sets \<open>SubnetExhausted\<close>.
\<close>

theorem collector_exhaustion_unreported:
  assumes "ParseCIDR subnet = Some (ip, n)" and "net_proper n"
    and "lbc_Subnet (mvr_Loopback (cols_MirrorVRF (col_Spec col))) = subnet"
    and "colst_NodeAddresses (col_Status col) = addrs" and "gm_wf addrs" and "set (gm_keys addrs) \<subseteq> set nodes"
    and "AllocateSubnet subnet nodes addrs = Some (Inr r)"
    and "set nodes - set (gm_keys addrs) \<subseteq> set (sar_Unallocated r)"
  shows "collectorTurn now nodes col = Some (col, False)"
proof -
  have "sar_Updated r = addrs" using AllocateSubnet_full [OF assms(1,2,6,7,8)] .
  then show ?thesis using assms(3,4,5,7) mapsEqual_refl by (simp add: collectorTurn_def Let_def)
qed

definition exFull :: Collector where
  "exFull = exCollector\<lparr>
     col_Spec := (col_Spec exCollector)\<lparr>cols_MirrorVRF := \<lparr>mvr_Name = ''va'', mvr_Loopback = \<lparr>lbc_Name = ''lo.mir'', lbc_Subnet = ''10.0.0.0/30''\<rparr>\<rparr>\<rparr>,
     col_Status := (col_Status exCollector)\<lparr>colst_NodeAddresses := [(''n1'', ''10.0.0.1''), (''n2'', ''10.0.0.2'')],
       colst_Conditions := [newCollectorCondition 0 1 ''True'' ''AllAllocated'' ''allocated 2/2 node addresses from 10.0.0.0/30'']\<rparr>\<rparr>"

theorem collector_exhaustion_unreported_witness:
  "collectorTurn 5 [''n1'', ''n2'', ''n3''] exFull = Some (exFull, False) \<and>
   map cond_Status (colst_Conditions (col_Status exFull)) = [''True''] \<and> \<not> gm_has (colst_NodeAddresses (col_Status exFull)) ''n3''"
proof -
  let ?addrs = "[(''n1'', ''10.0.0.1''), (''n2'', ''10.0.0.2'')]" and ?nodes = "[''n1'', ''n2'', ''n3'']"
  have full: "lbc_Subnet (mvr_Loopback (cols_MirrorVRF (col_Spec exFull))) = ''10.0.0.0/30''"
    "colst_NodeAddresses (col_Status exFull) = ?addrs" "map cond_Status (colst_Conditions (col_Status exFull)) = [''True'']"
    by (simp_all add: exFull_def newCollectorCondition_def)
  have res: "AllocateSubnet ''10.0.0.0/30'' ?nodes ?addrs =
    Some (Inr \<lparr>sar_Updated = ?addrs, sar_Removed = [], sar_Unallocated = [''n3'']\<rparr>)" by code_simp
  have "gm_wf ?addrs" by code_simp
  from collector_exhaustion_unreported [OF sampleSubnet_parse conjunct2 [OF sampleSubnet] full(1,2) this _ res]
  show ?thesis by (simp add: full gm_has_def)
qed

end
