(* ===== verification/Intent_Fetch.thy ===== *)
theory Intent_Fetch
  imports Resolver
begin

text \<open>
  What a pass of the intent reconciler reads: \<open>fetchAll\<close> and \<open>resolveBGPPasswords\<close> of
  \<open>pkg/reconciler/intent/reconciler.go\<close>, and the check for legacy resources of
  \<open>pkg/reconciler/intent/legacy/detector.go\<close>.

  \<open>Reader\<close> has a list call per kind, the lookup of a secret, and the namespace of the reconciler,
  blank for the whole cluster. Restricting a list to a namespace is the server's work, modelled by
  \<open>inNamespace\<close>. Error texts leave out the names they print.
\<close>

record 's Reader =
  rd_namespace :: string
  rd_Nodes :: "('s, ApiError, Node list) io"
  rd_VRFs :: "('s, ApiError, NcVRF list) io"
  rd_Networks :: "('s, ApiError, Network list) io"
  rd_Destinations :: "('s, ApiError, Destination list) io"
  rd_Layer2Attachments :: "('s, ApiError, Layer2Attachment list) io"
  rd_Inbounds :: "('s, ApiError, Inbound list) io"
  rd_Outbounds :: "('s, ApiError, Outbound list) io"
  rd_PodNetworks :: "('s, ApiError, PodNetwork list) io"
  rd_BGPPeerings :: "('s, ApiError, NcBGPPeering list) io"
  rd_Collectors :: "('s, ApiError, Collector list) io"
  rd_TrafficMirrors :: "('s, ApiError, TrafficMirror list) io"
  rd_AnnouncementPolicies :: "('s, ApiError, AnnouncementPolicy list) io"
  rd_NodeAttachments :: "('s, ApiError, NodeAttachment list) io"
  rd_Secret :: "string \<Rightarrow> string \<Rightarrow> ('s, ApiError, (string, string) gomap) io"
  rd_LegacyLayer2 :: "('s, ApiError, string list) io"
  rd_LegacyVRFs :: "('s, ApiError, string list) io"
  rd_LegacyPeerings :: "('s, ApiError, string list) io"

text \<open>Resources that are being deleted are left out.\<close>

definition filterActive :: "'a ObjectMeta_scheme list \<Rightarrow> 'a ObjectMeta_scheme list" where
  "filterActive xs = filter (\<lambda>x. om_DeletionTimestamp x = None) xs"

definition inNamespace :: "string \<Rightarrow> 'a ObjectMeta_scheme list \<Rightarrow> 'a ObjectMeta_scheme list" where
  "inNamespace ns xs = (if ns = '''' then xs else filter (\<lambda>x. om_Namespace x = ns) xs)"

definition listInto ::
  "string \<Rightarrow> string \<Rightarrow> ('s, ApiError, 'a ObjectMeta_scheme list) io \<Rightarrow> ('s, GoError, 'a ObjectMeta_scheme list) io" where
  "listInto kind ns m = io_bind (wrapErr (''error listing '' @ kind) (api ''list'' m)) (\<lambda>xs. io_return (inNamespace ns xs))"

text \<open>A secret that is missing or has no password leaves the peering without one.\<close>

fun resolveBGPPasswords :: "'s Reader \<Rightarrow> NcBGPPeering list \<Rightarrow> (string, string) gomap \<Rightarrow> ('s, GoError, (string, string) gomap) io" where
  "resolveBGPPasswords r [] out = io_return out"
| "resolveBGPPasswords r (bp # bps) out =
     (case bps_AuthSecretRef (bp_Spec bp) of
        None \<Rightarrow> resolveBGPPasswords r bps out
      | Some ref \<Rightarrow>
        if ref = '''' then resolveBGPPasswords r bps out
        else io_catch (rd_Secret r (om_Namespace bp) ref) (\<lambda>_. resolveBGPPasswords r bps out)
          (\<lambda>secret. case gm_get secret ''password'' of
              None \<Rightarrow> resolveBGPPasswords r bps out
            | Some raw \<Rightarrow> if raw = '''' then resolveBGPPasswords r bps out
                else resolveBGPPasswords r bps (gm_put (om_Namespace bp @ ''/'' @ om_Name bp) raw out)))"

definition fetchAll :: "'s Reader \<Rightarrow> ('s, GoError, FetchedResources) io" where
  "fetchAll r =
     (let ns = rd_namespace r in
      io_bind (listInto ''Nodes'' '''' (rd_Nodes r)) (\<lambda>nodes.
      io_bind (listInto ''VRFs'' ns (rd_VRFs r)) (\<lambda>vrfs.
      io_bind (listInto ''Networks'' ns (rd_Networks r)) (\<lambda>networks.
      io_bind (listInto ''Destinations'' ns (rd_Destinations r)) (\<lambda>dests.
      io_bind (listInto ''Layer2Attachments'' ns (rd_Layer2Attachments r)) (\<lambda>l2as.
      io_bind (listInto ''Inbounds'' ns (rd_Inbounds r)) (\<lambda>inbs.
      io_bind (listInto ''Outbounds'' ns (rd_Outbounds r)) (\<lambda>outbs.
      io_bind (listInto ''PodNetworks'' ns (rd_PodNetworks r)) (\<lambda>pns.
      io_bind (listInto ''BGPPeerings'' ns (rd_BGPPeerings r)) (\<lambda>bps.
      io_bind (listInto ''Collectors'' ns (rd_Collectors r)) (\<lambda>cols.
      io_bind (listInto ''TrafficMirrors'' ns (rd_TrafficMirrors r)) (\<lambda>tms.
      io_bind (listInto ''AnnouncementPolicies'' ns (rd_AnnouncementPolicies r)) (\<lambda>aps.
      io_bind (listInto ''NodeAttachments'' ns (rd_NodeAttachments r)) (\<lambda>nas.
      io_bind (resolveBGPPasswords r (filterActive bps) []) (\<lambda>pws.
      io_return \<lparr>fr_Nodes = nodes, fr_VRFs = filterActive vrfs, fr_Networks = filterActive networks,
        fr_Destinations = filterActive dests, fr_Layer2Attachments = filterActive l2as, fr_Inbounds = filterActive inbs,
        fr_Outbounds = filterActive outbs, fr_PodNetworks = filterActive pns, fr_BGPPeerings = filterActive bps,
        fr_Collectors = filterActive cols, fr_TrafficMirrors = filterActive tms, fr_AnnouncementPolicies = filterActive aps,
        fr_NodeAttachments = filterActive nas, fr_BGPPasswords = pws,
        fr_AllNetworks = networks, fr_AllVRFs = vrfs, fr_AllDestinations = dests\<rparr>)))))))))))))))"

lemma listInto_InrE:
  assumes "listInto kind ns m s = (Inr xs, s')"
  obtains ys where "m s = (Inr ys, s')" "xs = inNamespace ns ys"
  using assms by (auto simp: listInto_def wrapErr_def api_def io_return_def elim!: io_bind_InrE)

lemma fetchAll_Collectors:
  assumes "fetchAll r s = (Inr f, s')"
  shows "\<forall>c \<in> set (fr_Collectors f). om_DeletionTimestamp c = None"
  using assms by (auto simp: fetchAll_def Let_def io_return_def filterActive_def elim!: io_bind_InrE)

section \<open>Legacy resources\<close>

definition DetectConflicts :: "'s Reader \<Rightarrow> ('s, GoError, string list) io" where
  "DetectConflicts r =
     (let msgs = (\<lambda>kind. map (\<lambda>n. ''legacy '' @ kind @ '' '' @ CHR 0x22 # n @ [CHR 0x22] @ '' exists'')) in
      io_bind (api ''listing legacy Layer2NetworkConfigurations'' (rd_LegacyLayer2 r)) (\<lambda>l2s.
      io_bind (api ''listing legacy VRFRouteConfigurations'' (rd_LegacyVRFs r)) (\<lambda>vrfs.
      io_bind (api ''listing legacy BGPPeerings'' (rd_LegacyPeerings r)) (\<lambda>bgps.
      io_return (msgs ''Layer2NetworkConfiguration'' l2s @ msgs ''VRFRouteConfiguration'' vrfs @ msgs ''BGPPeering'' bgps)))))"

end
