(* ===== verification/Finalizer.thy ===== *)
theory Finalizer
  imports Intent_Fetch Intent_Samples
begin

text \<open>
  \<open>pkg/reconciler/intent/finalizer/finalizer.go\<close>: a resource that others refer to carries an in-use
  finalizer, so that the API keeps it, marked as being deleted, until the references are gone.

  Parameters: the finalizer helpers of controller-runtime (\<open>FinalizerLib\<close>; \<open>finalizer_lib\<close> is what
  their documentation says) and the update call of the API. \<open>stores\<close> is what the API documents of an
  update: it replaces the object with the same key, or removes it when it is being deleted and has
  no finalizer left; it changes no other object of the kind.

  The locale \<open>in_use_loop\<close> holds the argument for all four kinds: the loop leaves the finalizer on
  exactly the objects that are in use. It is interpreted for each of them.
\<close>

record FinalizerLib =
  fl_Contains :: "string list \<Rightarrow> string \<Rightarrow> bool"
  fl_Add :: "string list \<Rightarrow> string \<Rightarrow> string list"
  fl_Remove :: "string list \<Rightarrow> string \<Rightarrow> string list"

definition finalizer_lib :: "FinalizerLib \<Rightarrow> bool" where
  "finalizer_lib lib \<longleftrightarrow> (\<forall>fs f. fl_Contains lib fs f = (f \<in> set fs) \<and>
     set (fl_Add lib fs f) = insert f (set fs) \<and> set (fl_Remove lib fs f) = set fs - {f})"

definition FinalizerVRFInUse :: string where
  "FinalizerVRFInUse = ''network-connector.sylvaproject.org/vrf-in-use''"

definition FinalizerNetworkInUse :: string where
  "FinalizerNetworkInUse = ''network-connector.sylvaproject.org/network-in-use''"

definition FinalizerDestinationInUse :: string where
  "FinalizerDestinationInUse = ''network-connector.sylvaproject.org/destination-in-use''"

definition FinalizerCollectorInUse :: string where
  "FinalizerCollectorInUse = ''network-connector.sylvaproject.org/collector-in-use''"

text \<open>The loop that the four functions share: the first update that fails ends it.\<close>

definition toggleFinalizer ::
  "FinalizerLib \<Rightarrow> ('a ObjectMeta_scheme \<Rightarrow> ('s, ApiError, unit) io) \<Rightarrow> string \<Rightarrow> ('a ObjectMeta_scheme \<Rightarrow> bool) \<Rightarrow>
   'a ObjectMeta_scheme \<Rightarrow> ('s, GoError, unit) io" where
  "toggleFinalizer lib upd fin used x =
     (if used x then
        (if \<not> fl_Contains lib (om_Finalizers x) fin
         then api ''adding finalizer'' (upd (x\<lparr>om_Finalizers := fl_Add lib (om_Finalizers x) fin\<rparr>)) else io_return ())
      else
        (if fl_Contains lib (om_Finalizers x) fin
         then api ''removing finalizer'' (upd (x\<lparr>om_Finalizers := fl_Remove lib (om_Finalizers x) fin\<rparr>)) else io_return ()))"

definition reconcileInUse ::
  "FinalizerLib \<Rightarrow> ('a ObjectMeta_scheme \<Rightarrow> ('s, ApiError, unit) io) \<Rightarrow> string \<Rightarrow> ('a ObjectMeta_scheme \<Rightarrow> bool) \<Rightarrow>
   'a ObjectMeta_scheme list \<Rightarrow> ('s, GoError, unit) io" where
  "reconcileInUse lib upd fin used xs = io_each (toggleFinalizer lib upd fin used) xs"

section \<open>The references\<close>

definition referencedVRFs :: "FetchedResources \<Rightarrow> string set" where
  "referencedVRFs f = set (List.map_filter (\<lambda>d. dsts_VRFRef (dst_Spec d)) (fr_Destinations f))"

definition referencedNetworks :: "FetchedResources \<Rightarrow> string set" where
  "referencedNetworks f = set (map (\<lambda>x. l2as_NetworkRef (l2a_Spec x)) (fr_Layer2Attachments f) @
     map (\<lambda>x. inbs_NetworkRef (inb_Spec x)) (fr_Inbounds f) @ map (\<lambda>x. outbs_NetworkRef (outb_Spec x)) (fr_Outbounds f) @
     map (\<lambda>x. pns_NetworkRef (pn_Spec x)) (fr_PodNetworks f))"

definition collectDestinationSelectors :: "FetchedResources \<Rightarrow> LabelSelector list" where
  "collectDestinationSelectors f =
     List.map_filter (\<lambda>x. l2as_Destinations (l2a_Spec x)) (fr_Layer2Attachments f) @
     List.map_filter (\<lambda>x. inbs_Destinations (inb_Spec x)) (fr_Inbounds f) @
     List.map_filter (\<lambda>x. outbs_Destinations (outb_Spec x)) (fr_Outbounds f) @
     List.map_filter (\<lambda>x. pns_Destinations (pn_Spec x)) (fr_PodNetworks f)"

definition isSelectedByAny :: "asSelector \<Rightarrow> labelSet \<Rightarrow> LabelSelector list \<Rightarrow> bool" where
  "isSelectedByAny asSel resourceLabels selectors =
     list_ex (\<lambda>sel. case asSel (Some sel) of Inl _ \<Rightarrow> False | Inr m \<Rightarrow> m resourceLabels) selectors"

definition referencedCollectors :: "FetchedResources \<Rightarrow> string set" where
  "referencedCollectors f = set (map (\<lambda>t. tmis_Collector (tmi_Spec t)) (fr_TrafficMirrors f))"

record 's FinalizerManager =
  fm_lib :: FinalizerLib
  fm_asSel :: asSelector
  fm_VRFs :: "NcVRF \<Rightarrow> ('s, ApiError, unit) io"
  fm_Networks :: "Network \<Rightarrow> ('s, ApiError, unit) io"
  fm_Destinations :: "Destination \<Rightarrow> ('s, ApiError, unit) io"
  fm_Collectors :: "Collector \<Rightarrow> ('s, ApiError, unit) io"

definition reconcileVRFFinalizers :: "'s FinalizerManager \<Rightarrow> FetchedResources \<Rightarrow> ('s, GoError, unit) io" where
  "reconcileVRFFinalizers m f = reconcileInUse (fm_lib m) (fm_VRFs m) FinalizerVRFInUse
     (\<lambda>v. om_Name v \<in> referencedVRFs f) (fr_AllVRFs f)"

definition reconcileNetworkFinalizers :: "'s FinalizerManager \<Rightarrow> FetchedResources \<Rightarrow> ('s, GoError, unit) io" where
  "reconcileNetworkFinalizers m f = reconcileInUse (fm_lib m) (fm_Networks m) FinalizerNetworkInUse
     (\<lambda>n. om_Name n \<in> referencedNetworks f) (fr_AllNetworks f)"

definition reconcileDestinationFinalizers :: "'s FinalizerManager \<Rightarrow> FetchedResources \<Rightarrow> ('s, GoError, unit) io" where
  "reconcileDestinationFinalizers m f = reconcileInUse (fm_lib m) (fm_Destinations m) FinalizerDestinationInUse
     (\<lambda>d. isSelectedByAny (fm_asSel m) (om_Labels d) (collectDestinationSelectors f)) (fr_AllDestinations f)"

definition reconcileCollectorFinalizers :: "'s FinalizerManager \<Rightarrow> FetchedResources \<Rightarrow> ('s, GoError, unit) io" where
  "reconcileCollectorFinalizers m f = reconcileInUse (fm_lib m) (fm_Collectors m) FinalizerCollectorInUse
     (\<lambda>c. om_Name c \<in> referencedCollectors f) (fr_Collectors f)"

definition ReconcileFinalizers :: "'s FinalizerManager \<Rightarrow> FetchedResources \<Rightarrow> ('s, GoError, unit) io" where
  "ReconcileFinalizers m f =
     io_bind (wrapErr ''VRF finalizers'' (reconcileVRFFinalizers m f)) (\<lambda>_.
     io_bind (wrapErr ''network finalizers'' (reconcileNetworkFinalizers m f)) (\<lambda>_.
     io_bind (wrapErr ''destination finalizers'' (reconcileDestinationFinalizers m f)) (\<lambda>_.
     wrapErr ''collector finalizers'' (reconcileCollectorFinalizers m f))))"

section \<open>The API\<close>

definition metaKey :: "'a ObjectMeta_scheme \<Rightarrow> string \<times> string" where
  "metaKey x = (om_Namespace x, om_Name x)"

definition gone :: "'a ObjectMeta_scheme \<Rightarrow> bool" where
  "gone x \<longleftrightarrow> om_DeletionTimestamp x \<noteq> None \<and> om_Finalizers x = []"

definition storeObject :: "'a ObjectMeta_scheme \<Rightarrow> 'a ObjectMeta_scheme list \<Rightarrow> 'a ObjectMeta_scheme list" where
  "storeObject x xs = (if gone x then filter (\<lambda>y. metaKey y \<noteq> metaKey x) xs
     else map (\<lambda>y. if metaKey y = metaKey x then x else y) xs)"

text \<open>
  An update is accepted when the object is there, and when one that is being
  deleted gets no new finalizer.
\<close>

definition acceptable :: "'a ObjectMeta_scheme \<Rightarrow> 'a ObjectMeta_scheme list \<Rightarrow> bool" where
  "acceptable x xs = list_ex (\<lambda>y. metaKey y = metaKey x \<and>
     (om_DeletionTimestamp y = None \<or> set (om_Finalizers x) \<subseteq> set (om_Finalizers y))) xs"

definition stores :: "('s \<Rightarrow> 'a ObjectMeta_scheme list) \<Rightarrow> ('a ObjectMeta_scheme \<Rightarrow> ('s, ApiError, unit) io) \<Rightarrow> bool" where
  "stores objs upd \<longleftrightarrow> (\<forall>x s. acceptable x (objs s) \<longrightarrow>
     (\<exists>s'. upd x s = (Inr (), s') \<and> objs s' = storeObject x (objs s)))"

text \<open>What a manager may find in the store: one object per key, and no object in use being deleted without the finalizer.\<close>

definition snapshot :: "string \<Rightarrow> ('a ObjectMeta_scheme \<Rightarrow> bool) \<Rightarrow> 'a ObjectMeta_scheme list \<Rightarrow> 'a ObjectMeta_scheme list \<Rightarrow> bool" where
  "snapshot fin used xs stored \<longleftrightarrow> distinct (map metaKey stored) \<and> distinct (map metaKey xs) \<and> set xs \<subseteq> set stored \<and>
     list_all (\<lambda>x. used x \<longrightarrow> om_DeletionTimestamp x \<noteq> None \<longrightarrow> fin \<in> set (om_Finalizers x)) xs"

section \<open>The loop\<close>

locale in_use_loop =
  fixes lib :: FinalizerLib and objs :: "'s \<Rightarrow> 'a ObjectMeta_scheme list"
    and upd :: "'a ObjectMeta_scheme \<Rightarrow> ('s, ApiError, unit) io" and fin :: string
    and used :: "'a ObjectMeta_scheme \<Rightarrow> bool"
  assumes lib: "finalizer_lib lib" and upd: "stores objs upd"
    and used_meta: "used (x\<lparr>om_Finalizers := fs\<rparr>) = used x"
begin

definition settled :: "'a ObjectMeta_scheme \<Rightarrow> bool" where
  "settled y \<longleftrightarrow> (fin \<in> set (om_Finalizers y) \<longleftrightarrow> used y)"

text \<open>The store after an object has been seen to: the others are untouched, it is settled, and it is there if in use.\<close>

definition seen :: "'a ObjectMeta_scheme \<Rightarrow> 'a ObjectMeta_scheme list \<Rightarrow> 'a ObjectMeta_scheme list \<Rightarrow> bool" where
  "seen x before after \<longleftrightarrow> distinct (map metaKey after) \<and>
     (\<forall>y. metaKey y \<noteq> metaKey x \<longrightarrow> (y \<in> set after \<longleftrightarrow> y \<in> set before)) \<and>
     (\<forall>y \<in> set after. metaKey y = metaKey x \<longrightarrow> settled y) \<and>
     (used x \<longrightarrow> metaKey x \<in> metaKey ` set after)"

lemma seen_unchanged:
  assumes "x \<in> set xs" and "distinct (map metaKey xs)" and "settled x"
  shows "seen x xs xs"
proof -
  have "y \<in> set xs \<Longrightarrow> metaKey y = metaKey x \<Longrightarrow> y = x" for y
    using assms(1,2) by (metis distinct_map inj_onD)
  then show ?thesis using assms by (auto simp: seen_def)
qed

lemma seen_store:
  assumes "x \<in> set xs" and "distinct (map metaKey xs)" and "settled (x\<lparr>om_Finalizers := fs\<rparr>)" and "used x \<Longrightarrow> fs \<noteq> []"
  shows "seen x xs (storeObject (x\<lparr>om_Finalizers := fs\<rparr>) xs)"
proof -
  let ?x = "x\<lparr>om_Finalizers := fs\<rparr>"
  have k: "metaKey ?x = metaKey x" by (simp add: metaKey_def)
  show ?thesis
  proof (cases "gone ?x")
    case True
    with assms(4) have "\<not> used x" by (auto simp: gone_def)
    with True show ?thesis using assms(2) by (simp add: seen_def storeObject_def k distinct_map_filter)
  next
    case False
    let ?f = "\<lambda>y. if metaKey y = metaKey x then ?x else y"
    have keys: "map metaKey (map ?f xs) = map metaKey xs" by (simp add: k)
    have "metaKey ` set (map ?f xs) = metaKey ` set xs" using arg_cong [OF keys, of set] by (simp only: set_map)
    then have here: "metaKey x \<in> metaKey ` set (map ?f xs)" using assms(1) by blast
    have mem: "y \<in> set (map ?f xs) \<longleftrightarrow> (\<exists>z \<in> set xs. y = ?f z)" for y by (simp only: set_map image_iff)
    have others: "y \<in> set (map ?f xs) \<longleftrightarrow> y \<in> set xs" if "metaKey y \<noteq> metaKey x" for y
      unfolding mem using that k by metis
    have self: "settled y" if "y \<in> set (map ?f xs)" "metaKey y = metaKey x" for y
      using that assms(3) unfolding mem by metis
    have "distinct (map metaKey (map ?f xs))" using assms(2) unfolding keys .
    then show ?thesis
      unfolding seen_def storeObject_def k if_not_P [OF False] using others self here by blast
  qed
qed

lemma toggle_seen:
  assumes "x \<in> set (objs s)" and "distinct (map metaKey (objs s))"
    and may: "used x \<longrightarrow> om_DeletionTimestamp x \<noteq> None \<longrightarrow> fin \<in> set (om_Finalizers x)"
  shows "\<exists>s'. toggleFinalizer lib upd fin used x s = (Inr (), s') \<and> seen x (objs s) (objs s')"
proof -
  have l: "fl_Contains lib fs fin = (fin \<in> set fs)" "set (fl_Add lib fs fin) = insert fin (set fs)"
    "set (fl_Remove lib fs fin) = set fs - {fin}" for fs
    using lib by (simp_all add: finalizer_lib_def)
  have put: "\<exists>s'. api msg (upd (x\<lparr>om_Finalizers := fs\<rparr>)) s = (Inr (), s') \<and> seen x (objs s) (objs s')"
    if fs: "settled (x\<lparr>om_Finalizers := fs\<rparr>)" "used x \<Longrightarrow> fs \<noteq> []"
      "om_DeletionTimestamp x = None \<or> set fs \<subseteq> set (om_Finalizers x)" for fs msg
  proof -
    have "acceptable (x\<lparr>om_Finalizers := fs\<rparr>) (objs s)"
      using assms(1) fs(3) by (auto simp: metaKey_def acceptable_def list_ex_iff intro!: bexI [of _ x])
    with upd obtain s' where "upd (x\<lparr>om_Finalizers := fs\<rparr>) s = (Inr (), s')"
      "objs s' = storeObject (x\<lparr>om_Finalizers := fs\<rparr>) (objs s)"
      unfolding stores_def by blast
    with seen_store [OF assms(1,2) fs(1,2)] show ?thesis by (auto simp: api_def)
  qed
  have ne: "fl_Add lib fs fin \<noteq> []" for fs using l(2) [of fs] by (metis empty_set insert_not_empty)
  consider (same) "settled x" | (add) "used x" "fin \<notin> set (om_Finalizers x)" | (del) "\<not> used x" "fin \<in> set (om_Finalizers x)"
    by (auto simp: settled_def)
  then show ?thesis
  proof cases
    case same
    with seen_unchanged [OF assms(1,2)] show ?thesis
      by (auto simp: toggleFinalizer_def settled_def l io_return_apply)
  next
    case add
    with may put [of "fl_Add lib (om_Finalizers x) fin"] ne show ?thesis
      by (simp add: toggleFinalizer_def settled_def used_meta l)
  next
    case del
    with put [of "fl_Remove lib (om_Finalizers x) fin"] show ?thesis
      by (simp add: toggleFinalizer_def settled_def used_meta l)
  qed
qed

definition passed :: "'a ObjectMeta_scheme list \<Rightarrow> 'a ObjectMeta_scheme list \<Rightarrow> 'a ObjectMeta_scheme list \<Rightarrow> bool" where
  "passed xs before after \<longleftrightarrow> distinct (map metaKey after) \<and>
     (\<forall>y. metaKey y \<notin> metaKey ` set xs \<longrightarrow> (y \<in> set after \<longleftrightarrow> y \<in> set before)) \<and>
     (\<forall>y \<in> set after. metaKey y \<in> metaKey ` set xs \<longrightarrow> settled y) \<and>
     (\<forall>x \<in> set xs. used x \<longrightarrow> metaKey x \<in> metaKey ` set after)"

lemma passed_Cons:
  assumes new: "metaKey x \<notin> metaKey ` set xs" and one: "seen x a b" and rest: "passed xs b c"
  shows "passed (x # xs) a c"
  unfolding passed_def
proof (intro conjI allI impI ballI)
  show "distinct (map metaKey c)" using rest by (simp add: passed_def)
next
  fix y :: "'a ObjectMeta_scheme" assume "metaKey y \<notin> metaKey ` set (x # xs)"
  then show "y \<in> set c \<longleftrightarrow> y \<in> set a" using one rest by (simp add: passed_def seen_def)
next
  fix y assume y: "y \<in> set c" "metaKey y \<in> metaKey ` set (x # xs)"
  show "settled y"
  proof (cases "metaKey y \<in> metaKey ` set xs")
    case False
    with y rest have "y \<in> set b" "metaKey y = metaKey x" by (simp_all add: passed_def)
    with one show ?thesis by (simp add: seen_def)
  qed (use rest y in \<open>simp add: passed_def\<close>)
next
  fix z assume z: "z \<in> set (x # xs)" "used z"
  show "metaKey z \<in> metaKey ` set c"
  proof (cases "z \<in> set xs")
    case False
    with z have [simp]: "z = x" by simp
    from one z obtain y where y: "y \<in> set b" "metaKey x = metaKey y" by (auto simp: seen_def)
    with new rest have "y \<in> set c" by (simp add: passed_def)
    with y show ?thesis by simp
  qed (use rest z in \<open>simp add: passed_def\<close>)
qed

lemma snapshot_Cons:
  assumes "snapshot fin used (x # xs) a" and "seen x a b"
  shows "snapshot fin used xs b"
proof -
  have "z \<in> set b" if "z \<in> set xs" for z
  proof -
    have "metaKey x \<notin> metaKey ` set xs" using assms(1) by (simp add: snapshot_def)
    with that have "metaKey z \<noteq> metaKey x" by (metis imageI)
    then show ?thesis using assms that by (simp add: seen_def snapshot_def subset_iff)
  qed
  then show ?thesis using assms by (auto simp: snapshot_def seen_def)
qed

lemma loop_passed:
  "snapshot fin used xs (objs s) \<Longrightarrow>
   \<exists>s'. reconcileInUse lib upd fin used xs s = (Inr (), s') \<and> passed xs (objs s) (objs s')"
proof (induction xs arbitrary: s)
  case (Cons x xs)
  then obtain t where t: "toggleFinalizer lib upd fin used x s = (Inr (), t)" "seen x (objs s) (objs t)"
    using toggle_seen [of x s] by (auto simp: snapshot_def)
  from Cons.IH [OF snapshot_Cons [OF Cons.prems t(2)]]
  obtain s' where s': "reconcileInUse lib upd fin used xs t = (Inr (), s')" "passed xs (objs t) (objs s')"
    by blast
  have "metaKey x \<notin> metaKey ` set xs" using Cons.prems by (simp add: snapshot_def)
  with t s' passed_Cons have "passed (x # xs) (objs s) (objs s')" by blast
  with t(1) s'(1) show ?case by (simp add: reconcileInUse_def io_simps)
qed (simp add: reconcileInUse_def io_simps snapshot_def passed_def)

end

section \<open>The four kinds\<close>

text \<open>
  The helpers over plain lists and a store that is just the objects, so that the laws have a model
  for every kind.
\<close>

definition listFinalizers :: FinalizerLib where
  "listFinalizers = \<lparr>fl_Contains = (\<lambda>fs f. List.member fs f), fl_Add = (\<lambda>fs f. if f \<in> set fs then fs else fs @ [f]),
     fl_Remove = (\<lambda>fs f. removeAll f fs)\<rparr>"

definition putObject :: "'a ObjectMeta_scheme \<Rightarrow> ('a ObjectMeta_scheme list, ApiError, unit) io" where
  "putObject x s = (Inr (), storeObject x s)"

lemma listFinalizers_lib: "finalizer_lib listFinalizers"
  by (auto simp: finalizer_lib_def listFinalizers_def)

lemma putObject_stores: "stores (\<lambda>s. s) putObject"
  by (simp add: stores_def putObject_def)

lemmas store_laws = listFinalizers_lib putObject_stores

interpretation vrfs: in_use_loop listFinalizers "\<lambda>s. s" putObject FinalizerVRFInUse "\<lambda>v. om_Name v \<in> referencedVRFs f" for f
  by unfold_locales (simp_all add: store_laws)

interpretation nets: in_use_loop listFinalizers "\<lambda>s. s" putObject FinalizerNetworkInUse "\<lambda>n. om_Name n \<in> referencedNetworks f" for f
  by unfold_locales (simp_all add: store_laws)

interpretation dests: in_use_loop listFinalizers "\<lambda>s. s" putObject FinalizerDestinationInUse
  "\<lambda>d. isSelectedByAny asSel (om_Labels d) (collectDestinationSelectors f)" for asSel f
  by unfold_locales (simp_all add: store_laws)

interpretation cols: in_use_loop listFinalizers "\<lambda>s. s" putObject FinalizerCollectorInUse "\<lambda>c. om_Name c \<in> referencedCollectors f" for f
  by unfold_locales (simp_all add: store_laws)

lemma in_use_exact:
  assumes "finalizer_lib lib" and "stores objs upd" and "snapshot fin used xs (objs s)"
    and "\<And>x fs. used (x\<lparr>om_Finalizers := fs\<rparr>) = used x"
  shows "\<exists>s'. reconcileInUse lib upd fin used xs s = (Inr (), s') \<and>
    (\<forall>y \<in> set (objs s'). metaKey y \<in> metaKey ` set xs \<longrightarrow> (fin \<in> set (om_Finalizers y) \<longleftrightarrow> used y)) \<and>
    (\<forall>x \<in> set xs. used x \<longrightarrow> metaKey x \<in> metaKey ` set (objs s')) \<and>
    (\<forall>y. metaKey y \<notin> metaKey ` set xs \<longrightarrow> (y \<in> set (objs s') \<longleftrightarrow> y \<in> set (objs s)))"
proof -
  have loop: "in_use_loop lib objs upd used" by (rule in_use_loop.intro) (use assms in auto)
  from in_use_loop.loop_passed [OF loop assms(3)] show ?thesis
    by (auto simp: in_use_loop.passed_def [OF loop] in_use_loop.settled_def [OF loop])
qed

section \<open>Examples\<close>

definition exStored :: "string \<Rightarrow> bool \<Rightarrow> string list \<Rightarrow> Network" where
  "exStored n deleted fs = ObjectMeta.extend ((exMeta n [])
       \<lparr>om_DeletionTimestamp := if deleted then Some 1 else None, om_Finalizers := fs\<rparr>)
     \<lparr>nw_Spec = rn_Spec (exNetwork n ''10.0.1.0/24'' None), nw_Status = exStatus\<rparr>"

definition exReader ::
  "Node list \<Rightarrow> Layer2Attachment list \<Rightarrow> Network list \<Rightarrow> ('s, ApiError, Collector list) io \<Rightarrow> 's Reader" where
  "exReader nodes l2as nws cols = \<lparr>rd_namespace = '''', rd_Nodes = io_return nodes, rd_VRFs = io_return [], rd_Networks = io_return nws,
     rd_Destinations = io_return [], rd_Layer2Attachments = io_return l2as, rd_Inbounds = io_return [],
     rd_Outbounds = io_return [], rd_PodNetworks = io_return [], rd_BGPPeerings = io_return [],
     rd_Collectors = cols, rd_TrafficMirrors = io_return [], rd_AnnouncementPolicies = io_return [],
     rd_NodeAttachments = io_return [], rd_Secret = (\<lambda>_ _. io_throw NotFound), rd_LegacyLayer2 = io_return [],
     rd_LegacyVRFs = io_return [], rd_LegacyPeerings = io_return []\<rparr>"

definition exFetched :: "Layer2Attachment list \<Rightarrow> Network list \<Rightarrow> Collector list \<Rightarrow> FetchedResources" where
  "exFetched l2as nws cs = (case fetchAll (exReader [] l2as nws (\<lambda>s. (Inr s, s))) cs of (Inr f, _) \<Rightarrow> f)"

definition exManager :: "(Network \<Rightarrow> ('s, ApiError, unit) io) \<Rightarrow> (Collector \<Rightarrow> ('s, ApiError, unit) io) \<Rightarrow> 's FinalizerManager" where
  "exManager nw col = \<lparr>fm_lib = listFinalizers, fm_asSel = matchLabels, fm_VRFs = (\<lambda>_. io_return ()), fm_Networks = nw,
     fm_Destinations = (\<lambda>_. io_return ()), fm_Collectors = col\<rparr>"

lemmas ex_fetch = fetchAll_def exReader_def listInto_def inNamespace_def filterActive_def wrapErr_def api_def io_simps Let_def

section \<open>Properties\<close>



text \<open>
  C36. A Collector that is being deleted is never released: whatever the fetched TrafficMirrors are, a pass leaves
  it in the store with all its finalizers, because only Collectors that are not being deleted are fetched. For
  VRFs, Networks and Destinations the manager is given the deleted ones too.
\<close>

theorem collector_never_released:
  assumes "finalizer_lib (fm_lib m)" and "stores objs (fm_Collectors m)"
    and "fetchAll r s0 = (Inr f, s)" and "distinct (map metaKey (objs s))" and "distinct (map metaKey (fr_Collectors f))"
    and "set (fr_Collectors f) \<subseteq> set (objs s)" and "c \<in> set (objs s)" and "om_DeletionTimestamp c \<noteq> None"
  shows "\<exists>s'. reconcileCollectorFinalizers m f s = (Inr (), s') \<and> c \<in> set (objs s')"
proof -
  note active = fetchAll_Collectors [OF assms(3)]
  have "snapshot FinalizerCollectorInUse (\<lambda>c. om_Name c \<in> referencedCollectors f) (fr_Collectors f) (objs s)"
    using assms(4-6) active by (simp add: snapshot_def list_all_iff)
  from in_use_exact [OF assms(1,2) this] obtain s' where s':
    "reconcileCollectorFinalizers m f s = (Inr (), s')"
    "\<forall>y. metaKey y \<notin> metaKey ` set (fr_Collectors f) \<longrightarrow> (y \<in> set (objs s') \<longleftrightarrow> y \<in> set (objs s))"
    by (auto simp: reconcileCollectorFinalizers_def)
  have "inj_on metaKey (set (objs s))" using assms(4) by (simp add: distinct_map)
  then have "metaKey c \<notin> metaKey ` set (fr_Collectors f)"
    using active assms(6-8) by (auto dest: inj_onD)
  with s' assms(7) show ?thesis by blast
qed

theorem collector_never_released_witness:
  "let c = exCollector\<lparr>om_DeletionTimestamp := Some 1, om_Finalizers := [FinalizerCollectorInUse]\<rparr>; f = exFetched [] [] [c]
   in fr_TrafficMirrors f = [] \<and>
      (\<exists>s'. reconcileCollectorFinalizers (exManager (\<lambda>_. io_return ()) putObject) f [c] = (Inr (), s') \<and> c \<in> set s')"
proof -
  let ?c = "exCollector\<lparr>om_DeletionTimestamp := Some 1, om_Finalizers := [FinalizerCollectorInUse]\<rparr>"
  let ?f = "exFetched [] [] [?c]" and ?m = "exManager (\<lambda>_. io_return ()) putObject"
  have fetch: "fetchAll (exReader [] [] [] (\<lambda>s. (Inr s, s))) [?c] = (Inr ?f, [?c])"
    by (simp add: exFetched_def ex_fetch)
  have f: "fr_TrafficMirrors ?f = []" "fr_Collectors ?f = []" by (simp_all add: exFetched_def ex_fetch)
  have m: "finalizer_lib (fm_lib ?m)" "stores (\<lambda>s. s) (fm_Collectors ?m)"
    by (simp_all add: exManager_def store_laws)
  from collector_never_released [where objs = "\<lambda>s. s", OF m fetch, of ?c] show ?thesis by (simp add: f)
qed

end
