(* ===== verification/Intent_Reconcile.thy ===== *)
theory Intent_Reconcile
  imports Intent_Converge Collector_Addresses Intent_Status Finalizer Ipam
begin

text \<open>
  \<open>ReconcileDebounced\<close> of \<open>pkg/reconciler/intent/reconciler.go\<close>: the whole pass, from the fetched
  resources to the configurations of the nodes and the conditions of the resources.

  \<open>prepare\<close> is the part before the builders. Errors of the steps that the code only logs are
  ignored; a pass fails only when the resources cannot be fetched. The address allocation is that of
  \<open>Ipam\<close>: \<open>in_Answers\<close> says which of its status writes the API accepts and \<open>in_Written\<close> is the state
  they leave. The lists of \<open>resolved\<close> are those of \<open>fetched\<close>, so the allocations show in both.

  \<open>None\<close> is a pass in which an allocation does not return.
\<close>

record 's Intent =
  in_Reader :: "'s Reader"
  in_IR :: "'s IR"
  in_Finalizers :: "'s FinalizerManager"
  in_Updater :: "'s Updater"
  in_asSel :: asSelector
  in_iter :: groupIter
  in_Answers :: "'s \<Rightarrow> StatusWriter"
  in_Written :: "IpamInput \<Rightarrow> 's \<Rightarrow> 's"

text \<open>A step whose error is logged.\<close>

definition after :: "('s, 'e, 'a) io \<Rightarrow> 's \<Rightarrow> 's" where
  "after m s = snd (m s)"

definition ipamInput :: "FetchedResources \<Rightarrow> IpamInput" where
  "ipamInput f = \<lparr>ii_Inbounds = fr_Inbounds f, ii_Outbounds = fr_Outbounds f,
     ii_Layer2Attachments = fr_Layer2Attachments f, ii_Nodes = fr_Nodes f\<rparr>"

definition allocated :: "IpamInput \<Rightarrow> FetchedResources \<Rightarrow> FetchedResources" where
  "allocated ii f = f\<lparr>fr_Inbounds := ii_Inbounds ii, fr_Outbounds := ii_Outbounds ii,
     fr_Layer2Attachments := ii_Layer2Attachments ii\<rparr>"

definition cleanUp :: "'s Intent \<Rightarrow> FetchedResources \<Rightarrow> 's \<Rightarrow> 's" where
  "cleanUp rc f s =
     after (ReconcileFinalizers (in_Finalizers rc) f)
       (after (cleanupOrphanedNetplanConfigs (in_IR rc) (fr_Nodes f))
         (after (cleanupOrphanedNNCs (in_IR rc) (fr_Nodes f)) s))"

definition prepare :: "'s Intent \<Rightarrow> 's \<Rightarrow> ((GoError, FetchedResources) result \<times> 's) option" where
  "prepare rc s =
     (case fetchAll (in_Reader rc) (after (DetectConflicts (in_Reader rc)) s) of
        (Inl err, s) \<Rightarrow> Some (Inl (Wrap ''failed to fetch intent resources'' err), s)
      | (Inr f, s) \<Rightarrow>
        let s = cleanUp rc f s in
        case ReconcileAllocations (in_Answers rc s) (d_Networks (ResolveAll f)) (ipamInput f) of
          None \<Rightarrow> None
        | Some (_, ii) \<Rightarrow>
          let f = allocated ii f in
          map_option (\<lambda>(cols, s). (Inr (f\<lparr>fr_Collectors := cols\<rparr>), s))
            (reconcileCollectorAddresses (in_IR rc) (map om_Name (fr_Nodes f)) (fr_Collectors f) (in_Written rc ii s)))"

definition passContributions :: "'s Intent \<Rightarrow> FetchedResources \<Rightarrow> contributions list \<times> BuildIssue list" where
  "passContributions rc f = runBuilders (builders (in_asSel rc) (in_iter rc) (ResolveAll f)) []"

definition ReconcileDebounced :: "'s Intent \<Rightarrow> 's \<Rightarrow> ((GoError, unit) result \<times> 's) option" where
  "ReconcileDebounced rc s =
     (case prepare rc s of
        None \<Rightarrow> None
      | Some (Inl err, s) \<Rightarrow> Some (Inl err, s)
      | Some (Inr f, s) \<Rightarrow>
        let (rs, issues) = passContributions rc f;
            s = after (applyNodeConfigs (in_IR rc) rs (fr_Nodes f)) s;
            s = after (io_bind (nodeLocalASNs (in_IR rc))
              (\<lambda>asns. UpdateConditions (in_Updater rc) f (ResolveAll f) (issuesMap issues) asns)) s in
        Some (Inr (), s))"

section \<open>The other calls\<close>

text \<open>What the API promises about the calls for other kinds: they leave the configurations alone.\<close>

definition quiet :: "('s \<Rightarrow> 'a) \<Rightarrow> 's Intent \<Rightarrow> bool" where
  "quiet objs rc \<longleftrightarrow> (\<forall>f d i a c ii x s.
     objs (after (DetectConflicts (in_Reader rc)) s) = objs s \<and> objs (after (fetchAll (in_Reader rc)) s) = objs s \<and>
     objs (after (ReconcileFinalizers (in_Finalizers rc) f) s) = objs s \<and>
     objs (after (c_UpdateStatus (ir_Collectors (in_IR rc)) c) s) = objs s \<and> objs (in_Written rc ii s) = objs s \<and>
     objs (after (c_List (ir_Netplan (in_IR rc))) s) = objs s \<and> objs (after (c_Delete (ir_Netplan (in_IR rc)) x) s) = objs s \<and>
     objs (after (UpdateConditions (in_Updater rc) f d i a) s) = objs s)"

lemma after_bind:
  assumes "objs (after m s) = objs s" and "\<And>x t. objs (after (f x) t) = objs t"
  shows "objs (after (io_bind m f) s) = objs s"
  using assms by (cases "m s"; cases "fst (m s)") (auto simp: after_def io_bind_def)

lemma after_wrap: "after (io_wrap w m) s = after m s"
  by (auto simp: after_def io_wrap_def io_catch_def io_throw_def io_return_def split: prod.splits sum.splits)

lemma after_logged: "after (logged m) s = after m s"
  by (auto simp: after_def logged_def io_catch_def io_return_def split: prod.splits sum.splits)

lemma after_each:
  assumes "\<And>x s. x \<in> set xs \<Longrightarrow> objs (after (f x) s) = objs s"
  shows "objs (after (io_each f xs) s) = objs s"
  using assms
proof (induction xs arbitrary: s)
  case (Cons x xs)
  have "objs (after (f x) s) = objs s" using Cons.prems by simp
  moreover have "objs (after (io_each f xs) t) = objs t" for t using Cons by simp
  ultimately show ?case by (simp add: after_bind)
qed (simp add: after_def io_return_def)

lemma netplan_cleanup_quiet:
  assumes "quiet objs rc"
  shows "objs (after (cleanupOrphanedNetplanConfigs (in_IR rc) nodes) s) = objs s"
proof -
  have del: "objs (after (c_Delete (ir_Netplan (in_IR rc)) x) t) = objs t"
    and list: "objs (after (c_List (ir_Netplan (in_IR rc))) t) = objs t" for x t
    using assms by (simp_all add: quiet_def)
  have each: "objs (after (io_each (\<lambda>npc. if npc_Name npc \<in> om_Name ` set nodes \<or> \<not> hasIntentManagedNetplanLabel npc then io_return ()
       else logged (c_Delete (ir_Netplan (in_IR rc)) npc)) npcs) t) = objs t" for npcs t
    by (rule after_each) (simp add: after_logged del, simp add: after_def io_return_def)
  show ?thesis
    unfolding cleanupOrphanedNetplanConfigs_def api_def by (rule after_bind) (simp_all add: after_wrap list each)
qed

lemma collectors_quiet:
  assumes "quiet objs rc" and "reconcileCollectorAddresses (in_IR rc) names cols s = Some (cols', s')"
  shows "objs s' = objs s"
  using assms(2)
proof (induction cols arbitrary: s cols' s')
  case (Cons col cols)
  have "objs (snd (c_UpdateStatus (ir_Collectors (in_IR rc)) c s)) = objs s" for c s
    using assms(1) by (simp add: quiet_def after_def)
  with Cons.prems Cons.IH show ?case by (auto simp: Let_def split: option.splits prod.splits if_splits)
qed simp

lemma prepare_configs:
  assumes "config_server (in_IR rc) objs" and quiet: "quiet objs rc" and "distinct (map nnc_Name (objs s))"
    and "prepare rc s = Some (Inr f, s')"
  shows "objs s' = filter (\<lambda>c. \<not> config_server.orphan (fr_Nodes f) c) (objs s)"
proof -
  let ?s = "after (DetectConflicts (in_Reader rc)) s"
  from assms(4) obtain g t ii cols where fetch: "fetchAll (in_Reader rc) ?s = (Inr g, t)"
    and col: "reconcileCollectorAddresses (in_IR rc) (map om_Name (fr_Nodes (allocated ii g))) (fr_Collectors (allocated ii g))
      (in_Written rc ii (cleanUp rc g t)) = Some (cols, s')"
    and f: "f = (allocated ii g)\<lparr>fr_Collectors := cols\<rparr>"
    by (auto simp: prepare_def Let_def split: prod.splits sum.splits option.splits)
  have "objs t = objs s"
    using quiet fetch unfolding quiet_def by (metis after_def snd_conv)
  moreover have nodes: "fr_Nodes f = fr_Nodes g" by (simp add: f allocated_def)
  moreover have "objs s' = objs (cleanUp rc g t)"
    using collectors_quiet [OF quiet col] quiet by (simp add: quiet_def)
  moreover have "objs (cleanUp rc g t) = objs (after (cleanupOrphanedNNCs (in_IR rc) (fr_Nodes g)) t)"
    using quiet netplan_cleanup_quiet [OF quiet] by (simp add: cleanUp_def quiet_def)
  ultimately show ?thesis
    using config_server.cleanup_settles [OF assms(1), of t "fr_Nodes g"] assms(3) by (auto simp: after_def)
qed

lemma pass_runs:
  assumes "quiet objs rc" and "prepare rc s = Some (Inr f, t)"
    and "applyNodeConfigs (in_IR rc) (fst (passContributions rc f)) (fr_Nodes f) t = (Inr (), t')"
    and list: "\<And>s. objs (after (nodeLocalASNs (in_IR rc)) s) = objs s"
  shows "\<exists>s'. ReconcileDebounced rc s = Some (Inr (), s') \<and> objs s' = objs t'"
proof -
  have "objs (after (io_bind (nodeLocalASNs (in_IR rc)) (\<lambda>asns. UpdateConditions (in_Updater rc) f d i asns)) u) = objs u" for d i u
    by (rule after_bind) (use list assms(1) in \<open>simp_all add: quiet_def\<close>)
  moreover have "after (applyNodeConfigs (in_IR rc) (fst (passContributions rc f)) (fr_Nodes f)) t = t'"
    using assms(3) by (simp add: after_def)
  ultimately show ?thesis using assms(2) by (cases "passContributions rc f") (simp add: ReconcileDebounced_def Let_def)
qed

lemma asns_quiet: "serves objs nnc_Name R (ir_Configs ir) \<Longrightarrow> objs (after (nodeLocalASNs ir) s) = objs s"
proof -
  assume "serves objs nnc_Name R (ir_Configs ir)"
  then obtain xs where "c_List (ir_Configs ir) s = (Inr xs, s)" unfolding serves_def by blast
  then show ?thesis by (simp add: after_def nodeLocalASNs_def io_simps)
qed

section \<open>Property\<close>

definition nodeOutcome :: "AssembleResult \<Rightarrow> NodeNetworkConfig option \<Rightarrow> NodeNetworkConfig \<Rightarrow> bool" where
  "nodeOutcome r old c \<longleftrightarrow> (case old of
     None \<Rightarrow> nnc_Spec c = ar_Spec r \<and> hasIntentManagedLabel c
   | Some old \<Rightarrow>
     if st_ConfigStatus (nnc_Status old) = StatusProvisioning then c = old
     else nns_Revision (nnc_Spec c) = nns_Revision (ar_Spec r) \<and> hasIntentManagedLabel c \<and>
       nnc_Status c = nnc_Status old \<and> (nnc_Spec c = ar_Spec r \<or> c = old))"

text \<open>
  C1. A whole pass of the intent reconciler, when the API does what it documents. Once the resources are fetched
  and the addresses allocated, the pass succeeds and leaves every node with the configuration that the builders, the
  assembler and the name reduction compute for it: a node without a configuration gets it, marked as managed by the
  intent reconciler; a node that is still provisioning keeps the one it has; any other ends with the
  computed revision and the mark, its status kept; a node whose configuration cannot be computed is left alone. Of
  the configurations of other names exactly those that carry the mark are deleted.
\<close>

theorem intent_pass_converges:
  assumes "serves objs nnc_Name (\<lambda>x y. y = x) (ir_Configs (in_IR rc))" and "updatesConfigs objs (ir_Configs (in_IR rc))"
    and "leaves objs (ir_Netplan (in_IR rc))" and "\<And>w refs. \<exists>rs. ir_SetOwnerReference (in_IR rc) w refs = Inr rs"
    and quiet: "quiet objs rc" and distinct: "distinct (map nnc_Name (objs s))"
    and prepared: "prepare rc s = Some (Inr f, t)" and names: "distinct (map om_Name (fr_Nodes f))"
  shows "\<exists>s'. ReconcileDebounced rc s = Some (Inr (), s') \<and>
    (\<forall>n \<in> set (fr_Nodes f). case nodeConfig (nodeContributions (fst (passContributions rc f)) (om_Name n)) of
       Inl _ \<Rightarrow> find_named nnc_Name (om_Name n) (objs s') = find_named nnc_Name (om_Name n) (objs s)
     | Inr r \<Rightarrow> \<exists>c. find_named nnc_Name (om_Name n) (objs s') = Some c \<and>
         nodeOutcome r (find_named nnc_Name (om_Name n) (objs s)) c) \<and>
    (\<forall>m. m \<notin> om_Name ` set (fr_Nodes f) \<longrightarrow> find_named nnc_Name m (objs s') =
       (case find_named nnc_Name m (objs s) of None \<Rightarrow> None | Some c \<Rightarrow> if hasIntentManagedLabel c then None else Some c))"
proof -
  have loc: "config_server (in_IR rc) objs" using assms(1-4) by (rule config_server.intro)
  note lookup = config_server.lookup_def [OF loc] and orphan = config_server.orphan_def [OF loc]
  let ?rs = "fst (passContributions rc f)"
  obtain t' where run: "applyNodeConfigs (in_IR rc) ?rs (fr_Nodes f) t = (Inr (), t')"
    and look: "\<And>m. find_named nnc_Name m (objs t') = (case find (\<lambda>n. om_Name n = m) (fr_Nodes f) of
       None \<Rightarrow> find_named nnc_Name m (objs t)
     | Some n \<Rightarrow> config_server.target (in_IR rc) ?rs n (find_named nnc_Name m (objs t)))"
    using config_server.nodes_settle [OF loc names, of ?rs t] unfolding lookup by blast
  obtain s' where s': "ReconcileDebounced rc s = Some (Inr (), s')" "objs s' = objs t'"
    using pass_runs [OF quiet prepared run asns_quiet [OF assms(1)]] by blast
  have clean: "find_named nnc_Name m (objs t) = (case find_named nnc_Name m (objs s) of
      None \<Rightarrow> None | Some c \<Rightarrow> if config_server.orphan (fr_Nodes f) c then None else Some c)" for m
    using config_server.lookup_after_cleanup [OF loc prepare_configs [OF loc quiet distinct prepared] distinct]
    unfolding lookup .
  have name: "find_named nnc_Name m xs = Some c \<Longrightarrow> nnc_Name c = m" for m xs c by (simp add: find_named_Some)
  show ?thesis
  proof (intro exI [of _ s'] conjI s'(1) ballI allI impI)
    fix n assume n: "n \<in> set (fr_Nodes f)"
    have own: "find (\<lambda>x. om_Name x = om_Name n) (fr_Nodes f) = Some n"
      using find_named_mem [OF names n] by (simp add: find_named_def)
    have same: "find_named nnc_Name (om_Name n) (objs t) = find_named nnc_Name (om_Name n) (objs s)"
      using n clean [of "om_Name n"] by (auto simp: orphan dest: name split: option.splits)
    show "case nodeConfig (nodeContributions ?rs (om_Name n)) of
        Inl _ \<Rightarrow> find_named nnc_Name (om_Name n) (objs s') = find_named nnc_Name (om_Name n) (objs s)
      | Inr r \<Rightarrow> \<exists>c. find_named nnc_Name (om_Name n) (objs s') = Some c \<and>
          nodeOutcome r (find_named nnc_Name (om_Name n) (objs s)) c"
      using look [of "om_Name n"]
      by (cases "find_named nnc_Name (om_Name n) (objs s)")
        (auto simp: own same s'(2) nodeOutcome_def config_server.target_def [OF loc] config_server.settledNNC_def [OF loc]
          split: sum.splits)
  next
    fix m assume m: "m \<notin> om_Name ` set (fr_Nodes f)"
    then have "find (\<lambda>n. om_Name n = m) (fr_Nodes f) = None" unfolding find_None_iff by (metis imageI)
    then show "find_named nnc_Name m (objs s') = (case find_named nnc_Name m (objs s) of
        None \<Rightarrow> None | Some c \<Rightarrow> if hasIntentManagedLabel c then None else Some c)"
      using m look [of m] clean [of m] by (auto simp: s'(2) orphan dest: name split: option.splits)
  qed
qed

text \<open>An instance: a cluster whose only resources are its nodes and their configurations.\<close>

definition noStatus :: "('s, 'o) StatusClient" where
  "noStatus = \<lparr>sc_Get = (\<lambda>_. io_throw NotFound), sc_Update = (\<lambda>_. io_throw NotFound)\<rparr>"

definition exIntent :: "Node list \<Rightarrow> ConfigStore Intent" where
  "exIntent nodes = \<lparr>in_Reader = exReader nodes [] [] (io_return []), in_IR = storeIR,
     in_Finalizers = exManager (\<lambda>_. io_return ()) (\<lambda>_. io_return ()),
     in_Updater = \<lparr>up_setCond = (\<lambda>cs _. cs), up_asSel = matchLabels, up_VRFs = noStatus, up_Networks = noStatus,
       up_Destinations = noStatus, up_Inbounds = noStatus, up_Outbounds = noStatus, up_Layer2Attachments = noStatus,
       up_PodNetworks = noStatus, up_Collectors = noStatus, up_TrafficMirrors = noStatus, up_NodeAttachments = noStatus,
       up_BGPPeerings = noStatus\<rparr>,
     in_asSel = matchLabels, in_iter = (\<lambda>g. g),
     in_Answers = (\<lambda>_. \<lparr>sw_Inbound = (\<lambda>_. True), sw_Outbound = (\<lambda>_. True), sw_Layer2Attachment = (\<lambda>_. True)\<rparr>),
     in_Written = (\<lambda>_ s. s)\<rparr>"

definition exNodes :: "Node list \<Rightarrow> FetchedResources" where
  "exNodes nodes = (exFetched [] [] [])\<lparr>fr_Nodes := nodes\<rparr>"

lemma exNodes_simps:
  "fr_Nodes (exNodes nodes) = nodes" "fr_Inbounds (exNodes nodes) = []" "fr_Outbounds (exNodes nodes) = []"
  "fr_Layer2Attachments (exNodes nodes) = []" "fr_Collectors (exNodes nodes) = []"
  "ResolveAll (exNodes nodes) = exData\<lparr>d_Nodes := nodes, d_VRFs := [], d_Networks := [], d_Destinations := [], d_RawDestinations := []\<rparr>"
  by (simp_all add: exNodes_def exFetched_def ex_fetch ResolveAll_def ResolveVRFs_def ResolveNetworks_def
      ResolveDestinations_def exData_def)

lemma exIntent_prepare: "\<exists>t. prepare (exIntent nodes) s = Some (Inr (exNodes nodes), t)"
proof -
  have "after (DetectConflicts (in_Reader (exIntent nodes))) s = s"
    by (simp add: after_def exIntent_def exReader_def DetectConflicts_def api_simps Let_def)
  moreover have "fetchAll (in_Reader (exIntent nodes)) s = (Inr (exNodes nodes), s)"
    by (simp add: exIntent_def exNodes_def exFetched_def ex_fetch)
  moreover have "ReconcileAllocations w nets (ipamInput (exNodes nodes)) = Some (None, ipamInput (exNodes nodes))" for w nets
    by (simp add: ReconcileAllocations_def ipamInput_def exNodes_simps reconcileInboundAllocations_def
        reconcileOutboundAllocations_def seedExistingAllocations_def Let_def)
  moreover have "allocated (ipamInput (exNodes nodes)) (exNodes nodes) = exNodes nodes"
    by (simp add: allocated_def ipamInput_def)
  ultimately show ?thesis by (simp add: prepare_def exNodes_simps Let_def)
qed

lemma exIntent_contributions: "nodeContributions (fst (passContributions (exIntent nodes) (exNodes nodes))) n = []"
  by (simp add: passContributions_def exNodes_simps exIntent_def builders_def exData_def buildL2A_def buildInbound_def
      buildOutbound_def buildPodNetwork_def buildBGPPeering_def buildCollector_def buildMirror_def buildAnnouncement_def
      buildNodeAttachment_def buildSBR_def sbrGroupsOf_def consumers_def derefContrib_def initUsage_def
      nodeContributions_def List.map_filter_simps Let_def)

lemma after_noStatus: "after (updateAll kind noStatus f xs) s = s"
proof -
  have "after (wrapErr msg (statusUpdateWithRetry noStatus f x)) s = s" for msg f x s
    by (subst statusUpdateWithRetry_def, subst statusAttempts.simps) (simp add: after_def noStatus_def api_simps)
  then have "after (io_each (\<lambda>x. wrapErr msg (statusUpdateWithRetry noStatus (f x) x)) xs) s = s" for msg
    by (intro after_each [where objs = "\<lambda>s. s"])
  then show ?thesis by (simp add: updateAll_def wrapErr_def after_wrap)
qed

lemma after_idle_toggle: "after (reconcileInUse lib (\<lambda>_. io_return ()) fin used xs) s = s"
  unfolding reconcileInUse_def
  by (rule after_each [where objs = "\<lambda>s. s"]) (simp add: toggleFinalizer_def after_def api_simps)

lemma exIntent_quiet: "quiet fst (exIntent nodes)"
proof -
  have bind: "after m s = s \<Longrightarrow> (\<And>x t. after (f x) t = t) \<Longrightarrow> after (io_bind m f) s = s" for m f s
    by (rule after_bind [where objs = "\<lambda>s. s"])
  have "after (UpdateConditions (in_Updater (exIntent nodes)) f d i a) s = s" for f d i a s
    unfolding UpdateConditions_def Let_def exIntent_def by (simp add: bind after_noStatus)
  moreover have "after (ReconcileFinalizers (in_Finalizers (exIntent nodes)) f) s = s" for f s
    unfolding ReconcileFinalizers_def wrapErr_def
    by (simp add: bind after_wrap after_idle_toggle exIntent_def exManager_def reconcileVRFFinalizers_def
        reconcileNetworkFinalizers_def reconcileDestinationFinalizers_def reconcileCollectorFinalizers_def)
  moreover have "after (fetchAll (in_Reader (exIntent nodes))) s = s" "after (DetectConflicts (in_Reader (exIntent nodes))) s = s" for s
    by (simp_all add: after_def exIntent_def ex_fetch DetectConflicts_def)
  ultimately show ?thesis
    by (simp add: quiet_def exIntent_def after_def storeIR_def store_client_def store_update_def split: option.splits)
qed

theorem intent_pass_converges_witness:
  "let nodes = [exNode ''w1'', exNode ''w2'']; busy = exConfig ''w2'' StatusProvisioning;
       orphan = setIntentManagedLabel (exConfig ''old'' StatusProvisioned)
   in \<exists>s'. ReconcileDebounced (exIntent nodes) ([busy, orphan], []) = Some (Inr (), s') \<and>
        (\<exists>c. find_named nnc_Name ''w1'' (fst s') = Some c \<and> hasIntentManagedLabel c) \<and>
        find_named nnc_Name ''w2'' (fst s') = Some busy \<and> find_named nnc_Name ''old'' (fst s') = None"
proof -
  let ?nodes = "[exNode ''w1'', exNode ''w2'']" and ?busy = "exConfig ''w2'' StatusProvisioning"
  let ?orphan = "setIntentManagedLabel (exConfig ''old'' StatusProvisioned)" and ?s = "([exConfig ''w2'' StatusProvisioning,
    setIntentManagedLabel (exConfig ''old'' StatusProvisioned)], []) :: ConfigStore"
  have ex: "distinct (map om_Name ?nodes)" "om_Name (exNode n) = n" for n
    by (simp_all add: exNode_def exMeta_def ObjectMeta.extend_def)
  have old: "nnc_Name (exConfig n cs) = n" "st_ConfigStatus (nnc_Status (exConfig n cs)) = cs" "nnc_Name ?orphan = ''old''"
    "hasIntentManagedLabel ?orphan" for n cs
    by (simp_all add: exConfig_def NewEmptyConfig_def setIntentManagedLabel_def hasIntentManagedLabel_def gomap_simps)
  obtain r where r: "nodeConfig [] = Inr r" using idle_nodeConfig by (auto simp: nodeContributions_def)
  obtain t where t: "prepare (exIntent ?nodes) ?s = Some (Inr (exNodes ?nodes), t)" using exIntent_prepare by blast
  have ir: "in_IR (exIntent ?nodes) = storeIR" by (simp add: exIntent_def)
  have "distinct (map nnc_Name (fst ?s))" "distinct (map om_Name (fr_Nodes (exNodes ?nodes)))"
    using ex(1) by (simp_all add: old exNodes_simps)
  note run = intent_pass_converges [where objs = fst and rc = "exIntent ?nodes" and s = ?s, unfolded ir,
      OF stored.configs stored.updates stored.netplan stored.owner exIntent_quiet this(1) t this(2),
      unfolded exNodes_simps exIntent_contributions r sum.case]
  then obtain s' where s': "ReconcileDebounced (exIntent ?nodes) ?s = Some (Inr (), s')"
    and node: "\<And>n. n \<in> set ?nodes \<Longrightarrow> \<exists>c. find_named nnc_Name (om_Name n) (fst s') = Some c \<and>
      nodeOutcome r (find_named nnc_Name (om_Name n) (fst ?s)) c"
    and other: "\<And>m. m \<notin> om_Name ` set ?nodes \<Longrightarrow> find_named nnc_Name m (fst s') =
      (case find_named nnc_Name m (fst ?s) of None \<Rightarrow> None | Some c \<Rightarrow> if hasIntentManagedLabel c then None else Some c)"
    by blast
  have here: "find_named nnc_Name ''w1'' (fst ?s) = None" "find_named nnc_Name ''w2'' (fst ?s) = Some ?busy"
    "find_named nnc_Name ''old'' (fst ?s) = Some ?orphan" by (simp_all add: find_named_def old)
  have "\<exists>c. find_named nnc_Name ''w1'' (fst s') = Some c \<and> hasIntentManagedLabel c"
    using node [of "exNode ''w1''"] by (auto simp: ex(2) here [simplified] nodeOutcome_def)
  moreover have "find_named nnc_Name ''w2'' (fst s') = Some ?busy"
    using node [of "exNode ''w2''"] by (auto simp: ex(2) here [simplified] nodeOutcome_def old)
  moreover have "find_named nnc_Name ''old'' (fst s') = None"
    using other [of "''old''"] by (simp add: ex(2) here [simplified] old)
  ultimately show ?thesis unfolding Let_def using s' by blast
qed

end
