(* ===== verification/Agent.thy ===== *)
theory Agent
  imports Build_Common
begin

text \<open>
  \<open>pkg/reconciler/common/nodenetworkconfig.go\<close>: the loop of an agent, which applies the
  \<open>NodeNetworkConfig\<close> of its node and reports in its status what became of it.

  The code's two interfaces are records of operations: \<open>HealthCheckerInterface\<close> and \<open>ConfigApplier\<close>, of
  which every agent has its own. The field
  \<open>NodeNetworkConfig\<close> of the reconciler, the configuration that is in force as far as the agent
  knows, is the first component of the state; the second is the rest of the world: the API, the
  network of the node and its file system. The constructor reads the files it starts from and is
  left out, as is the text of the file that \<open>storeConfig\<close> writes.
\<close>

record 's HealthCheckerInterface =
  hc_CheckInterfaces :: "('s, GoError, unit) io"
  hc_CheckReachability :: "('s, GoError, unit) io"
  hc_CheckAPIServer :: "('s, GoError, unit) io"
  hc_TaintsRemoved :: "'s \<Rightarrow> bool"
  hc_RemoveTaints :: "('s, GoError, unit) io"
  hc_UpdateReadinessCondition :: "string \<Rightarrow> string \<Rightarrow> string \<Rightarrow> ('s, GoError, unit) io"

record 's NodeNetworkConfigReconciler =
  nr_client :: "('s, NodeNetworkConfig) ResClient"
  nr_healthChecker :: "'s HealthCheckerInterface"
  nr_ApplyConfig :: "NodeNetworkConfig \<Rightarrow> ('s, GoError, unit) io"
  nr_restoreOnReconcileFailure :: bool
  nr_localASN :: int
  nr_nodeName :: string
  nr_WriteFile :: "NodeNetworkConfig \<Rightarrow> ('s, GoError, unit) io"
  nr_Now :: "'s \<Rightarrow> gotime"

text \<open>\<open>ctrl.Result\<close>, with the delay in seconds.\<close>

datatype Result = NoRequeue | RequeueAfter nat

definition TaintRemovalRequeueTime :: nat where
  "TaintRemovalRequeueTime = 30"

type_synonym 's agentState = "NodeNetworkConfig option \<times> 's"

section \<open>Status\<close>

definition statusFields :: "gotime \<Rightarrow> ConfigStatus \<Rightarrow> string \<Rightarrow> NodeNetworkConfig \<Rightarrow> NodeNetworkConfig" where
  "statusFields now status errorMsg cfg = cfg\<lparr>nnc_Status := (nnc_Status cfg)\<lparr>
     st_ConfigStatus := status,
     st_LastUpdate := now,
     st_LastAppliedRevision := (if status = StatusProvisioned \<or> status = StatusInvalid
       then nns_Revision (nnc_Spec cfg) else st_LastAppliedRevision (nnc_Status cfg)),
     st_ErrorMessage := (if status = StatusInvalid then errorMsg else '''')\<rparr>\<rparr>"

text \<open>The client fills \<open>cfg\<close> with the server's answer, which is the result.\<close>

definition SetStatusWithError ::
  "'s NodeNetworkConfigReconciler \<Rightarrow> NodeNetworkConfig \<Rightarrow> ConfigStatus \<Rightarrow> string \<Rightarrow> ('s, GoError, NodeNetworkConfig) io" where
  "SetStatusWithError r cfg status errorMsg = (\<lambda>s.
     api ''error updating NodeNetworkConfig status''
       (c_UpdateStatus (nr_client r) (statusFields (nr_Now r s) status errorMsg cfg)) s)"

definition SetStatus ::
  "'s NodeNetworkConfigReconciler \<Rightarrow> NodeNetworkConfig \<Rightarrow> ConfigStatus \<Rightarrow> ('s, GoError, NodeNetworkConfig) io" where
  "SetStatus r cfg status = SetStatusWithError r cfg status ''''"

definition invalidateNodeNetworkConfig ::
  "'s NodeNetworkConfigReconciler \<Rightarrow> NodeNetworkConfig \<Rightarrow> string \<Rightarrow> ('s, GoError, unit) io" where
  "invalidateNodeNetworkConfig r cfg errorMsg =
     io_bind (wrapErr ''error invalidating NodeNetworkConfig'' (SetStatusWithError r cfg StatusInvalid errorMsg))
       (\<lambda>_. io_return ())"

section \<open>Applying a configuration\<close>

definition doReconciliation :: "'s NodeNetworkConfigReconciler \<Rightarrow> NodeNetworkConfig \<Rightarrow> ('s, GoError, unit) io" where
  "doReconciliation r nodeCfg = wrapErr ''error applying configuration'' (nr_ApplyConfig r nodeCfg)"

definition restoreNodeNetworkConfig ::
  "'s NodeNetworkConfigReconciler \<Rightarrow> NodeNetworkConfig option \<Rightarrow> ('s, GoError, unit) io" where
  "restoreNodeNetworkConfig r current = (case current of
     None \<Rightarrow> io_return ()
   | Some c \<Rightarrow> wrapErr ''error restoring NodeNetworkConfig'' (doReconciliation r c))"

definition invalidateAndRestore ::
  "'s NodeNetworkConfigReconciler \<Rightarrow> NodeNetworkConfig option \<Rightarrow> NodeNetworkConfig \<Rightarrow> string \<Rightarrow> ('s, GoError, unit) io" where
  "invalidateAndRestore r current cfg errorMsg =
     io_bind (invalidateNodeNetworkConfig r cfg errorMsg) (\<lambda>_.
       wrapErr ''error restoring NodeNetworkConfig'' (restoreNodeNetworkConfig r current))"

text \<open>A failed update of the condition is ignored.\<close>

definition unready :: "'s HealthCheckerInterface \<Rightarrow> string \<Rightarrow> string \<Rightarrow> GoError \<Rightarrow> ('s, GoError, 'a) io" where
  "unready h reason msg err =
     io_catch (hc_UpdateReadinessCondition h ''False'' reason (errorText err))
       (\<lambda>_. io_throw (Wrap msg err)) (\<lambda>_. io_throw (Wrap msg err))"

definition removeTaintsOrRequeue :: "'s HealthCheckerInterface \<Rightarrow> ('s, GoError, Result) io" where
  "removeTaintsOrRequeue h = (\<lambda>s.
     if hc_TaintsRemoved h s then (Inr NoRequeue, s)
     else io_catch (hc_RemoveTaints h) (\<lambda>_. io_return (RequeueAfter TaintRemovalRequeueTime))
       (\<lambda>_. io_return NoRequeue) s)"

definition checkHealth :: "'s HealthCheckerInterface \<Rightarrow> ('s, GoError, Result) io" where
  "checkHealth h =
     io_catch (hc_CheckInterfaces h)
       (unready h ''InterfaceCheckFailed'' ''error checking network interfaces'') (\<lambda>_.
     io_catch (hc_CheckReachability h)
       (unready h ''ReachabilityCheckFailed'' ''error checking network reachability'') (\<lambda>_.
     io_catch (hc_CheckAPIServer h)
       (unready h ''APIServerCheckFailed'' ''error checking API Server reachability'') (\<lambda>_.
     io_catch (hc_UpdateReadinessCondition h ''True'' ''HealthChecksPassed'' ''All network operator health checks passed'')
       (\<lambda>_ :: GoError. removeTaintsOrRequeue h) (\<lambda>_. removeTaintsOrRequeue h))))"

definition processConfig ::
  "'s NodeNetworkConfigReconciler \<Rightarrow> NodeNetworkConfig option \<Rightarrow> NodeNetworkConfig \<Rightarrow>
   ('s, GoError, Result \<times> NodeNetworkConfig) io" where
  "processConfig r current cfg =
     io_bind (wrapErr ''error setting NodeNetworkConfig status provisioning'' (SetStatus r cfg StatusProvisioning)) (\<lambda>cfg.
     io_catch (doReconciliation r cfg)
       (\<lambda>err. io_bind
          (if nr_restoreOnReconcileFailure r
           then wrapErr ''error restoring NodeNetworkConfig'' (invalidateAndRestore r current cfg (errorText err))
           else wrapErr ''error invalidating NodeNetworkConfig'' (invalidateNodeNetworkConfig r cfg (errorText err)))
          (\<lambda>_. io_throw (Wrap ''reconciler error'' err))) (\<lambda>_.
     io_catch (checkHealth (nr_healthChecker r))
       (\<lambda>err. io_bind
          (wrapErr ''failed to restore NodeNetworkConfig'' (invalidateAndRestore r current cfg (errorText err)))
          (\<lambda>_. io_throw (Wrap ''healthcheck error (previous NodeNetworkConfig restored)'' err))) (\<lambda>result.
     io_bind (wrapErr ''error setting NodeNetworkConfig status provisioned'' (SetStatus r cfg StatusProvisioned)) (\<lambda>cfg.
     io_return (result, cfg)))))"

section \<open>The loop\<close>

definition inWorld :: "('s, 'e, 'a) io \<Rightarrow> ('s agentState, 'e, 'a) io" where
  "inWorld m = (\<lambda>(current, s). case m s of (x, s') \<Rightarrow> (x, (current, s')))"

definition storeConfig :: "'s NodeNetworkConfigReconciler \<Rightarrow> NodeNetworkConfig \<Rightarrow> ('s agentState, GoError, unit) io" where
  "storeConfig r cfg = (\<lambda>(current, s).
     inWorld (wrapErr ''error saving NodeNetworkConfig status''
       (wrapErr ''error saving NodeNetworkConfig status'' (nr_WriteFile r cfg))) (Some cfg, s))"

definition fetchNodeConfig :: "'s NodeNetworkConfigReconciler \<Rightarrow> ('s, GoError, NodeNetworkConfig) io" where
  "fetchNodeConfig r = api ''error getting NodeConfig'' (c_Get (nr_client r) (nr_nodeName r))"

text \<open>
  The status of the configuration that \<open>storeConfig\<close> has just put in force: the reconciler's field
  points to the object that \<open>SetStatus\<close> changes, also when the API refuses the change.
\<close>

definition markProvisioned :: "'s NodeNetworkConfigReconciler \<Rightarrow> NodeNetworkConfig \<Rightarrow> ('s agentState, GoError, unit) io" where
  "markProvisioned r cfg = (\<lambda>(current, s).
     case SetStatus r cfg StatusProvisioned s of
       (Inl err, s') \<Rightarrow> (Inl (Wrap ''error setting NodeNetworkConfig status'' err),
         (Some (statusFields (nr_Now r s) StatusProvisioned '''' cfg), s'))
     | (Inr cfg, s') \<Rightarrow> (Inr (), (Some cfg, s')))"

definition inForce :: "NodeNetworkConfig option \<Rightarrow> string \<Rightarrow> bool" where
  "inForce current revision = (case current of Some c \<Rightarrow> nns_Revision (nnc_Spec c) = revision | None \<Rightarrow> False)"

definition Reconcile :: "'s NodeNetworkConfigReconciler \<Rightarrow> ('s agentState, GoError, Result) io" where
  "Reconcile r = (\<lambda>(current, s).
     io_catch (inWorld (fetchNodeConfig r))
       (\<lambda>err. if errorsIs NotFound err then io_return NoRequeue else io_throw err) (\<lambda>fetched.
     let asnNeedsWrite = (st_ASNumber (nnc_Status fetched) \<noteq> nr_localASN r);
         cfg = fetched\<lparr>nnc_Status := (nnc_Status fetched)\<lparr>st_ASNumber := nr_localASN r\<rparr>\<rparr>;
         revision = nns_Revision (nnc_Spec cfg) in
     if inForce current revision then
       io_bind (storeConfig r cfg) (\<lambda>_.
       io_bind (if st_ConfigStatus (nnc_Status cfg) \<noteq> StatusProvisioned \<or> asnNeedsWrite
                then markProvisioned r cfg else io_return ()) (\<lambda>_.
       inWorld (removeTaintsOrRequeue (nr_healthChecker r))))
     else if revision = st_LastAppliedRevision (nnc_Status cfg) \<and> st_ConfigStatus (nnc_Status cfg) = StatusInvalid then
       io_return NoRequeue
     else
       io_bind (inWorld (wrapErr ''error while processing NodeNetworkConfig'' (processConfig r current cfg))) (\<lambda>(result, cfg).
       io_bind (storeConfig r cfg) (\<lambda>_.
       io_return result))) (current, s))"

section \<open>What the agent relies on\<close>

text \<open>
  An update of the status subresource with an object that is not outdated stores the status and nothing else.
\<close>

definition updatesStatus :: "('s \<Rightarrow> NodeNetworkConfig list) \<Rightarrow> ('s, NodeNetworkConfig) ResClient \<Rightarrow> bool" where
  "updatesStatus objs c \<longleftrightarrow> (\<forall>x s old. find_named nnc_Name (nnc_Name x) (objs s) = Some old \<and> nnc_Spec x = nnc_Spec old \<longrightarrow>
     (\<exists>s'. c_UpdateStatus c x s = (Inr (old\<lparr>nnc_Status := nnc_Status x\<rparr>), s') \<and>
        objs s' = replace_named nnc_Name (nnc_Name x) (\<lambda>_. old\<lparr>nnc_Status := nnc_Status x\<rparr>) (objs s)))"

definition healthKeeps :: "('s \<Rightarrow> 'a) \<Rightarrow> 's HealthCheckerInterface \<Rightarrow> bool" where
  "healthKeeps obs h \<longleftrightarrow> keeps obs (hc_CheckInterfaces h) \<and> keeps obs (hc_CheckReachability h) \<and>
     keeps obs (hc_CheckAPIServer h) \<and> keeps obs (hc_RemoveTaints h) \<and>
     (\<forall>st reason msg. keeps obs (hc_UpdateReadinessCondition h st reason msg))"

lemma keeps_removeTaints [keeps_intros]:
  fixes h :: "'s HealthCheckerInterface"
  shows "healthKeeps obs h \<Longrightarrow> keeps obs (removeTaintsOrRequeue h)"
proof -
  assume "healthKeeps obs h"
  then have "keeps obs (io_catch (hc_RemoveTaints h) (\<lambda>_. io_return (RequeueAfter TaintRemovalRequeueTime))
      (\<lambda>_. io_return NoRequeue) :: ('s, GoError, Result) io)"
    by (intro keeps_intros) (simp add: healthKeeps_def)
  then show ?thesis by (simp add: keeps_def removeTaintsOrRequeue_def)
qed

lemma keeps_checkHealth [keeps_intros]: "healthKeeps obs h \<Longrightarrow> keeps obs (checkHealth h)"
  unfolding checkHealth_def unready_def by (intro keeps_intros) (simp_all add: healthKeeps_def)

lemma keeps_restore [keeps_intros]:
  "(\<And>c. keeps obs (nr_ApplyConfig r c)) \<Longrightarrow> keeps obs (restoreNodeNetworkConfig r current)"
  unfolding restoreNodeNetworkConfig_def doReconciliation_def by (cases current) (auto intro: keeps_intros)

lemma inWorld_run [io_simps]: "m s = (x, s') \<Longrightarrow> inWorld m (k, s) = (x, (k, s'))"
  by (simp add: inWorld_def)

lemma then_throw: "m s = (x, s') \<Longrightarrow> \<exists>e'. io_bind (io_wrap w m) (\<lambda>_. io_throw e) s = (Inl e', s')"
  by (cases x) (auto simp: io_simps)

locale agent_api =
  fixes r :: "'s NodeNetworkConfigReconciler" and objs :: "'s \<Rightarrow> NodeNetworkConfig list"
  assumes get: "c_Get (nr_client r) n s = (case find_named nnc_Name n (objs s) of None \<Rightarrow> Inl NotFound | Some x \<Rightarrow> Inr x, s)"
    and status: "updatesStatus objs (nr_client r)"
    and applier: "keeps objs (nr_ApplyConfig r c)"
    and files: "\<exists>s'. nr_WriteFile r c s = (Inr (), s') \<and> objs s' = objs s"
    and health: "healthKeeps objs (nr_healthChecker r)"
begin

definition mine :: "'s \<Rightarrow> NodeNetworkConfig option" where
  "mine s = find_named nnc_Name (nr_nodeName r) (objs s)"

lemma mine_name: "mine s = Some c \<Longrightarrow> nnc_Name c = nr_nodeName r"
  by (simp add: mine_def find_named_Some)

lemma mine_keeps: "keeps objs m \<Longrightarrow> m s = (x, s') \<Longrightarrow> mine s' = mine s"
  using keepsD [of objs m s x s'] by (simp add: mine_def)

text \<open>
  The configuration of the node keeps its specification and ends with the status \<open>st\<close> and its
  revision as the last one applied; those of the other nodes are as before.
\<close>

definition ends :: "ConfigStatus \<Rightarrow> 's \<Rightarrow> 's \<Rightarrow> NodeNetworkConfig \<Rightarrow> bool" where
  "ends st s s' c \<longleftrightarrow> mine s' = Some c \<and> map_option nnc_Spec (mine s) = Some (nnc_Spec c) \<and>
     st_ConfigStatus (nnc_Status c) = st \<and> st_LastAppliedRevision (nnc_Status c) = nns_Revision (nnc_Spec c) \<and>
     (\<forall>m. m \<noteq> nr_nodeName r \<longrightarrow> find_named nnc_Name m (objs s') = find_named nnc_Name m (objs s))"

lemma ends_to: "objs s' = objs t \<Longrightarrow> ends st s s' c = ends st s t c"
  by (simp add: ends_def mine_def)

lemma ends_after: "ends st s' s'' c \<Longrightarrow> mine s' = Some c' \<Longrightarrow> map_option nnc_Spec (mine s) = Some (nnc_Spec c') \<Longrightarrow>
    (\<And>m. m \<noteq> nr_nodeName r \<Longrightarrow> find_named nnc_Name m (objs s') = find_named nnc_Name m (objs s)) \<Longrightarrow> ends st s s'' c"
  by (simp add: ends_def)

text \<open>Writing a status always succeeds, and the configuration then has exactly that status.\<close>

lemma SetStatus_runs:
  assumes "mine s = Some old" and "nnc_Name cfg = nnc_Name old" and "nnc_Spec cfg = nnc_Spec old"
  obtains c s' where "SetStatusWithError r cfg st msg s = (Inr c, s')" "mine s' = Some c" "nnc_Name c = nnc_Name old"
    "nnc_Spec c = nnc_Spec old" "nnc_Status c = nnc_Status (statusFields (nr_Now r s) st msg cfg)"
    "\<And>m. m \<noteq> nr_nodeName r \<Longrightarrow> find_named nnc_Name m (objs s') = find_named nnc_Name m (objs s)"
proof -
  let ?x = "statusFields (nr_Now r s) st msg cfg"
  let ?c = "old\<lparr>nnc_Status := nnc_Status ?x\<rparr>"
  have name: "nnc_Name ?x = nr_nodeName r" "nnc_Spec ?x = nnc_Spec old" using assms mine_name by (simp_all add: statusFields_def)
  with assms(1) obtain s' where run: "c_UpdateStatus (nr_client r) ?x s = (Inr ?c, s')"
    and objs: "objs s' = replace_named nnc_Name (nr_nodeName r) (\<lambda>_. ?c) (objs s)"
    using status unfolding updatesStatus_def mine_def by metis
  have "nnc_Name ?c = nr_nodeName r" using assms(1) mine_name by simp
  moreover have "nr_nodeName r \<in> nnc_Name ` set (objs s)" using assms(1) find_named_name by (auto simp: mine_def)
  ultimately have "find_named nnc_Name m (objs s') = (if m = nr_nodeName r then Some ?c else find_named nnc_Name m (objs s))" for m
    unfolding objs by (rule find_replace)
  with run show thesis by (intro that [of ?c s']) (simp_all add: SetStatusWithError_def api_simps mine_def)
qed

lemma SetStatus_ends:
  assumes "mine s = Some old" and "nnc_Name cfg = nnc_Name old" and "nnc_Spec cfg = nnc_Spec old"
    and "st = StatusProvisioned \<or> st = StatusInvalid"
  shows "\<exists>c s'. SetStatusWithError r cfg st msg s = (Inr c, s') \<and> ends st s s' c"
proof -
  obtain c s' where "SetStatusWithError r cfg st msg s = (Inr c, s')" "mine s' = Some c" "nnc_Spec c = nnc_Spec old"
    "nnc_Status c = nnc_Status (statusFields (nr_Now r s) st msg cfg)"
    "\<And>m. m \<noteq> nr_nodeName r \<Longrightarrow> find_named nnc_Name m (objs s') = find_named nnc_Name m (objs s)"
    using SetStatus_runs [OF assms(1-3), of st msg] by metis
  with assms show ?thesis by (auto simp: ends_def statusFields_def)
qed

text \<open>Giving up leaves the configuration invalid, whatever comes of the restore.\<close>

lemma invalidate_ends:
  assumes "mine s = Some cfg"
  shows "\<exists>c s'. invalidateNodeNetworkConfig r cfg msg s = (Inr (), s') \<and> ends StatusInvalid s s' c"
  using SetStatus_ends [OF assms refl refl, of StatusInvalid msg]
  by (auto simp: invalidateNodeNetworkConfig_def api_simps)

lemma restore_ends:
  assumes "mine s = Some cfg"
  shows "\<exists>x c s'. invalidateAndRestore r current cfg msg s = (x, s') \<and> ends StatusInvalid s s' c"
proof -
  obtain c s1 where inv: "invalidateNodeNetworkConfig r cfg msg s = (Inr (), s1)" and c: "ends StatusInvalid s s1 c"
    using invalidate_ends [OF assms] by metis
  let ?m = "wrapErr ''error restoring NodeNetworkConfig'' (restoreNodeNetworkConfig r current)"
  obtain x s' where run: "?m s1 = (x, s')" by fastforce
  have "keeps objs ?m" by (intro keeps_intros applier)
  then have "objs s' = objs s1" using run by (rule keepsD)
  with c have "ends StatusInvalid s s' c" using ends_to by blast
  with run inv show ?thesis by (auto simp: invalidateAndRestore_def api_simps)
qed

lemma give_up:
  assumes "mine s = Some cfg"
  shows "\<exists>e' c s'. io_bind (io_wrap w (invalidateAndRestore r current cfg msg)) (\<lambda>_. io_throw e) s = (Inl e', s') \<and>
    ends StatusInvalid s s' c"
proof -
  obtain x c s' where run: "invalidateAndRestore r current cfg msg s = (x, s')" and c: "ends StatusInvalid s s' c"
    using restore_ends [OF assms, of current msg] by blast
  from then_throw [where m = "invalidateAndRestore r current cfg msg" and w = w and e = e, OF run] c show ?thesis by blast
qed

text \<open>
  The central fact: processing ends with the configuration either provisioned, and then it returns, or
  invalid, and then it fails.
\<close>

lemma process_ends:
  assumes "mine s = Some old" and "nnc_Name cfg = nnc_Name old" and "nnc_Spec cfg = nnc_Spec old"
  shows "\<exists>x c s'. processConfig r current cfg s = (x, s') \<and>
    ((\<exists>res. x = Inr (res, c)) \<and> ends StatusProvisioned s s' c \<or> (\<exists>e. x = Inl e) \<and> ends StatusInvalid s s' c)"
proof -
  obtain c1 s1 where set1: "SetStatus r cfg StatusProvisioning s = (Inr c1, s1)" and c1: "mine s1 = Some c1"
    "nnc_Spec c1 = nnc_Spec old"
    and other: "\<And>m. m \<noteq> nr_nodeName r \<Longrightarrow> find_named nnc_Name m (objs s1) = find_named nnc_Name m (objs s)"
    using SetStatus_runs [OF assms, of StatusProvisioning "''''"] unfolding SetStatus_def by metis
  have trans: "ends st s s' c" if "ends st t s' c" "objs t = objs s1" for st t s' c
    using ends_after [OF that(1), of c1 s] that(2) c1 other assms(1) by (simp add: mine_def)
  obtain x2 s2 where run2: "doReconciliation r c1 s1 = (x2, s2)" by fastforce
  have s2: "objs s2 = objs s1"
    using run2 by (rule keepsD [rotated]) (simp add: doReconciliation_def keeps_intros applier)
  obtain x3 s3 where run3: "checkHealth (nr_healthChecker r) s2 = (x3, s3)" by fastforce
  have s3: "objs s3 = objs s1" using keepsD [OF keeps_checkHealth [OF health] run3] s2 by simp
  have mine: "mine s2 = Some c1" "mine s3 = Some c1" using c1(1) s2 s3 by (simp_all add: mine_def)
  note steps = processConfig_def api_simps set1 run2 run3
  consider (refused) err where "x2 = Inl err" "nr_restoreOnReconcileFailure r"
    | (rejected) err where "x2 = Inl err" "\<not> nr_restoreOnReconcileFailure r"
    | (unhealthy) err u where "x2 = Inr u" "x3 = Inl err" | (healthy) res u where "x2 = Inr u" "x3 = Inr res"
    by (cases x2; cases x3) auto
  then show ?thesis
  proof cases
    case refused
    obtain e c s' where "io_bind (io_wrap (Wrap ''error restoring NodeNetworkConfig'')
        (invalidateAndRestore r current c1 (errorText err))) (\<lambda>_. io_throw (Wrap ''reconciler error'' err)) s2 =
        (Inl e :: (GoError, Result \<times> NodeNetworkConfig) result, s')" "ends StatusInvalid s s' c"
      using give_up [OF mine(1), where msg = "errorText err" and current = current] trans [OF _ s2] by metis
    with refused show ?thesis by (auto simp: steps)
  next
    case rejected
    obtain c s' where "invalidateNodeNetworkConfig r c1 (errorText err) s2 = (Inr (), s')" "ends StatusInvalid s s' c"
      using invalidate_ends [OF mine(1)] trans [OF _ s2] by blast
    with rejected show ?thesis by (auto simp: steps)
  next
    case unhealthy
    obtain e c s' where "io_bind (io_wrap (Wrap ''failed to restore NodeNetworkConfig'')
        (invalidateAndRestore r current c1 (errorText err)))
        (\<lambda>_. io_throw (Wrap ''healthcheck error (previous NodeNetworkConfig restored)'' err)) s3 =
        (Inl e :: (GoError, Result \<times> NodeNetworkConfig) result, s')" "ends StatusInvalid s s' c"
      using give_up [OF mine(2), where msg = "errorText err" and current = current] trans [OF _ s3] by metis
    with unhealthy show ?thesis by (auto simp: steps)
  next
    case healthy
    obtain c s' where "SetStatus r c1 StatusProvisioned s3 = (Inr c, s')" "ends StatusProvisioned s s' c"
      using SetStatus_ends [OF mine(2) refl refl, of StatusProvisioned "''''"] trans [OF _ s3] unfolding SetStatus_def by blast
    with healthy show ?thesis by (auto simp: steps)
  qed
qed

lemma store_runs: "\<exists>s'. storeConfig r c (k, s) = (Inr (), (Some c, s')) \<and> objs s' = objs s"
  using files [of c s] by (auto simp: storeConfig_def inWorld_def api_simps)

text \<open>The configuration in force is only marked as provisioned.\<close>

lemma known_ends:
  assumes "mine s = Some old" and "nnc_Name cfg = nnc_Name old" and "nnc_Spec cfg = nnc_Spec old"
    and "\<not> needed \<Longrightarrow> st_ConfigStatus (nnc_Status old) = StatusProvisioned"
  shows "\<exists>x k s' c. io_bind (storeConfig r cfg) (\<lambda>_. io_bind (if needed then markProvisioned r cfg else io_return ()) (\<lambda>_.
      inWorld (removeTaintsOrRequeue (nr_healthChecker r)))) (current, s) = (x, (Some k, s')) \<and> nnc_Spec k = nnc_Spec old \<and>
    mine s' = Some c \<and> nnc_Spec c = nnc_Spec old \<and> st_ConfigStatus (nnc_Status c) = StatusProvisioned \<and>
    (\<forall>m. m \<noteq> nr_nodeName r \<longrightarrow> find_named nnc_Name m (objs s') = find_named nnc_Name m (objs s))"
proof -
  obtain s1 where store: "storeConfig r cfg (current, s) = (Inr (), (Some cfg, s1))" and s1: "objs s1 = objs s"
    using store_runs by blast
  have mine: "mine s1 = Some old" using assms(1) s1 by (simp add: mine_def)
  have "\<exists>k c s2. (if needed then markProvisioned r cfg else io_return ()) (Some cfg, s1) = (Inr (), (Some k, s2)) \<and>
      nnc_Spec k = nnc_Spec old \<and> mine s2 = Some c \<and> nnc_Spec c = nnc_Spec old \<and>
      st_ConfigStatus (nnc_Status c) = StatusProvisioned \<and>
      (\<forall>m. m \<noteq> nr_nodeName r \<longrightarrow> find_named nnc_Name m (objs s2) = find_named nnc_Name m (objs s1))"
  proof (cases needed)
    case True
    from SetStatus_ends [OF mine assms(2,3), of StatusProvisioned "''''"] obtain c s2 where
      "SetStatus r cfg StatusProvisioned s1 = (Inr c, s2)" "ends StatusProvisioned s1 s2 c" by (auto simp: SetStatus_def)
    with True mine show ?thesis by (auto simp: markProvisioned_def ends_def)
  next
    case False
    with assms(3,4) mine show ?thesis by (auto simp: io_return_def)
  qed
  then obtain k c s2 where mark: "(if needed then markProvisioned r cfg else io_return ()) (Some cfg, s1) = (Inr (), (Some k, s2))"
    and c: "nnc_Spec k = nnc_Spec old" "mine s2 = Some c" "nnc_Spec c = nnc_Spec old" "st_ConfigStatus (nnc_Status c) = StatusProvisioned"
      "\<And>m. m \<noteq> nr_nodeName r \<Longrightarrow> find_named nnc_Name m (objs s2) = find_named nnc_Name m (objs s1)" by blast
  obtain x s3 where taints: "removeTaintsOrRequeue (nr_healthChecker r) s2 = (x, s3)" by fastforce
  then have s3: "objs s3 = objs s2" by (rule keepsD [OF keeps_removeTaints [OF health]])
  from store mark taints have "io_bind (storeConfig r cfg) (\<lambda>_. io_bind (if needed then markProvisioned r cfg else io_return ()) (\<lambda>_.
      inWorld (removeTaintsOrRequeue (nr_healthChecker r)))) (current, s) = (x, (Some k, s3))"
    by (simp add: io_bind_Inr [of _ _ "()"] inWorld_def)
  with c s1 s3 show ?thesis by (auto simp: mine_def)
qed

lemma fetch_runs: "mine s = Some old \<Longrightarrow> inWorld (fetchNodeConfig r) (current, s) = (Inr old, (current, s))"
  by (simp add: inWorld_def fetchNodeConfig_def api_simps get mine_def)

lemma given_up_rests:
  assumes "mine s = Some old" and "\<not> inForce current (nns_Revision (nnc_Spec old))"
    and "st_LastAppliedRevision (nnc_Status old) = nns_Revision (nnc_Spec old)" and "st_ConfigStatus (nnc_Status old) = StatusInvalid"
  shows "Reconcile r (current, s) = (Inr NoRequeue, (current, s))"
  using assms(2-4)
  by (simp add: Reconcile_def io_catch_Inr [where m = "inWorld (fetchNodeConfig r)", OF fetch_runs [OF assms(1)]] Let_def io_return_apply)

lemma reconcile_ends:
  assumes "mine s = Some old"
  shows "\<exists>x current' s' c. Reconcile r (current, s) = (x, (current', s')) \<and> mine s' = Some c \<and> nnc_Spec c = nnc_Spec old \<and>
    (st_ConfigStatus (nnc_Status c) = StatusProvisioned \<and>
       (inForce current (nns_Revision (nnc_Spec old)) \<or> (\<exists>res. x = Inr res)) \<and>
       map_option (nns_Revision \<circ> nnc_Spec) current' = Some (nns_Revision (nnc_Spec old)) \<or>
     st_ConfigStatus (nnc_Status c) = StatusInvalid \<and> current' = current \<and>
       st_LastAppliedRevision (nnc_Status c) = nns_Revision (nnc_Spec old)) \<and>
    (\<forall>m. m \<noteq> nr_nodeName r \<longrightarrow> find_named nnc_Name m (objs s') = find_named nnc_Name m (objs s))"
proof -
  let ?cfg = "old\<lparr>nnc_Status := (nnc_Status old)\<lparr>st_ASNumber := nr_localASN r\<rparr>\<rparr>"
  let ?known = "inForce current (nns_Revision (nnc_Spec old))"
  let ?given_up = "nns_Revision (nnc_Spec old) = st_LastAppliedRevision (nnc_Status old) \<and> st_ConfigStatus (nnc_Status old) = StatusInvalid"
  note run = Reconcile_def io_catch_Inr [where m = "inWorld (fetchNodeConfig r)", OF fetch_runs [OF assms]] Let_def
  consider (known) ?known | (given_up) "\<not> ?known" ?given_up | (new) "\<not> ?known" "\<not> ?given_up" by blast
  then show ?thesis
  proof cases
    case known
    with known_ends [OF assms, of ?cfg "st_ConfigStatus (nnc_Status old) \<noteq> StatusProvisioned \<or> st_ASNumber (nnc_Status old) \<noteq> nr_localASN r" current]
    obtain x k s' c where "Reconcile r (current, s) = (x, (Some k, s'))" "nnc_Spec k = nnc_Spec old" "mine s' = Some c"
        "nnc_Spec c = nnc_Spec old" "st_ConfigStatus (nnc_Status c) = StatusProvisioned"
        "\<forall>m. m \<noteq> nr_nodeName r \<longrightarrow> find_named nnc_Name m (objs s') = find_named nnc_Name m (objs s)"
      by (auto simp: run)
    with known show ?thesis by simp
  next
    case given_up
    have "Reconcile r (current, s) = (Inr NoRequeue, (current, s))"
      using given_up by (intro given_up_rests [OF assms]) simp_all
    with assms given_up show ?thesis by simp
  next
    case new
    obtain x c s1 where process: "processConfig r current ?cfg s = (x, s1)"
      and c: "(\<exists>res. x = Inr (res, c)) \<and> ends StatusProvisioned s s1 c \<or> (\<exists>e. x = Inl e) \<and> ends StatusInvalid s s1 c"
      using process_ends [OF assms, of ?cfg current] by auto
    obtain s2 where store: "storeConfig r c (current, s1) = (Inr (), (Some c, s2))" and s2: "objs s2 = objs s1"
      using store_runs by blast
    from c show ?thesis
    proof (elim disjE conjE exE)
      fix res assume x: "x = Inr (res, c)" and e: "ends StatusProvisioned s s1 c"
      from e s2 have "ends StatusProvisioned s s2 c" using ends_to by blast
      moreover have "Reconcile r (current, s) = (Inr res, (Some c, s2))"
        using new process store x by (auto simp: run io_simps api_simps)
      ultimately show ?thesis using assms by (auto simp: ends_def)
    next
      fix e assume x: "x = Inl e" and e: "ends StatusInvalid s s1 c"
      have "Reconcile r (current, s) = (Inl (Wrap ''error while processing NodeNetworkConfig'' e), (current, s1))"
        using new process x by (auto simp: run io_simps api_simps)
      with e show ?thesis using assms by (auto simp: ends_def)
    qed
  qed
qed

end

section \<open>The device\<close>

text \<open>
  \<open>device dev r\<close>: of what the agent calls, only the applier acts on the device, and \<open>dev\<close>, the revision of
  the last configuration it accepted, is then that of the configuration. The API answers a status
  update with an object of the same revision: an update of an outdated object is refused.
\<close>

definition device :: "('s \<Rightarrow> string option) \<Rightarrow> 's NodeNetworkConfigReconciler \<Rightarrow> bool" where
  "device dev r \<longleftrightarrow>
     (\<forall>c s s'. nr_ApplyConfig r c s = (Inr (), s') \<longrightarrow> dev s' = Some (nns_Revision (nnc_Spec c))) \<and>
     (\<forall>c. keeps dev (nr_WriteFile r c)) \<and> healthKeeps dev (nr_healthChecker r) \<and>
     (\<forall>n. keeps dev (c_Get (nr_client r) n)) \<and> (\<forall>c. keeps dev (c_UpdateStatus (nr_client r) c)) \<and>
     (\<forall>x y s s'. c_UpdateStatus (nr_client r) x s = (Inr y, s') \<longrightarrow> nns_Revision (nnc_Spec y) = nns_Revision (nnc_Spec x))"

lemma SetStatus_device:
  assumes "device dev r" and "SetStatus r cfg st s = (Inr c, s')"
  shows "dev s' = dev s" and "nns_Revision (nnc_Spec c) = nns_Revision (nnc_Spec cfg)"
proof -
  from assms(2) have run: "c_UpdateStatus (nr_client r) (statusFields (nr_Now r s) st '''' cfg) s = (Inr c, s')"
    by (simp add: SetStatus_def SetStatusWithError_def api_def)
  with assms(1) show "dev s' = dev s" using keepsD [where obs = dev and m = "c_UpdateStatus (nr_client r) (statusFields (nr_Now r s) st '''' cfg)", OF _ run]
    by (simp add: device_def)
  from run assms(1) show "nns_Revision (nnc_Spec c) = nns_Revision (nnc_Spec cfg)"
    unfolding device_def by (metis NodeNetworkConfig.ext_inject NodeNetworkConfig.surjective NodeNetworkConfig.update_convs(6) statusFields_def)
qed

lemma bind_throw: "io_bind m (\<lambda>_. io_throw e) s \<noteq> (Inr y, z)"
  by (auto simp: io_bind_def io_throw_def split: prod.splits sum.splits)

lemma process_device:
  assumes "device dev r" and "processConfig r current cfg s = (Inr (res, c), s')"
  shows "dev s' = Some (nns_Revision (nnc_Spec c))"
proof -
  note steps = processConfig_def api_simps bind_throw
  obtain x1 s1 where r1: "SetStatus r cfg StatusProvisioning s = (x1, s1)" by fastforce
  with assms(2) obtain c1 where c1: "x1 = Inr c1" by (cases x1) (simp_all add: steps)
  obtain x2 s2 where r2: "doReconciliation r c1 s1 = (x2, s2)" by fastforce
  with assms(2) r1 c1 obtain u where u: "x2 = Inr u" by (cases x2) (simp_all add: steps)
  obtain x3 s3 where r3: "checkHealth (nr_healthChecker r) s2 = (x3, s3)" by fastforce
  with assms(2) r1 c1 r2 u obtain res' where res: "x3 = Inr res'" by (cases x3) (simp_all add: steps)
  obtain x4 s4 where r4: "SetStatus r c1 StatusProvisioned s3 = (x4, s4)" by fastforce
  with assms(2) r1 c1 r2 u r3 res have set: "SetStatus r c1 StatusProvisioned s3 = (Inr c, s')" by (cases x4) (simp_all add: steps)
  have "dev s2 = Some (nns_Revision (nnc_Spec c1))"
    using r2 u assms(1) by (simp add: doReconciliation_def wrapErr_def device_def)
  moreover have "dev s3 = dev s2" using assms(1) by (intro keepsD [OF keeps_checkHealth r3]) (simp add: device_def)
  ultimately show ?thesis using SetStatus_device [OF assms(1) set] by simp
qed

lemma store_device:
  assumes "device dev r" and "storeConfig r cfg (current, s) = (x, t)"
  shows "fst t = Some cfg" and "dev (snd t) = dev s"
proof -
  obtain y s' where w: "nr_WriteFile r cfg s = (y, s')" by fastforce
  have "keeps dev (nr_WriteFile r cfg)" using assms(1) by (simp add: device_def)
  from keepsD [OF this w] assms(2) w show "fst t = Some cfg" and "dev (snd t) = dev s"
    by (cases y; auto simp: storeConfig_def io_simps api_simps)+
qed

lemma mark_device:
  assumes "device dev r" and "(if needed then markProvisioned r cfg else io_return ()) (Some cfg, s) = (Inr (), t)"
  shows "map_option (nns_Revision \<circ> nnc_Spec) (fst t) = Some (nns_Revision (nnc_Spec cfg)) \<and> dev (snd t) = dev s"
proof (cases needed)
  case True
  with assms(2) obtain c s' where set: "SetStatus r cfg StatusProvisioned s = (Inr c, s')" and t: "t = (Some c, s')"
    by (auto simp: markProvisioned_def split: prod.splits sum.splits)
  from SetStatus_device [OF assms(1) set] show ?thesis by (simp add: t)
qed (use assms(2) in \<open>auto simp: io_return_def\<close>)

text \<open>What the run does when the configuration is in force already.\<close>

lemma known_device:
  assumes "device dev r" and "io_bind (storeConfig r cfg) (\<lambda>_. io_bind (if needed then markProvisioned r cfg else io_return ()) (\<lambda>_.
      inWorld (removeTaintsOrRequeue (nr_healthChecker r)))) (current, s) = (Inr res, (Some c', s'))"
  shows "nns_Revision (nnc_Spec c') = nns_Revision (nnc_Spec cfg)" and "dev s' = dev s"
proof -
  from assms(2) obtain t1 t2 where store: "storeConfig r cfg (current, s) = (Inr (), t1)"
    and mark: "(if needed then markProvisioned r cfg else io_return ()) t1 = (Inr (), t2)"
    and taints: "inWorld (removeTaintsOrRequeue (nr_healthChecker r)) t2 = (Inr res, (Some c', s'))" by (elim io_bind_InrE) auto
  from taints have "removeTaintsOrRequeue (nr_healthChecker r) (snd t2) = (Inr res, s')" and fst: "fst t2 = Some c'"
    by (auto simp: inWorld_def split: prod.splits)
  moreover have "healthKeeps dev (nr_healthChecker r)" using assms(1) by (simp add: device_def)
  ultimately have "dev s' = dev (snd t2)" using keepsD keeps_removeTaints by metis
  moreover have t1: "t1 = (Some cfg, snd t1)" "dev (snd t1) = dev s"
    using store_device [OF assms(1) store] by (metis prod.collapse)+
  moreover have "map_option (nns_Revision \<circ> nnc_Spec) (fst t2) = Some (nns_Revision (nnc_Spec cfg)) \<and> dev (snd t2) = dev (snd t1)"
    using mark_device [OF assms(1)] mark t1(1) by metis
  ultimately show "nns_Revision (nnc_Spec c') = nns_Revision (nnc_Spec cfg)" and "dev s' = dev s" using fst by simp_all
qed

lemma new_device:
  assumes "device dev r" and "io_bind (inWorld (wrapErr msg (processConfig r current cfg)))
      (\<lambda>(result, cfg). io_bind (storeConfig r cfg) (\<lambda>_. io_return result)) (current, s) = (Inr res, (Some c', s'))"
  shows "dev s' = Some (nns_Revision (nnc_Spec c'))"
proof -
  obtain x s1 where process: "processConfig r current cfg s = (x, s1)" by fastforce
  with assms(2) obtain res' c where x: "x = Inr (res', c)" by (cases x) (auto simp: io_simps api_simps)
  with assms(2) process have "io_bind (storeConfig r c) (\<lambda>_. io_return res') (current, s1) = (Inr res, (Some c', s'))"
    by (simp add: io_simps api_simps)
  then have "storeConfig r c (current, s1) = (Inr (), (Some c', s'))" by (elim io_bind_InrE) (auto simp: io_return_def)
  from store_device [OF assms(1) this] process_device [OF assms(1)] process x show ?thesis by auto
qed

section \<open>A node in memory\<close>

text \<open>The configurations of the cluster and the revisions the agent has tried to apply, the last one first.\<close>

type_synonym NodeStore = "NodeNetworkConfig list \<times> string list"

definition statusUpdate :: "NodeNetworkConfig \<Rightarrow> (NodeStore, ApiError, NodeNetworkConfig) io" where
  "statusUpdate x = (\<lambda>(cs, tried). case find_named nnc_Name (nnc_Name x) cs of
     None \<Rightarrow> (Inl NotFound, (cs, tried))
   | Some old \<Rightarrow>
     if nnc_Spec x \<noteq> nnc_Spec old then (Inl ConflictErr, (cs, tried))
     else let y = old\<lparr>nnc_Status := nnc_Status x\<rparr> in (Inr y, (replace_named nnc_Name (nnc_Name x) (\<lambda>_. y) cs, tried)))"

definition storeHealth :: "bool \<Rightarrow> NodeStore HealthCheckerInterface" where
  "storeHealth ok = \<lparr>hc_CheckInterfaces = (if ok then io_return () else io_throw (ErrorString ''down'')),
     hc_CheckReachability = io_return (), hc_CheckAPIServer = io_return (), hc_TaintsRemoved = (\<lambda>_. True),
     hc_RemoveTaints = io_return (), hc_UpdateReadinessCondition = (\<lambda>_ _ _. io_return ())\<rparr>"

definition storeAgent :: "string \<Rightarrow> (string \<Rightarrow> bool) \<Rightarrow> bool \<Rightarrow> NodeStore NodeNetworkConfigReconciler" where
  "storeAgent node accepts ok = \<lparr>
     nr_client = (store_client fst (\<lambda>xs s. (xs, snd s)) nnc_Name (\<lambda>_ x. x) (\<lambda>_ x. x) (\<lambda>_ x. x))\<lparr>c_UpdateStatus := statusUpdate\<rparr>,
     nr_healthChecker = storeHealth ok,
     nr_ApplyConfig = (\<lambda>c (cs, tried). let revision = nns_Revision (nnc_Spec c) in
       (if accepts revision then Inr () else Inl (ErrorString ''refused''), (cs, revision # tried))),
     nr_restoreOnReconcileFailure = True, nr_localASN = 65000, nr_nodeName = node,
     nr_WriteFile = (\<lambda>_. io_return ()), nr_Now = (\<lambda>_. 0)\<rparr>"

interpretation local: agent_api "storeAgent node accepts ok" fst
proof unfold_locales
  show "updatesStatus fst (nr_client (storeAgent node accepts ok))"
    by (simp add: updatesStatus_def storeAgent_def statusUpdate_def Let_def)
  show "healthKeeps fst (nr_healthChecker (storeAgent node accepts ok))"
    by (simp add: healthKeeps_def storeAgent_def storeHealth_def keeps_intros)
qed (auto simp: storeAgent_def store_client_def keeps_def io_return_def Let_def split: prod.splits)

definition sampleConfig :: "string \<Rightarrow> string \<Rightarrow> ConfigStatus \<Rightarrow> NodeNetworkConfig" where
  "sampleConfig node revision st = (NewEmptyConfig node)\<lparr>nnc_Spec := emptySpec\<lparr>nns_Revision := revision\<rparr>,
     nnc_Status := emptyStatus\<lparr>st_ConfigStatus := st\<rparr>\<rparr>"

section \<open>Properties\<close>

text \<open>
  C7. An agent never leaves its node in progress. When the API works and the disk can be written, then
  after a run, whatever the applier, the health checks, the restore and the taint removal do, and whatever the
  status was before, the configuration of the node is either provisioned, and its revision is the one the agent
  has in force, which it had before or has put in force in a run that succeeded; or it is invalid, with that
  revision as the last one tried, and the agent keeps what it had. The specification and the configurations of
  other nodes are as before.
\<close>

theorem agent_leaves_provisioning:
  assumes "serves objs nnc_Name R (nr_client r)" and "updatesStatus objs (nr_client r)"
    and "\<And>c. keeps objs (nr_ApplyConfig r c)" and "\<And>c s. \<exists>s'. nr_WriteFile r c s = (Inr (), s') \<and> objs s' = objs s"
    and "healthKeeps objs (nr_healthChecker r)" and "find_named nnc_Name (nr_nodeName r) (objs s) = Some old"
  shows "\<exists>x current' s' c. Reconcile r (current, s) = (x, (current', s')) \<and>
    find_named nnc_Name (nr_nodeName r) (objs s') = Some c \<and> nnc_Spec c = nnc_Spec old \<and>
    (st_ConfigStatus (nnc_Status c) = StatusProvisioned \<and>
       (inForce current (nns_Revision (nnc_Spec old)) \<or> (\<exists>res. x = Inr res)) \<and>
       map_option (nns_Revision \<circ> nnc_Spec) current' = Some (nns_Revision (nnc_Spec old)) \<or>
     st_ConfigStatus (nnc_Status c) = StatusInvalid \<and> current' = current \<and>
       st_LastAppliedRevision (nnc_Status c) = nns_Revision (nnc_Spec old)) \<and>
    (\<forall>m. m \<noteq> nr_nodeName r \<longrightarrow> find_named nnc_Name m (objs s') = find_named nnc_Name m (objs s))"
proof -
  have loc: "agent_api r objs" using assms(1-5) by (simp add: agent_api_def serves_def)
  show ?thesis
    using agent_api.reconcile_ends [OF loc, of s old current] assms(6) by (simp add: agent_api.mine_def [OF loc])
qed

theorem agent_leaves_provisioning_witness:
  "\<exists>x s' c. Reconcile (storeAgent ''w1'' (\<lambda>_. False) True) (None, ([sampleConfig ''w1'' ''r1'' StatusProvisioning], [])) = (x, (None, s')) \<and>
     find_named nnc_Name ''w1'' (fst s') = Some c \<and> st_ConfigStatus (nnc_Status c) = StatusInvalid"
proof -
  let ?r = "storeAgent ''w1'' (\<lambda>_. False) True" and ?old = "sampleConfig ''w1'' ''r1'' StatusProvisioning"
  have serves: "serves fst nnc_Name (\<lambda>x y. y = x) (nr_client ?r)" by (simp add: storeAgent_def serves_def store_client_def find_named_None split: option.splits)
  have "find_named nnc_Name (nr_nodeName ?r) (fst ([?old], [] :: string list)) = Some ?old"
    by (simp add: find_named_def storeAgent_def sampleConfig_def NewEmptyConfig_def)
  note run = agent_leaves_provisioning [where objs = fst, OF serves local.status local.applier local.files local.health this, of None]
  have "nr_nodeName ?r = ''w1''" by (simp add: storeAgent_def)
  moreover have "fst (snd (Reconcile ?r (None, ([?old], [])))) = None" by code_simp
  ultimately show ?thesis using run by auto
qed

text \<open>
  C8. What the agent reports is what the device has, for every behaviour of the API, the file system and
  the health checks. Let \<open>dev\<close> be the revision of the last configuration that was applied successfully. If
  the configuration the agent believes to be in force is the one on the device, then after every run that
  succeeds this is so again.
\<close>

theorem agent_truthful:
  assumes "device dev r" and "\<And>c. current = Some c \<Longrightarrow> dev s = Some (nns_Revision (nnc_Spec c))"
    and "Reconcile r (current, s) = (Inr res, (Some c', s'))"
  shows "dev s' = Some (nns_Revision (nnc_Spec c'))"
proof -
  obtain x1 s1 where fetch: "fetchNodeConfig r s = (x1, s1)" by fastforce
  have s1: "dev s1 = dev s"
    using assms(1) by (intro keepsD [where m = "fetchNodeConfig r", OF _ fetch]) (simp add: fetchNodeConfig_def device_def keeps_intros)
  show ?thesis
  proof (cases x1)
    case (Inl err)
    with assms(2,3) fetch s1 show ?thesis by (auto simp: Reconcile_def io_simps split: if_splits)
  next
    case (Inr old)
    let ?cfg = "old\<lparr>nnc_Status := (nnc_Status old)\<lparr>st_ASNumber := nr_localASN r\<rparr>\<rparr>"
    let ?needed = "st_ConfigStatus (nnc_Status old) \<noteq> StatusProvisioned \<or> st_ASNumber (nnc_Status old) \<noteq> nr_localASN r"
    have "inWorld (fetchNodeConfig r) (current, s) = (Inr old, (current, s1))" using fetch Inr by (simp add: io_simps)
    note run = Reconcile_def io_catch_Inr [where m = "inWorld (fetchNodeConfig r)", OF this] Let_def
    show ?thesis
    proof (cases "inForce current (nns_Revision (nnc_Spec old))")
      case True
      with assms(3) have "io_bind (storeConfig r ?cfg) (\<lambda>_. io_bind (if ?needed then markProvisioned r ?cfg else io_return ()) (\<lambda>_.
          inWorld (removeTaintsOrRequeue (nr_healthChecker r)))) (current, s1) = (Inr res, (Some c', s'))" by (simp add: run)
      from known_device [OF assms(1) this] True assms(2) s1 show ?thesis by (auto simp: inForce_def split: option.splits)
    next
      case False
      note unknown = this
      show ?thesis
      proof (cases "nns_Revision (nnc_Spec old) = st_LastAppliedRevision (nnc_Status old) \<and> st_ConfigStatus (nnc_Status old) = StatusInvalid")
        case True
        with unknown assms(3) have "current = Some c'" "s' = s1" by (simp_all add: run io_return_def)
        with assms(2) s1 show ?thesis by simp
      next
        case False
        with unknown assms(3) have "io_bind (inWorld (wrapErr ''error while processing NodeNetworkConfig'' (processConfig r current ?cfg)))
            (\<lambda>(result, cfg). io_bind (storeConfig r cfg) (\<lambda>_. io_return result)) (current, s1) = (Inr res, (Some c', s'))"
          by (auto simp: run)
        then show ?thesis using new_device [OF assms(1)] by metis
      qed
    qed
  qed
qed

theorem agent_truthful_witness:
  "\<exists>res c t. Reconcile (storeAgent ''w1'' (\<lambda>_. True) True)
     (Some (sampleConfig ''w1'' ''r0'' StatusProvisioned), ([sampleConfig ''w1'' ''r1'' StatusNone], [''r0''])) = (Inr res, (Some c, t)) \<and>
     (\<exists>tried. snd t = nns_Revision (nnc_Spec c) # tried)"
proof -
  let ?r = "storeAgent ''w1'' (\<lambda>_. True) True" and ?k = "sampleConfig ''w1'' ''r0'' StatusProvisioned"
  let ?s = "([sampleConfig ''w1'' ''r1'' StatusNone], [''r0'']) :: NodeStore" and ?dev = "\<lambda>s :: NodeStore. case snd s of [] \<Rightarrow> None | x # _ \<Rightarrow> Some x"
  have dev: "device ?dev ?r"
    by (auto simp: device_def healthKeeps_def keeps_def storeAgent_def storeHealth_def store_client_def statusUpdate_def io_return_def
        Let_def split: option.splits if_splits)
  have known: "?dev ?s = Some (nns_Revision (nnc_Spec c))" if "Some ?k = Some c" for c
    using that by (auto simp: sampleConfig_def)
  have "case Reconcile ?r (Some ?k, ?s) of (Inr _, (Some _, _)) \<Rightarrow> True | _ \<Rightarrow> False" by code_simp
  then obtain res c t where run: "Reconcile ?r (Some ?k, ?s) = (Inr res, (Some c, t))"
    by (auto split: prod.splits sum.splits option.splits)
  from agent_truthful [OF dev known run] run show ?thesis by (auto split: list.splits)
qed

text \<open>
  C37. A run that fails is not repeated. If the agent fails on a configuration it does not have in force, then the
  next run does nothing and reports success, also if what failed was restoring the previous
  configuration: the node stays as the failed attempt left it.
\<close>

theorem agent_failure_final:
  assumes "serves objs nnc_Name R (nr_client r)" and "updatesStatus objs (nr_client r)"
    and "\<And>c. keeps objs (nr_ApplyConfig r c)" and "\<And>c s. \<exists>s'. nr_WriteFile r c s = (Inr (), s') \<and> objs s' = objs s"
    and "healthKeeps objs (nr_healthChecker r)" and "find_named nnc_Name (nr_nodeName r) (objs s) = Some old"
    and "\<not> inForce current (nns_Revision (nnc_Spec old))" and "Reconcile r (current, s) = (Inl e, t)"
  shows "Reconcile r t = (Inr NoRequeue, t)"
proof -
  have loc: "agent_api r objs" using assms(1-5) by (simp add: agent_api_def serves_def)
  note mine = agent_api.mine_def [OF loc]
  obtain s' c where "t = (current, s')" "agent_api.mine r objs s' = Some c" "nnc_Spec c = nnc_Spec old"
    "st_ConfigStatus (nnc_Status c) = StatusInvalid" "st_LastAppliedRevision (nnc_Status c) = nns_Revision (nnc_Spec old)"
    using agent_api.reconcile_ends [OF loc, of s old current] assms(6-8) by (auto simp: mine)
  with agent_api.given_up_rests [OF loc, of s' c current] assms(7) show ?thesis by simp
qed

theorem agent_failure_final_witness:
  "\<exists>e t. Reconcile (storeAgent ''w1'' (\<lambda>_. False) True)
     (Some (sampleConfig ''w1'' ''r0'' StatusProvisioned), ([sampleConfig ''w1'' ''r1'' StatusNone], [])) = (Inl e, t) \<and>
     snd (snd t) = [''r0'', ''r1''] \<and> Reconcile (storeAgent ''w1'' (\<lambda>_. False) True) t = (Inr NoRequeue, t)"
proof -
  let ?r = "storeAgent ''w1'' (\<lambda>_. False) True" and ?k = "sampleConfig ''w1'' ''r0'' StatusProvisioned"
  let ?old = "sampleConfig ''w1'' ''r1'' StatusNone"
  have serves: "serves fst nnc_Name (\<lambda>x y. y = x) (nr_client ?r)"
    by (simp add: storeAgent_def serves_def store_client_def find_named_None split: option.splits)
  have here: "find_named nnc_Name (nr_nodeName ?r) (fst ([?old], [] :: string list)) = Some ?old"
    by (simp add: find_named_def storeAgent_def sampleConfig_def NewEmptyConfig_def)
  have other: "\<not> inForce (Some ?k) (nns_Revision (nnc_Spec ?old))" by (simp add: inForce_def sampleConfig_def)
  have "case Reconcile ?r (Some ?k, ([?old], [])) of (Inl _, (_, (_, tried))) \<Rightarrow> tried = [''r0'', ''r1''] | _ \<Rightarrow> False" by code_simp
  then obtain e t where run: "Reconcile ?r (Some ?k, ([?old], [])) = (Inl e, t)" and tried: "snd (snd t) = [''r0'', ''r1'']"
    by (auto split: prod.splits sum.splits)
  from agent_failure_final [where objs = fst, OF serves local.status local.applier local.files local.health here other run] run tried
  show ?thesis by blast
qed

end
