(* ===== verification/Spec2Isabelle.thy ===== *)
theory Spec2Isabelle
  imports Nnc_Names Ipam_Unique Rollout_Safety Intent_Ready Intent_Reconcile Agent
begin

text \<open>
  Verification development of the das-schiff network operator (Go sources under \<open>src/\<close>).

  \<^bold>\<open>The program.\<close> The operator turns cluster-wide network resources into one
  \<open>NodeNetworkConfig\<close> per node, which an agent on the node applies. There are two front ends.

  \<^item> The revision front end (\<open>pkg/reconciler/operator\<close>): Layer-2, VRF, BGP and mirror resources are
    collected into an immutable \<open>NetworkConfigRevision\<close>, named by a hash of its content
    (\<open>config_reconciler.go\<close>), and revisions are rolled out to the nodes, a limited number at a time
    (\<open>configrevision_reconciler.go\<close>).
  \<^item> The intent front end (\<open>pkg/reconciler/intent\<close>): the resources of the network connector are
    fetched and resolved, addresses are allocated, ten builders contribute to the nodes, the
    assembler merges the contributions, the VRF names are reduced to what the kernel accepts, and
    the result is written together with the conditions and finalizers of the resources.

  \<^bold>\<open>Conventions.\<close> A struct is a record, with field names prefixed; embedded structs are record
  extension. A pointer is an option, except where the code mutates through it and the result
  depends on sharing: \<open>Build_Usage\<close> has an explicit heap for the filters. A Go map is an association
  list with distinct keys (\<open>gm_wf\<close>); where the iteration order shows, the order is a parameter.
  Errors are \<open>Inl\<close>. Code that calls the API is a state transformer \<open>io\<close> over an arbitrary state, the
  clients (\<open>ResClient\<close>) being parameters that may answer anything; a theorem that needs a server that
  works says so with \<open>serves\<close>, \<open>stores\<close>, \<open>updatesConfigs\<close> or \<open>leaves\<close>, and \<open>store_client\<close> is a server that
  does. Fixed-width integers are words. Logging and metrics are left out.

  \<^bold>\<open>Library.\<close> \<open>Prelude\<close> (maps, results, decimal numbers), \<open>Kube_Types\<close> and \<open>Kube_Client\<close> (metadata,
  the API monad), \<open>Go_Net\<close> and \<open>Go_Net_Round\<close> (package \<open>net\<close>: parsing, masks, printing, and that parsing
  undoes printing), \<open>Addr_Cursor\<close> (the locale of a cursor walking over addresses), \<open>Go_Json\<close> (the
  encoder and the stable sort), \<open>Go_Sha256\<close>.

  \<^bold>\<open>API types.\<close> \<open>Nnc_Types\<close> (\<open>nodenetworkconfig_types.go\<close>), \<open>Connector_Types\<close> (\<open>network-connector\<close>),
  \<open>Revision_Types\<close> (the resources of the revision front end).

  \<^bold>\<open>Names and addresses.\<close>
  \<^item> \<open>Vrf_Name\<close> (\<open>pkg/vrfname\<close>), \<open>Nnc_Names\<close> (\<open>pkg/reconciler/nncnames\<close>): the cascade that shortens VRF
    names, when the rewriting of a specification fails, and that references keep resolving.
  \<^item> \<open>Ip_Math\<close> (\<open>intent/ipmath\<close>): the anycast gateway of a prefix.
  \<^item> \<open>Ipam\<close>, \<open>Ipam_Unique\<close> (\<open>intent/ipam/ipam.go\<close>), \<open>Subnet_Allocator\<close>: the allocators end, and give no
    address twice; both cursors are instances of \<open>addr_cursor\<close>, as is that of \<open>Mirror\<close>.

  \<^bold>\<open>Revision front end.\<close>
  \<^item> \<open>Revision\<close>: creation of revisions, when one is skipped, independence of the order of lists.
  \<^item> \<open>Node_Build\<close> (\<open>vrf.go\<close>, \<open>layer2.go\<close>, \<open>bgp.go\<close>, \<open>conversion.go\<close>): the configuration of a node.
  \<^item> \<open>Mirror\<close>, \<open>Mirror_Status\<close>: traffic mirroring, its loopback addresses and its status.
  \<^item> \<open>Rollout\<close>, \<open>Rollout_Counters\<close>, \<open>Rollout_Safety\<close>: the rollout, its counters, the limit on nodes in
    progress and the clean-up, for every behaviour of the API.

  \<^bold>\<open>Intent front end.\<close>
  \<^item> \<open>Resolver\<close>, \<open>Intent_Fetch\<close>, \<open>Finalizer\<close>: the fetched resources, the reference graph and the in-use
    finalizers; the locale \<open>in_use_loop\<close> carries the argument for the four kinds.
  \<^item> \<open>Build_Common\<close>, \<open>Build_L2a\<close>, \<open>Build_Usage\<close>, \<open>Build_Peering\<close>, \<open>Build_Sbr\<close>: the ten builders.
    \<open>L2a_Admission\<close> refines the Layer-2 builder to an abstract first-come-first-served admission (locale
    \<open>owned_writes\<close>, for segments and for devices).
  \<^item> \<open>Assembler\<close>, \<open>Intent_Pipeline\<close>, \<open>Nnc_Json\<close>: merging, the node's specification and its revision hash,
    and the netplan state. \<open>Intent_Invariants\<close> carries an invariant of contributions through all builders
    (locale \<open>contribution_invariant\<close>).
  \<^item> \<open>Intent_Apply\<close>, \<open>Intent_Converge\<close>, \<open>Collector_Addresses\<close>, \<open>Intent_Status\<close>, \<open>Intent_Ready\<close>,
    \<open>Intent_Reconcile\<close>: writing the configurations, what they converge to (locale \<open>config_server\<close>), the
    conditions and what Ready means, and the whole pass \<open>ReconcileDebounced\<close>.
  \<^item> \<open>Intent_Samples\<close>: the concrete resources that the witnesses share.

  \<^bold>\<open>Agents.\<close> \<open>Agent\<close> (\<open>pkg/reconciler/common\<close>): the loop that applies a node's configuration, checks the node's
  health, restores the previous configuration and reports the status. Inside the locale \<open>agent_api\<close> a run is
  shown to end with the configuration provisioned or invalid, which is what both front ends wait for; \<open>device\<close>
  relates what the agent believes to be in force to what its applier has done. The applier and the
  health checker are interfaces in the code and parameters here.

  \<^bold>\<open>Loops.\<close> Every loop is structural or has a measure, except the searches for a free address, which
  are \<open>partial_function (option)\<close>: that they return is part of the theorems on the allocators. Retries
  run as often as the code's constant says.

  \<^bold>\<open>Parameters for code outside the sources.\<close> Label selectors, \<open>SetStatusCondition\<close>,
  \<open>SetOwnerReference\<close>, the finalizer helpers, \<open>RetryOnConflict\<close>, the clock and the API server. What a
  theorem relies on is a named predicate that states their documentation.

  \<^bold>\<open>Not modelled.\<close> The appliers of the agents, the health checks, and the FRR, VSR, netlink, eBPF and netplan back ends
  act on a device or the kernel through services that are not in the sources. The sync and platform
  controllers move unstructured objects between API servers and other projects' resources. The
  admission webhooks are not assumed: the theorems hold for objects they would refuse. Monitoring,
  commands, watches and timers do input and output only. Generated deep copies are the identity on
  the model's values, and mocks serve the tests.
\<close>

end
